(* ===== verification/ESPNow_Prelude.thy ===== *)
theory ESPNow_Prelude
  imports Main "HOL-Library.Word"
begin

text \<open>
  The shared library of the development: the machine integer types of the C++ sources, the
  little-endian byte codec behind every packed struct and every \<^verbatim>\<open>Append\<close>/\<^verbatim>\<open>Read\<close> helper, the
  splitting of a payload into fragments, \<^verbatim>\<open>memcpy\<close> into a buffer, the packed receipt bitmap of
  the reassembly buffers and the first-match update loops of the fixed-capacity tables. Nothing
  here models a particular component; the components' definitions are written over these
  operations and their proofs use the lemmas collected in \<open>wire_simps\<close>, \<open>slot_simps\<close> and
  \<open>bitmap_simps\<close>.
\<close>

unbundle bit_operations_syntax

named_theorems wire_simps \<open>equations of the byte codecs\<close>
named_theorems slot_simps \<open>equations of first-match loops over slot tables\<close>
named_theorems bitmap_simps \<open>equations of the packed receipt bitmaps\<close>

type_synonym byte = "8 word"
type_synonym u16 = "16 word"
type_synonym u32 = "32 word"
type_synonym u64 = "64 word"


section \<open>Little-endian words\<close>

text \<open>
  \<open>le_bytes n w\<close> are the first \<open>n\<close> bytes of the little-endian representation of \<open>w\<close>, the bytes
  \<^verbatim>\<open>memcpy\<close> copies out of a packed struct field on the little-endian ESP32; \<open>le_word\<close> reads them
  back.
\<close>

fun le_bytes :: "nat \<Rightarrow> 'a::len word \<Rightarrow> byte list" where
  "le_bytes 0 w = []"
| "le_bytes (Suc n) w = ucast w # le_bytes n (drop_bit 8 w)"

fun le_word :: "byte list \<Rightarrow> 'a::len word" where
  "le_word [] = 0"
| "le_word (b # bs) = ucast b OR push_bit 8 (le_word bs)"

lemma length_le_bytes [simp]: "length (le_bytes n w) = n"
  by (induction n arbitrary: w) auto

lemma le_word_le_bytes: "le_word (le_bytes n w) = take_bit (8 * n) w"
proof (induction n arbitrary: w)
  case 0
  then show ?case by simp
next
  case (Suc n)
  show ?case
    by (rule bit_word_eqI) (auto simp: Suc bit_simps)
qed

lemma le_word_le_bytes_id:
  fixes w :: "'a::len word"
  assumes "LENGTH('a) \<le> 8 * n"
  shows "le_word (le_bytes n w) = w"
  unfolding le_word_le_bytes using assms by (intro take_bit_word_eq_self) simp

lemma le_word_ids [simp]:
  "le_word (le_bytes 2 (a :: u16)) = a"
  "le_word (le_bytes 4 (b :: u32)) = b"
  "le_word (le_bytes 8 (c :: u64)) = c"
  by (rule le_word_le_bytes_id; simp)+

lemma le_bytes_le_word:
  assumes "8 * length bs \<le> LENGTH('a::len)"
  shows "le_bytes (length bs) (le_word bs :: 'a word) = bs"
  using assms
proof (induction bs)
  case Nil
  then show ?case by simp
next
  case (Cons b bs)
  then have len: "8 + 8 * length bs \<le> LENGTH('a)" by simp
  have "ucast (le_word (b # bs) :: 'a word) = b"
    by (rule bit_word_eqI) (use len in \<open>auto simp: bit_simps\<close>)
  moreover have "drop_bit 8 (le_word (b # bs) :: 'a word) = take_bit (LENGTH('a) - 8) (le_word bs)"
    by (rule bit_word_eqI) (use len in \<open>auto simp: bit_simps dest: bit_imp_le_length\<close>)
  moreover have "take_bit (LENGTH('a) - 8) (le_word bs :: 'a word) = le_word bs"
  proof -
    have "8 * length bs \<le> LENGTH('a) - 8" using len by simp
    moreover have "le_word bs = (take_bit (8 * length bs) (le_word bs) :: 'a word)"
      using Cons.IH len by (metis add_leD2 le_word_le_bytes)
    ultimately show ?thesis by (metis take_bit_take_bit min.absorb2)
  qed
  ultimately show ?case using Cons by simp
qed

lemma le_bytes_2: "le_bytes 2 w = [ucast w, ucast (drop_bit 8 w)]"
  by (simp add: numeral_2_eq_2)

lemma le_bytes_4:
  "le_bytes 4 w = [ucast w, ucast (drop_bit 8 w), ucast (drop_bit 16 w), ucast (drop_bit 24 w)]"
  by (simp add: numeral_eq_Suc drop_bit_drop_bit)

lemma le_word_2: "le_word [a, b] = ucast a OR push_bit 8 (ucast b)"
  by simp

lemma le_word_4: "le_word [a, b, c, d] =
    ucast a OR push_bit 8 (ucast b) OR push_bit 16 (ucast c) OR push_bit 24 (ucast d)"
  by (simp add: push_bit_or ac_simps)

lemma ucast_u16_mask: "(ucast ((w :: u16) AND 255) :: byte) = ucast w"
proof -
  have "w AND 255 = take_bit 8 w" by (simp add: take_bit_eq_mask mask_eq_exp_minus_1)
  then show ?thesis by (auto intro!: bit_word_eqI simp: bit_simps)
qed

lemma ucast_u32_mask: "(ucast ((w :: u32) AND 255) :: byte) = ucast w"
proof -
  have "w AND 255 = take_bit 8 w" by (simp add: take_bit_eq_mask mask_eq_exp_minus_1)
  then show ?thesis by (auto intro!: bit_word_eqI simp: bit_simps)
qed

lemma unat_of_nat_u16 [simp]: "n \<le> 65535 \<Longrightarrow> unat (of_nat n :: u16) = n"
  by (simp add: unat_of_nat take_bit_nat_eq_self)

lemma unat_of_nat_u32 [simp]: "n \<le> 4294967295 \<Longrightarrow> unat (of_nat n :: u32) = n"
  by (simp add: unat_of_nat take_bit_nat_eq_self)

lemma unat_u16_bound: "unat (w :: u16) \<le> 65535"
proof -
  have "unat w < 2 ^ LENGTH(16)" by (rule unsigned_less)
  then show ?thesis by simp
qed

lemma take_append_exact [wire_simps]: "length xs = n \<Longrightarrow> take n (xs @ ys) = xs"
  by simp

lemma drop_append_exact [wire_simps]: "length xs = n \<Longrightarrow> drop n (xs @ ys) = ys"
  by simp


section \<open>Splitting a payload into fragments\<close>

text \<open>
  \<open>ceil_div n c\<close> is the usual \<^verbatim>\<open>(n + c - 1) / c\<close>; \<open>chunk c xs i\<close> is the \<open>i\<close>-th chunk of \<open>c\<close>
  bytes, the last one possibly shorter.
\<close>

definition ceil_div :: "nat \<Rightarrow> nat \<Rightarrow> nat" where
  "ceil_div n c = (n + c - 1) div c"

definition chunk :: "nat \<Rightarrow> 'a list \<Rightarrow> nat \<Rightarrow> 'a list" where
  "chunk c xs i = take c (drop (i * c) xs)"

lemma ceil_div_pos: "0 < n \<Longrightarrow> 0 < c \<Longrightarrow> 0 < ceil_div n c"
  by (simp add: ceil_div_def div_greater_zero_iff)

lemma less_ceil_div_iff: "0 < c \<Longrightarrow> i < ceil_div n c \<longleftrightarrow> i * c < n"
proof -
  assume c: "0 < c"
  have "i < ceil_div n c \<longleftrightarrow> Suc i * c \<le> n + c - 1"
    unfolding ceil_div_def using c by (metis Suc_le_eq less_eq_div_iff_mult_less_eq)
  also have "\<dots> \<longleftrightarrow> i * c < n" using c by auto
  finally show ?thesis .
qed

lemma ceil_div_mult_ge: "0 < c \<Longrightarrow> n \<le> ceil_div n c * c"
  using less_ceil_div_iff [of c "ceil_div n c" n] by simp

lemma length_chunk: "length (chunk c xs i) = min c (length xs - i * c)"
  by (simp add: chunk_def)

lemma chunk_nonempty: "0 < c \<Longrightarrow> i < ceil_div (length xs) c \<Longrightarrow> chunk c xs i \<noteq> []"
  by (auto simp: less_ceil_div_iff chunk_def)

lemma concat_chunks_take: "concat (map (chunk c xs) [0..<k]) = take (k * c) xs"
proof (induction k)
  case 0
  then show ?case by simp
next
  case (Suc k)
  then show ?case by (simp add: chunk_def take_add [symmetric] add.commute)
qed

lemma concat_chunks:
  assumes "0 < c"
  shows "concat (map (chunk c xs) [0..<ceil_div (length xs) c]) = xs"
  unfolding concat_chunks_take using ceil_div_mult_ge [OF assms] by simp


section \<open>Copying into a buffer\<close>

text \<open>\<open>blit off src buf\<close> is \<^verbatim>\<open>memcpy(buf + off, src, size)\<close> for a copy inside the buffer.\<close>

definition blit :: "nat \<Rightarrow> 'a list \<Rightarrow> 'a list \<Rightarrow> 'a list" where
  "blit off src buf = take off buf @ src @ drop (off + length src) buf"

lemma length_blit: "off + length src \<le> length buf \<Longrightarrow> length (blit off src buf) = length buf"
  by (simp add: blit_def)

lemma nth_blit:
  assumes "off + length src \<le> length buf" and "j < length buf"
  shows "blit off src buf ! j =
    (if off \<le> j \<and> j < off + length src then src ! (j - off) else buf ! j)"
  using assms by (auto simp: blit_def nth_append min_def)


section \<open>Receipt bitmaps\<close>

text \<open>
  One bit per fragment, eight fragments per byte. The guards on the byte index are those of
  \<^verbatim>\<open>IsFragmentReceived\<close> and \<^verbatim>\<open>MarkFragmentReceived\<close>, which the Command endpoint and the Event
  transport share.
\<close>

definition bitmap_test :: "byte list \<Rightarrow> nat \<Rightarrow> bool" where
  "bitmap_test bits i =
     (let byteIndex = i div 8; mask = push_bit (i mod 8) (1 :: byte)
      in byteIndex < length bits \<and> bits ! byteIndex AND mask \<noteq> 0)"

definition bitmap_set :: "byte list \<Rightarrow> nat \<Rightarrow> byte list" where
  "bitmap_set bits i =
     (let byteIndex = i div 8; mask = push_bit (i mod 8) (1 :: byte)
      in if byteIndex < length bits then bits[byteIndex := bits ! byteIndex OR mask] else bits)"

lemma and_bit_mask_eq: "w AND push_bit k 1 \<noteq> 0 \<longleftrightarrow> bit (w :: 'a::len word) k"
proof -
  have "w AND push_bit k 1 = (if bit w k then push_bit k 1 else 0)"
    by (rule bit_word_eqI) (auto simp: bit_simps)
  moreover have "push_bit k (1 :: 'a word) \<noteq> 0" if "bit w k"
  proof -
    from that have "bit (push_bit k (1 :: 'a word)) k"
      by (auto simp: bit_simps dest: bit_imp_le_length)
    then show ?thesis by (metis bit_0_eq bot_apply bot_bool_def)
  qed
  ultimately show ?thesis by auto
qed

lemma bitmap_test_alt: "bitmap_test bits i \<longleftrightarrow> i div 8 < length bits \<and> bit (bits ! (i div 8)) (i mod 8)"
  unfolding bitmap_test_def Let_def and_bit_mask_eq ..

lemma length_bitmap_set [bitmap_simps, simp]: "length (bitmap_set bits i) = length bits"
  by (simp add: bitmap_set_def Let_def)

lemma bitmap_test_set [bitmap_simps]:
  assumes "i div 8 < length bits"
  shows "bitmap_test (bitmap_set bits i) j \<longleftrightarrow> j = i \<or> bitmap_test bits j"
proof (cases "j div 8 = i div 8")
  case True
  have "i mod 8 = j mod 8 \<longleftrightarrow> i = j" using True by (metis div_mult_mod_eq)
  moreover have "j mod 8 < 8" by simp
  ultimately show ?thesis using assms True
    by (auto simp: bitmap_test_alt bitmap_set_def Let_def bit_simps)
next
  case False
  then show ?thesis using assms by (auto simp: bitmap_test_alt bitmap_set_def Let_def)
qed

lemma bitmap_test_zero [bitmap_simps]: "\<not> bitmap_test (replicate n 0) i"
  by (simp add: bitmap_test_alt)


section \<open>First-match loops over slot tables\<close>

text \<open>
  The fixed-capacity tables of the sources are vectors scanned from the front. \<open>update_first P f\<close>
  is the loop \<^verbatim>\<open>for (auto& r : table) if (P(r)) { r = f(r); return ...; }\<close>; reading loops are
  \<^const>\<open>List.find\<close>.
\<close>

fun update_first :: "('a \<Rightarrow> bool) \<Rightarrow> ('a \<Rightarrow> 'a) \<Rightarrow> 'a list \<Rightarrow> 'a list" where
  "update_first P f [] = []"
| "update_first P f (x # xs) = (if P x then f x # xs else x # update_first P f xs)"

lemma length_update_first [simp, slot_simps]: "length (update_first P f xs) = length xs"
  by (induction xs) auto

lemma update_first_none: "\<not> (\<exists>x \<in> set xs. P x) \<Longrightarrow> update_first P f xs = xs"
  by (induction xs) auto

lemma update_first_split:
  assumes "\<exists>x \<in> set xs. P x"
  obtains ys x zs where "xs = ys @ x # zs" "P x" "\<forall>y \<in> set ys. \<not> P y"
    "update_first P f xs = ys @ f x # zs"
proof -
  from split_list_first_prop [OF assms] obtain ys x zs
    where xs: "xs = ys @ x # zs" "P x" "\<forall>y \<in> set ys. \<not> P y" by blast
  moreover have "update_first P f (ys @ x # zs) = ys @ f x # zs"
    using xs(2,3) by (induction ys) auto
  ultimately show thesis using that by blast
qed

lemma find_eq_None_iff: "List.find P xs = None \<longleftrightarrow> \<not> (\<exists>x \<in> set xs. P x)"
  by (auto simp: find_None_iff)

text \<open>
  Insertion into a slot table comes in two shapes. \<open>scan_upsert\<close> is the one-pass loop that
  remembers the first free slot while it looks for a record of the same key
  (\<^verbatim>\<open>Observe\<close>, \<^verbatim>\<open>RememberPeerInterface\<close>): \<open>i\<close> is the loop index and \<open>fr\<close> the remembered pointer.
  \<open>two_pass_upsert\<close> looks for the key in a first loop and for a free slot in a second one
  (\<^verbatim>\<open>StoreManagedPeer\<close>, \<^verbatim>\<open>RegisterProtocolHandler\<close>, \<^verbatim>\<open>RegisterMaintenanceHandler\<close>). Both give
  \<^const>\<open>None\<close> when the table is full.
\<close>

function scan_upsert ::
  "('r \<Rightarrow> bool) \<Rightarrow> ('r \<Rightarrow> bool) \<Rightarrow> ('r \<Rightarrow> 'r) \<Rightarrow> ('r \<Rightarrow> 'r) \<Rightarrow> nat \<Rightarrow> nat option \<Rightarrow> 'r list \<Rightarrow> 'r list option"
  where
  "scan_upsert hit free upd mk i fr rs =
     (if i < length rs then
        if hit (rs ! i) then Some (rs[i := upd (rs ! i)])
        else if free (rs ! i) \<and> fr = None then scan_upsert hit free upd mk (Suc i) (Some i) rs
        else scan_upsert hit free upd mk (Suc i) fr rs
      else case fr of None \<Rightarrow> None | Some j \<Rightarrow> Some (rs[j := mk (rs ! j)]))"
  by pat_completeness auto
termination
  by (relation "measure (\<lambda>(hit, free, upd, mk, i, fr, rs). length rs - i)") auto

declare scan_upsert.simps [simp del]

definition two_pass_upsert ::
  "('r \<Rightarrow> bool) \<Rightarrow> ('r \<Rightarrow> bool) \<Rightarrow> ('r \<Rightarrow> 'r) \<Rightarrow> ('r \<Rightarrow> 'r) \<Rightarrow> 'r list \<Rightarrow> 'r list option" where
  "two_pass_upsert hit free upd mk rs =
     (if \<exists>r \<in> set rs. hit r then Some (update_first hit upd rs)
      else if \<exists>r \<in> set rs. free r then Some (update_first free mk rs)
      else None)"

lemma update_first_nth:
  assumes "i < length xs" "P (xs ! i)" "\<And>j. j < i \<Longrightarrow> \<not> P (xs ! j)"
  shows "update_first P f xs = xs[i := f (xs ! i)]"
  using assms
proof (induction xs arbitrary: i)
  case Nil
  then show ?case by simp
next
  case (Cons x xs)
  show ?case
  proof (cases i)
    case 0
    with Cons.prems show ?thesis by simp
  next
    case (Suc k)
    have "\<not> P x" using Cons.prems(3) [of 0] Suc by simp
    moreover have "update_first P f xs = xs[k := f (xs ! k)]"
    proof (rule Cons.IH)
      show "k < length xs" "P (xs ! k)" using Cons.prems Suc by simp_all
      show "\<not> P (xs ! j)" if "j < k" for j using Cons.prems(3) [of "Suc j"] that Suc by simp
    qed
    ultimately show ?thesis using Suc by simp
  qed
qed

lemma scan_upsert_two_pass_gen:
  assumes "i \<le> length rs" "\<And>j. j < i \<Longrightarrow> \<not> hit (rs ! j)"
    and "case fr of None \<Rightarrow> \<forall>j < i. \<not> free (rs ! j)
         | Some f \<Rightarrow> f < i \<and> free (rs ! f) \<and> (\<forall>j < f. \<not> free (rs ! j))"
  shows "scan_upsert hit free upd mk i fr rs = two_pass_upsert hit free upd mk rs"
  using assms
proof (induction hit free upd mk i fr rs rule: scan_upsert.induct)
  case (1 hit free upd mk i fr rs)
  show ?case
  proof (cases "i < length rs")
    case True
    show ?thesis
    proof (cases "hit (rs ! i)")
      case h: True
      then have "update_first hit upd rs = rs[i := upd (rs ! i)]"
        using True "1.prems"(2) by (intro update_first_nth) auto
      moreover have "\<exists>r \<in> set rs. hit r" using h True by auto
      ultimately show ?thesis using True h
        by (simp add: scan_upsert.simps [of hit free upd mk i] two_pass_upsert_def)
    next
      case h: False
      have hit': "\<And>j. j < Suc i \<Longrightarrow> \<not> hit (rs ! j)" using "1.prems"(2) h by (metis less_Suc_eq)
      show ?thesis
      proof (cases "free (rs ! i) \<and> fr = None")
        case f: True
        have "scan_upsert hit free upd mk (Suc i) (Some i) rs = two_pass_upsert hit free upd mk rs"
          using True h f hit' "1.prems"(3) by (intro "1.IH"(1)) auto
        then show ?thesis using True h f by (simp add: scan_upsert.simps [of hit free upd mk i])
      next
        case f: False
        have "scan_upsert hit free upd mk (Suc i) fr rs = two_pass_upsert hit free upd mk rs"
          using True h f hit' "1.prems"(3)
          by (intro "1.IH"(2)) (auto simp: less_Suc_eq split: option.splits)
        then show ?thesis using True h f by (auto simp: scan_upsert.simps [of hit free upd mk i])
      qed
    qed
  next
    case False
    then have i: "i = length rs" using "1.prems"(1) by simp
    have nohit: "\<not> (\<exists>r \<in> set rs. hit r)" using "1.prems"(2) i by (auto simp: in_set_conv_nth)
    show ?thesis
    proof (cases fr)
      case None
      then have "\<not> (\<exists>r \<in> set rs. free r)" using "1.prems"(3) i by (auto simp: in_set_conv_nth)
      then show ?thesis using False None nohit
        by (simp add: scan_upsert.simps [of hit free upd mk i] two_pass_upsert_def)
    next
      case (Some f)
      then have f: "f < length rs" "free (rs ! f)" "\<And>j. j < f \<Longrightarrow> \<not> free (rs ! j)"
        using "1.prems"(3) i by auto
      then have "update_first free mk rs = rs[f := mk (rs ! f)]" by (intro update_first_nth) auto
      moreover have "\<exists>r \<in> set rs. free r" using f by auto
      ultimately show ?thesis using False Some nohit
        by (simp add: scan_upsert.simps [of hit free upd mk i] two_pass_upsert_def)
    qed
  qed
qed

lemma scan_upsert_two_pass [slot_simps]:
  "scan_upsert hit free upd mk 0 None rs = two_pass_upsert hit free upd mk rs"
  by (rule scan_upsert_two_pass_gen) auto

section \<open>Positions\<close>

text \<open>The index of the first element that satisfies a test.\<close>

fun find_index :: "('a \<Rightarrow> bool) \<Rightarrow> 'a list \<Rightarrow> nat option" where
  "find_index P [] = None"
| "find_index P (x # xs) = (if P x then Some 0 else map_option Suc (find_index P xs))"

lemma find_index_None: "find_index P xs = None \<longleftrightarrow> (\<forall>k < length xs. \<not> P (xs ! k))"
proof (induction xs)
  case (Cons x xs)
  then show ?case by (auto simp: All_less_Suc2)
qed simp

lemma find_index_None_set: "find_index P xs = None \<longleftrightarrow> \<not> (\<exists>x \<in> set xs. P x)"
  by (induction xs) auto

lemma find_index_Some: "find_index P xs = Some k \<Longrightarrow> k < length xs \<and> P (xs ! k)"
  by (induction xs arbitrary: k) (auto split: if_splits)

lemma find_index_update:
  assumes "k < length xs" "P v" "\<And>j. j < length xs \<Longrightarrow> j \<noteq> k \<Longrightarrow> \<not> P (xs ! j)"
  shows "find_index P (xs[k := v]) = Some k"
proof -
  have "find_index P (xs[k := v]) \<noteq> None"
    unfolding find_index_None using assms(1,2) by (auto intro: exI [of _ k])
  then obtain j where j: "find_index P (xs[k := v]) = Some j" by auto
  then have "j < length xs" "P (xs[k := v] ! j)" using find_index_Some [OF j] by auto
  then have "j = k" using assms(3) [of j] by (cases "j = k") auto
  with j show ?thesis by simp
qed

text \<open>\<^verbatim>\<open>table.erase(table.begin() + i)\<close>.\<close>

definition erase_at :: "nat \<Rightarrow> 'a list \<Rightarrow> 'a list" where
  "erase_at i items = take i items @ drop (Suc i) items"

lemma length_erase_at [simp]: "i < length xs \<Longrightarrow> length (erase_at i xs) = length xs - 1"
  by (simp add: erase_at_def)

lemma set_erase_at: "set (erase_at i xs) \<subseteq> set xs"
  by (auto simp: erase_at_def dest: in_set_takeD in_set_dropD)

lemma erase_at_split: "i < length xs \<Longrightarrow> xs = take i xs @ xs ! i # drop (Suc i) xs"
  by (rule id_take_nth_drop)

lemma distinct_erase_at:
  assumes "distinct (map f xs)" "i < length xs"
  shows "distinct (map f (erase_at i xs))" "f (xs ! i) \<notin> f ` set (erase_at i xs)"
    "f ` set xs = insert (f (xs ! i)) (f ` set (erase_at i xs))"
proof -
  have eq: "xs = take i xs @ xs ! i # drop (Suc i) xs" by (rule erase_at_split [OF assms(2)])
  have "distinct (map f (take i xs @ xs ! i # drop (Suc i) xs))" using assms(1) eq by simp
  then show "distinct (map f (erase_at i xs))" "f (xs ! i) \<notin> f ` set (erase_at i xs)"
    by (auto simp: erase_at_def)
  have "f ` set xs = f ` set (take i xs @ xs ! i # drop (Suc i) xs)" using eq by simp
  then show "f ` set xs = insert (f (xs ! i)) (f ` set (erase_at i xs))" by (auto simp: erase_at_def)
qed



section \<open>Statements that can fail\<close>

text \<open>
  A statement that can fail returns its success and the new state; \<open>and_then\<close> runs the next one only
  after a success, as an early \<^verbatim>\<open>return false\<close> or an exception does.
\<close>

definition and_then :: "bool \<times> 's \<Rightarrow> ('s \<Rightarrow> bool \<times> 's) \<Rightarrow> bool \<times> 's" where
  "and_then r f = (if fst r then f (snd r) else r)"

lemma and_then_rule:
  assumes "P (snd r)" "\<And>t. P t \<Longrightarrow> P (snd (f t))"
  shows "P (snd (and_then r f))"
  using assms by (simp add: and_then_def)

lemma and_then_True:
  assumes "fst (and_then r f)"
  shows "fst r \<and> fst (f (snd r)) \<and> snd (and_then r f) = snd (f (snd r))"
  using assms by (simp add: and_then_def split: if_splits)

lemma and_then_eq_True:
  "and_then r f = (True, s) \<longleftrightarrow> (\<exists>s'. r = (True, s') \<and> f s' = (True, s))"
  by (cases r) (auto simp: and_then_def)

end
