(* ===== verification/ESPNow_Types.thy ===== *)
theory ESPNow_Types
  imports ESPNow_Prelude
begin

text \<open>
  The value types of \<^verbatim>\<open>src/src/ESPressio_ESPNowTypes.hpp\<close>: protocol and mode enumerations with their
  wire values, the six-byte MAC address, send results, the shared-radio binding, the
  configuration structs and the received frame. A C++ struct is a record whose fields carry a
  short prefix (fields of Isabelle records are global names); a fixed array of the source is a
  datatype of its elements (the address) or a list whose length the constructors fix (the payload
  of a received frame, always \<open>MaximumFrameSize\<close> bytes).
\<close>

section \<open>Constants and enumerations\<close>

definition MacAddressLength :: nat where "MacAddressLength = 6"
definition MaximumFrameSize :: nat where "MaximumFrameSize = 250"
definition FrameMagic :: u32 where "FrameMagic = 0x4553504E"
definition FrameVersion :: byte where "FrameVersion = 1"

lemmas frame_constants [simp] =
  MacAddressLength_def MaximumFrameSize_def FrameMagic_def FrameVersion_def

datatype ESPNowProtocol =
  ClockSynchronization | EventTransport | CommandTransport | SecureTransport | StateTransport
  | UserBase

fun protocol_id :: "ESPNowProtocol \<Rightarrow> byte" where
  "protocol_id ClockSynchronization = 1"
| "protocol_id EventTransport = 2"
| "protocol_id CommandTransport = 3"
| "protocol_id SecureTransport = 4"
| "protocol_id StateTransport = 5"
| "protocol_id UserBase = 64"

datatype ESPNowClockSynchronizationMode = Disabled | Client | Reference | ClientAndReference

datatype ESPNowWiFiInterface = Auto | Station | AccessPoint

datatype ESPNowSendFailure =
  NoFailure | NotInitialized | InvalidArgument | NoMemory | PeerNotFound | InterfaceMismatch
  | ChannelMismatch | RadioUnavailable | Internal | Unknown


section \<open>MAC addresses\<close>

datatype MacAddress = MacAddress byte byte byte byte byte byte

fun mac_bytes :: "MacAddress \<Rightarrow> byte list" where
  "mac_bytes (MacAddress a b c d e f) = [a, b, c, d, e, f]"

text \<open>
  The constructor from a pointer: a null pointer (\<^const>\<open>None\<close>) leaves the default, otherwise six
  bytes are copied. The pointed-to array has at least six bytes at every call site.
\<close>

fun mac_of_bytes :: "byte list \<Rightarrow> MacAddress" where
  "mac_of_bytes (a # b # c # d # e # f # rest) = MacAddress a b c d e f"
| "mac_of_bytes _ = MacAddress 0 0 0 0 0 0"

definition MacAddress_new :: "byte list option \<Rightarrow> MacAddress" where
  "MacAddress_new p = (case p of None \<Rightarrow> MacAddress 0 0 0 0 0 0 | Some bytes \<Rightarrow> mac_of_bytes bytes)"

definition IsZero :: "MacAddress \<Rightarrow> bool" where
  "IsZero m \<longleftrightarrow> mac_bytes m = [0, 0, 0, 0, 0, 0]"

lemma length_mac_bytes [simp]: "length (mac_bytes m) = 6"
  by (cases m) simp

lemma mac_bytes_inject [simp]: "mac_bytes m = mac_bytes m' \<longleftrightarrow> m = m'"
  by (cases m; cases m') simp

lemma mac_of_bytes_mac_bytes [simp]: "mac_of_bytes (mac_bytes m @ rest) = m"
  by (cases m) simp

lemma mac_of_bytes_mac_bytes' [simp]: "mac_of_bytes (mac_bytes m) = m"
  by (cases m) simp

lemma IsZero_iff: "IsZero m \<longleftrightarrow> m = MacAddress 0 0 0 0 0 0"
  by (cases m) (simp add: IsZero_def)


section \<open>Results, bindings and configuration\<close>

text \<open>
  Error codes of ESP-IDF. The numeric values belong to ESP-IDF and are kept symbolic; the value
  zero of a default-initialised \<^verbatim>\<open>int32_t\<close> is \<open>ESP_OK\<close>.
\<close>

datatype esp_err =
  ESP_OK | ESP_ERR_INVALID_STATE | ESP_ERR_ESPNOW_NOT_INIT | ESP_ERR_ESPNOW_ARG
  | ESP_ERR_ESPNOW_NO_MEM | ESP_ERR_ESPNOW_NOT_FOUND | ESP_ERR_ESPNOW_IF | ESP_ERR_ESPNOW_CHAN
  | ESP_ERR_ESPNOW_INTERNAL | ESP_ERR_OTHER int

record ESPNowSendResult =
  sr_Success :: bool
  sr_Failure :: ESPNowSendFailure
  sr_NativeError :: esp_err

definition SendResult_default :: ESPNowSendResult where
  "SendResult_default = \<lparr>sr_Success = False, sr_Failure = Unknown, sr_NativeError = ESP_OK\<rparr>"

record ESPNowRadioBinding =
  rb_PreferredInterface :: ESPNowWiFiInterface
  rb_Channel :: byte
  rb_Available :: bool

definition RadioBinding_default :: ESPNowRadioBinding where
  "RadioBinding_default = \<lparr>rb_PreferredInterface = Auto, rb_Channel = 0, rb_Available = True\<rparr>"

record ESPNowTransportConfig =
  tc_InitializeWiFi :: bool
  tc_Channel :: byte
  tc_ReceiveTaskStackSize :: u32
  tc_ReceiveTaskPriority :: u32
  tc_ReceiveTaskCore :: int
  tc_ReceiveQueueLength :: nat
  tc_WorkerIterationIntervalMilliseconds :: u32

definition TransportConfig_default :: ESPNowTransportConfig where
  "TransportConfig_default =
     \<lparr>tc_InitializeWiFi = True, tc_Channel = 0, tc_ReceiveTaskStackSize = 4096,
      tc_ReceiveTaskPriority = 2, tc_ReceiveTaskCore = -1, tc_ReceiveQueueLength = 6,
      tc_WorkerIterationIntervalMilliseconds = 5\<rparr>"

record ESPNowPeerConfig =
  pc_Address :: MacAddress
  pc_Channel :: byte
  pc_Interface :: ESPNowWiFiInterface
  pc_Encrypt :: bool
  pc_LocalMasterKey :: "byte list"

definition PeerConfig_default :: ESPNowPeerConfig where
  "PeerConfig_default =
     \<lparr>pc_Address = MacAddress 0 0 0 0 0 0, pc_Channel = 0, pc_Interface = Auto, pc_Encrypt = False,
      pc_LocalMasterKey = replicate 16 0\<rparr>"

record ESPNowReceivedFrame =
  rf_Source :: MacAddress
  rf_ReceiveMonotonicNanoseconds :: u64
  rf_Protocol :: byte
  rf_PayloadLength :: u16
  rf_Payload :: "byte list"

definition ReceivedFrame_default :: ESPNowReceivedFrame where
  "ReceivedFrame_default =
     \<lparr>rf_Source = MacAddress 0 0 0 0 0 0, rf_ReceiveMonotonicNanoseconds = 0, rf_Protocol = 0,
      rf_PayloadLength = 0, rf_Payload = replicate MaximumFrameSize 0\<rparr>"

text \<open>The bytes a protocol handler reads from a frame: the first \<open>PayloadLength\<close> of the array.\<close>

definition frame_data :: "ESPNowReceivedFrame \<Rightarrow> byte list" where
  "frame_data f = take (unat (rf_PayloadLength f)) (rf_Payload f)"

end
