(* ===== verification/Table_Spec.thy ===== *)
theory Table_Spec
  imports ESPNow_Prelude
begin

text \<open>
  The contract of the fixed-capacity keyed tables. Peer liveness records, interface hints,
  managed peers, protocol handlers and maintenance handlers are all vectors of slots with a
  ``used'' test and a key; every one of them promises the behaviour of a finite map that refuses
  a new key when it is full. \<open>bounded_table\<close> is that interface: the operations are its parameters,
  the laws its assumptions, and what a client may conclude is proved once inside it. The second
  part of the theory proves the laws for the loop shapes of \<open>ESPNow_Prelude\<close>, so that a
  component's interpretation is a few lines.
\<close>

section \<open>The interface\<close>

datatype ('k, 'v) table_op = Put 'k 'v | Remove 'k

fun spec_step :: "nat \<Rightarrow> ('k \<rightharpoonup> 'v) \<Rightarrow> ('k, 'v) table_op \<Rightarrow> ('k \<rightharpoonup> 'v)" where
  "spec_step cap m (Put k v) =
     (if k \<in> dom m \<or> card (dom m) < cap then m(k \<mapsto> v) else m)"
| "spec_step cap m (Remove k) = m(k := None)"

locale bounded_table =
  fixes lookup :: "'t \<Rightarrow> 'k \<Rightarrow> 'v option"
    and put :: "'k \<Rightarrow> 'v \<Rightarrow> 't \<Rightarrow> 't option"
    and remove :: "'k \<Rightarrow> 't \<Rightarrow> 't"
    and invar :: "'t \<Rightarrow> bool"
    and capacity :: "'t \<Rightarrow> nat"
  assumes finite_dom: "invar t \<Longrightarrow> finite (dom (lookup t))"
    and dom_bound: "invar t \<Longrightarrow> card (dom (lookup t)) \<le> capacity t"
    and put_Some: "invar t \<Longrightarrow> put k v t = Some t' \<Longrightarrow>
      invar t' \<and> capacity t' = capacity t \<and> lookup t' = (lookup t)(k \<mapsto> v)"
    and put_None: "invar t \<Longrightarrow>
      put k v t = None \<longleftrightarrow> k \<notin> dom (lookup t) \<and> card (dom (lookup t)) = capacity t"
    and remove_spec: "invar t \<Longrightarrow>
      invar (remove k t) \<and> capacity (remove k t) = capacity t
      \<and> lookup (remove k t) = (lookup t)(k := None)"
begin

fun apply_op :: "'t \<Rightarrow> ('k, 'v) table_op \<Rightarrow> 't" where
  "apply_op t (Put k v) = (case put k v t of None \<Rightarrow> t | Some t' \<Rightarrow> t')"
| "apply_op t (Remove k) = remove k t"

lemma put_known: "invar t \<Longrightarrow> k \<in> dom (lookup t) \<Longrightarrow> \<exists>t'. put k v t = Some t'"
  using put_None [of t k v] by (cases "put k v t") auto

lemma put_room: "invar t \<Longrightarrow> card (dom (lookup t)) < capacity t \<Longrightarrow> \<exists>t'. put k v t = Some t'"
  using put_None [of t k v] by (cases "put k v t") auto

lemma put_then_remove:
  assumes "invar t" "k \<notin> dom (lookup t)" "put k v t = Some t'"
  shows "lookup (remove k t') = lookup t"
proof -
  from put_Some [OF assms(1,3)] have "invar t'" and l: "lookup t' = (lookup t)(k \<mapsto> v)" by auto
  then have "lookup (remove k t') = (lookup t)(k := None)" by (simp add: remove_spec)
  also have "\<dots> = lookup t" using assms(2) by (auto simp: domIff)
  finally show ?thesis .
qed

lemma room_after_remove:
  assumes "invar t" "k \<in> dom (lookup t)"
  shows "\<exists>t'. put k' v (remove k t) = Some t'"
proof (rule put_room)
  show "invar (remove k t)" using remove_spec [OF assms(1)] by simp
  have "dom (lookup (remove k t)) \<subset> dom (lookup t)"
    using assms by (auto simp: remove_spec)
  then have "card (dom (lookup (remove k t))) < card (dom (lookup t))"
    by (rule psubset_card_mono [OF finite_dom [OF assms(1)]])
  also have "\<dots> \<le> capacity (remove k t)"
    using dom_bound [OF assms(1)] remove_spec [OF assms(1)] by simp
  finally show "card (dom (lookup (remove k t))) < capacity (remove k t)" .
qed

lemma apply_op_refines:
  assumes "invar t"
  shows "invar (apply_op t a) \<and> capacity (apply_op t a) = capacity t
    \<and> lookup (apply_op t a) = spec_step (capacity t) (lookup t) a"
proof (cases a)
  case (Remove k)
  then show ?thesis using remove_spec [OF assms] by simp
next
  case (Put k v)
  show ?thesis
  proof (cases "put k v t")
    case None
    then show ?thesis using Put assms put_None [OF assms, of k v] by simp
  next
    case (Some t')
    then have "k \<in> dom (lookup t) \<or> card (dom (lookup t)) < capacity t"
      using put_None [OF assms, of k v] dom_bound [OF assms] by auto
    then show ?thesis using Put Some put_Some [OF assms Some] by auto
  qed
qed

lemma run_refines:
  assumes "invar t"
  shows "invar (foldl apply_op t ops) \<and> capacity (foldl apply_op t ops) = capacity t
    \<and> lookup (foldl apply_op t ops) = foldl (spec_step (capacity t)) (lookup t) ops"
  using assms
proof (induction ops arbitrary: t)
  case Nil
  then show ?case by simp
next
  case (Cons a ops)
  then show ?case using apply_op_refines [OF Cons.prems, of a] by simp
qed

end


section \<open>Slot vectors satisfy the contract\<close>

text \<open>
  A slot vector is described by its test \<open>used\<close>, its key and the value a slot stores. The
  abstraction reads the first used slot of a key; the invariant says that used slots have
  different keys.
\<close>

definition slot_lookup :: "('r \<Rightarrow> bool) \<Rightarrow> ('r \<Rightarrow> 'k) \<Rightarrow> ('r \<Rightarrow> 'v) \<Rightarrow> 'r list \<Rightarrow> 'k \<Rightarrow> 'v option" where
  "slot_lookup used key val rs k = map_option val (List.find (\<lambda>r. used r \<and> key r = k) rs)"

definition slots_ok :: "('r \<Rightarrow> bool) \<Rightarrow> ('r \<Rightarrow> 'k) \<Rightarrow> 'r list \<Rightarrow> bool" where
  "slots_ok used key rs \<longleftrightarrow> distinct (map key (filter used rs))"

lemma slot_lookup_Nil [simp]: "slot_lookup used key val [] k = None"
  by (simp add: slot_lookup_def)

lemma slot_lookup_Cons [simp]:
  "slot_lookup used key val (r # rs) k =
     (if used r \<and> key r = k then Some (val r) else slot_lookup used key val rs k)"
  by (simp add: slot_lookup_def)

lemma slot_lookup_append:
  "slot_lookup used key val (rs @ rs') k =
     (case slot_lookup used key val rs k of None \<Rightarrow> slot_lookup used key val rs' k | Some v \<Rightarrow> Some v)"
  by (induction rs) auto

lemma slot_lookup_None_iff:
  "slot_lookup used key val rs k = None \<longleftrightarrow> \<not> (\<exists>r \<in> set rs. used r \<and> key r = k)"
  by (induction rs) auto

lemma dom_slot_lookup: "dom (slot_lookup used key val rs) = key ` set (filter used rs)"
  unfolding dom_def slot_lookup_None_iff by auto

lemma card_dom_slot_lookup:
  "slots_ok used key rs \<Longrightarrow> card (dom (slot_lookup used key val rs)) = length (filter used rs)"
  unfolding dom_slot_lookup slots_ok_def using distinct_card by fastforce

lemma slot_lookup_used:
  assumes "slots_ok used key rs" "r \<in> set rs" "used r"
  shows "slot_lookup used key val rs (key r) = Some (val r)"
  using assms by (induction rs) (auto simp: slots_ok_def split: if_splits)

lemma slots_full_iff: "length (filter used rs) = length rs \<longleftrightarrow> \<not> (\<exists>r \<in> set rs. \<not> used r)"
  by (metis filter_True length_filter_less less_irrefl)

lemma slot_update_hit:
  assumes "\<exists>r \<in> set rs. used r \<and> key r = k"
    and f: "\<And>r. used r \<Longrightarrow> key r = k \<Longrightarrow> used (f r) \<and> key (f r) = k \<and> val (f r) = v"
  defines "rs' \<equiv> update_first (\<lambda>r. used r \<and> key r = k) f rs"
  shows "slots_ok used key rs' = slots_ok used key rs"
    and "slot_lookup used key val rs' = (slot_lookup used key val rs)(k \<mapsto> v)"
proof -
  obtain ys x zs
    where rs: "rs = ys @ x # zs" "used x \<and> key x = k" "\<forall>y \<in> set ys. \<not> (used y \<and> key y = k)"
      "rs' = ys @ f x # zs"
    using update_first_split [OF assms(1), of f, folded rs'_def] .
  from f [of x] rs(2) have fx: "used (f x)" "key (f x) = k" "val (f x) = v" by auto
  show "slots_ok used key rs' = slots_ok used key rs"
    using rs(1,2,4) fx by (simp add: slots_ok_def)
  have "slot_lookup used key val ys k = None" using rs(3) by (simp add: slot_lookup_None_iff)
  then show "slot_lookup used key val rs' = (slot_lookup used key val rs)(k \<mapsto> v)"
    unfolding rs(1,4) using rs(2) fx
    by (intro ext) (simp add: slot_lookup_append split: option.split)
qed

lemma slot_insert_free:
  assumes "\<not> (\<exists>r \<in> set rs. used r \<and> key r = k)" "\<exists>r \<in> set rs. \<not> used r"
    and f: "\<And>r. \<not> used r \<Longrightarrow> used (f r) \<and> key (f r) = k \<and> val (f r) = v"
  defines "rs' \<equiv> update_first (\<lambda>r. \<not> used r) f rs"
  shows "slots_ok used key rs' = slots_ok used key rs"
    and "slot_lookup used key val rs' = (slot_lookup used key val rs)(k \<mapsto> v)"
proof -
  obtain ys x zs
    where rs: "rs = ys @ x # zs" "\<not> used x" "rs' = ys @ f x # zs"
    using update_first_split [OF assms(2), of f, folded rs'_def] .
  from f [OF rs(2)] have fx: "used (f x)" "key (f x) = k" "val (f x) = v" by auto
  show "slots_ok used key rs' = slots_ok used key rs"
    using rs fx assms(1) by (auto simp: slots_ok_def)
  have "slot_lookup used key val ys k = None"
    using assms(1) rs(1) by (auto simp: slot_lookup_None_iff)
  then show "slot_lookup used key val rs' = (slot_lookup used key val rs)(k \<mapsto> v)"
    unfolding rs(1,3) using rs(2) fx
    by (intro ext) (simp add: slot_lookup_append split: option.split)
qed

lemma slot_erase:
  fixes used :: "'r \<Rightarrow> bool" and key :: "'r \<Rightarrow> 'k" and k :: 'k
  assumes ok: "slots_ok used key rs" and f: "\<And>r. \<not> used (f r)"
  defines "rs' \<equiv> update_first (\<lambda>r. used r \<and> key r = k) f rs"
  shows "slots_ok used key rs'"
    and "slot_lookup used key val rs' = (slot_lookup used key val rs)(k := None)"
proof -
  have "slots_ok used key rs' \<and> slot_lookup used key val rs' = (slot_lookup used key val rs)(k := None)"
  proof (cases "\<exists>r \<in> set rs. used r \<and> key r = k")
    case False
    then have "rs' = rs" unfolding rs'_def by (simp add: update_first_none)
    moreover have "slot_lookup used key val rs k = None" using False by (simp add: slot_lookup_None_iff)
    ultimately show ?thesis using ok by auto
  next
    case True
    obtain ys x zs
      where rs: "rs = ys @ x # zs" "used x \<and> key x = k" "\<forall>y \<in> set ys. \<not> (used y \<and> key y = k)"
        "rs' = ys @ f x # zs"
    using update_first_split [OF True, of f, folded rs'_def] .
    have "k \<notin> dom (slot_lookup used key val zs)"
      unfolding dom_slot_lookup using ok rs(1,2) by (simp add: slots_ok_def)
    then have zs: "slot_lookup used key val zs k = None" by (simp add: domIff)
    have ys: "slot_lookup used key val ys k = None" using rs(3) by (simp add: slot_lookup_None_iff)
    have "slots_ok used key rs'" using ok rs f [of x] by (auto simp: slots_ok_def)
    moreover have "slot_lookup used key val rs' = (slot_lookup used key val rs)(k := None)"
      unfolding rs(1,4) using rs(2) f [of x] ys zs
      by (intro ext) (simp add: slot_lookup_append split: option.split)
    ultimately show ?thesis ..
  qed
  then show "slots_ok used key rs'"
    and "slot_lookup used key val rs' = (slot_lookup used key val rs)(k := None)" by auto
qed

text \<open>
  A component describes its table by the record tests and updates its loops use; the contract
  follows.
\<close>

locale slot_vector =
  fixes used :: "'r \<Rightarrow> bool" and key :: "'r \<Rightarrow> 'k" and val :: "'r \<Rightarrow> 'v"
    and upd :: "'k \<Rightarrow> 'v \<Rightarrow> 'r \<Rightarrow> 'r" and mk :: "'k \<Rightarrow> 'v \<Rightarrow> 'r \<Rightarrow> 'r" and blank :: 'r
  assumes upd_spec: "used r \<Longrightarrow> key r = k \<Longrightarrow>
      used (upd k v r) \<and> key (upd k v r) = k \<and> val (upd k v r) = v"
    and mk_spec: "\<not> used r \<Longrightarrow> used (mk k v r) \<and> key (mk k v r) = k \<and> val (mk k v r) = v"
    and blank_spec: "\<not> used blank"

sublocale slot_vector \<subseteq> bounded_table
  "slot_lookup used key val"
  "\<lambda>k v. two_pass_upsert (\<lambda>r. used r \<and> key r = k) (\<lambda>r. \<not> used r) (upd k v) (mk k v)"
  "\<lambda>k. update_first (\<lambda>r. used r \<and> key r = k) (\<lambda>_. blank)"
  "slots_ok used key" length
proof
  fix t :: "'r list" and t' and k :: 'k and v :: 'v
  assume ok: "slots_ok used key t"
  show "finite (dom (slot_lookup used key val t))" by (simp add: dom_slot_lookup)
  show "card (dom (slot_lookup used key val t)) \<le> length t"
    using ok by (simp add: card_dom_slot_lookup)
  show "two_pass_upsert (\<lambda>r. used r \<and> key r = k) (\<lambda>r. \<not> used r) (upd k v) (mk k v) t = None \<longleftrightarrow>
      k \<notin> dom (slot_lookup used key val t) \<and> card (dom (slot_lookup used key val t)) = length t"
    unfolding card_dom_slot_lookup [OF ok] slots_full_iff
    by (auto simp: two_pass_upsert_def domIff slot_lookup_None_iff)
  show "slots_ok used key (update_first (\<lambda>r. used r \<and> key r = k) (\<lambda>_. blank) t)
      \<and> length (update_first (\<lambda>r. used r \<and> key r = k) (\<lambda>_. blank) t) = length t
      \<and> slot_lookup used key val (update_first (\<lambda>r. used r \<and> key r = k) (\<lambda>_. blank) t)
        = (slot_lookup used key val t)(k := None)"
    using slot_erase [where f = "\<lambda>_. blank", OF ok blank_spec] by auto
  assume "two_pass_upsert (\<lambda>r. used r \<and> key r = k) (\<lambda>r. \<not> used r) (upd k v) (mk k v) t = Some t'"
  then show "slots_ok used key t' \<and> length t' = length t
      \<and> slot_lookup used key val t' = (slot_lookup used key val t)(k \<mapsto> v)"
    using ok slot_update_hit [of t used key k "upd k v" val v]
      slot_insert_free [of t used key k "mk k v" val v] upd_spec mk_spec
    by (auto simp: two_pass_upsert_def split: if_splits)
qed

end
