(* ===== verification/Peer_Liveness.thy ===== *)
theory Peer_Liveness
  imports ESPNow_Types Table_Spec
begin

text \<open>
  \<^verbatim>\<open>src/src/ESPressio_ESPNowPeerLiveness.hpp\<close>: the bounded table of last-seen timestamps and the
  age-derived liveness state. The mutex makes every method atomic, so a method is a function from
  the tracker to its result and the new tracker. \<open>alloc\<close> says whether the allocation that
  materialises the table succeeds (the \<^verbatim>\<open>try\<close>/\<^verbatim>\<open>catch\<close> of \<^verbatim>\<open>EnsureStorageLocked\<close>); the query methods
  are \<^verbatim>\<open>const\<close> but may materialise the \<^verbatim>\<open>mutable\<close> table, so they return the tracker too. The
  lemmas show that the table behaves as a finite map of at most twenty peers and that the state
  reported is the classification of the age of the last observation.
\<close>

definition ESPRESSIO_ESPNOW_MAX_LIVENESS_PEERS :: nat where
  "ESPRESSIO_ESPNOW_MAX_LIVENESS_PEERS = 20"

datatype ESPNowPeerLivenessState = PeerUnknown | Alive | Suspect | Expired

record ESPNowPeerLivenessConfig =
  lc_SuspectAfterNanoseconds :: u64
  lc_ExpireAfterNanoseconds :: u64

record ESPNowPeerLivenessSnapshot =
  ls_Address :: MacAddress
  ls_State :: ESPNowPeerLivenessState
  ls_LastSeenNanoseconds :: u64

record PeerRecord =
  pr_Used :: bool
  pr_Address :: MacAddress
  pr_LastSeenNanoseconds :: u64

definition PeerRecord_default :: PeerRecord where
  "PeerRecord_default =
     \<lparr>pr_Used = False, pr_Address = MacAddress 0 0 0 0 0 0, pr_LastSeenNanoseconds = 0\<rparr>"

record ESPNowPeerLivenessTracker =
  lt_config :: ESPNowPeerLivenessConfig
  lt_peers :: "PeerRecord list"


section \<open>Operations\<close>

definition Tracker_new :: "ESPNowPeerLivenessConfig \<Rightarrow> ESPNowPeerLivenessTracker" where
  "Tracker_new config =
     \<lparr>lt_config =
        (if lc_ExpireAfterNanoseconds config < lc_SuspectAfterNanoseconds config
         then config\<lparr>lc_ExpireAfterNanoseconds := lc_SuspectAfterNanoseconds config\<rparr>
         else config),
      lt_peers = []\<rparr>"

definition EnsureStorageLocked ::
  "bool \<Rightarrow> ESPNowPeerLivenessTracker \<Rightarrow> bool \<times> ESPNowPeerLivenessTracker" where
  "EnsureStorageLocked alloc t =
     (if length (lt_peers t) = ESPRESSIO_ESPNOW_MAX_LIVENESS_PEERS then (True, t)
      else if alloc then
        (True, t\<lparr>lt_peers := replicate ESPRESSIO_ESPNOW_MAX_LIVENESS_PEERS PeerRecord_default\<rparr>)
      else (False, t))"

definition Elapsed :: "u64 \<Rightarrow> u64 \<Rightarrow> u64" where
  "Elapsed now before = (if now \<ge> before then now - before else 0)"

definition StateFor ::
  "ESPNowPeerLivenessConfig \<Rightarrow> PeerRecord \<Rightarrow> u64 \<Rightarrow> ESPNowPeerLivenessState" where
  "StateFor config peer now =
     (if \<not> pr_Used peer then PeerUnknown
      else let age = Elapsed now (pr_LastSeenNanoseconds peer)
        in if age \<ge> lc_ExpireAfterNanoseconds config then Expired
           else if age \<ge> lc_SuspectAfterNanoseconds config then Suspect
           else Alive)"

definition is_peer :: "MacAddress \<Rightarrow> PeerRecord \<Rightarrow> bool" where
  "is_peer address peer \<longleftrightarrow> pr_Used peer \<and> pr_Address peer = address"

text \<open>The loop of \<^verbatim>\<open>Observe\<close>, which remembers the first free record; \<^const>\<open>None\<close> is \<^verbatim>\<open>return false\<close>.\<close>

definition observe_peers :: "MacAddress \<Rightarrow> u64 \<Rightarrow> PeerRecord list \<Rightarrow> PeerRecord list option" where
  "observe_peers address now =
     scan_upsert (is_peer address) (\<lambda>peer. \<not> pr_Used peer)
       (\<lambda>peer. peer\<lparr>pr_LastSeenNanoseconds := now\<rparr>)
       (\<lambda>freeRecord. freeRecord\<lparr>pr_Used := True, pr_Address := address,
          pr_LastSeenNanoseconds := now\<rparr>)
       0 None"

definition Observe ::
  "bool \<Rightarrow> MacAddress \<Rightarrow> u64 \<Rightarrow> ESPNowPeerLivenessTracker \<Rightarrow> bool \<times> ESPNowPeerLivenessTracker" where
  "Observe alloc address now t =
     (if IsZero address then (False, t)
      else case EnsureStorageLocked alloc t of
        (False, t') \<Rightarrow> (False, t')
      | (True, t') \<Rightarrow>
          (case observe_peers address now (lt_peers t') of
             None \<Rightarrow> (False, t')
           | Some peers \<Rightarrow> (True, t'\<lparr>lt_peers := peers\<rparr>)))"

definition forget_peers :: "MacAddress \<Rightarrow> PeerRecord list \<Rightarrow> PeerRecord list" where
  "forget_peers address = update_first (is_peer address) (\<lambda>_. PeerRecord_default)"

definition Forget ::
  "bool \<Rightarrow> MacAddress \<Rightarrow> ESPNowPeerLivenessTracker \<Rightarrow> bool \<times> ESPNowPeerLivenessTracker" where
  "Forget alloc address t =
     (case EnsureStorageLocked alloc t of
        (False, t') \<Rightarrow> (False, t')
      | (True, t') \<Rightarrow>
          if \<exists>peer \<in> set (lt_peers t'). is_peer address peer
          then (True, t'\<lparr>lt_peers := forget_peers address (lt_peers t')\<rparr>)
          else (False, t'))"

definition GetState ::
  "bool \<Rightarrow> MacAddress \<Rightarrow> u64 \<Rightarrow> ESPNowPeerLivenessTracker
     \<Rightarrow> ESPNowPeerLivenessState \<times> ESPNowPeerLivenessTracker" where
  "GetState alloc address now t =
     (case EnsureStorageLocked alloc t of
        (False, t') \<Rightarrow> (PeerUnknown, t')
      | (True, t') \<Rightarrow>
          (case List.find (is_peer address) (lt_peers t') of
             None \<Rightarrow> (PeerUnknown, t')
           | Some peer \<Rightarrow> (StateFor (lt_config t') peer now, t')))"

definition snapshot_of :: "ESPNowPeerLivenessConfig \<Rightarrow> u64 \<Rightarrow> PeerRecord \<Rightarrow> ESPNowPeerLivenessSnapshot" where
  "snapshot_of config now peer =
     \<lparr>ls_Address = pr_Address peer, ls_State = StateFor config peer now,
      ls_LastSeenNanoseconds = pr_LastSeenNanoseconds peer\<rparr>"

fun snapshot_loop ::
  "ESPNowPeerLivenessConfig \<Rightarrow> u64 \<Rightarrow> nat \<Rightarrow> PeerRecord list \<Rightarrow> nat
     \<Rightarrow> ESPNowPeerLivenessSnapshot list \<Rightarrow> nat \<times> ESPNowPeerLivenessSnapshot list" where
  "snapshot_loop config now capacity [] count output = (count, output)"
| "snapshot_loop config now capacity (peer # peers) count output =
     (if \<not> pr_Used peer \<or> count \<ge> capacity
      then snapshot_loop config now capacity peers count output
      else snapshot_loop config now capacity peers (count + 1)
             (output[count := snapshot_of config now peer]))"

text \<open>The caller's array is a list, \<^const>\<open>None\<close> the null pointer; the result is the count and the array.\<close>

definition Snapshot ::
  "bool \<Rightarrow> ESPNowPeerLivenessSnapshot list option \<Rightarrow> nat \<Rightarrow> u64 \<Rightarrow> ESPNowPeerLivenessTracker
     \<Rightarrow> nat \<times> ESPNowPeerLivenessSnapshot list option \<times> ESPNowPeerLivenessTracker" where
  "Snapshot alloc output capacity now t =
     (case output of
        None \<Rightarrow> (0, None, t)
      | Some array \<Rightarrow>
          if capacity = 0 then (0, Some array, t)
          else case EnsureStorageLocked alloc t of
            (False, t') \<Rightarrow> (0, Some array, t')
          | (True, t') \<Rightarrow>
              (case snapshot_loop (lt_config t') now capacity (lt_peers t') 0 array of
                 (count, array') \<Rightarrow> (count, Some array', t')))"


section \<open>The table is a bounded map\<close>

interpretation live: slot_vector pr_Used pr_Address pr_LastSeenNanoseconds
  "\<lambda>_ now peer. peer\<lparr>pr_LastSeenNanoseconds := now\<rparr>"
  "\<lambda>address now peer. peer\<lparr>pr_Used := True, pr_Address := address, pr_LastSeenNanoseconds := now\<rparr>"
  PeerRecord_default
  by unfold_locales (auto simp: PeerRecord_default_def)

abbreviation last_seen :: "PeerRecord list \<Rightarrow> MacAddress \<rightharpoonup> u64" where
  "last_seen \<equiv> slot_lookup pr_Used pr_Address pr_LastSeenNanoseconds"

abbreviation peers_ok :: "PeerRecord list \<Rightarrow> bool" where
  "peers_ok \<equiv> slots_ok pr_Used pr_Address"

lemma is_peer_eta: "is_peer address = (\<lambda>peer. pr_Used peer \<and> pr_Address peer = address)"
  by (simp add: is_peer_def fun_eq_iff)

lemma observe_peers_eq:
  "observe_peers address now =
     two_pass_upsert (\<lambda>peer. pr_Used peer \<and> pr_Address peer = address) (\<lambda>peer. \<not> pr_Used peer)
       (\<lambda>peer. peer\<lparr>pr_LastSeenNanoseconds := now\<rparr>)
       (\<lambda>peer. peer\<lparr>pr_Used := True, pr_Address := address, pr_LastSeenNanoseconds := now\<rparr>)"
  by (simp add: observe_peers_def is_peer_eta scan_upsert_two_pass fun_eq_iff)

lemma forget_peers_eq:
  "forget_peers address =
     update_first (\<lambda>peer. pr_Used peer \<and> pr_Address peer = address) (\<lambda>_. PeerRecord_default)"
  by (simp add: forget_peers_def is_peer_eta)

interpretation liveness_table: bounded_table last_seen observe_peers forget_peers peers_ok length
  unfolding observe_peers_eq forget_peers_eq by (rule live.bounded_table_axioms)

definition classify :: "ESPNowPeerLivenessConfig \<Rightarrow> u64 \<Rightarrow> u64 option \<Rightarrow> ESPNowPeerLivenessState" where
  "classify config now seen =
     (case seen of
        None \<Rightarrow> PeerUnknown
      | Some before \<Rightarrow>
          if Elapsed now before \<ge> lc_ExpireAfterNanoseconds config then Expired
          else if Elapsed now before \<ge> lc_SuspectAfterNanoseconds config then Suspect
          else Alive)"

lemma find_peer_classify:
  "(case List.find (is_peer address) peers of
      None \<Rightarrow> PeerUnknown | Some peer \<Rightarrow> StateFor config peer now) =
   classify config now (last_seen peers address)"
  by (induction peers) (auto simp: is_peer_def classify_def StateFor_def Let_def)

lemma EnsureStorageLocked_ready [simp]:
  "length (lt_peers t) = ESPRESSIO_ESPNOW_MAX_LIVENESS_PEERS \<Longrightarrow> EnsureStorageLocked alloc t = (True, t)"
  by (simp add: EnsureStorageLocked_def)

lemma last_seen_fresh [simp]: "last_seen (replicate n PeerRecord_default) = Map.empty"
  by (intro ext) (auto simp: slot_lookup_None_iff PeerRecord_default_def)

lemma peers_ok_fresh [simp]: "peers_ok (replicate n PeerRecord_default)"
  by (simp add: slots_ok_def PeerRecord_default_def)

lemma peers_ok_Nil [simp]: "peers_ok []"
  by (simp add: slots_ok_def)

text \<open>
  The invariant of a tracker: the table is not materialised yet, or has its twenty records, with
  different addresses, none of them the zero address.
\<close>

definition tracker_ok :: "ESPNowPeerLivenessTracker \<Rightarrow> bool" where
  "tracker_ok t \<longleftrightarrow>
     (lt_peers t = [] \<or> length (lt_peers t) = ESPRESSIO_ESPNOW_MAX_LIVENESS_PEERS)
     \<and> peers_ok (lt_peers t) \<and> last_seen (lt_peers t) (MacAddress 0 0 0 0 0 0) = None
     \<and> lc_SuspectAfterNanoseconds (lt_config t) \<le> lc_ExpireAfterNanoseconds (lt_config t)"

lemma tracker_ok_ensure:
  assumes "tracker_ok t" "EnsureStorageLocked alloc t = (ok, t')"
  shows "tracker_ok t'" "last_seen (lt_peers t') = last_seen (lt_peers t)" "lt_config t' = lt_config t"
    "ok \<Longrightarrow> length (lt_peers t') = ESPRESSIO_ESPNOW_MAX_LIVENESS_PEERS"
    "\<not> ok \<Longrightarrow> t' = t"
  using assms
  by (auto simp: EnsureStorageLocked_def tracker_ok_def ESPRESSIO_ESPNOW_MAX_LIVENESS_PEERS_def
      fun_eq_iff split: if_splits)

lemma Observe_cases:
  assumes "tracker_ok t" "\<not> IsZero address"
  shows "Observe True address now t = (ok, t') \<Longrightarrow>
    tracker_ok t' \<and> lt_config t' = lt_config t \<and>
    (ok \<longleftrightarrow> address \<in> dom (last_seen (lt_peers t))
       \<or> card (dom (last_seen (lt_peers t))) < ESPRESSIO_ESPNOW_MAX_LIVENESS_PEERS) \<and>
    last_seen (lt_peers t') = spec_step ESPRESSIO_ESPNOW_MAX_LIVENESS_PEERS
      (last_seen (lt_peers t)) (Put address now)"
proof -
  assume obs: "Observe True address now t = (ok, t')"
  obtain t1 where e: "EnsureStorageLocked True t = (True, t1)"
    by (cases "EnsureStorageLocked True t") (auto simp: EnsureStorageLocked_def split: if_splits)
  note t1 = tracker_ok_ensure [OF assms(1) e]
  then have ok1: "peers_ok (lt_peers t1)" by (simp add: tracker_ok_def)
  show ?thesis
  proof (cases "observe_peers address now (lt_peers t1)")
    case None
    with obs e assms(2) have "ok = False" "t' = t1" by (auto simp: Observe_def)
    moreover from None have "address \<notin> dom (last_seen (lt_peers t1))"
      "card (dom (last_seen (lt_peers t1))) = length (lt_peers t1)"
      using liveness_table.put_None [OF ok1] by auto
    ultimately show ?thesis using t1 by simp
  next
    case (Some peers)
    with obs e assms(2) have r: "ok = True" "t' = t1\<lparr>lt_peers := peers\<rparr>"
      by (auto simp: Observe_def)
    have put: "peers_ok peers" "length peers = length (lt_peers t1)"
      "last_seen peers = (last_seen (lt_peers t1))(address \<mapsto> now)"
      using liveness_table.put_Some [OF ok1 Some] by auto
    have room: "address \<in> dom (last_seen (lt_peers t1))
        \<or> card (dom (last_seen (lt_peers t1))) < length (lt_peers t1)"
      using liveness_table.put_None [OF ok1, of address now] Some liveness_table.dom_bound [OF ok1]
      by auto
    have "tracker_ok t'" using r put t1 assms(2) by (auto simp: tracker_ok_def IsZero_iff)
    then show ?thesis using r put t1 room by auto
  qed
qed

lemma Forget_cases:
  assumes "tracker_ok t" "Forget True address t = (ok, t')"
  shows "tracker_ok t'" "lt_config t' = lt_config t"
    "ok \<longleftrightarrow> address \<in> dom (last_seen (lt_peers t))"
    "last_seen (lt_peers t') = (last_seen (lt_peers t))(address := None)"
proof -
  obtain t1 where e: "EnsureStorageLocked True t = (True, t1)"
    by (cases "EnsureStorageLocked True t") (auto simp: EnsureStorageLocked_def split: if_splits)
  note t1 = tracker_ok_ensure [OF assms(1) e]
  then have ok1: "peers_ok (lt_peers t1)" by (simp add: tracker_ok_def)
  have hit: "(\<exists>peer \<in> set (lt_peers t1). is_peer address peer)
      \<longleftrightarrow> address \<in> dom (last_seen (lt_peers t))"
    unfolding t1(2) [symmetric] by (auto simp: domIff slot_lookup_None_iff is_peer_def)
  note rem = liveness_table.remove_spec [OF ok1, of address]
  show "ok \<longleftrightarrow> address \<in> dom (last_seen (lt_peers t))"
    using assms(2) e hit by (auto simp: Forget_def split: if_splits)
  show "lt_config t' = lt_config t"
    using assms(2) e t1(3) by (auto simp: Forget_def split: if_splits)
  show "last_seen (lt_peers t') = (last_seen (lt_peers t))(address := None)"
    using assms(2) e hit rem t1(2) by (auto simp: Forget_def fun_eq_iff domIff split: if_splits)
  show "tracker_ok t'"
    using assms(2) e rem t1 by (auto simp: Forget_def tracker_ok_def split: if_splits)
qed

lemma GetState_eq:
  assumes "tracker_ok t"
  shows "fst (GetState True address now t) =
    classify (lt_config t) now (last_seen (lt_peers t) address)"
proof -
  obtain t1 where e: "EnsureStorageLocked True t = (True, t1)"
    by (cases "EnsureStorageLocked True t") (auto simp: EnsureStorageLocked_def split: if_splits)
  note t1 = tracker_ok_ensure [OF assms e]
  show ?thesis
    using find_peer_classify [where address = address and peers = "lt_peers t1" and config = "lt_config t1" and now = now] e t1(2,3)
    by (auto simp: GetState_def split: option.splits)
qed


section \<open>Runs of the tracker\<close>

datatype liveness_op = ObserveAt MacAddress u64 | ForgetPeer MacAddress

fun tracker_step :: "ESPNowPeerLivenessTracker \<Rightarrow> liveness_op \<Rightarrow> ESPNowPeerLivenessTracker" where
  "tracker_step t (ObserveAt address now) = snd (Observe True address now t)"
| "tracker_step t (ForgetPeer address) = snd (Forget True address t)"

fun liveness_spec :: "(MacAddress \<rightharpoonup> u64) \<Rightarrow> liveness_op \<Rightarrow> (MacAddress \<rightharpoonup> u64)" where
  "liveness_spec m (ObserveAt address now) =
     (if IsZero address then m
      else spec_step ESPRESSIO_ESPNOW_MAX_LIVENESS_PEERS m (Put address now))"
| "liveness_spec m (ForgetPeer address) =
     spec_step ESPRESSIO_ESPNOW_MAX_LIVENESS_PEERS m (Remove address)"

lemma tracker_step_refines:
  assumes "tracker_ok t"
  shows "tracker_ok (tracker_step t a) \<and> lt_config (tracker_step t a) = lt_config t
    \<and> last_seen (lt_peers (tracker_step t a)) = liveness_spec (last_seen (lt_peers t)) a"
proof (cases a)
  case (ObserveAt address now)
  show ?thesis
  proof (cases "IsZero address")
    case True
    then show ?thesis using ObserveAt assms by (simp add: Observe_def)
  next
    case False
    obtain ok t' where o: "Observe True address now t = (ok, t')" by fastforce
    show ?thesis using ObserveAt False o Observe_cases [OF assms False o] by simp
  qed
next
  case (ForgetPeer address)
  obtain ok t' where f: "Forget True address t = (ok, t')" by fastforce
  show ?thesis using ForgetPeer f Forget_cases [OF assms f] by simp
qed

lemma tracker_run_refines:
  assumes "tracker_ok t"
  shows "tracker_ok (foldl tracker_step t ops) \<and> lt_config (foldl tracker_step t ops) = lt_config t
    \<and> last_seen (lt_peers (foldl tracker_step t ops)) = foldl liveness_spec (last_seen (lt_peers t)) ops"
  using assms
proof (induction ops arbitrary: t)
  case Nil
  then show ?case by simp
next
  case (Cons a ops)
  then show ?case using tracker_step_refines [OF Cons.prems, of a] by simp
qed

lemma tracker_ok_new: "tracker_ok (Tracker_new config)"
  by (auto simp: tracker_ok_def Tracker_new_def)

lemma last_seen_new [simp]: "last_seen (lt_peers (Tracker_new config)) = Map.empty"
  by (auto simp: Tracker_new_def fun_eq_iff)

text \<open>
  C5. Refinement of the tracker: after any sequence of observations and removals on a new tracker
  the state reported for any address at any time is the classification of the timestamp that a
  plain finite map of capacity twenty holds for it (an observation of the zero address, and of a
  new peer when twenty are tracked, changes nothing).
\<close>

theorem liveness_tracker_refines_map:
  "fst (GetState True address now (foldl tracker_step (Tracker_new config) ops)) =
     classify (lt_config (Tracker_new config)) now (foldl liveness_spec Map.empty ops address)"
proof -
  note run = tracker_run_refines [OF tracker_ok_new, of config ops]
  then have "tracker_ok (foldl tracker_step (Tracker_new config) ops)" by blast
  from GetState_eq [OF this] run show ?thesis by simp
qed

text \<open>
  Thresholds: once a peer was observed at \<open>t0\<close>, its state at a later time \<open>now\<close> is Alive exactly
  before \<open>t0 + SuspectAfter\<close>, Expired exactly from \<open>t0 + ExpireAfter\<close> on and Suspect in between, as
  numbers and without wrap-around; at a time before \<open>t0\<close> the age counts as zero.
\<close>

theorem observed_state_thresholds:
  assumes ok: "tracker_ok t" and obs: "Observe True address t0 t = (True, t')"
    and later: "t0 \<le> now"
  shows "fst (GetState True address now t') =
    (if unat t0 + unat (lc_ExpireAfterNanoseconds (lt_config t)) \<le> unat now then Expired
     else if unat t0 + unat (lc_SuspectAfterNanoseconds (lt_config t)) \<le> unat now then Suspect
     else Alive)"
proof -
  have nz: "\<not> IsZero address" using obs by (auto simp: Observe_def)
  note c = Observe_cases [OF ok nz obs]
  then have seen: "last_seen (lt_peers t') address = Some t0" by auto
  have age: "d \<le> Elapsed now t0 \<longleftrightarrow> unat t0 + unat d \<le> unat now" for d
    using later by (auto simp: Elapsed_def word_le_nat_alt unat_sub)
  from c have "tracker_ok t'" "lt_config t' = lt_config t" by auto
  then show ?thesis using GetState_eq [of t' address now] seen by (simp add: classify_def age)
qed

text \<open>The thresholds of the host test: suspect after 5000, expired after 20000.\<close>

definition example_config :: ESPNowPeerLivenessConfig where
  "example_config = \<lparr>lc_SuspectAfterNanoseconds = 5000, lc_ExpireAfterNanoseconds = 20000\<rparr>"

definition example_tracker :: ESPNowPeerLivenessTracker where
  "example_tracker = tracker_step (Tracker_new example_config) (ObserveAt (MacAddress 2 0 0 0 0 1) 1000)"

lemma tracker_ok_example: "tracker_ok example_tracker"
  unfolding example_tracker_def using tracker_step_refines [OF tracker_ok_new] by blast

theorem observed_state_thresholds_witness:
  "fst (GetState True (MacAddress 2 0 0 0 0 1) 6000 example_tracker) = Suspect"
proof -
  let ?obs = "Observe True (MacAddress 2 0 0 0 0 1) 1000 (Tracker_new example_config)"
  have "fst ?obs = True" by code_simp
  then have obs: "?obs = (True, example_tracker)"
    by (simp add: example_tracker_def prod_eq_iff)
  show ?thesis
    using observed_state_thresholds [OF tracker_ok_new obs, of 6000]
    by (simp add: Tracker_new_def example_config_def)
qed

fun liveness_rank :: "ESPNowPeerLivenessState \<Rightarrow> nat" where
  "liveness_rank PeerUnknown = 0"
| "liveness_rank Alive = 1"
| "liveness_rank Suspect = 2"
| "liveness_rank Expired = 3"

lemma Elapsed_mono: "now \<le> now' \<Longrightarrow> Elapsed now before \<le> Elapsed now' before"
  by (auto simp: Elapsed_def word_le_nat_alt unat_sub)

lemma classify_mono:
  "lc_SuspectAfterNanoseconds config \<le> lc_ExpireAfterNanoseconds config \<Longrightarrow> now \<le> now' \<Longrightarrow>
   liveness_rank (classify config now seen) \<le> liveness_rank (classify config now' seen)"
  using Elapsed_mono [of now now'] by (auto simp: classify_def split: option.splits dest: order_trans)

lemma snapshot_loop_spec:
  "count \<le> capacity \<Longrightarrow> capacity \<le> length out \<Longrightarrow>
   snapshot_loop config now capacity peers count out =
     (let written = take (capacity - count) (map (snapshot_of config now) (filter pr_Used peers))
      in (count + length written, take count out @ written @ drop (count + length written) out))"
proof (induction peers arbitrary: count out)
  case Nil
  then show ?case by simp
next
  case (Cons peer peers)
  show ?case
  proof (cases "\<not> pr_Used peer \<or> capacity \<le> count")
    case True
    then show ?thesis using Cons by (auto simp: Let_def)
  next
    case False
    then have c: "count < capacity" "count < length out" using Cons.prems by auto
    have "take (Suc count) (out[count := snapshot_of config now peer]) =
        take count out @ [snapshot_of config now peer]"
      using c by (simp add: take_Suc_conv_app_nth)
    moreover have "capacity - count = Suc (capacity - Suc count)" using c by simp
    ultimately show ?thesis using Cons.IH [of "Suc count" "out[count := snapshot_of config now peer]"]
      Cons.prems False c by (simp add: Let_def)
  qed
qed

lemma Snapshot_array:
  "\<exists>count array' t'. Snapshot alloc (Some array) capacity now t = (count, Some array', t')"
  by (simp add: Snapshot_def split: prod.split bool.split)

lemma state_of_used_peer:
  assumes "peers_ok peers" "peer \<in> set peers" "pr_Used peer"
  shows "StateFor config peer now = classify config now (last_seen peers (pr_Address peer))"
  using assms(3) slot_lookup_used [OF assms, of pr_LastSeenNanoseconds]
  by (simp add: StateFor_def classify_def Let_def)

text \<open>
  Snapshot: with room for \<open>capacity\<close> records in the caller's array, exactly
  \<open>min capacity (number of tracked peers)\<close> entries are written at its front, the rest of the array
  is untouched, the entries are those of different tracked peers, and the state in every entry is
  the one \<^verbatim>\<open>GetState\<close> reports for its address at that time.
\<close>

theorem snapshot_agrees_with_state:
  assumes ok: "tracker_ok t" and cap: "0 < capacity" "capacity \<le> length array"
    and snap: "Snapshot True (Some array) capacity now t = (count, Some array', t')"
  shows "count = min capacity (card (dom (last_seen (lt_peers t))))
    \<and> drop count array' = drop count array
    \<and> distinct (map ls_Address (take count array'))
    \<and> (\<forall>s \<in> set (take count array').
      last_seen (lt_peers t) (ls_Address s) = Some (ls_LastSeenNanoseconds s)
      \<and> fst (GetState True (ls_Address s) now t) = ls_State s)"
proof (intro conjI)
  obtain t1 where e: "EnsureStorageLocked True t = (True, t1)"
    by (cases "EnsureStorageLocked True t") (auto simp: EnsureStorageLocked_def split: if_splits)
  note t1 = tracker_ok_ensure [OF ok e]
  then have ok1: "peers_ok (lt_peers t1)" by (simp add: tracker_ok_def)
  define written where
    "written = take capacity (map (snapshot_of (lt_config t1) now) (filter pr_Used (lt_peers t1)))"
  have eq: "count = length written" "array' = written @ drop (length written) array"
    using snap cap e snapshot_loop_spec [of 0 capacity array "lt_config t1" now "lt_peers t1"]
    by (auto simp: Snapshot_def written_def Let_def)
  show "count = min capacity (card (dom (last_seen (lt_peers t))))"
    unfolding t1(2) [symmetric] card_dom_slot_lookup [OF ok1] using eq(1)
    by (simp add: written_def min.commute)
  show "drop count array' = drop count array" using eq by simp
  have tk: "take count array' = written" using eq by simp
  have "distinct (map pr_Address (filter pr_Used (lt_peers t1)))"
    using ok1 by (simp add: slots_ok_def)
  then show "distinct (map ls_Address (take count array'))"
    unfolding tk written_def by (simp add: take_map [symmetric] comp_def snapshot_of_def distinct_take)
  show "\<forall>s \<in> set (take count array').
      last_seen (lt_peers t) (ls_Address s) = Some (ls_LastSeenNanoseconds s)
      \<and> fst (GetState True (ls_Address s) now t) = ls_State s"
    unfolding tk
  proof
    fix s
    assume "s \<in> set written"
    then obtain peer where peer: "peer \<in> set (lt_peers t1)" "pr_Used peer"
      "s = snapshot_of (lt_config t1) now peer"
      unfolding written_def by (auto dest!: in_set_takeD)
    have "last_seen (lt_peers t1) (pr_Address peer) = Some (pr_LastSeenNanoseconds peer)"
      by (rule slot_lookup_used [OF ok1 peer(1,2)])
    then show "last_seen (lt_peers t) (ls_Address s) = Some (ls_LastSeenNanoseconds s)
        \<and> fst (GetState True (ls_Address s) now t) = ls_State s"
      using state_of_used_peer [OF ok1 peer(1,2), of "lt_config t1" now] peer(3) t1(2,3)
        GetState_eq [OF ok, of "ls_Address s" now]
      by (simp add: snapshot_of_def)
  qed
qed

theorem snapshot_agrees_with_state_witness:
  "fst (Snapshot True (Some (replicate 2 (snapshot_of example_config 0 PeerRecord_default))) 2 26500
      example_tracker)
   = min 2 (card (dom (last_seen (lt_peers example_tracker))))"
proof -
  let ?array = "replicate 2 (snapshot_of example_config 0 PeerRecord_default)"
  obtain count array' t' where
    s: "Snapshot True (Some ?array) 2 26500 example_tracker = (count, Some array', t')"
    using Snapshot_array by blast
  show ?thesis
    using snapshot_agrees_with_state [OF tracker_ok_example _ _ s] s by simp
qed

end
