(* ===== verification/Wire_Spec.thy ===== *)
theory Wire_Spec
  imports ESPNow_Prelude
begin

text \<open>
  The contract of the framed wire formats. The transport envelope, the Command fragment and the
  Security fragment are all a fixed header followed by data; what the layers above rely on is
  that parsing a frame that was built from a valid header gives that header and the data back,
  and that nothing else is accepted. \<open>wire_codec\<close> states that contract once; the fragment stream
  lemmas below hold for every protocol that interprets it.
\<close>

locale wire_codec =
  fixes encode :: "'h \<Rightarrow> byte list \<Rightarrow> byte list"
    and decode :: "byte list \<Rightarrow> ('h \<times> byte list) option"
    and valid :: "'h \<Rightarrow> byte list \<Rightarrow> bool"
  assumes decode_encode: "valid h d \<Longrightarrow> decode (encode h d) = Some (h, d)"
    and decode_valid: "decode bs = Some (h, d) \<Longrightarrow> valid h d"
begin

lemma encode_inject:
  assumes "valid h d" "valid h' d'" "encode h d = encode h' d'"
  shows "h = h' \<and> d = d'"
  using decode_encode [OF assms(1)] decode_encode [OF assms(2)] assms(3)
  by (metis option.inject prod.inject)

lemma decode_stream:
  assumes "\<And>i. i < n \<Longrightarrow> valid (hdr i) (chunk c payload i)"
  shows "map (\<lambda>i. decode (encode (hdr i) (chunk c payload i))) [0..<n]
    = map (\<lambda>i. Some (hdr i, chunk c payload i)) [0..<n]"
  using assms by (simp add: decode_encode)

lemma stream_payload:
  assumes "0 < c" "n = ceil_div (length payload) c"
    and "\<And>i. i < n \<Longrightarrow> valid (hdr i) (chunk c payload i)"
  shows "concat (map (\<lambda>i. snd (the (decode (encode (hdr i) (chunk c payload i))))) [0..<n]) = payload"
proof -
  have eq: "map (\<lambda>i. snd (the (decode (encode (hdr i) (chunk c payload i))))) [0..<n]
      = map (chunk c payload) [0..<n]"
    using assms(3) by (simp add: decode_encode)
  show ?thesis unfolding eq unfolding assms(2) by (rule concat_chunks [OF assms(1)])
qed

end

end
