(* ===== verification/Transport_Wire.thy ===== *)
theory Transport_Wire
  imports ESPNow_Types Wire_Spec
begin

text \<open>
  The eight-byte envelope of every ESPressio frame: \<^verbatim>\<open>WireHeader\<close> of
  \<^verbatim>\<open>src/src/ESPressio_ESPNowTransport.hpp\<close>, packed and copied with \<^verbatim>\<open>memcpy\<close>, how \<^verbatim>\<open>SendDetailed\<close>
  fills a frame and how \<^verbatim>\<open>QueueReceivedData\<close> validates one. The interpretation shows that the two
  sides agree.
\<close>

record WireHeader =
  wh_Magic :: u32
  wh_Version :: byte
  wh_Protocol :: byte
  wh_PayloadLength :: u16

definition WireHeader_default :: WireHeader where
  "WireHeader_default =
     \<lparr>wh_Magic = FrameMagic, wh_Version = FrameVersion, wh_Protocol = 0, wh_PayloadLength = 0\<rparr>"

definition sizeof_WireHeader :: nat where "sizeof_WireHeader = 8"

definition header_write :: "WireHeader \<Rightarrow> byte list" where
  "header_write h =
     le_bytes 4 (wh_Magic h) @ [wh_Version h, wh_Protocol h] @ le_bytes 2 (wh_PayloadLength h)"

definition header_read :: "byte list \<Rightarrow> WireHeader" where
  "header_read bs =
     \<lparr>wh_Magic = le_word (take 4 bs), wh_Version = bs ! 4, wh_Protocol = bs ! 5,
      wh_PayloadLength = le_word (take 2 (drop 6 bs))\<rparr>"

lemma length_header_write [simp]: "length (header_write h) = 8"
  by (simp add: header_write_def)

lemma header_read_write [simp]: "header_read (header_write h @ rest) = h"
  by (simp add: header_read_def header_write_def nth_append)

text \<open>
  The frame \<^verbatim>\<open>SendDetailed\<close> hands to \<^verbatim>\<open>esp_now_send\<close>: the first \<open>sizeof(header) + payloadLength\<close> bytes
  of a zeroed buffer into which the header and, unless the pointer is null, the payload were
  copied.
\<close>

definition build_frame :: "byte \<Rightarrow> byte list option \<Rightarrow> nat \<Rightarrow> byte list" where
  "build_frame protocol payload payloadLength =
     (let header = WireHeader_default\<lparr>wh_Protocol := protocol, wh_PayloadLength := of_nat payloadLength\<rparr>;
          frame = blit 0 (header_write header) (replicate MaximumFrameSize 0);
          frame = (case payload of
             Some bytes \<Rightarrow> if payloadLength > 0
               then blit sizeof_WireHeader (take payloadLength bytes) frame else frame
           | None \<Rightarrow> frame)
      in take (sizeof_WireHeader + payloadLength) frame)"

text \<open>
  The validation of \<^verbatim>\<open>QueueReceivedData\<close>: \<^const>\<open>None\<close> is an early return, otherwise the header and the
  payload bytes that are copied. \<open>length\<close> is the length the driver reports for \<open>data\<close>.
\<close>

definition parse_frame :: "byte list \<Rightarrow> int \<Rightarrow> (WireHeader \<times> byte list) option" where
  "parse_frame data len =
     (if len < int sizeof_WireHeader then None
      else let boundedLength = min (nat len) MaximumFrameSize; header = header_read data
        in if wh_Magic header \<noteq> FrameMagic \<or> wh_Version header \<noteq> FrameVersion
             \<or> unat (wh_PayloadLength header) > MaximumFrameSize - sizeof_WireHeader
             \<or> sizeof_WireHeader + unat (wh_PayloadLength header) > boundedLength
           then None
           else Some (header, take (unat (wh_PayloadLength header)) (drop sizeof_WireHeader data)))"

definition wire_valid :: "WireHeader \<Rightarrow> byte list \<Rightarrow> bool" where
  "wire_valid h d \<longleftrightarrow>
     wh_Magic h = FrameMagic \<and> wh_Version h = FrameVersion
     \<and> unat (wh_PayloadLength h) = length d \<and> length d \<le> MaximumFrameSize - sizeof_WireHeader"

lemma parse_frame_encode:
  "wire_valid h d \<Longrightarrow> parse_frame (header_write h @ d) (int (length (header_write h @ d))) = Some (h, d)"
  by (simp add: parse_frame_def wire_valid_def Let_def sizeof_WireHeader_def nat_add_distrib)

lemma parse_frame_valid:
  assumes "parse_frame data (int (length data)) = Some (h, d)"
  shows "wire_valid h d"
  using assms by (auto simp: parse_frame_def wire_valid_def Let_def sizeof_WireHeader_def split: if_splits)

interpretation frame_wire: wire_codec "\<lambda>h d. header_write h @ d"
  "\<lambda>bs. parse_frame bs (int (length bs))" wire_valid
  by unfold_locales (use parse_frame_encode parse_frame_valid in auto)

lemma build_frame_eq:
  assumes "payloadLength \<le> MaximumFrameSize - sizeof_WireHeader" "length bytes = payloadLength"
  shows "build_frame protocol (Some bytes) payloadLength =
    header_write (WireHeader_default\<lparr>wh_Protocol := protocol, wh_PayloadLength := of_nat payloadLength\<rparr>)
    @ bytes"
  using assms by (auto simp: build_frame_def blit_def Let_def sizeof_WireHeader_def)

lemma build_frame_null:
  assumes "payloadLength \<le> MaximumFrameSize - sizeof_WireHeader"
  shows "build_frame protocol None payloadLength =
    header_write (WireHeader_default\<lparr>wh_Protocol := protocol, wh_PayloadLength := of_nat payloadLength\<rparr>)
    @ replicate payloadLength 0"
  using assms by (auto simp: build_frame_def blit_def Let_def sizeof_WireHeader_def)

lemma build_frame_wire_valid:
  assumes "payloadLength \<le> MaximumFrameSize - sizeof_WireHeader" "length bytes = payloadLength"
  shows "wire_valid (WireHeader_default\<lparr>wh_Protocol := protocol, wh_PayloadLength := of_nat payloadLength\<rparr>) bytes"
  using assms by (simp add: wire_valid_def WireHeader_default_def sizeof_WireHeader_def)

lemma parse_build_frame:
  assumes "length bytes \<le> MaximumFrameSize - sizeof_WireHeader"
  shows "parse_frame (build_frame protocol (Some bytes) (length bytes))
      (int (length (build_frame protocol (Some bytes) (length bytes))))
    = Some (WireHeader_default\<lparr>wh_Protocol := protocol, wh_PayloadLength := of_nat (length bytes)\<rparr>, bytes)"
  unfolding build_frame_eq [OF assms refl]
  by (rule frame_wire.decode_encode [OF build_frame_wire_valid [OF assms refl]])

lemma length_build_frame:
  "length bytes \<le> MaximumFrameSize - sizeof_WireHeader \<Longrightarrow>
   length (build_frame protocol (Some bytes) (length bytes)) = sizeof_WireHeader + length bytes"
  by (simp add: build_frame_eq sizeof_WireHeader_def)

end
