(* ===== verification/Native_API.thy ===== *)
theory Native_API
  imports ESPNow_Types
begin

text \<open>
  What the transport calls and this repository does not contain: ESP-IDF's \<^verbatim>\<open>esp_now_*\<close> and
  \<^verbatim>\<open>esp_wifi_*\<close> functions, the Arduino WiFi object, the monotonic clock, the message queue and the
  managed thread of ESPressio System and Threads, and the observers. They are the parameter
  \<open>native_api\<close> of the transport's definitions: one function per call site, over an unspecified state
  \<open>'w\<close> of the platform (and \<open>'q\<close> of a queue). The predicates at the end name the documented
  behaviour some properties rely on; they are hypotheses of those properties, never axioms.
\<close>

datatype wifi_interface = WIFI_IF_STA | WIFI_IF_AP
datatype wifi_mode = WIFI_MODE_NULL | WIFI_MODE_STA | WIFI_MODE_AP | WIFI_MODE_APSTA | WIFI_MODE_OTHER
datatype thread_status = ThreadSuccess | ThreadAlreadyInitialized | ThreadFailed

text \<open>\<^verbatim>\<open>esp_now_peer_info_t\<close>, the fields the transport reads or writes.\<close>

record esp_now_peer_info =
  pi_peer_addr :: MacAddress
  pi_lmk :: "byte list"
  pi_channel :: byte
  pi_ifidx :: wifi_interface
  pi_encrypt :: bool

definition peer_info_default :: esp_now_peer_info where
  "peer_info_default =
     \<lparr>pi_peer_addr = MacAddress 0 0 0 0 0 0, pi_lmk = replicate 16 0, pi_channel = 0,
      pi_ifidx = WIFI_IF_STA, pi_encrypt = False\<rparr>"

record CallbackFrame =
  cf_Received :: ESPNowReceivedFrame
  cf_LocalInterface :: wifi_interface
  cf_HasLocalInterface :: bool

text \<open>The callbacks of \<^verbatim>\<open>IESPNowTransportObserver\<close>, as values handed to the observers.\<close>

datatype notification =
  OnInitialized | OnInitializationFailed | OnShutdown
  | OnPeerAdded MacAddress | OnPeerRemoved MacAddress
  | OnFrameReceived MacAddress byte nat u64
  | OnSendAccepted MacAddress byte nat
  | OnSendFailedDetailed MacAddress byte nat ESPNowSendFailure esp_err

record ('q, 'w) native_api =
  na_alloc :: "'w \<Rightarrow> bool \<times> 'w"
  na_notify :: "notification \<Rightarrow> 'w \<Rightarrow> 'w"
  na_register_observer :: "nat \<Rightarrow> 'w \<Rightarrow> bool \<times> 'w"
  na_unregister_observer :: "nat \<Rightarrow> 'w \<Rightarrow> 'w"
  na_now :: "'w \<Rightarrow> u64 \<times> 'w"
  na_free_stack :: "'w \<Rightarrow> u32 \<times> 'w"
  na_wifi_mode_sta :: "'w \<Rightarrow> 'w"
  na_wifi_connected :: "'w \<Rightarrow> bool"
  na_wifi_get_mode :: "'w \<Rightarrow> esp_err \<times> wifi_mode"
  na_wifi_get_mac :: "wifi_interface \<Rightarrow> 'w \<Rightarrow> esp_err \<times> byte list"
  na_wifi_set_channel :: "byte \<Rightarrow> 'w \<Rightarrow> esp_err \<times> 'w"
  na_init :: "'w \<Rightarrow> esp_err \<times> 'w"
  na_deinit :: "'w \<Rightarrow> esp_err \<times> 'w"
  na_register_recv_cb :: "'w \<Rightarrow> esp_err \<times> 'w"
  na_unregister_recv_cb :: "'w \<Rightarrow> 'w"
  na_is_peer_exist :: "MacAddress \<Rightarrow> 'w \<Rightarrow> bool"
  na_get_peer :: "MacAddress \<Rightarrow> 'w \<Rightarrow> esp_err \<times> esp_now_peer_info"
  na_add_peer :: "esp_now_peer_info \<Rightarrow> 'w \<Rightarrow> esp_err \<times> 'w"
  na_mod_peer :: "esp_now_peer_info \<Rightarrow> 'w \<Rightarrow> esp_err \<times> 'w"
  na_del_peer :: "MacAddress \<Rightarrow> 'w \<Rightarrow> esp_err \<times> 'w"
  na_send :: "MacAddress \<Rightarrow> byte list \<Rightarrow> 'w \<Rightarrow> esp_err \<times> 'w"
  na_queue_create :: "nat \<Rightarrow> 'w \<Rightarrow> 'q option \<times> 'w"
  na_queue_send :: "CallbackFrame \<Rightarrow> 'q \<Rightarrow> bool \<times> 'q"
  na_queue_receive :: "'q \<Rightarrow> (CallbackFrame \<times> 'q) option"
  na_worker_initialize :: "ESPNowTransportConfig \<Rightarrow> 'w \<Rightarrow> thread_status \<times> 'w"
  na_worker_start :: "'w \<Rightarrow> thread_status \<times> 'w"
  na_worker_shutdown :: "'w \<Rightarrow> 'w"


section \<open>Documented behaviour\<close>

text \<open>
  A message queue is a bounded FIFO: \<open>contents\<close> are the queued items. A non-blocking send appends or,
  when the queue holds \<open>cap\<close> items, fails and changes nothing; a receive takes the oldest item.
\<close>

definition bounded_fifo :: "('q, 'w) native_api \<Rightarrow> nat \<Rightarrow> ('q \<Rightarrow> CallbackFrame list) \<Rightarrow> bool" where
  "bounded_fifo api cap contents \<longleftrightarrow>
     (\<forall>q f. if length (contents q) < cap
        then fst (na_queue_send api f q) \<and> contents (snd (na_queue_send api f q)) = contents q @ [f]
        else na_queue_send api f q = (False, q)) \<and>
     (\<forall>q. case contents q of
        [] \<Rightarrow> na_queue_receive api q = None
      | f # fs \<Rightarrow> (\<exists>q'. na_queue_receive api q = Some (f, q') \<and> contents q' = fs))"

text \<open>
  The native peer table: \<open>tbl w\<close> is its content in platform state \<open>w\<close>. Adding and modifying a peer
  store the record under its address, reading gives the stored record, deleting reports ``not found'' only
  for an absent peer, a failed call changes nothing, and observers do not touch the table.
\<close>

definition peer_table_contract ::
  "('q, 'w) native_api \<Rightarrow> ('w \<Rightarrow> MacAddress \<rightharpoonup> esp_now_peer_info) \<Rightarrow> bool" where
  "peer_table_contract api tbl \<longleftrightarrow>
     (\<forall>a w. na_is_peer_exist api a w \<longleftrightarrow> a \<in> dom (tbl w)) \<and>
     (\<forall>a w info. na_get_peer api a w = (ESP_OK, info) \<longrightarrow> tbl w a = Some info) \<and>
     (\<forall>info w w'. na_add_peer api info w = (ESP_OK, w') \<longrightarrow>
        tbl w' = (tbl w)(pi_peer_addr info \<mapsto> info)) \<and>
     (\<forall>info w w'. na_mod_peer api info w = (ESP_OK, w') \<longrightarrow>
        tbl w' = (tbl w)(pi_peer_addr info \<mapsto> info)) \<and>
     (\<forall>info w e w'. na_add_peer api info w = (e, w') \<longrightarrow> e \<noteq> ESP_OK \<longrightarrow> tbl w' = tbl w) \<and>
     (\<forall>info w e w'. na_mod_peer api info w = (e, w') \<longrightarrow> e \<noteq> ESP_OK \<longrightarrow> tbl w' = tbl w) \<and>
     (\<forall>a w w'. na_del_peer api a w = (ESP_OK, w') \<longrightarrow> tbl w' = (tbl w)(a := None)) \<and>
     (\<forall>a w e w'. na_del_peer api a w = (e, w') \<longrightarrow> e \<noteq> ESP_OK \<longrightarrow> tbl w' = tbl w) \<and>
     (\<forall>a w w'. na_del_peer api a w = (ESP_ERR_ESPNOW_NOT_FOUND, w') \<longrightarrow> a \<notin> dom (tbl w)) \<and>
     (\<forall>n w. tbl (na_notify api n w) = tbl w)"

end
