(* ===== verification/Transport.thy ===== *)
theory Transport
  imports Transport_Wire Native_API Table_Spec
begin

text \<open>
  \<^verbatim>\<open>src/src/ESPressio_ESPNowTransport.hpp\<close>: the state of \<^verbatim>\<open>ESPNowTransport\<close> and its methods. The state
  is a record with one field per data member; \<open>t_callbackInstance\<close> is \<^verbatim>\<open>CallbackInstance() == this\<close> and
  \<open>t_native\<close> the platform state the native functions act on. A protocol handler, a maintenance
  handler and an owner pointer are values of unspecified types \<open>'h\<close>, \<open>'m\<close>, \<open>'o\<close>; what running a handler
  does to the transport is a parameter (\<open>run\<close>, \<open>run_m\<close>) of the worker's definitions, so a handler may
  call back into the transport. Each method is one definition; a public method holds its locks
  for the whole call or takes them one after another, and is modelled as one atomic step.
  \<^const>\<open>None\<close> stands for a null pointer or an empty \<^verbatim>\<open>std::function\<close>.
\<close>

definition ESPRESSIO_ESPNOW_MAX_PROTOCOL_HANDLERS :: nat where
  "ESPRESSIO_ESPNOW_MAX_PROTOCOL_HANDLERS = 8"
definition ESPRESSIO_ESPNOW_MAX_MAINTENANCE_HANDLERS :: nat where
  "ESPRESSIO_ESPNOW_MAX_MAINTENANCE_HANDLERS = 8"
definition ESPRESSIO_ESPNOW_MAX_INTERFACE_HINTS :: nat where
  "ESPRESSIO_ESPNOW_MAX_INTERFACE_HINTS = 20"
definition ESPRESSIO_ESPNOW_MAX_MANAGED_PEERS :: nat where
  "ESPRESSIO_ESPNOW_MAX_MANAGED_PEERS = 20"

lemmas transport_limits =
  ESPRESSIO_ESPNOW_MAX_PROTOCOL_HANDLERS_def ESPRESSIO_ESPNOW_MAX_MAINTENANCE_HANDLERS_def
  ESPRESSIO_ESPNOW_MAX_INTERFACE_HINTS_def ESPRESSIO_ESPNOW_MAX_MANAGED_PEERS_def


section \<open>State\<close>

record 'h HandlerRecord =
  hr_Protocol :: byte
  hr_Handler :: "'h option"

record ('o, 'm) MaintenanceRecord =
  mr_Owner :: "'o option"
  mr_Handler :: "'m option"

record PeerInterfaceHint =
  ph_Used :: bool
  ph_Address :: MacAddress
  ph_Interface :: wifi_interface

record ManagedPeerRecord =
  mp_Used :: bool
  mp_Config :: ESPNowPeerConfig

record TransportWorker =
  tw_minimumFreeStackBytes :: u32

definition HandlerRecord_default :: "'h HandlerRecord" where
  "HandlerRecord_default = \<lparr>hr_Protocol = 0, hr_Handler = None\<rparr>"
definition MaintenanceRecord_default :: "('o, 'm) MaintenanceRecord" where
  "MaintenanceRecord_default = \<lparr>mr_Owner = None, mr_Handler = None\<rparr>"
definition PeerInterfaceHint_default :: PeerInterfaceHint where
  "PeerInterfaceHint_default =
     \<lparr>ph_Used = False, ph_Address = MacAddress 0 0 0 0 0 0, ph_Interface = WIFI_IF_STA\<rparr>"
definition ManagedPeerRecord_default :: ManagedPeerRecord where
  "ManagedPeerRecord_default = \<lparr>mp_Used = False, mp_Config = PeerConfig_default\<rparr>"

lemmas record_defaults =
  HandlerRecord_default_def MaintenanceRecord_default_def PeerInterfaceHint_default_def
  ManagedPeerRecord_default_def

record ('h, 'm, 'o, 'q, 'w) ESPNowTransport =
  t_config :: ESPNowTransportConfig
  t_receiveQueue :: "'q option"
  t_worker :: "TransportWorker option"
  t_handlers :: "'h HandlerRecord list"
  t_maintenanceHandlers :: "('o, 'm) MaintenanceRecord list"
  t_peerInterfaceHints :: "PeerInterfaceHint list"
  t_managedPeers :: "ManagedPeerRecord list"
  t_radioBinding :: ESPNowRadioBinding
  t_initialized :: bool
  t_nativeSuspended :: bool
  t_observable :: bool
  t_lastSendFailure :: ESPNowSendFailure
  t_lastSendNativeError :: esp_err
  t_receiveQueueRejectedCount :: u64
  t_callbackInstance :: bool
  t_native :: 'w

definition Transport_new :: "'w \<Rightarrow> ('h, 'm, 'o, 'q, 'w) ESPNowTransport" where
  "Transport_new w =
     \<lparr>t_config = TransportConfig_default, t_receiveQueue = None, t_worker = None, t_handlers = [],
      t_maintenanceHandlers = [], t_peerInterfaceHints = [], t_managedPeers = [],
      t_radioBinding = RadioBinding_default, t_initialized = False, t_nativeSuspended = False,
      t_observable = False, t_lastSendFailure = NoFailure, t_lastSendNativeError = ESP_OK,
      t_receiveQueueRejectedCount = 0, t_callbackInstance = False, t_native = w\<rparr>"


section \<open>Native calls on the transport's platform state\<close>

definition notify ::
  "('q, 'w) native_api \<Rightarrow> notification \<Rightarrow> ('h, 'm, 'o, 'q, 'w) ESPNowTransport
     \<Rightarrow> ('h, 'm, 'o, 'q, 'w) ESPNowTransport" where
  "notify api n t = t\<lparr>t_native := na_notify api n (t_native t)\<rparr>"

text \<open>A native call that changes the platform state and returns a result.\<close>

definition native ::
  "('w \<Rightarrow> 'r \<times> 'w) \<Rightarrow> ('h, 'm, 'o, 'q, 'w) ESPNowTransport \<Rightarrow> 'r \<times> ('h, 'm, 'o, 'q, 'w) ESPNowTransport"
  where
  "native f t = (case f (t_native t) of (r, w) \<Rightarrow> (r, t\<lparr>t_native := w\<rparr>))"


section \<open>Lazy storage\<close>

definition EnsureObservable ::
  "('q, 'w) native_api \<Rightarrow> ('h, 'm, 'o, 'q, 'w) ESPNowTransport
     \<Rightarrow> bool \<times> ('h, 'm, 'o, 'q, 'w) ESPNowTransport" where
  "EnsureObservable api t =
     (if t_observable t then (True, t)
      else case native (na_alloc api) t of (ok, t') \<Rightarrow> (ok, t'\<lparr>t_observable := ok\<rparr>))"

text \<open>One \<^verbatim>\<open>if (v.size() != n) v.assign(n, blank)\<close>; \<^const>\<open>False\<close> is the exception of the allocator.\<close>

definition ensure_vector ::
  "('q, 'w) native_api \<Rightarrow> nat \<Rightarrow> 'r \<Rightarrow> 'r list \<Rightarrow> 'w \<Rightarrow> bool \<times> 'r list \<times> 'w" where
  "ensure_vector api n blank rs w =
     (if length rs = n then (True, rs, w)
      else case na_alloc api w of (ok, w') \<Rightarrow> (ok, if ok then replicate n blank else rs, w'))"

definition ensure_handlers :: "('q, 'w) native_api \<Rightarrow> ('h, 'm, 'o, 'q, 'w) ESPNowTransport \<Rightarrow> bool \<times> ('h, 'm, 'o, 'q, 'w) ESPNowTransport" where
  "ensure_handlers api t =
     (let (ok, rs, w) = ensure_vector api ESPRESSIO_ESPNOW_MAX_PROTOCOL_HANDLERS
            HandlerRecord_default (t_handlers t) (t_native t) in
      (ok, t\<lparr>t_handlers := rs, t_native := w\<rparr>))"

definition ensure_maintenance :: "('q, 'w) native_api \<Rightarrow> ('h, 'm, 'o, 'q, 'w) ESPNowTransport \<Rightarrow> bool \<times> ('h, 'm, 'o, 'q, 'w) ESPNowTransport" where
  "ensure_maintenance api t =
     (let (ok, rs, w) = ensure_vector api ESPRESSIO_ESPNOW_MAX_MAINTENANCE_HANDLERS
            MaintenanceRecord_default (t_maintenanceHandlers t) (t_native t) in
      (ok, t\<lparr>t_maintenanceHandlers := rs, t_native := w\<rparr>))"

definition ensure_hints :: "('q, 'w) native_api \<Rightarrow> ('h, 'm, 'o, 'q, 'w) ESPNowTransport \<Rightarrow> bool \<times> ('h, 'm, 'o, 'q, 'w) ESPNowTransport" where
  "ensure_hints api t =
     (let (ok, rs, w) = ensure_vector api ESPRESSIO_ESPNOW_MAX_INTERFACE_HINTS
            PeerInterfaceHint_default (t_peerInterfaceHints t) (t_native t) in
      (ok, t\<lparr>t_peerInterfaceHints := rs, t_native := w\<rparr>))"

definition ensure_managed :: "('q, 'w) native_api \<Rightarrow> ('h, 'm, 'o, 'q, 'w) ESPNowTransport \<Rightarrow> bool \<times> ('h, 'm, 'o, 'q, 'w) ESPNowTransport" where
  "ensure_managed api t =
     (let (ok, rs, w) = ensure_vector api ESPRESSIO_ESPNOW_MAX_MANAGED_PEERS
            ManagedPeerRecord_default (t_managedPeers t) (t_native t) in
      (ok, t\<lparr>t_managedPeers := rs, t_native := w\<rparr>))"

definition EnsureRuntimeStorage :: "('q, 'w) native_api \<Rightarrow> ('h, 'm, 'o, 'q, 'w) ESPNowTransport \<Rightarrow> bool \<times> ('h, 'm, 'o, 'q, 'w) ESPNowTransport" where
  "EnsureRuntimeStorage api t =
     and_then (and_then (and_then (and_then (EnsureObservable api t)
       (ensure_handlers api)) (ensure_maintenance api)) (ensure_hints api)) (ensure_managed api)"

definition RegisterObserver ::
  "('q, 'w) native_api \<Rightarrow> nat option \<Rightarrow> ('h, 'm, 'o, 'q, 'w) ESPNowTransport
     \<Rightarrow> bool \<times> ('h, 'm, 'o, 'q, 'w) ESPNowTransport" where
  "RegisterObserver api observer t =
     (case observer of
        None \<Rightarrow> (False, t)
      | Some p \<Rightarrow>
          let (ok, t) = EnsureObservable api t in
          if \<not> ok then (False, t) else native (na_register_observer api p) t)"

definition UnregisterObserver ::
  "('q, 'w) native_api \<Rightarrow> nat \<Rightarrow> ('h, 'm, 'o, 'q, 'w) ESPNowTransport
     \<Rightarrow> ('h, 'm, 'o, 'q, 'w) ESPNowTransport" where
  "UnregisterObserver api p t =
     (if t_observable t then t\<lparr>t_native := na_unregister_observer api p (t_native t)\<rparr> else t)"


section \<open>Error classes and interfaces\<close>

fun ClassifySendFailure :: "esp_err \<Rightarrow> ESPNowSendFailure" where
  "ClassifySendFailure ESP_OK = NoFailure"
| "ClassifySendFailure ESP_ERR_ESPNOW_NOT_INIT = NotInitialized"
| "ClassifySendFailure ESP_ERR_ESPNOW_ARG = InvalidArgument"
| "ClassifySendFailure ESP_ERR_ESPNOW_NO_MEM = NoMemory"
| "ClassifySendFailure ESP_ERR_ESPNOW_NOT_FOUND = PeerNotFound"
| "ClassifySendFailure ESP_ERR_ESPNOW_IF = InterfaceMismatch"
| "ClassifySendFailure ESP_ERR_ESPNOW_CHAN = ChannelMismatch"
| "ClassifySendFailure ESP_ERR_ESPNOW_INTERNAL = Internal"
| "ClassifySendFailure _ = Unknown"

definition ExplicitInterface :: "ESPNowWiFiInterface \<Rightarrow> wifi_interface" where
  "ExplicitInterface i = (if i = AccessPoint then WIFI_IF_AP else WIFI_IF_STA)"

definition PublicInterface :: "wifi_interface \<Rightarrow> ESPNowWiFiInterface" where
  "PublicInterface i = (if i = WIFI_IF_AP then AccessPoint else Station)"

definition CurrentDefaultInterface :: "('q, 'w) native_api \<Rightarrow> 'w \<Rightarrow> wifi_interface" where
  "CurrentDefaultInterface api w =
     (case na_wifi_get_mode api w of
        (e, mode) \<Rightarrow>
          if e \<noteq> ESP_OK then WIFI_IF_STA
          else if mode = WIFI_MODE_AP then WIFI_IF_AP
          else if mode = WIFI_MODE_STA then WIFI_IF_STA
          else if mode = WIFI_MODE_APSTA then
            (if na_wifi_connected api w then WIFI_IF_STA else WIFI_IF_AP)
          else WIFI_IF_STA)"

definition is_hint :: "MacAddress \<Rightarrow> PeerInterfaceHint \<Rightarrow> bool" where
  "is_hint address hint \<longleftrightarrow> ph_Used hint \<and> ph_Address hint = address"

definition FindPeerInterfaceHint ::
  "MacAddress \<Rightarrow> ('h, 'm, 'o, 'q, 'w) ESPNowTransport \<Rightarrow> wifi_interface option" where
  "FindPeerInterfaceHint address t =
     map_option ph_Interface (List.find (is_hint address) (t_peerInterfaceHints t))"

definition ResolvePeerInterface ::
  "('q, 'w) native_api \<Rightarrow> ESPNowPeerConfig \<Rightarrow> ('h, 'm, 'o, 'q, 'w) ESPNowTransport \<Rightarrow> wifi_interface"
  where
  "ResolvePeerInterface api config t =
     (if pc_Interface config \<noteq> Auto then ExplicitInterface (pc_Interface config)
      else case FindPeerInterfaceHint (pc_Address config) t of
        Some hinted \<Rightarrow> hinted
      | None \<Rightarrow>
          let binding = t_radioBinding t in
          if rb_PreferredInterface binding = Station \<or> rb_PreferredInterface binding = AccessPoint
          then ExplicitInterface (rb_PreferredInterface binding)
          else CurrentDefaultInterface api (t_native t))"

definition broadcast_address :: "byte list" where
  "broadcast_address = [0xFF, 0xFF, 0xFF, 0xFF, 0xFF, 0xFF]"

definition mac_matches :: "('q, 'w) native_api \<Rightarrow> wifi_interface \<Rightarrow> byte list \<Rightarrow> 'w \<Rightarrow> bool" where
  "mac_matches api i destination w =
     (case na_wifi_get_mac api i w of
        (e, local) \<Rightarrow> e = ESP_OK \<and> take MacAddressLength destination = take MacAddressLength local)"

definition ResolveLocalInterface ::
  "('q, 'w) native_api \<Rightarrow> byte list option \<Rightarrow> 'w \<Rightarrow> wifi_interface option" where
  "ResolveLocalInterface api destination w =
     (case destination of
        None \<Rightarrow> None
      | Some d \<Rightarrow>
          if take MacAddressLength d = broadcast_address then None
          else if mac_matches api WIFI_IF_STA d w then Some WIFI_IF_STA
          else if mac_matches api WIFI_IF_AP d w then Some WIFI_IF_AP
          else None)"

definition is_managed :: "MacAddress \<Rightarrow> ManagedPeerRecord \<Rightarrow> bool" where
  "is_managed address r \<longleftrightarrow> mp_Used r \<and> pc_Address (mp_Config r) = address"

definition IsManagedPeerAuto :: "MacAddress \<Rightarrow> ('h, 'm, 'o, 'q, 'w) ESPNowTransport \<Rightarrow> bool" where
  "IsManagedPeerAuto address t =
     (case List.find (is_managed address) (t_managedPeers t) of
        None \<Rightarrow> False
      | Some r \<Rightarrow> pc_Interface (mp_Config r) = Auto)"

definition remember_hint ::
  "MacAddress \<Rightarrow> wifi_interface \<Rightarrow> PeerInterfaceHint list \<Rightarrow> PeerInterfaceHint list option" where
  "remember_hint address interface =
     scan_upsert (is_hint address) (\<lambda>h. \<not> ph_Used h) (\<lambda>h. h\<lparr>ph_Interface := interface\<rparr>)
       (\<lambda>h. h\<lparr>ph_Used := True, ph_Address := address, ph_Interface := interface\<rparr>) 0 None"

definition store_hint :: "MacAddress \<Rightarrow> wifi_interface \<Rightarrow> ('h, 'm, 'o, 'q, 'w) ESPNowTransport \<Rightarrow> ('h, 'm, 'o, 'q, 'w) ESPNowTransport" where
  "store_hint address interface t =
     (case remember_hint address interface (t_peerInterfaceHints t) of
        None \<Rightarrow> t
      | Some hints \<Rightarrow> t\<lparr>t_peerInterfaceHints := hints\<rparr>)"

definition migrate_peer ::
  "('q, 'w) native_api \<Rightarrow> MacAddress \<Rightarrow> wifi_interface \<Rightarrow> ('h, 'm, 'o, 'q, 'w) ESPNowTransport \<Rightarrow> ('h, 'm, 'o, 'q, 'w) ESPNowTransport" where
  "migrate_peer api address interface t =
     (if t_nativeSuspended t \<or> \<not> na_is_peer_exist api address (t_native t) then t
      else
        let (e, peer) = na_get_peer api address (t_native t) in
        if e = ESP_OK \<and> pi_ifidx peer \<noteq> interface
        then snd (native (na_mod_peer api (peer\<lparr>pi_ifidx := interface\<rparr>)) t)
        else t)"

definition RememberPeerInterface ::
  "('q, 'w) native_api \<Rightarrow> MacAddress \<Rightarrow> wifi_interface \<Rightarrow> ('h, 'm, 'o, 'q, 'w) ESPNowTransport \<Rightarrow> ('h, 'm, 'o, 'q, 'w) ESPNowTransport" where
  "RememberPeerInterface api address interface t =
     (if IsZero address \<or> \<not> IsManagedPeerAuto address t then t
      else migrate_peer api address interface (store_hint address interface t))"

definition clear_hint :: "MacAddress \<Rightarrow> PeerInterfaceHint list \<Rightarrow> PeerInterfaceHint list" where
  "clear_hint address = update_first (is_hint address) (\<lambda>_. PeerInterfaceHint_default)"

definition ClearPeerInterfaceHint ::
  "MacAddress \<Rightarrow> ('h, 'm, 'o, 'q, 'w) ESPNowTransport \<Rightarrow> ('h, 'm, 'o, 'q, 'w) ESPNowTransport" where
  "ClearPeerInterfaceHint address t =
     t\<lparr>t_peerInterfaceHints := clear_hint address (t_peerInterfaceHints t)\<rparr>"

definition ClearPeerInterfaceHints ::
  "('h, 'm, 'o, 'q, 'w) ESPNowTransport \<Rightarrow> ('h, 'm, 'o, 'q, 'w) ESPNowTransport" where
  "ClearPeerInterfaceHints t =
     t\<lparr>t_peerInterfaceHints := map (\<lambda>_. PeerInterfaceHint_default) (t_peerInterfaceHints t)\<rparr>"


section \<open>Managed peers\<close>

definition store_managed ::
  "MacAddress \<Rightarrow> ESPNowPeerConfig \<Rightarrow> ManagedPeerRecord list \<Rightarrow> ManagedPeerRecord list option" where
  "store_managed address config =
     two_pass_upsert (is_managed address) (\<lambda>r. \<not> mp_Used r) (\<lambda>r. r\<lparr>mp_Config := config\<rparr>)
       (\<lambda>r. r\<lparr>mp_Used := True, mp_Config := config\<rparr>)"

definition StoreManagedPeer ::
  "ESPNowPeerConfig \<Rightarrow> ('h, 'm, 'o, 'q, 'w) ESPNowTransport
     \<Rightarrow> bool \<times> ('h, 'm, 'o, 'q, 'w) ESPNowTransport" where
  "StoreManagedPeer config t =
     (case store_managed (pc_Address config) config (t_managedPeers t) of
        None \<Rightarrow> (False, t)
      | Some peers \<Rightarrow> (True, t\<lparr>t_managedPeers := peers\<rparr>))"

definition forget_managed :: "MacAddress \<Rightarrow> ManagedPeerRecord list \<Rightarrow> ManagedPeerRecord list" where
  "forget_managed address = update_first (is_managed address) (\<lambda>_. ManagedPeerRecord_default)"

definition ForgetManagedPeer ::
  "MacAddress \<Rightarrow> ('h, 'm, 'o, 'q, 'w) ESPNowTransport \<Rightarrow> ('h, 'm, 'o, 'q, 'w) ESPNowTransport" where
  "ForgetManagedPeer address t = t\<lparr>t_managedPeers := forget_managed address (t_managedPeers t)\<rparr>"

definition CopyManagedPeerConfigs :: "('h, 'm, 'o, 'q, 'w) ESPNowTransport \<Rightarrow> ESPNowPeerConfig list" where
  "CopyManagedPeerConfigs t = map mp_Config (filter mp_Used (t_managedPeers t))"

definition program_info ::
  "ESPNowPeerConfig \<Rightarrow> wifi_interface \<Rightarrow> esp_now_peer_info \<Rightarrow> esp_now_peer_info" where
  "program_info config interface peer =
     peer\<lparr>pi_peer_addr := pc_Address config, pi_channel := pc_Channel config, pi_ifidx := interface,
       pi_encrypt := pc_Encrypt config,
       pi_lmk := (if pc_Encrypt config then take 16 (pc_LocalMasterKey config) else replicate 16 0)\<rparr>"

definition ProgramPeerNativeLocked ::
  "('q, 'w) native_api \<Rightarrow> ESPNowPeerConfig \<Rightarrow> bool \<Rightarrow> ('h, 'm, 'o, 'q, 'w) ESPNowTransport
     \<Rightarrow> bool \<times> ('h, 'm, 'o, 'q, 'w) ESPNowTransport" where
  "ProgramPeerNativeLocked api config notifyAdded t =
     (let existed = na_is_peer_exist api (pc_Address config) (t_native t);
          (e, peer) = (if existed then na_get_peer api (pc_Address config) (t_native t)
                       else (ESP_OK, peer_info_default)) in
      if existed \<and> e \<noteq> ESP_OK then (False, t)
      else
        let peer = program_info config (ResolvePeerInterface api config t) peer;
            (result, t) = (if existed then native (na_mod_peer api peer) t
                           else native (na_add_peer api peer) t) in
        if result \<noteq> ESP_OK then (False, t)
        else if notifyAdded \<and> \<not> existed then (True, notify api (OnPeerAdded (pc_Address config)) t)
        else (True, t))"

fun reconcile_loop ::
  "('q, 'w) native_api \<Rightarrow> ESPNowPeerConfig list \<Rightarrow> bool \<Rightarrow> ('h, 'm, 'o, 'q, 'w) ESPNowTransport
     \<Rightarrow> bool \<times> ('h, 'm, 'o, 'q, 'w) ESPNowTransport" where
  "reconcile_loop api [] success t = (success, t)"
| "reconcile_loop api (config # configs) success t =
     (case ProgramPeerNativeLocked api config False t of
        (ok, t') \<Rightarrow> reconcile_loop api configs (success \<and> ok) t')"

definition ReconcileManagedPeersLocked ::
  "('q, 'w) native_api \<Rightarrow> ('h, 'm, 'o, 'q, 'w) ESPNowTransport
     \<Rightarrow> bool \<times> ('h, 'm, 'o, 'q, 'w) ESPNowTransport" where
  "ReconcileManagedPeersLocked api t =
     (if t_nativeSuspended t then (False, t)
      else reconcile_loop api (CopyManagedPeerConfigs t) True t)"

definition ReinitializeNativeStateLocked ::
  "('q, 'w) native_api \<Rightarrow> ('h, 'm, 'o, 'q, 'w) ESPNowTransport
     \<Rightarrow> bool \<times> ('h, 'm, 'o, 'q, 'w) ESPNowTransport" where
  "ReinitializeNativeStateLocked api t =
     (if \<not> t_initialized t then (False, t)
      else
        let t = t\<lparr>t_callbackInstance := False\<rparr>;
            t = t\<lparr>t_native := na_unregister_recv_cb api (t_native t)\<rparr>;
            (_, t) = native (na_deinit api) t;
            (e, t) = native (na_init api) t in
        if e \<noteq> ESP_OK then (False, t)
        else
          let t = t\<lparr>t_callbackInstance := True\<rparr>;
              (e, t) = native (na_register_recv_cb api) t in
          if e \<noteq> ESP_OK then
            (let t = t\<lparr>t_callbackInstance := False\<rparr>; (_, t) = native (na_deinit api) t in (False, t))
          else ReconcileManagedPeersLocked api (t\<lparr>t_nativeSuspended := False\<rparr>))"


section \<open>Receiving\<close>

text \<open>
  The native receive callback: \<open>len\<close> is the \<^verbatim>\<open>int\<close> length the driver passes with \<open>data\<close>.
\<close>

definition received_frame :: "byte list \<Rightarrow> u64 \<Rightarrow> WireHeader \<Rightarrow> byte list \<Rightarrow> ESPNowReceivedFrame" where
  "received_frame source now header payload =
     ReceivedFrame_default\<lparr>rf_Source := MacAddress_new (Some source),
       rf_ReceiveMonotonicNanoseconds := now, rf_Protocol := wh_Protocol header,
       rf_PayloadLength := wh_PayloadLength header,
       rf_Payload := (if wh_PayloadLength header \<noteq> 0
         then blit 0 payload (replicate MaximumFrameSize 0) else replicate MaximumFrameSize 0)\<rparr>"

definition QueueReceivedData ::
  "('q, 'w) native_api \<Rightarrow> byte list option \<Rightarrow> byte list option \<Rightarrow> byte list option \<Rightarrow> int
     \<Rightarrow> ('h, 'm, 'o, 'q, 'w) ESPNowTransport \<Rightarrow> ('h, 'm, 'o, 'q, 'w) ESPNowTransport" where
  "QueueReceivedData api source destination data len t =
     (if \<not> t_callbackInstance t \<or> \<not> t_initialized t then t
      else case (t_receiveQueue t, source, data) of
        (Some queue, Some src, Some bytes) \<Rightarrow>
          (case parse_frame bytes len of
             None \<Rightarrow> t
           | Some (header, payload) \<Rightarrow>
               let (now, t) = native (na_now api) t;
                   interface = ResolveLocalInterface api destination (t_native t);
                   frame = \<lparr>cf_Received = received_frame src now header payload,
                            cf_LocalInterface = (case interface of None \<Rightarrow> WIFI_IF_STA | Some i \<Rightarrow> i),
                            cf_HasLocalInterface = (interface \<noteq> None)\<rparr>;
                   (ok, queue) = na_queue_send api frame queue;
                   t = t\<lparr>t_receiveQueue := Some queue\<rparr> in
               if ok then t
               else t\<lparr>t_receiveQueueRejectedCount := t_receiveQueueRejectedCount t + 1\<rparr>)
      | _ \<Rightarrow> t)"

text \<open>The callback of ESP-IDF 5: \<open>info\<close> carries the source and destination addresses.\<close>

definition ReceiveCallback ::
  "('q, 'w) native_api \<Rightarrow> (byte list option \<times> byte list option) option \<Rightarrow> byte list option \<Rightarrow> int
     \<Rightarrow> ('h, 'm, 'o, 'q, 'w) ESPNowTransport \<Rightarrow> ('h, 'm, 'o, 'q, 'w) ESPNowTransport" where
  "ReceiveCallback api info data len t =
     QueueReceivedData api (case info of None \<Rightarrow> None | Some (src, _) \<Rightarrow> src)
       (case info of None \<Rightarrow> None | Some (_, des) \<Rightarrow> des) data len t"

definition find_handler :: "byte \<Rightarrow> 'h HandlerRecord list \<Rightarrow> 'h option" where
  "find_handler protocol hs =
     (case List.find (\<lambda>r. hr_Handler r \<noteq> None \<and> hr_Protocol r = protocol) hs of
        None \<Rightarrow> None | Some r \<Rightarrow> hr_Handler r)"

definition ProcessCallbackFrame ::
  "('q, 'w) native_api
     \<Rightarrow> ('h \<Rightarrow> ESPNowReceivedFrame \<Rightarrow> ('h, 'm, 'o, 'q, 'w) ESPNowTransport \<Rightarrow> ('h, 'm, 'o, 'q, 'w) ESPNowTransport)
     \<Rightarrow> CallbackFrame \<Rightarrow> ('h, 'm, 'o, 'q, 'w) ESPNowTransport \<Rightarrow> ('h, 'm, 'o, 'q, 'w) ESPNowTransport" where
  "ProcessCallbackFrame api run frame t =
     (let received = cf_Received frame;
          t = (if cf_HasLocalInterface frame
               then RememberPeerInterface api (rf_Source received) (cf_LocalInterface frame) t else t);
          t = notify api (OnFrameReceived (rf_Source received) (rf_Protocol received)
                (unat (rf_PayloadLength received)) (rf_ReceiveMonotonicNanoseconds received)) t in
      case find_handler (rf_Protocol received) (t_handlers t) of
        None \<Rightarrow> t
      | Some handler \<Rightarrow> run handler received t)"

text \<open>
  The \<^verbatim>\<open>while (Receive)\<close> loop of the worker. It ends when the queue is empty, which depends on the
  queue and on what the handlers do, so the loop is a partial function: \<^const>\<open>None\<close> is ``does not
  return''.
\<close>

partial_function (option) drain_queue ::
  "('q, 'w) native_api
     \<Rightarrow> ('h \<Rightarrow> ESPNowReceivedFrame \<Rightarrow> ('h, 'm, 'o, 'q, 'w) ESPNowTransport \<Rightarrow> ('h, 'm, 'o, 'q, 'w) ESPNowTransport)
     \<Rightarrow> ('h, 'm, 'o, 'q, 'w) ESPNowTransport \<Rightarrow> ('h, 'm, 'o, 'q, 'w) ESPNowTransport option" where
  "drain_queue api run t =
     (case t_receiveQueue t of
        None \<Rightarrow> Some t
      | Some queue \<Rightarrow>
          (case na_queue_receive api queue of
             None \<Rightarrow> Some t
           | Some (frame, queue') \<Rightarrow>
               drain_queue api run (ProcessCallbackFrame api run frame (t\<lparr>t_receiveQueue := Some queue'\<rparr>))))"

definition active_maintenance :: "('o, 'm) MaintenanceRecord list \<Rightarrow> 'm list" where
  "active_maintenance rs =
     take ESPRESSIO_ESPNOW_MAX_MAINTENANCE_HANDLERS
       (map (\<lambda>r. the (mr_Handler r)) (filter (\<lambda>r. mr_Owner r \<noteq> None \<and> mr_Handler r \<noteq> None) rs))"

definition ProcessWorkerIteration ::
  "('q, 'w) native_api
     \<Rightarrow> ('h \<Rightarrow> ESPNowReceivedFrame \<Rightarrow> ('h, 'm, 'o, 'q, 'w) ESPNowTransport \<Rightarrow> ('h, 'm, 'o, 'q, 'w) ESPNowTransport)
     \<Rightarrow> ('m \<Rightarrow> u64 \<Rightarrow> ('h, 'm, 'o, 'q, 'w) ESPNowTransport \<Rightarrow> ('h, 'm, 'o, 'q, 'w) ESPNowTransport)
     \<Rightarrow> ('h, 'm, 'o, 'q, 'w) ESPNowTransport \<Rightarrow> ('h, 'm, 'o, 'q, 'w) ESPNowTransport option" where
  "ProcessWorkerIteration api run run_m t =
     (case drain_queue api run t of
        None \<Rightarrow> None
      | Some t \<Rightarrow>
          let handlers = active_maintenance (t_maintenanceHandlers t);
              (now, t) = native (na_now api) t;
              nowMilliseconds = now div 1000000 in
          Some (foldl (\<lambda>t handler. run_m handler nowMilliseconds t) t handlers))"

text \<open>The worker's \<^verbatim>\<open>Iterate\<close>: stack telemetry, then one iteration.\<close>

definition worker_telemetry :: "u32 \<Rightarrow> TransportWorker \<Rightarrow> TransportWorker" where
  "worker_telemetry freeBytes worker =
     (if tw_minimumFreeStackBytes worker = 0 \<or> freeBytes < tw_minimumFreeStackBytes worker
      then worker\<lparr>tw_minimumFreeStackBytes := freeBytes\<rparr> else worker)"

definition Iterate ::
  "('q, 'w) native_api
     \<Rightarrow> ('h \<Rightarrow> ESPNowReceivedFrame \<Rightarrow> ('h, 'm, 'o, 'q, 'w) ESPNowTransport \<Rightarrow> ('h, 'm, 'o, 'q, 'w) ESPNowTransport)
     \<Rightarrow> ('m \<Rightarrow> u64 \<Rightarrow> ('h, 'm, 'o, 'q, 'w) ESPNowTransport \<Rightarrow> ('h, 'm, 'o, 'q, 'w) ESPNowTransport)
     \<Rightarrow> ('h, 'm, 'o, 'q, 'w) ESPNowTransport \<Rightarrow> ('h, 'm, 'o, 'q, 'w) ESPNowTransport option" where
  "Iterate api run run_m t =
     (let (freeBytes, t) = native (na_free_stack api) t in
      ProcessWorkerIteration api run run_m
        (t\<lparr>t_worker := map_option (worker_telemetry freeBytes) (t_worker t)\<rparr>))"


section \<open>Lifecycle\<close>

definition CleanupFailedInitialization ::
  "('q, 'w) native_api \<Rightarrow> ('h, 'm, 'o, 'q, 'w) ESPNowTransport \<Rightarrow> ('h, 'm, 'o, 'q, 'w) ESPNowTransport" where
  "CleanupFailedInitialization api t =
     (let t = t\<lparr>t_nativeSuspended := True, t_callbackInstance := False\<rparr>;
          t = t\<lparr>t_native := na_unregister_recv_cb api (t_native t)\<rparr>;
          (_, t) = native (na_deinit api) t;
          t = (if t_worker t \<noteq> None
               then t\<lparr>t_native := na_worker_shutdown api (t_native t), t_worker := None\<rparr> else t) in
      t\<lparr>t_receiveQueue := None, t_initialized := False\<rparr>)"

text \<open>
  \<^verbatim>\<open>Initialize\<close> is split at its stages, from the last to the first: the start of the worker, the native
  stack, the worker, the queue, the radio, and the checks. \<open>initialization_failed\<close> is the \<^verbatim>\<open>InitializationFailed(); return
  false;\<close> every stage ends with when it fails.
\<close>

definition initialization_failed ::
  "('q, 'w) native_api \<Rightarrow> ('h, 'm, 'o, 'q, 'w) ESPNowTransport \<Rightarrow> bool \<times> ('h, 'm, 'o, 'q, 'w) ESPNowTransport" where
  "initialization_failed api t = (False, notify api OnInitializationFailed t)"

definition worker_status_ok :: "thread_status \<Rightarrow> bool" where
  "worker_status_ok s \<longleftrightarrow> s = ThreadSuccess \<or> s = ThreadAlreadyInitialized"

definition start_worker ::
  "('q, 'w) native_api \<Rightarrow> ('h, 'm, 'o, 'q, 'w) ESPNowTransport \<Rightarrow> bool \<times> ('h, 'm, 'o, 'q, 'w) ESPNowTransport" where
  "start_worker api t =
     (let t = t\<lparr>t_nativeSuspended := False, t_lastSendFailure := NoFailure,
                t_lastSendNativeError := ESP_OK, t_receiveQueueRejectedCount := 0,
                t_radioBinding := \<lparr>rb_PreferredInterface = Auto, rb_Channel = tc_Channel (t_config t),
                                   rb_Available = True\<rparr>,
                t_initialized := True\<rparr>;
          (status, t) = native (na_worker_start api) t in
      if \<not> worker_status_ok status
      then initialization_failed api (CleanupFailedInitialization api t)
      else (True, notify api OnInitialized t))"

definition initialize_native ::
  "('q, 'w) native_api \<Rightarrow> ('h, 'm, 'o, 'q, 'w) ESPNowTransport \<Rightarrow> bool \<times> ('h, 'm, 'o, 'q, 'w) ESPNowTransport" where
  "initialize_native api t =
     (let (e, t) = native (na_init api) t in
      if e \<noteq> ESP_OK then initialization_failed api (CleanupFailedInitialization api t)
      else
        let t = t\<lparr>t_callbackInstance := True\<rparr>;
            (e, t) = native (na_register_recv_cb api) t in
        if e \<noteq> ESP_OK then initialization_failed api (CleanupFailedInitialization api t)
        else start_worker api t)"

definition initialize_worker ::
  "('q, 'w) native_api \<Rightarrow> ('h, 'm, 'o, 'q, 'w) ESPNowTransport \<Rightarrow> bool \<times> ('h, 'm, 'o, 'q, 'w) ESPNowTransport" where
  "initialize_worker api t =
     (let (ok, t) = native (na_alloc api) t in
      if \<not> ok then initialization_failed api (t\<lparr>t_receiveQueue := None\<rparr>)
      else
        let t = t\<lparr>t_worker := Some \<lparr>tw_minimumFreeStackBytes = 0\<rparr>\<rparr>;
            (status, t) = native (na_worker_initialize api (t_config t)) t in
        if \<not> worker_status_ok status
        then initialization_failed api (CleanupFailedInitialization api t)
        else initialize_native api t)"

definition initialize_queue ::
  "('q, 'w) native_api \<Rightarrow> ('h, 'm, 'o, 'q, 'w) ESPNowTransport \<Rightarrow> bool \<times> ('h, 'm, 'o, 'q, 'w) ESPNowTransport" where
  "initialize_queue api t =
     (let (queue, t) = native (na_queue_create api (tc_ReceiveQueueLength (t_config t))) t;
          t = t\<lparr>t_receiveQueue := queue\<rparr> in
      if queue = None then initialization_failed api t else initialize_worker api t)"

definition initialize_radio ::
  "('q, 'w) native_api \<Rightarrow> ('h, 'm, 'o, 'q, 'w) ESPNowTransport \<Rightarrow> bool \<times> ('h, 'm, 'o, 'q, 'w) ESPNowTransport" where
  "initialize_radio api t =
     (let config = t_config t;
          t = (if tc_InitializeWiFi config
               then t\<lparr>t_native := na_wifi_mode_sta api (t_native t)\<rparr> else t);
          (e, t) = (if tc_Channel config \<noteq> 0
                    then native (na_wifi_set_channel api (tc_Channel config)) t else (ESP_OK, t)) in
      if e \<noteq> ESP_OK then initialization_failed api t else initialize_queue api t)"

definition Initialize ::
  "('q, 'w) native_api \<Rightarrow> ESPNowTransportConfig \<Rightarrow> ('h, 'm, 'o, 'q, 'w) ESPNowTransport \<Rightarrow> bool \<times> ('h, 'm, 'o, 'q, 'w) ESPNowTransport" where
  "Initialize api config t =
     (if t_initialized t then (True, t)
      else
        let (ok, t) = EnsureRuntimeStorage api t in
        if \<not> ok then (False, t)
        else
          let t = t\<lparr>t_config := config\<rparr> in
          if tc_WorkerIterationIntervalMilliseconds config = 0 \<or> tc_ReceiveQueueLength config = 0
          then initialization_failed api t
          else initialize_radio api t)"

definition Shutdown ::
  "('q, 'w) native_api \<Rightarrow> ('h, 'm, 'o, 'q, 'w) ESPNowTransport \<Rightarrow> ('h, 'm, 'o, 'q, 'w) ESPNowTransport" where
  "Shutdown api t =
     (if \<not> t_initialized t then t
      else
        let t = t\<lparr>t_initialized := False, t_nativeSuspended := True\<rparr>;
            t = t\<lparr>t_native := na_unregister_recv_cb api (t_native t), t_callbackInstance := False\<rparr>;
            (_, t) = native (na_deinit api) t;
            t = (if t_worker t \<noteq> None
                 then t\<lparr>t_native := na_worker_shutdown api (t_native t), t_worker := None\<rparr> else t);
            t = t\<lparr>t_receiveQueue := None,
                  t_handlers := map (\<lambda>_. HandlerRecord_default) (t_handlers t),
                  t_maintenanceHandlers := map (\<lambda>_. MaintenanceRecord_default) (t_maintenanceHandlers t),
                  t_peerInterfaceHints := map (\<lambda>_. PeerInterfaceHint_default) (t_peerInterfaceHints t),
                  t_managedPeers := map (\<lambda>_. ManagedPeerRecord_default) (t_managedPeers t),
                  t_radioBinding := RadioBinding_default\<lparr>rb_Available := False\<rparr>\<rparr> in
        if t_observable t then notify api OnShutdown t else t)"


section \<open>Queries\<close>

definition GetReceiveTaskMinimumFreeStackBytes :: "('h, 'm, 'o, 'q, 'w) ESPNowTransport \<Rightarrow> u32" where
  "GetReceiveTaskMinimumFreeStackBytes t =
     (case t_worker t of None \<Rightarrow> 0 | Some worker \<Rightarrow> tw_minimumFreeStackBytes worker)"

definition GetMonotonicTimestampNanoseconds ::
  "('q, 'w) native_api \<Rightarrow> ('h, 'm, 'o, 'q, 'w) ESPNowTransport \<Rightarrow> u64 \<times> ('h, 'm, 'o, 'q, 'w) ESPNowTransport" where
  "GetMonotonicTimestampNanoseconds api t = native (na_now api) t"

definition GetLastSendResult :: "('h, 'm, 'o, 'q, 'w) ESPNowTransport \<Rightarrow> ESPNowSendResult" where
  "GetLastSendResult t =
     \<lparr>sr_Success = (t_lastSendFailure t = NoFailure \<and> t_lastSendNativeError t = ESP_OK),
      sr_Failure = t_lastSendFailure t, sr_NativeError = t_lastSendNativeError t\<rparr>"

definition GetLocalEndpointAddress ::
  "('q, 'w) native_api \<Rightarrow> ESPNowWiFiInterface \<Rightarrow> ('h, 'm, 'o, 'q, 'w) ESPNowTransport \<Rightarrow> MacAddress" where
  "GetLocalEndpointAddress api interface t =
     (let selected = (case interface of
            Auto \<Rightarrow> (case rb_PreferredInterface (t_radioBinding t) of
                AccessPoint \<Rightarrow> WIFI_IF_AP
              | Station \<Rightarrow> WIFI_IF_STA
              | Auto \<Rightarrow> CurrentDefaultInterface api (t_native t))
          | AccessPoint \<Rightarrow> ExplicitInterface interface
          | Station \<Rightarrow> ExplicitInterface interface) in
      case na_wifi_get_mac api selected (t_native t) of
        (e, address) \<Rightarrow>
          if e = ESP_OK then MacAddress_new (Some address) else MacAddress 0 0 0 0 0 0)"


section \<open>Shared radio\<close>

definition SetRadioAvailable :: "bool \<Rightarrow> ('h, 'm, 'o, 'q, 'w) ESPNowTransport \<Rightarrow> bool \<times> ('h, 'm, 'o, 'q, 'w) ESPNowTransport" where
  "SetRadioAvailable available t =
     (True, t\<lparr>t_radioBinding := (t_radioBinding t)\<lparr>rb_Available := available\<rparr>\<rparr>)"

definition SuspendNativeForRadioTransition ::
  "('q, 'w) native_api \<Rightarrow> ('h, 'm, 'o, 'q, 'w) ESPNowTransport \<Rightarrow> bool \<times> ('h, 'm, 'o, 'q, 'w) ESPNowTransport" where
  "SuspendNativeForRadioTransition api t =
     (if \<not> t_initialized t then (False, t)
      else
        let (_, t) = SetRadioAvailable False t;
            t = t\<lparr>t_nativeSuspended := True, t_callbackInstance := False\<rparr>;
            t = t\<lparr>t_native := na_unregister_recv_cb api (t_native t)\<rparr>;
            (result, t) = native (na_deinit api) t in
        (result = ESP_OK \<or> result = ESP_ERR_ESPNOW_NOT_INIT, t))"

definition ReconcileManagedPeers ::
  "('q, 'w) native_api \<Rightarrow> ('h, 'm, 'o, 'q, 'w) ESPNowTransport \<Rightarrow> bool \<times> ('h, 'm, 'o, 'q, 'w) ESPNowTransport" where
  "ReconcileManagedPeers api t =
     (if \<not> t_initialized t \<or> t_nativeSuspended t then (False, t)
      else ReconcileManagedPeersLocked api (ClearPeerInterfaceHints t))"

definition ReinitializeNativeState ::
  "('q, 'w) native_api \<Rightarrow> ('h, 'm, 'o, 'q, 'w) ESPNowTransport \<Rightarrow> bool \<times> ('h, 'm, 'o, 'q, 'w) ESPNowTransport" where
  "ReinitializeNativeState api t =
     (if \<not> t_initialized t then (False, t)
      else ReinitializeNativeStateLocked api (ClearPeerInterfaceHints t))"

definition ApplyRadioBinding ::
  "('q, 'w) native_api \<Rightarrow> ESPNowRadioBinding \<Rightarrow> bool \<Rightarrow> ('h, 'm, 'o, 'q, 'w) ESPNowTransport \<Rightarrow> bool \<times> ('h, 'm, 'o, 'q, 'w) ESPNowTransport" where
  "ApplyRadioBinding api binding reinitializeNativeState t =
     (if \<not> t_initialized t then (False, t)
      else
        let t = ClearPeerInterfaceHints (t\<lparr>t_radioBinding := binding\<lparr>rb_Available := False\<rparr>\<rparr>);
            mustReinitialize = (reinitializeNativeState \<or> t_nativeSuspended t);
            (success, t) = (if mustReinitialize then ReinitializeNativeStateLocked api t
                            else ReconcileManagedPeersLocked api t) in
        (success, t\<lparr>t_radioBinding := binding\<lparr>rb_Available := rb_Available binding \<and> success\<rparr>\<rparr>))"


section \<open>Handlers\<close>

text \<open>
  Registration allocates the shared handler outside any \<^verbatim>\<open>try\<close>: \<^const>\<open>None\<close> as a result is the exception
  of that allocation leaving the method, before any table changed.
\<close>

definition store_handler :: "byte \<Rightarrow> 'h \<Rightarrow> 'h HandlerRecord list \<Rightarrow> 'h HandlerRecord list option" where
  "store_handler protocol handler =
     two_pass_upsert (\<lambda>r. hr_Handler r \<noteq> None \<and> hr_Protocol r = protocol) (\<lambda>r. \<not> hr_Handler r \<noteq> None)
       (\<lambda>r. r\<lparr>hr_Handler := Some handler\<rparr>)
       (\<lambda>r. r\<lparr>hr_Protocol := protocol, hr_Handler := Some handler\<rparr>)"

definition RegisterProtocolHandler ::
  "('q, 'w) native_api \<Rightarrow> byte \<Rightarrow> 'h option \<Rightarrow> ('h, 'm, 'o, 'q, 'w) ESPNowTransport \<Rightarrow> bool option \<times> ('h, 'm, 'o, 'q, 'w) ESPNowTransport" where
  "RegisterProtocolHandler api protocol handler t =
     (case handler of
        None \<Rightarrow> (Some False, t)
      | Some h \<Rightarrow>
          let (ok, t) = EnsureRuntimeStorage api t in
          if \<not> ok then (Some False, t)
          else
            let (allocated, t) = native (na_alloc api) t in
            if \<not> allocated then (None, t)
            else case store_handler protocol h (t_handlers t) of
                None \<Rightarrow> (Some False, t)
              | Some hs \<Rightarrow> (Some True, t\<lparr>t_handlers := hs\<rparr>))"

definition remove_handler :: "byte \<Rightarrow> 'h HandlerRecord list \<Rightarrow> 'h HandlerRecord list" where
  "remove_handler protocol =
     update_first (\<lambda>r. hr_Handler r \<noteq> None \<and> hr_Protocol r = protocol) (\<lambda>_. HandlerRecord_default)"

definition UnregisterProtocolHandler :: "byte \<Rightarrow> ('h, 'm, 'o, 'q, 'w) ESPNowTransport \<Rightarrow> ('h, 'm, 'o, 'q, 'w) ESPNowTransport" where
  "UnregisterProtocolHandler protocol t = t\<lparr>t_handlers := remove_handler protocol (t_handlers t)\<rparr>"

definition store_maintenance ::
  "'o \<Rightarrow> 'm \<Rightarrow> ('o, 'm) MaintenanceRecord list \<Rightarrow> ('o, 'm) MaintenanceRecord list option" where
  "store_maintenance owner handler =
     two_pass_upsert (\<lambda>r. mr_Owner r = Some owner) (\<lambda>r. mr_Owner r = None)
       (\<lambda>r. r\<lparr>mr_Handler := Some handler\<rparr>)
       (\<lambda>r. r\<lparr>mr_Owner := Some owner, mr_Handler := Some handler\<rparr>)"

definition RegisterMaintenanceHandler ::
  "('q, 'w) native_api \<Rightarrow> 'o option \<Rightarrow> 'm option \<Rightarrow> ('h, 'm, 'o, 'q, 'w) ESPNowTransport \<Rightarrow> bool option \<times> ('h, 'm, 'o, 'q, 'w) ESPNowTransport" where
  "RegisterMaintenanceHandler api owner handler t =
     (case (owner, handler) of
        (Some ow, Some h) \<Rightarrow>
          let (ok, t) = EnsureRuntimeStorage api t in
          if \<not> ok then (Some False, t)
          else
            let (allocated, t) = native (na_alloc api) t in
            if \<not> allocated then (None, t)
            else (case store_maintenance ow h (t_maintenanceHandlers t) of
                None \<Rightarrow> (Some False, t)
              | Some ms \<Rightarrow> (Some True, t\<lparr>t_maintenanceHandlers := ms\<rparr>))
      | _ \<Rightarrow> (Some False, t))"

definition remove_maintenance ::
  "'o \<Rightarrow> ('o, 'm) MaintenanceRecord list \<Rightarrow> ('o, 'm) MaintenanceRecord list" where
  "remove_maintenance owner = update_first (\<lambda>r. mr_Owner r = Some owner) (\<lambda>_. MaintenanceRecord_default)"

definition UnregisterMaintenanceHandler :: "'o option \<Rightarrow> ('h, 'm, 'o, 'q, 'w) ESPNowTransport \<Rightarrow> ('h, 'm, 'o, 'q, 'w) ESPNowTransport" where
  "UnregisterMaintenanceHandler owner t =
     (case owner of
        None \<Rightarrow> t
      | Some ow \<Rightarrow> t\<lparr>t_maintenanceHandlers := remove_maintenance ow (t_maintenanceHandlers t)\<rparr>)"


section \<open>Peers\<close>

definition AddPeer ::
  "('q, 'w) native_api \<Rightarrow> ESPNowPeerConfig \<Rightarrow> ('h, 'm, 'o, 'q, 'w) ESPNowTransport \<Rightarrow> bool \<times> ('h, 'm, 'o, 'q, 'w) ESPNowTransport" where
  "AddPeer api config t =
     (if \<not> t_initialized t \<or> IsZero (pc_Address config) then (False, t)
      else
        let (stored, t) = StoreManagedPeer config t in
        if \<not> stored then (False, t)
        else if t_nativeSuspended t then (True, t)
        else
          let (ok, t) = ProgramPeerNativeLocked api config True t in
          if \<not> ok then (False, ForgetManagedPeer (pc_Address config) t) else (True, t))"

definition RemovePeer ::
  "('q, 'w) native_api \<Rightarrow> MacAddress \<Rightarrow> ('h, 'm, 'o, 'q, 'w) ESPNowTransport \<Rightarrow> bool \<times> ('h, 'm, 'o, 'q, 'w) ESPNowTransport" where
  "RemovePeer api address t =
     (if \<not> t_initialized t \<or> IsZero address then (False, t)
      else if t_nativeSuspended t
      then (True, ForgetManagedPeer address (ClearPeerInterfaceHint address t))
      else
        let existed = na_is_peer_exist api address (t_native t);
            (result, t) = native (na_del_peer api address) t;
            success = (result = ESP_OK \<or> result = ESP_ERR_ESPNOW_NOT_FOUND);
            t = (if success then ForgetManagedPeer address (ClearPeerInterfaceHint address t) else t);
            t = (if success \<and> existed then notify api (OnPeerRemoved address) t else t) in
        (success, t))"


section \<open>Sending\<close>

definition finish_send ::
  "('q, 'w) native_api \<Rightarrow> MacAddress \<Rightarrow> byte \<Rightarrow> nat \<Rightarrow> ESPNowSendResult \<times> ('h, 'm, 'o, 'q, 'w) ESPNowTransport
     \<Rightarrow> ESPNowSendResult \<times> ('h, 'm, 'o, 'q, 'w) ESPNowTransport" where
  "finish_send api destination protocol payloadLength = (\<lambda>(result, t).
     let t = t\<lparr>t_lastSendFailure := sr_Failure result, t_lastSendNativeError := sr_NativeError result\<rparr>;
         t = (if sr_Success result \<and> t_observable t
              then notify api (OnSendAccepted destination protocol payloadLength) t
              else if t_observable t
              then notify api (OnSendFailedDetailed destination protocol payloadLength
                     (sr_Failure result) (sr_NativeError result)) t
              else t) in
     (result, t))"

definition SendDetailed ::
  "('q, 'w) native_api \<Rightarrow> MacAddress \<Rightarrow> byte \<Rightarrow> byte list option \<Rightarrow> nat \<Rightarrow> ('h, 'm, 'o, 'q, 'w) ESPNowTransport
     \<Rightarrow> ESPNowSendResult \<times> ('h, 'm, 'o, 'q, 'w) ESPNowTransport" where
  "SendDetailed api destination protocol payload payloadLength t =
     finish_send api destination protocol payloadLength
       (if \<not> t_initialized t then
          (SendResult_default\<lparr>sr_Failure := NotInitialized, sr_NativeError := ESP_ERR_ESPNOW_NOT_INIT\<rparr>, t)
        else if IsZero destination \<or> payloadLength > MaximumFrameSize - sizeof_WireHeader then
          (SendResult_default\<lparr>sr_Failure := InvalidArgument, sr_NativeError := ESP_ERR_ESPNOW_ARG\<rparr>, t)
        else if t_nativeSuspended t \<or> \<not> rb_Available (t_radioBinding t) then
          (SendResult_default\<lparr>sr_Failure := RadioUnavailable, sr_NativeError := ESP_ERR_INVALID_STATE\<rparr>, t)
        else
          let (e, t) = native (na_send api destination (build_frame protocol payload payloadLength)) t in
          (\<lparr>sr_Success = (e = ESP_OK), sr_Failure = ClassifySendFailure e, sr_NativeError = e\<rparr>, t))"

definition Send ::
  "('q, 'w) native_api \<Rightarrow> MacAddress \<Rightarrow> byte \<Rightarrow> byte list option \<Rightarrow> nat \<Rightarrow> ('h, 'm, 'o, 'q, 'w) ESPNowTransport \<Rightarrow> bool \<times> ('h, 'm, 'o, 'q, 'w) ESPNowTransport" where
  "Send api destination protocol payload payloadLength t =
     (case SendDetailed api destination protocol payload payloadLength t of
        (result, t) \<Rightarrow> (sr_Success result, t))"

end
