(* ===== verification/Transport_Props.thy ===== *)
theory Transport_Props
  imports Transport
begin

text \<open>
  Properties of \<^verbatim>\<open>ESPNowTransport\<close>: its four slot tables interpret the bounded-table contract, every
  public method, the native callback and the worker keep the transport's invariant, and the send,
  receive, peer and radio paths behave as documented. What the properties assume of ESP-IDF or the
  queue is named (\<open>bounded_fifo\<close>, \<open>peer_table_contract\<close>); the concrete platform at the end shows that
  these hypotheses can hold.
\<close>

section \<open>The tables\<close>

definition handler_used :: "'h HandlerRecord \<Rightarrow> bool" where "handler_used r \<longleftrightarrow> hr_Handler r \<noteq> None"
definition maintenance_used :: "('o, 'm) MaintenanceRecord \<Rightarrow> bool" where
  "maintenance_used r \<longleftrightarrow> mr_Owner r \<noteq> None"

type_synonym peer_settings = "byte \<times> ESPNowWiFiInterface \<times> bool \<times> byte list"

definition peer_settings :: "ESPNowPeerConfig \<Rightarrow> peer_settings" where
  "peer_settings c = (pc_Channel c, pc_Interface c, pc_Encrypt c, pc_LocalMasterKey c)"

fun peer_config :: "MacAddress \<Rightarrow> peer_settings \<Rightarrow> ESPNowPeerConfig" where
  "peer_config a (ch, i, e, key) =
     \<lparr>pc_Address = a, pc_Channel = ch, pc_Interface = i, pc_Encrypt = e, pc_LocalMasterKey = key\<rparr>"

lemma peer_config_settings [simp]: "peer_config (pc_Address c) (peer_settings c) = c"
  by (simp add: peer_settings_def)

lemma peer_config_fields [simp]:
  "pc_Address (peer_config a s) = a" "peer_settings (peer_config a s) = s"
  by (cases s; simp add: peer_settings_def)+

interpretation handler_slots: slot_vector handler_used hr_Protocol "\<lambda>r. the (hr_Handler r)"
  "\<lambda>k v r. r\<lparr>hr_Handler := Some v\<rparr>" "\<lambda>k v r. r\<lparr>hr_Protocol := k, hr_Handler := Some v\<rparr>"
  HandlerRecord_default
  by unfold_locales (auto simp: handler_used_def record_defaults)

interpretation maintenance_slots: slot_vector maintenance_used "\<lambda>r. the (mr_Owner r)"
  "\<lambda>r. the (mr_Handler r)"
  "\<lambda>k v r. r\<lparr>mr_Handler := Some v\<rparr>" "\<lambda>k v r. r\<lparr>mr_Owner := Some k, mr_Handler := Some v\<rparr>"
  MaintenanceRecord_default
  by unfold_locales (auto simp: maintenance_used_def record_defaults)

interpretation hint_slots: slot_vector ph_Used ph_Address ph_Interface
  "\<lambda>k v r. r\<lparr>ph_Interface := v\<rparr>" "\<lambda>k v r. r\<lparr>ph_Used := True, ph_Address := k, ph_Interface := v\<rparr>"
  PeerInterfaceHint_default
  by unfold_locales (auto simp: record_defaults)

interpretation managed_slots: slot_vector mp_Used "\<lambda>r. pc_Address (mp_Config r)"
  "\<lambda>r. peer_settings (mp_Config r)"
  "\<lambda>k v r. r\<lparr>mp_Config := peer_config k v\<rparr>" "\<lambda>k v r. r\<lparr>mp_Used := True, mp_Config := peer_config k v\<rparr>"
  ManagedPeerRecord_default
  by unfold_locales (auto simp: record_defaults)

abbreviation "handler_map \<equiv> slot_lookup handler_used hr_Protocol (\<lambda>r. the (hr_Handler r))"
abbreviation "handlers_ok \<equiv> slots_ok handler_used hr_Protocol"
abbreviation "maintenance_map \<equiv>
  slot_lookup maintenance_used (\<lambda>r. the (mr_Owner r)) (\<lambda>r. the (mr_Handler r))"
abbreviation "maintenance_ok \<equiv> slots_ok maintenance_used (\<lambda>r. the (mr_Owner r))"
abbreviation "hint_map \<equiv> slot_lookup ph_Used ph_Address ph_Interface"
abbreviation "hints_ok \<equiv> slots_ok ph_Used ph_Address"
abbreviation "managed_map \<equiv>
  slot_lookup mp_Used (\<lambda>r. pc_Address (mp_Config r)) (\<lambda>r. peer_settings (mp_Config r))"
abbreviation "managed_ok \<equiv> slots_ok mp_Used (\<lambda>r. pc_Address (mp_Config r))"

text \<open>The source's table operations are the operations of the contract.\<close>

lemma maintenance_test: "(mr_Owner r = Some ow) = (maintenance_used r \<and> the (mr_Owner r) = ow)"
  by (auto simp: maintenance_used_def)

lemma store_handler_table:
  "store_handler p h = two_pass_upsert (\<lambda>r. handler_used r \<and> hr_Protocol r = p) (\<lambda>r. \<not> handler_used r)
     (\<lambda>r. r\<lparr>hr_Handler := Some h\<rparr>) (\<lambda>r. r\<lparr>hr_Protocol := p, hr_Handler := Some h\<rparr>)"
  unfolding store_handler_def handler_used_def ..

lemma remove_handler_table:
  "remove_handler p = update_first (\<lambda>r. handler_used r \<and> hr_Protocol r = p) (\<lambda>_. HandlerRecord_default)"
  unfolding remove_handler_def handler_used_def ..

lemma store_maintenance_table:
  "store_maintenance ow m = two_pass_upsert (\<lambda>r. maintenance_used r \<and> the (mr_Owner r) = ow)
     (\<lambda>r. \<not> maintenance_used r) (\<lambda>r. r\<lparr>mr_Handler := Some m\<rparr>)
     (\<lambda>r. r\<lparr>mr_Owner := Some ow, mr_Handler := Some m\<rparr>)"
  unfolding store_maintenance_def maintenance_test by (simp add: maintenance_used_def)

lemma remove_maintenance_table:
  "remove_maintenance ow = update_first (\<lambda>r. maintenance_used r \<and> the (mr_Owner r) = ow)
     (\<lambda>_. MaintenanceRecord_default)"
  unfolding remove_maintenance_def maintenance_test ..

lemma remember_hint_table:
  "remember_hint a i = two_pass_upsert (\<lambda>r. ph_Used r \<and> ph_Address r = a) (\<lambda>r. \<not> ph_Used r)
     (\<lambda>r. r\<lparr>ph_Interface := i\<rparr>) (\<lambda>r. r\<lparr>ph_Used := True, ph_Address := a, ph_Interface := i\<rparr>)"
  unfolding remember_hint_def is_hint_def by (intro ext scan_upsert_two_pass)

lemma clear_hint_table:
  "clear_hint a = update_first (\<lambda>r. ph_Used r \<and> ph_Address r = a) (\<lambda>_. PeerInterfaceHint_default)"
  unfolding clear_hint_def is_hint_def ..

lemma store_managed_table:
  "store_managed (pc_Address c) c = two_pass_upsert
     (\<lambda>r. mp_Used r \<and> pc_Address (mp_Config r) = pc_Address c) (\<lambda>r. \<not> mp_Used r)
     (\<lambda>r. r\<lparr>mp_Config := peer_config (pc_Address c) (peer_settings c)\<rparr>)
     (\<lambda>r. r\<lparr>mp_Used := True, mp_Config := peer_config (pc_Address c) (peer_settings c)\<rparr>)"
  unfolding store_managed_def is_managed_def peer_config_settings ..

lemma forget_managed_table:
  "forget_managed a = update_first (\<lambda>r. mp_Used r \<and> pc_Address (mp_Config r) = a)
     (\<lambda>_. ManagedPeerRecord_default)"
  unfolding forget_managed_def is_managed_def ..

lemmas table_ops = store_handler_table remove_handler_table store_maintenance_table
  remove_maintenance_table remember_hint_table clear_hint_table store_managed_table forget_managed_table

lemma find_handler_map: "find_handler p hs = handler_map hs p"
  by (induction hs) (auto simp: find_handler_def handler_used_def)

lemma find_hint_map: "FindPeerInterfaceHint a t = hint_map (t_peerInterfaceHints t) a"
  unfolding FindPeerInterfaceHint_def slot_lookup_def is_hint_def ..

lemma slots_ok_blank [simp]:
  "handlers_ok (replicate n HandlerRecord_default)" "handlers_ok (map (\<lambda>_. HandlerRecord_default) hs)"
  "maintenance_ok (replicate n MaintenanceRecord_default)"
  "maintenance_ok (map (\<lambda>_. MaintenanceRecord_default) ms)"
  "hints_ok (replicate n PeerInterfaceHint_default)" "hints_ok (map (\<lambda>_. PeerInterfaceHint_default) is)"
  "managed_ok (replicate n ManagedPeerRecord_default)"
  "managed_ok (map (\<lambda>_. ManagedPeerRecord_default) ps)"
  by (simp_all add: slots_ok_def filter_map o_def handler_used_def maintenance_used_def record_defaults)



section \<open>The invariant\<close>

text \<open>
  Tables have either no storage yet or their configured size, and no key twice. An initialized
  transport has its queue, worker, observers and storage. The native callback can only be bound
  to an initialized transport whose native stack is up. The last send failure and the last native
  error agree.
\<close>

definition tables_ok :: "('h, 'm, 'o, 'q, 'w) ESPNowTransport \<Rightarrow> bool" where
  "tables_ok t \<longleftrightarrow> handlers_ok (t_handlers t) \<and> maintenance_ok (t_maintenanceHandlers t)
     \<and> hints_ok (t_peerInterfaceHints t) \<and> managed_ok (t_managedPeers t)"

definition storage_ready :: "('h, 'm, 'o, 'q, 'w) ESPNowTransport \<Rightarrow> bool" where
  "storage_ready t \<longleftrightarrow> t_observable t
     \<and> length (t_handlers t) = ESPRESSIO_ESPNOW_MAX_PROTOCOL_HANDLERS
     \<and> length (t_maintenanceHandlers t) = ESPRESSIO_ESPNOW_MAX_MAINTENANCE_HANDLERS
     \<and> length (t_peerInterfaceHints t) = ESPRESSIO_ESPNOW_MAX_INTERFACE_HINTS
     \<and> length (t_managedPeers t) = ESPRESSIO_ESPNOW_MAX_MANAGED_PEERS"

definition transport_ok :: "('h, 'm, 'o, 'q, 'w) ESPNowTransport \<Rightarrow> bool" where
  "transport_ok t \<longleftrightarrow> tables_ok t
     \<and> (t_initialized t \<longrightarrow> storage_ready t \<and> t_receiveQueue t \<noteq> None \<and> t_worker t \<noteq> None)
     \<and> (t_callbackInstance t \<longrightarrow> t_initialized t \<and> \<not> t_nativeSuspended t)
     \<and> (t_lastSendFailure t = NoFailure \<longleftrightarrow> t_lastSendNativeError t = ESP_OK)"

lemmas transport_inv_defs = transport_ok_def tables_ok_def storage_ready_def

lemma transport_ok_new [simp]: "transport_ok (Transport_new w)"
  by (simp add: transport_inv_defs Transport_new_def slots_ok_def)

lemma transport_ok_native [simp]: "transport_ok (t\<lparr>t_native := w\<rparr>) = transport_ok t"
  by (simp add: transport_inv_defs)

lemma transport_ok_notify [simp]: "transport_ok (notify api n t) = transport_ok t"
  by (simp add: notify_def)

text \<open>Calls that change nothing but the platform.\<close>

lemma native_same [simp]: "\<exists>w. t = t\<lparr>t_native := w\<rparr>"
  by (rule exI [of _ "t_native t"]) simp

lemma native_eq: "native f t = (fst (f (t_native t)), t\<lparr>t_native := snd (f (t_native t))\<rparr>)"
  by (simp add: native_def split: prod.split)

lemma native_frame: "native f t = (r, t') \<Longrightarrow> \<exists>w. t' = t\<lparr>t_native := w\<rparr>"
  by (auto simp: native_def split: prod.splits)

lemma native_ok [simp]: "transport_ok (snd (native f t)) = transport_ok t"
  by (simp add: native_def split: prod.split)

lemma ProgramPeerNativeLocked_frame:
  "ProgramPeerNativeLocked api c n t = (ok, t') \<Longrightarrow> \<exists>w. t' = t\<lparr>t_native := w\<rparr>"
  by (auto simp: ProgramPeerNativeLocked_def native_def notify_def Let_def split: prod.splits if_splits)

lemma reconcile_loop_frame:
  "reconcile_loop api cs s t = (ok, t') \<Longrightarrow> \<exists>w. t' = t\<lparr>t_native := w\<rparr>"
proof (induction api cs s t rule: reconcile_loop.induct)
  case (1 api success t)
  then show ?case by simp
next
  case (2 api config configs success t)
  obtain b t1 where step: "ProgramPeerNativeLocked api config False t = (b, t1)" by fastforce
  then obtain w where "t1 = t\<lparr>t_native := w\<rparr>" using ProgramPeerNativeLocked_frame by blast
  then show ?case using 2 step by fastforce
qed

lemma ReconcileManagedPeersLocked_frame:
  "ReconcileManagedPeersLocked api t = (ok, t') \<Longrightarrow> \<exists>w. t' = t\<lparr>t_native := w\<rparr>"
  by (auto simp: ReconcileManagedPeersLocked_def split: if_splits dest: reconcile_loop_frame)

lemma ok_of_frame: "transport_ok t \<Longrightarrow> \<exists>w. t' = t\<lparr>t_native := w\<rparr> \<Longrightarrow> transport_ok t'"
  by auto

lemma ReconcileManagedPeersLocked_ok:
  "transport_ok t \<Longrightarrow> transport_ok (snd (ReconcileManagedPeersLocked api t))"
  by (rule ok_of_frame, assumption) (rule ReconcileManagedPeersLocked_frame, rule prod.collapse [symmetric])

lemma ReinitializeNativeStateLocked_ok:
  assumes "transport_ok t"
  shows "transport_ok (snd (ReinitializeNativeStateLocked api t))"
proof (cases "t_initialized t")
  case True
  have up: "transport_ok (snd (ReconcileManagedPeersLocked api t'))"
    if "t' = t\<lparr>t_callbackInstance := cb, t_native := w, t_callbackInstance := True, t_native := w',
      t_nativeSuspended := False\<rparr>" for t' w cb w'
    using ReconcileManagedPeersLocked_ok [of t' api] assms True that by (simp add: transport_inv_defs)
  have down: "transport_ok t'"
    if "t' = t\<lparr>t_native := w, t_callbackInstance := False, t_native := w'\<rparr>" for t' w w'
    using assms that by (simp add: transport_inv_defs)
  show ?thesis
    using True assms up down unfolding ReinitializeNativeStateLocked_def
    by (simp add: native_eq Let_def split_beta)
qed (simp add: assms ReinitializeNativeStateLocked_def)


lemma ensure_vector_cases:
  "ensure_vector api n blank rs w = (ok, rs', w') \<Longrightarrow>
     (rs' = rs \<or> rs' = replicate n blank) \<and> (ok \<longrightarrow> length rs' = n) \<and> (length rs = n \<longrightarrow> ok \<and> rs' = rs)"
  by (auto simp: ensure_vector_def split: if_splits prod.splits)

lemma EnsureObservable_result: "fst (EnsureObservable api t) = t_observable (snd (EnsureObservable api t))"
  by (simp add: EnsureObservable_def split_beta)

lemma EnsureObservable_ok:
  "transport_ok t \<Longrightarrow> transport_ok (snd (EnsureObservable api t))"
  by (auto simp: EnsureObservable_def native_eq split_beta transport_inv_defs)

text \<open>
  What the storage set-up may change: the observable, the platform and tables, and a table only from
  whatever it was to blank slots of its configured number.
\<close>

definition storage_step :: "('h, 'm, 'o, 'q, 'w) ESPNowTransport \<Rightarrow> ('h, 'm, 'o, 'q, 'w) ESPNowTransport \<Rightarrow> bool" where
  "storage_step t t' \<longleftrightarrow>
     t_config t' = t_config t \<and> t_receiveQueue t' = t_receiveQueue t \<and> t_worker t' = t_worker t
     \<and> t_radioBinding t' = t_radioBinding t \<and> t_initialized t' = t_initialized t
     \<and> t_nativeSuspended t' = t_nativeSuspended t \<and> t_lastSendFailure t' = t_lastSendFailure t
     \<and> t_lastSendNativeError t' = t_lastSendNativeError t
     \<and> t_receiveQueueRejectedCount t' = t_receiveQueueRejectedCount t
     \<and> t_callbackInstance t' = t_callbackInstance t
     \<and> t_handlers t' \<in> {t_handlers t, replicate ESPRESSIO_ESPNOW_MAX_PROTOCOL_HANDLERS HandlerRecord_default}
     \<and> t_maintenanceHandlers t' \<in> {t_maintenanceHandlers t,
         replicate ESPRESSIO_ESPNOW_MAX_MAINTENANCE_HANDLERS MaintenanceRecord_default}
     \<and> t_peerInterfaceHints t' \<in> {t_peerInterfaceHints t,
         replicate ESPRESSIO_ESPNOW_MAX_INTERFACE_HINTS PeerInterfaceHint_default}
     \<and> t_managedPeers t' \<in> {t_managedPeers t,
         replicate ESPRESSIO_ESPNOW_MAX_MANAGED_PEERS ManagedPeerRecord_default}"

lemma ensure_handlers_step:
  "storage_step t0 t \<Longrightarrow> storage_step t0 (snd (ensure_handlers api t))"
  by (auto simp: ensure_handlers_def storage_step_def split: prod.split dest!: ensure_vector_cases)

lemma ensure_maintenance_step:
  "storage_step t0 t \<Longrightarrow> storage_step t0 (snd (ensure_maintenance api t))"
  by (auto simp: ensure_maintenance_def storage_step_def split: prod.split dest!: ensure_vector_cases)

lemma ensure_hints_step:
  "storage_step t0 t \<Longrightarrow> storage_step t0 (snd (ensure_hints api t))"
  by (auto simp: ensure_hints_def storage_step_def split: prod.split dest!: ensure_vector_cases)

lemma ensure_managed_step:
  "storage_step t0 t \<Longrightarrow> storage_step t0 (snd (ensure_managed api t))"
  by (auto simp: ensure_managed_def storage_step_def split: prod.split dest!: ensure_vector_cases)

lemma EnsureObservable_step: "storage_step t (snd (EnsureObservable api t))"
  by (simp add: EnsureObservable_def native_eq storage_step_def)

lemma EnsureRuntimeStorage_step: "storage_step t (snd (EnsureRuntimeStorage api t))"
  unfolding EnsureRuntimeStorage_def
  by (intro and_then_rule [where P = "storage_step t"] EnsureObservable_step ensure_handlers_step
      ensure_maintenance_step ensure_hints_step ensure_managed_step)


lemma EnsureRuntimeStorage_ready:
  assumes "fst (EnsureRuntimeStorage api t)"
  shows "storage_ready (snd (EnsureRuntimeStorage api t))"
proof -
  define t0 where "t0 = EnsureObservable api t"
  define t1 where "t1 = and_then t0 (ensure_handlers api)"
  define t2 where "t2 = and_then t1 (ensure_maintenance api)"
  define t3 where "t3 = and_then t2 (ensure_hints api)"
  have fin: "EnsureRuntimeStorage api t = and_then t3 (ensure_managed api)"
    by (simp add: EnsureRuntimeStorage_def t0_def t1_def t2_def t3_def)
  note a3 = and_then_True [OF assms [unfolded fin]]
  note a2 = and_then_True [OF conjunct1 [OF a3, unfolded t3_def], folded t3_def]
  note a1 = and_then_True [OF conjunct1 [OF a2, unfolded t2_def], folded t2_def]
  note a0 = and_then_True [OF conjunct1 [OF a1, unfolded t1_def], folded t1_def]
  have "t_observable (snd t0)" using a0 by (simp add: t0_def EnsureObservable_result)
  then have "t_observable (snd t1) \<and> length (t_handlers (snd t1)) = ESPRESSIO_ESPNOW_MAX_PROTOCOL_HANDLERS"
    using a0 by (auto simp: ensure_handlers_def split: prod.splits dest!: ensure_vector_cases)
  then have "t_observable (snd t2) \<and> length (t_handlers (snd t2)) = ESPRESSIO_ESPNOW_MAX_PROTOCOL_HANDLERS
      \<and> length (t_maintenanceHandlers (snd t2)) = ESPRESSIO_ESPNOW_MAX_MAINTENANCE_HANDLERS"
    using a1 by (auto simp: ensure_maintenance_def split: prod.splits dest!: ensure_vector_cases)
  then have "t_observable (snd t3) \<and> length (t_handlers (snd t3)) = ESPRESSIO_ESPNOW_MAX_PROTOCOL_HANDLERS
      \<and> length (t_maintenanceHandlers (snd t3)) = ESPRESSIO_ESPNOW_MAX_MAINTENANCE_HANDLERS
      \<and> length (t_peerInterfaceHints (snd t3)) = ESPRESSIO_ESPNOW_MAX_INTERFACE_HINTS"
    using a2 by (auto simp: ensure_hints_def split: prod.splits dest!: ensure_vector_cases)
  then show ?thesis
    unfolding fin storage_ready_def using a3
    by (auto simp: ensure_managed_def split: prod.splits dest!: ensure_vector_cases)
qed

lemma EnsureRuntimeStorage_id:
  "storage_ready t \<Longrightarrow> EnsureRuntimeStorage api t = (True, t)"
  by (simp add: EnsureRuntimeStorage_def EnsureObservable_def ensure_vector_def storage_ready_def
      and_then_def ensure_handlers_def ensure_maintenance_def ensure_hints_def ensure_managed_def)

lemma storage_step_ok:
  assumes "transport_ok t" "\<not> t_initialized t" "storage_step t t'"
  shows "transport_ok t'"
  using assms by (auto simp: transport_inv_defs storage_step_def)

lemma EnsureRuntimeStorage_ok:
  assumes "transport_ok t"
  shows "transport_ok (snd (EnsureRuntimeStorage api t))"
proof (cases "t_initialized t")
  case True
  then show ?thesis using assms by (simp add: EnsureRuntimeStorage_id transport_ok_def)
next
  case False
  show ?thesis by (rule storage_step_ok [OF assms False EnsureRuntimeStorage_step])
qed



section \<open>Table operations\<close>

lemma store_handler_spec:
  "handlers_ok hs \<Longrightarrow> store_handler p h hs = Some hs' \<Longrightarrow>
     handlers_ok hs' \<and> length hs' = length hs \<and> handler_map hs' = (handler_map hs)(p \<mapsto> h)"
  unfolding store_handler_table by (rule handler_slots.put_Some)

lemma remove_handler_spec:
  "handlers_ok hs \<Longrightarrow> handlers_ok (remove_handler p hs) \<and> length (remove_handler p hs) = length hs
     \<and> handler_map (remove_handler p hs) = (handler_map hs)(p := None)"
  unfolding remove_handler_table by (rule handler_slots.remove_spec)

lemma store_maintenance_spec:
  "maintenance_ok ms \<Longrightarrow> store_maintenance ow m ms = Some ms' \<Longrightarrow>
     maintenance_ok ms' \<and> length ms' = length ms \<and> maintenance_map ms' = (maintenance_map ms)(ow \<mapsto> m)"
  unfolding store_maintenance_table by (rule maintenance_slots.put_Some)

lemma remove_maintenance_spec:
  "maintenance_ok ms \<Longrightarrow> maintenance_ok (remove_maintenance ow ms)
     \<and> length (remove_maintenance ow ms) = length ms
     \<and> maintenance_map (remove_maintenance ow ms) = (maintenance_map ms)(ow := None)"
  unfolding remove_maintenance_table by (rule maintenance_slots.remove_spec)

lemma remember_hint_spec:
  "hints_ok hs \<Longrightarrow> remember_hint a i hs = Some hs' \<Longrightarrow>
     hints_ok hs' \<and> length hs' = length hs \<and> hint_map hs' = (hint_map hs)(a \<mapsto> i)"
  unfolding remember_hint_table by (rule hint_slots.put_Some)

lemma clear_hint_spec:
  "hints_ok hs \<Longrightarrow> hints_ok (clear_hint a hs) \<and> length (clear_hint a hs) = length hs
     \<and> hint_map (clear_hint a hs) = (hint_map hs)(a := None)"
  unfolding clear_hint_table by (rule hint_slots.remove_spec)

lemma store_managed_spec:
  "managed_ok ps \<Longrightarrow> store_managed (pc_Address c) c ps = Some ps' \<Longrightarrow>
     managed_ok ps' \<and> length ps' = length ps
     \<and> managed_map ps' = (managed_map ps)(pc_Address c \<mapsto> peer_settings c)"
  unfolding store_managed_table by (rule managed_slots.put_Some)

lemma store_managed_full:
  "managed_ok ps \<Longrightarrow> store_managed (pc_Address c) c ps = None \<longleftrightarrow>
     pc_Address c \<notin> dom (managed_map ps) \<and> card (dom (managed_map ps)) = length ps"
  unfolding store_managed_table by (rule managed_slots.put_None)

lemma forget_managed_spec:
  "managed_ok ps \<Longrightarrow> managed_ok (forget_managed a ps) \<and> length (forget_managed a ps) = length ps
     \<and> managed_map (forget_managed a ps) = (managed_map ps)(a := None)"
  unfolding forget_managed_table by (rule managed_slots.remove_spec)


section \<open>Every method keeps the invariant\<close>

lemma ClearPeerInterfaceHints_ok: "transport_ok t \<Longrightarrow> transport_ok (ClearPeerInterfaceHints t)"
  by (auto simp: ClearPeerInterfaceHints_def transport_inv_defs)

lemma ClearPeerInterfaceHint_ok: "transport_ok t \<Longrightarrow> transport_ok (ClearPeerInterfaceHint a t)"
  using clear_hint_spec [of "t_peerInterfaceHints t" a]
  by (auto simp: ClearPeerInterfaceHint_def transport_inv_defs)

lemma ForgetManagedPeer_ok: "transport_ok t \<Longrightarrow> transport_ok (ForgetManagedPeer a t)"
  using forget_managed_spec [of "t_managedPeers t" a]
  by (auto simp: ForgetManagedPeer_def transport_inv_defs)

lemma StoreManagedPeer_ok: "transport_ok t \<Longrightarrow> transport_ok (snd (StoreManagedPeer c t))"
  using store_managed_spec [of "t_managedPeers t" c]
  by (auto simp: StoreManagedPeer_def transport_inv_defs split: option.split)

lemma ProgramPeerNativeLocked_ok:
  "transport_ok t \<Longrightarrow> transport_ok (snd (ProgramPeerNativeLocked api c n t))"
  by (rule ok_of_frame, assumption) (rule ProgramPeerNativeLocked_frame, rule prod.collapse [symmetric])

lemma RegisterObserver_ok: "transport_ok t \<Longrightarrow> transport_ok (snd (RegisterObserver api ob t))"
  using EnsureObservable_ok [of t api] by (auto simp: RegisterObserver_def split: option.split prod.split)

lemma UnregisterObserver_ok: "transport_ok t \<Longrightarrow> transport_ok (UnregisterObserver api p t)"
  by (simp add: UnregisterObserver_def)

text \<open>A failed initialization leaves a consistent transport, whatever stage it reached.\<close>

definition send_result_ok :: "('h, 'm, 'o, 'q, 'w) ESPNowTransport \<Rightarrow> bool" where
  "send_result_ok t \<longleftrightarrow> (t_lastSendFailure t = NoFailure \<longleftrightarrow> t_lastSendNativeError t = ESP_OK)"

lemma CleanupFailedInitialization_ok [simp]:
  "transport_ok (CleanupFailedInitialization api t) \<longleftrightarrow> tables_ok t \<and> send_result_ok t"
  by (simp add: CleanupFailedInitialization_def Let_def native_eq transport_inv_defs send_result_ok_def)

lemma initialization_failed_ok [simp]:
  "transport_ok (snd (initialization_failed api t)) = transport_ok t"
  by (simp add: initialization_failed_def)

lemmas stage_defs = transport_inv_defs send_result_ok_def

lemma start_worker_ok:
  assumes "tables_ok t" "storage_ready t" "t_receiveQueue t \<noteq> None" "t_worker t \<noteq> None"
    "t_callbackInstance t"
  shows "transport_ok (snd (start_worker api t))"
  using assms by (simp add: start_worker_def Let_def native_eq) (simp add: stage_defs)

lemma initialize_native_ok:
  assumes "tables_ok t" "send_result_ok t" "storage_ready t" "t_receiveQueue t \<noteq> None" "t_worker t \<noteq> None"
  shows "transport_ok (snd (initialize_native api t))"
proof -
  have "transport_ok (snd (start_worker api (t\<lparr>t_native := w, t_callbackInstance := True, t_native := w'\<rparr>)))"
    for w w' by (rule start_worker_ok) (use assms in \<open>simp_all add: stage_defs\<close>)
  with assms show ?thesis
    by (simp add: initialize_native_def Let_def native_eq) (simp add: stage_defs)
qed

lemma initialize_worker_ok:
  assumes "transport_ok t" "\<not> t_initialized t" "storage_ready t" "t_receiveQueue t \<noteq> None"
  shows "transport_ok (snd (initialize_worker api t))"
proof -
  have "transport_ok (snd (initialize_native api
      (t\<lparr>t_native := w, t_worker := Some wk, t_native := w'\<rparr>)))" for w wk w'
    by (rule initialize_native_ok) (use assms in \<open>simp_all add: stage_defs\<close>)
  with assms show ?thesis
    by (simp add: initialize_worker_def Let_def native_eq) (simp add: stage_defs)
qed

lemma initialize_queue_ok:
  assumes "transport_ok t" "\<not> t_initialized t" "storage_ready t"
  shows "transport_ok (snd (initialize_queue api t))"
proof -
  have "transport_ok (snd (initialize_worker api (t\<lparr>t_native := w, t_receiveQueue := Some q\<rparr>)))" for w q
    by (rule initialize_worker_ok) (use assms in \<open>simp_all add: stage_defs\<close>)
  with assms show ?thesis
    by (auto simp: initialize_queue_def Let_def native_eq) (simp add: stage_defs)
qed

lemma initialize_radio_ok:
  assumes "transport_ok t" "\<not> t_initialized t" "storage_ready t"
  shows "transport_ok (snd (initialize_radio api t))"
proof -
  have "transport_ok (snd (initialize_queue api (t\<lparr>t_native := w\<rparr>)))" for w
    by (rule initialize_queue_ok) (use assms in \<open>simp_all add: stage_defs\<close>)
  from this this [of "t_native t"] assms(1) show ?thesis
    by (simp add: initialize_radio_def Let_def native_eq)
qed

lemma Initialize_ok:
  assumes "transport_ok t"
  shows "transport_ok (snd (Initialize api config t))"
proof (cases "t_initialized t")
  case False
  define t1 where "t1 = snd (EnsureRuntimeStorage api t)"
  have t1: "transport_ok t1" "\<not> t_initialized t1"
    using EnsureRuntimeStorage_ok [OF assms] EnsureRuntimeStorage_step [of t api] False
    by (simp_all add: t1_def storage_step_def)
  have config: "transport_ok (t1\<lparr>t_config := config\<rparr>)" using t1 by (simp add: stage_defs)
  have "transport_ok (snd (initialize_radio api (t1\<lparr>t_config := config\<rparr>)))"
    if "fst (EnsureRuntimeStorage api t)"
    using config that EnsureRuntimeStorage_ready [of api t] t1
    by (intro initialize_radio_ok) (simp_all add: storage_ready_def t1_def)
  with False t1(1) config show ?thesis
    by (simp add: Initialize_def Let_def split_beta t1_def [symmetric])
qed (simp add: assms Initialize_def)

lemma Shutdown_ok: "transport_ok t \<Longrightarrow> transport_ok (Shutdown api t)"
  by (simp add: Shutdown_def Let_def native_eq) (simp add: stage_defs)


lemma SetRadioAvailable_ok: "transport_ok t \<Longrightarrow> transport_ok (snd (SetRadioAvailable b t))"
  by (simp add: SetRadioAvailable_def stage_defs)

lemma SuspendNativeForRadioTransition_ok:
  "transport_ok t \<Longrightarrow> transport_ok (snd (SuspendNativeForRadioTransition api t))"
  by (simp add: SuspendNativeForRadioTransition_def SetRadioAvailable_def Let_def native_eq)
    (simp add: stage_defs)

lemma ReconcileManagedPeers_ok: "transport_ok t \<Longrightarrow> transport_ok (snd (ReconcileManagedPeers api t))"
  by (simp add: ReconcileManagedPeers_def ReconcileManagedPeersLocked_ok ClearPeerInterfaceHints_ok)

lemma ReinitializeNativeState_ok: "transport_ok t \<Longrightarrow> transport_ok (snd (ReinitializeNativeState api t))"
  by (simp add: ReinitializeNativeState_def ReinitializeNativeStateLocked_ok ClearPeerInterfaceHints_ok)

lemma radio_binding_ok [simp]: "transport_ok (t\<lparr>t_radioBinding := b\<rparr>) = transport_ok t"
  by (simp add: stage_defs)

lemma ApplyRadioBinding_ok: "transport_ok t \<Longrightarrow> transport_ok (snd (ApplyRadioBinding api b r t))"
  by (simp add: ApplyRadioBinding_def Let_def split_beta ReconcileManagedPeersLocked_ok
      ReinitializeNativeStateLocked_ok ClearPeerInterfaceHints_ok)

lemma handlers_update_ok:
  "transport_ok t \<Longrightarrow> handlers_ok hs \<Longrightarrow> length hs = length (t_handlers t) \<Longrightarrow>
   transport_ok (t\<lparr>t_handlers := hs\<rparr>)"
  by (simp add: stage_defs)

lemma maintenance_update_ok:
  "transport_ok t \<Longrightarrow> maintenance_ok ms \<Longrightarrow> length ms = length (t_maintenanceHandlers t) \<Longrightarrow>
   transport_ok (t\<lparr>t_maintenanceHandlers := ms\<rparr>)"
  by (simp add: stage_defs)

lemma transport_ok_tables:
  "transport_ok t \<Longrightarrow> handlers_ok (t_handlers t)" "transport_ok t \<Longrightarrow> maintenance_ok (t_maintenanceHandlers t)"
  "transport_ok t \<Longrightarrow> hints_ok (t_peerInterfaceHints t)" "transport_ok t \<Longrightarrow> managed_ok (t_managedPeers t)"
  by (simp_all add: transport_ok_def tables_ok_def)

lemma UnregisterProtocolHandler_ok: "transport_ok t \<Longrightarrow> transport_ok (UnregisterProtocolHandler p t)"
  using remove_handler_spec [OF transport_ok_tables(1), of t p]
  by (simp add: UnregisterProtocolHandler_def handlers_update_ok)

lemma UnregisterMaintenanceHandler_ok:
  "transport_ok t \<Longrightarrow> transport_ok (UnregisterMaintenanceHandler ow t)"
  using remove_maintenance_spec [OF transport_ok_tables(2), of t]
  by (simp add: UnregisterMaintenanceHandler_def maintenance_update_ok split: option.split)

lemma RegisterProtocolHandler_ok:
  assumes "transport_ok t"
  shows "transport_ok (snd (RegisterProtocolHandler api p h t))"
proof -
  define t1 where "t1 = snd (EnsureRuntimeStorage api t)"
  have t1: "transport_ok t1" unfolding t1_def by (rule EnsureRuntimeStorage_ok [OF assms])
  have upd: "transport_ok (t1\<lparr>t_native := w, t_handlers := hs\<rparr>)"
    if "store_handler p h' (t_handlers t1) = Some hs" for w hs h'
    using handlers_update_ok [of "t1\<lparr>t_native := w\<rparr>" hs] t1
      store_handler_spec [OF transport_ok_tables(1) [OF t1] that] by simp
  show ?thesis
    using assms t1 upd
    by (auto simp: RegisterProtocolHandler_def Let_def split_beta native_eq t1_def [symmetric] split: option.split)
qed

lemma RegisterMaintenanceHandler_ok:
  assumes "transport_ok t"
  shows "transport_ok (snd (RegisterMaintenanceHandler api ow m t))"
proof -
  define t1 where "t1 = snd (EnsureRuntimeStorage api t)"
  have t1: "transport_ok t1" unfolding t1_def by (rule EnsureRuntimeStorage_ok [OF assms])
  have upd: "transport_ok (t1\<lparr>t_native := w, t_maintenanceHandlers := ms\<rparr>)"
    if "store_maintenance o' m' (t_maintenanceHandlers t1) = Some ms" for w ms o' m'
    using maintenance_update_ok [of "t1\<lparr>t_native := w\<rparr>" ms] t1
      store_maintenance_spec [OF transport_ok_tables(2) [OF t1] that] by simp
  show ?thesis
    using assms t1 upd
    by (auto simp: RegisterMaintenanceHandler_def Let_def split_beta native_eq t1_def [symmetric]
        split: option.split)
qed

lemma AddPeer_ok: "transport_ok t \<Longrightarrow> transport_ok (snd (AddPeer api c t))"
  by (simp add: AddPeer_def Let_def split_beta StoreManagedPeer_ok ForgetManagedPeer_ok ProgramPeerNativeLocked_ok)

lemma RemovePeer_ok: "transport_ok t \<Longrightarrow> transport_ok (snd (RemovePeer api a t))"
  by (simp add: RemovePeer_def Let_def split_beta ClearPeerInterfaceHint_ok ForgetManagedPeer_ok native_eq)

lemma ClassifySendFailure_None: "ClassifySendFailure e = NoFailure \<longleftrightarrow> e = ESP_OK"
  by (cases e) auto

lemma finish_send_ok:
  assumes "transport_ok (snd r)" "sr_Failure (fst r) = NoFailure \<longleftrightarrow> sr_NativeError (fst r) = ESP_OK"
  shows "transport_ok (snd (finish_send api d p n r))"
  using assms by (cases r) (auto simp: finish_send_def Let_def notify_def stage_defs)

lemma SendDetailed_ok: "transport_ok t \<Longrightarrow> transport_ok (snd (SendDetailed api d p pl n t))"
  unfolding SendDetailed_def
  by (rule finish_send_ok) (simp_all add: native_eq ClassifySendFailure_None SendResult_default_def)

lemma Send_ok: "transport_ok t \<Longrightarrow> transport_ok (snd (Send api d p pl n t))"
  by (simp add: Send_def split_beta SendDetailed_ok)

lemma hints_update_ok:
  "transport_ok t \<Longrightarrow> hints_ok hs \<Longrightarrow> length hs = length (t_peerInterfaceHints t) \<Longrightarrow>
   transport_ok (t\<lparr>t_peerInterfaceHints := hs\<rparr>)"
  by (simp add: stage_defs)

lemma store_hint_ok:
  assumes "transport_ok t"
  shows "transport_ok (store_hint a i t)"
proof (cases "remember_hint a i (t_peerInterfaceHints t)")
  case (Some hs)
  then show ?thesis
    using remember_hint_spec [OF transport_ok_tables(3) [OF assms] Some] assms
    by (simp add: store_hint_def hints_update_ok)
qed (simp add: store_hint_def assms)

lemma migrate_peer_ok: "transport_ok t \<Longrightarrow> transport_ok (migrate_peer api a i t)"
  by (simp add: migrate_peer_def split_beta)

lemma RememberPeerInterface_ok: "transport_ok t \<Longrightarrow> transport_ok (RememberPeerInterface api a i t)"
  by (simp add: RememberPeerInterface_def store_hint_ok migrate_peer_ok)

lemma queue_update_ok: "transport_ok t \<Longrightarrow> transport_ok (t\<lparr>t_receiveQueue := Some q\<rparr>)"
  by (simp add: stage_defs)

lemma QueueReceivedData_ok: "transport_ok t \<Longrightarrow> transport_ok (QueueReceivedData api s d data len t)"
  by (simp add: QueueReceivedData_def native_eq Let_def split: option.split prod.split)
    (simp add: stage_defs)

lemma ReceiveCallback_ok: "transport_ok t \<Longrightarrow> transport_ok (ReceiveCallback api info data len t)"
  by (simp add: ReceiveCallback_def QueueReceivedData_ok)

lemma ProcessCallbackFrame_ok:
  assumes "\<And>h f t. transport_ok t \<Longrightarrow> transport_ok (run h f t)" "transport_ok t"
  shows "transport_ok (ProcessCallbackFrame api run frame t)"
  using assms RememberPeerInterface_ok [OF assms(2)]
  by (simp add: ProcessCallbackFrame_def Let_def split: option.split)


lemmas transport_ok_intros =
  RegisterObserver_ok UnregisterObserver_ok Initialize_ok Shutdown_ok SetRadioAvailable_ok
  SuspendNativeForRadioTransition_ok ReconcileManagedPeers_ok ReinitializeNativeState_ok ApplyRadioBinding_ok
  RegisterProtocolHandler_ok UnregisterProtocolHandler_ok RegisterMaintenanceHandler_ok
  UnregisterMaintenanceHandler_ok AddPeer_ok RemovePeer_ok SendDetailed_ok Send_ok ReceiveCallback_ok


section \<open>The transport as a state machine\<close>

text \<open>
  One step is one call: of a public method by a client, of the native callback by the driver.
  A handler that runs in the worker acts on the transport through its public methods only, so what it
  does is a sequence of such steps.
\<close>

inductive api_step :: "('q, 'w) native_api \<Rightarrow> ('h, 'm, 'o, 'q, 'w) ESPNowTransport \<Rightarrow> ('h, 'm, 'o, 'q, 'w) ESPNowTransport \<Rightarrow> bool" for api where
  step_RegisterObserver: "api_step api t (snd (RegisterObserver api ob t))"
| step_UnregisterObserver: "api_step api t (UnregisterObserver api p t)"
| step_Initialize: "api_step api t (snd (Initialize api config t))"
| step_Shutdown: "api_step api t (Shutdown api t)"
| step_SetRadioAvailable: "api_step api t (snd (SetRadioAvailable b t))"
| step_Suspend: "api_step api t (snd (SuspendNativeForRadioTransition api t))"
| step_Reconcile: "api_step api t (snd (ReconcileManagedPeers api t))"
| step_Reinitialize: "api_step api t (snd (ReinitializeNativeState api t))"
| step_ApplyRadioBinding: "api_step api t (snd (ApplyRadioBinding api binding r t))"
| step_RegisterProtocolHandler: "api_step api t (snd (RegisterProtocolHandler api protocol h t))"
| step_UnregisterProtocolHandler: "api_step api t (UnregisterProtocolHandler protocol t)"
| step_RegisterMaintenanceHandler: "api_step api t (snd (RegisterMaintenanceHandler api ow m t))"
| step_UnregisterMaintenanceHandler: "api_step api t (UnregisterMaintenanceHandler ow t)"
| step_AddPeer: "api_step api t (snd (AddPeer api c t))"
| step_RemovePeer: "api_step api t (snd (RemovePeer api a t))"
| step_Send: "api_step api t (snd (SendDetailed api d protocol pl n t))"
| step_ReceiveCallback: "api_step api t (ReceiveCallback api info data len t)"

type_synonym ('h, 'm, 'o, 'q, 'w) protocol_runner =
  "'h \<Rightarrow> ESPNowReceivedFrame \<Rightarrow> ('h, 'm, 'o, 'q, 'w) ESPNowTransport \<Rightarrow> ('h, 'm, 'o, 'q, 'w) ESPNowTransport"
type_synonym ('h, 'm, 'o, 'q, 'w) maintenance_runner =
  "'m \<Rightarrow> u64 \<Rightarrow> ('h, 'm, 'o, 'q, 'w) ESPNowTransport \<Rightarrow> ('h, 'm, 'o, 'q, 'w) ESPNowTransport"

definition handlers_use_api ::
  "('q, 'w) native_api \<Rightarrow> ('h, 'm, 'o, 'q, 'w) protocol_runner \<Rightarrow> ('h, 'm, 'o, 'q, 'w) maintenance_runner
     \<Rightarrow> bool" where
  "handlers_use_api api run run_m \<longleftrightarrow>
     (\<forall>h f t. (api_step api)\<^sup>*\<^sup>* t (run h f t)) \<and> (\<forall>m now t. (api_step api)\<^sup>*\<^sup>* t (run_m m now t))"

text \<open>
  The worker's steps: one iteration as a whole, or, between other calls, the handling of a single frame.
\<close>

inductive transport_step ::
  "('q, 'w) native_api \<Rightarrow> ('h, 'm, 'o, 'q, 'w) protocol_runner \<Rightarrow> ('h, 'm, 'o, 'q, 'w) maintenance_runner
     \<Rightarrow> ('h, 'm, 'o, 'q, 'w) ESPNowTransport \<Rightarrow> ('h, 'm, 'o, 'q, 'w) ESPNowTransport \<Rightarrow> bool" for api run run_m where
  step_api: "api_step api t t' \<Longrightarrow> transport_step api run run_m t t'"
| step_frame: "t_receiveQueue t = Some q \<Longrightarrow> na_queue_receive api q = Some (frame, q') \<Longrightarrow>
    transport_step api run run_m t (ProcessCallbackFrame api run frame (t\<lparr>t_receiveQueue := Some q'\<rparr>))"
| step_worker: "Iterate api run run_m t = Some t' \<Longrightarrow> transport_step api run run_m t t'"

definition transport_reachable ::
  "('q, 'w) native_api \<Rightarrow> ('h, 'm, 'o, 'q, 'w) protocol_runner \<Rightarrow> ('h, 'm, 'o, 'q, 'w) maintenance_runner
     \<Rightarrow> ('h, 'm, 'o, 'q, 'w) ESPNowTransport \<Rightarrow> bool" where
  "transport_reachable api run run_m t \<longleftrightarrow> (\<exists>w. (transport_step api run run_m)\<^sup>*\<^sup>* (Transport_new w) t)"

lemma api_step_ok: "api_step api t t' \<Longrightarrow> transport_ok t \<Longrightarrow> transport_ok t'"
  by (induction rule: api_step.induct) (simp_all add: transport_ok_intros)

lemma api_steps_ok: "(api_step api)\<^sup>*\<^sup>* t t' \<Longrightarrow> transport_ok t \<Longrightarrow> transport_ok t'"
  by (induction rule: rtranclp_induct) (auto intro: api_step_ok)

lemma drain_queue_ok:
  assumes run: "\<forall>h f t. transport_ok t \<longrightarrow> transport_ok (run h f t)"
    and drain: "drain_queue api run t = Some t'" and "transport_ok t"
  shows "transport_ok t'"
proof -
  have "(\<forall>h f t. transport_ok t \<longrightarrow> transport_ok (run h f t)) \<longrightarrow> transport_ok t \<longrightarrow> transport_ok t'"
  proof (rule drain_queue.raw_induct [OF _ drain], intro impI, goal_cases)
    case (1 drain api run t t')
    have next_ok: "transport_ok (ProcessCallbackFrame api run f (t\<lparr>t_receiveQueue := Some q\<rparr>))" for f q
      using 1 by (blast intro: ProcessCallbackFrame_ok queue_update_ok)
    show ?case using 1 next_ok by (auto split: option.splits prod.splits)
  qed
  then show ?thesis using assms by simp
qed

lemma Iterate_ok:
  assumes "handlers_use_api api run run_m" "Iterate api run run_m t = Some t'" "transport_ok t"
  shows "transport_ok t'"
proof -
  have run: "\<forall>h f t. transport_ok t \<longrightarrow> transport_ok (run h f t)"
    and run_m: "transport_ok t \<Longrightarrow> transport_ok (run_m m now t)" for m now t
    using assms(1) unfolding handlers_use_api_def by (blast intro: api_steps_ok)+
  have fold: "transport_ok t \<Longrightarrow> transport_ok (foldl (\<lambda>t h. run_m h now t) t hs)" for t now hs
    by (induction hs arbitrary: t) (simp_all add: run_m)
  have tele: "transport_ok (t\<lparr>t_native := w, t_worker := map_option f (t_worker t)\<rparr>)" for f w
    using assms(3) by (simp add: stage_defs)
  obtain t1 where t1: "drain_queue api run
      (t\<lparr>t_native := snd (na_free_stack api (t_native t)),
         t_worker := map_option (worker_telemetry (fst (na_free_stack api (t_native t)))) (t_worker t)\<rparr>) = Some t1"
    and t': "t' = foldl (\<lambda>t h. run_m h (fst (na_now api (t_native t1)) div 1000000) t)
      (t1\<lparr>t_native := snd (na_now api (t_native t1))\<rparr>) (active_maintenance (t_maintenanceHandlers t1))"
    using assms(2)
    by (auto simp: Iterate_def ProcessWorkerIteration_def native_eq Let_def split: option.splits)
  have "transport_ok t1" by (rule drain_queue_ok [OF run t1 tele])
  then show ?thesis unfolding t' by (simp add: fold)
qed

lemma transport_step_ok:
  assumes "handlers_use_api api run run_m"
  shows "transport_step api run run_m t t' \<Longrightarrow> transport_ok t \<Longrightarrow> transport_ok t'"
proof (induction rule: transport_step.induct)
  case (step_api t t')
  then show ?case by (simp add: api_step_ok)
next
  case (step_frame t q frame q')
  then show ?case using assms unfolding handlers_use_api_def
    by (blast intro: ProcessCallbackFrame_ok queue_update_ok api_steps_ok)
next
  case (step_worker t t')
  then show ?case using Iterate_ok [OF assms] by blast
qed

lemma transport_reachable_ok:
  assumes "handlers_use_api api run run_m" "transport_reachable api run run_m t"
  shows "transport_ok t"
proof -
  obtain w where "(transport_step api run run_m)\<^sup>*\<^sup>* (Transport_new w) t"
    using assms(2) by (auto simp: transport_reachable_def)
  then show ?thesis
    by (induction rule: rtranclp_induct) (simp_all add: transport_step_ok [OF assms(1)])
qed

end
