(* ===== verification/Simulated_Platform.thy ===== *)
theory Simulated_Platform
  imports Native_API
begin

text \<open>
  A concrete platform: a peer table, a log of what was sent, a log of notifications and a counting
  clock, with a list as message queue. It satisfies the contracts of \<open>Native_API\<close>, which shows that the
  hypotheses of the properties can hold together, and the witnesses run the model on it.
\<close>

record sim =
  sim_peers :: "(MacAddress \<times> esp_now_peer_info) list"
  sim_sent :: "(MacAddress \<times> byte list) list"
  sim_notes :: "notification list"
  sim_clock :: u64
  sim_up :: bool

definition sim_start :: sim where
  "sim_start = \<lparr>sim_peers = [], sim_sent = [], sim_notes = [], sim_clock = 0, sim_up = False\<rparr>"

definition sim_mac :: "wifi_interface \<Rightarrow> byte list" where
  "sim_mac i = (if i = WIFI_IF_STA then [2, 0, 0, 0, 0, 1] else [2, 0, 0, 0, 0, 2])"

definition sim_api :: "nat \<Rightarrow> (CallbackFrame list, sim) native_api" where
  "sim_api cap =
     \<lparr>na_alloc = \<lambda>w. (True, w),
      na_notify = \<lambda>n w. w\<lparr>sim_notes := sim_notes w @ [n]\<rparr>,
      na_register_observer = \<lambda>p w. (True, w),
      na_unregister_observer = \<lambda>p w. w,
      na_now = \<lambda>w. (sim_clock w + 1, w\<lparr>sim_clock := sim_clock w + 1\<rparr>),
      na_free_stack = \<lambda>w. (1024, w),
      na_wifi_mode_sta = \<lambda>w. w,
      na_wifi_connected = \<lambda>w. True,
      na_wifi_get_mode = \<lambda>w. (ESP_OK, WIFI_MODE_APSTA),
      na_wifi_get_mac = \<lambda>i w. (ESP_OK, sim_mac i),
      na_wifi_set_channel = \<lambda>c w. (ESP_OK, w),
      na_init = \<lambda>w. (ESP_OK, w\<lparr>sim_up := True\<rparr>),
      na_deinit = \<lambda>w. (ESP_OK, w\<lparr>sim_up := False, sim_peers := []\<rparr>),
      na_register_recv_cb = \<lambda>w. (ESP_OK, w),
      na_unregister_recv_cb = \<lambda>w. w,
      na_is_peer_exist = \<lambda>a w. map_of (sim_peers w) a \<noteq> None,
      na_get_peer = \<lambda>a w. (case map_of (sim_peers w) a of
          None \<Rightarrow> (ESP_ERR_ESPNOW_NOT_FOUND, peer_info_default) | Some info \<Rightarrow> (ESP_OK, info)),
      na_add_peer = \<lambda>info w. (ESP_OK, w\<lparr>sim_peers := (pi_peer_addr info, info) # sim_peers w\<rparr>),
      na_mod_peer = \<lambda>info w. (ESP_OK, w\<lparr>sim_peers := (pi_peer_addr info, info) # sim_peers w\<rparr>),
      na_del_peer = \<lambda>a w. (if map_of (sim_peers w) a = None then (ESP_ERR_ESPNOW_NOT_FOUND, w)
          else (ESP_OK, w\<lparr>sim_peers := filter (\<lambda>(k, _). k \<noteq> a) (sim_peers w)\<rparr>)),
      na_send = \<lambda>a bytes w. (ESP_OK, w\<lparr>sim_sent := sim_sent w @ [(a, bytes)]\<rparr>),
      na_queue_create = \<lambda>n w. (Some [], w),
      na_queue_send = \<lambda>f q. if length q < cap then (True, q @ [f]) else (False, q),
      na_queue_receive = \<lambda>q. (case q of [] \<Rightarrow> None | f # fs \<Rightarrow> Some (f, fs)),
      na_worker_initialize = \<lambda>config w. (ThreadSuccess, w),
      na_worker_start = \<lambda>w. (ThreadSuccess, w),
      na_worker_shutdown = \<lambda>w. w\<rparr>"

lemma sim_bounded_fifo: "bounded_fifo (sim_api cap) cap (\<lambda>q. q)"
  by (simp add: bounded_fifo_def sim_api_def split: list.split)

lemma sim_peer_table_contract: "peer_table_contract (sim_api cap) (\<lambda>w. map_of (sim_peers w))"
proof -
  have del: "map_of (filter (\<lambda>(k, _). k \<noteq> a) xs) = (map_of xs)(a := None)"
    for a :: MacAddress and xs :: "(MacAddress \<times> esp_now_peer_info) list"
    by (induction xs) (auto simp: fun_eq_iff)
  show ?thesis
    by (auto simp: peer_table_contract_def sim_api_def del domIff split: option.splits if_splits)
qed

end
