(* ===== verification/Transport_Theorems.thy ===== *)
theory Transport_Theorems
  imports Transport_Props Simulated_Platform
begin

text \<open>
  The properties of the transport, each with a run of the model on the simulated platform as witness
  where it has hypotheses.
\<close>

section \<open>A started transport\<close>

lemma fst_True: "fst r \<Longrightarrow> \<exists>x. r = (True, x)"
  by (cases r) simp

definition demo_transport :: "(nat, nat, nat, CallbackFrame list, sim) ESPNowTransport" where
  "demo_transport = snd (Initialize (sim_api 2) TransportConfig_default (Transport_new sim_start))"

definition demo_mac :: MacAddress where
  "demo_mac = MacAddress 2 0 0 0 0 9"

lemma demo_started:
  "t_initialized demo_transport" "\<not> t_nativeSuspended demo_transport" "t_callbackInstance demo_transport"
  "rb_Available (t_radioBinding demo_transport)" "t_receiveQueue demo_transport = Some []"
  "\<not> IsZero demo_mac"
  by code_simp+

lemma demo_ok: "transport_ok demo_transport"
  unfolding demo_transport_def by (rule Initialize_ok) simp


section \<open>Receiving\<close>

lemma frame_data_received:
  assumes "unat (wh_PayloadLength h) = length d" "length d \<le> MaximumFrameSize"
  shows "frame_data (received_frame src now h d) = d"
  using assms by (cases "wh_PayloadLength h = 0")
    (auto simp: frame_data_def received_frame_def ReceivedFrame_default_def blit_def unat_eq_zero [symmetric])

lemma parse_frame_bounds:
  assumes "parse_frame bytes len = Some (header, payload)"
  shows "unat (wh_PayloadLength header) \<le> MaximumFrameSize - sizeof_WireHeader"
    and "sizeof_WireHeader + unat (wh_PayloadLength header) \<le> nat len"
  using assms by (auto simp: parse_frame_def Let_def split: if_splits)

lemma fifo_send_room:
  "bounded_fifo api cap contents \<Longrightarrow> length (contents q) < cap \<Longrightarrow>
   fst (na_queue_send api f q) \<and> contents (snd (na_queue_send api f q)) = contents q @ [f]"
  unfolding bounded_fifo_def by presburger

lemma fifo_send_full:
  "bounded_fifo api cap contents \<Longrightarrow> \<not> length (contents q) < cap \<Longrightarrow> na_queue_send api f q = (False, q)"
  unfolding bounded_fifo_def by presburger

lemma fifo_receive:
  assumes "bounded_fifo api cap contents"
  shows "case contents q of [] \<Rightarrow> na_queue_receive api q = None
    | f # fs \<Rightarrow> (\<exists>q'. na_queue_receive api q = Some (f, q') \<and> contents q' = fs)"
  using assms [unfolded bounded_fifo_def, THEN conjunct2] by (rule spec)

lemma finish_send_fst [simp]: "fst (finish_send api d p n r) = fst r"
  by (cases r) (simp add: finish_send_def Let_def)

text \<open>The frame the callback queues for an accepted packet.\<close>

definition queued_frame ::
  "('q, 'w) native_api \<Rightarrow> byte list \<Rightarrow> byte list option \<Rightarrow> WireHeader \<times> byte list \<Rightarrow> 'w \<Rightarrow> CallbackFrame" where
  "queued_frame api src destination parsed w =
     (let interface = ResolveLocalInterface api destination (snd (na_now api w)) in
      \<lparr>cf_Received = received_frame src (fst (na_now api w)) (fst parsed) (snd parsed),
       cf_LocalInterface = (case interface of None \<Rightarrow> WIFI_IF_STA | Some i \<Rightarrow> i),
       cf_HasLocalInterface = (interface \<noteq> None)\<rparr>)"

lemma QueueReceivedData_eq:
  assumes "t_callbackInstance t" "t_initialized t" "t_receiveQueue t = Some q"
    and "parse_frame bytes len = Some parsed"
    and sent: "sent = na_queue_send api (queued_frame api src destination parsed (t_native t)) q"
  shows "QueueReceivedData api (Some src) destination (Some bytes) len t =
    t\<lparr>t_native := snd (na_now api (t_native t)), t_receiveQueue := Some (snd sent),
      t_receiveQueueRejectedCount := t_receiveQueueRejectedCount t + (if fst sent then 0 else 1)\<rparr>"
  using assms(1-4) unfolding sent
  by (cases parsed) (simp add: QueueReceivedData_def queued_frame_def native_eq Let_def split_beta)

text \<open>
  C1. A payload that fits (at most 242 bytes) and is sent while the sender is initialized and its radio
  available reaches the driver as one frame of at most 250 bytes, and a listening receiver with room in
  its queue that is handed these bytes queues exactly one frame, carrying the same protocol, the same
  payload and the sender's address.
\<close>

theorem send_reaches_receive_queue:
  assumes "t_initialized s" "\<not> t_nativeSuspended s" "rb_Available (t_radioBinding s)"
    and "\<not> IsZero destination" "length payload \<le> MaximumFrameSize - sizeof_WireHeader"
    and "bounded_fifo rapi cap contents"
    and "t_callbackInstance r" "t_initialized r" "t_receiveQueue r = Some q" "length (contents q) < cap"
  shows "\<exists>bytes frame q'. length bytes \<le> MaximumFrameSize
    \<and> sr_NativeError (fst (SendDetailed sapi destination protocol (Some payload) (length payload) s))
        = fst (na_send sapi destination bytes (t_native s))
    \<and> t_receiveQueue (QueueReceivedData rapi (Some (mac_bytes src)) dest (Some bytes) (int (length bytes)) r)
        = Some q'
    \<and> contents q' = contents q @ [frame]
    \<and> rf_Source (cf_Received frame) = src \<and> rf_Protocol (cf_Received frame) = protocol
    \<and> frame_data (cf_Received frame) = payload"
proof -
  define hdr where "hdr = WireHeader_default\<lparr>wh_Protocol := protocol, wh_PayloadLength := of_nat (length payload)\<rparr>"
  define bytes where "bytes = build_frame protocol (Some payload) (length payload)"
  define frame where "frame = queued_frame rapi (mac_bytes src) dest (hdr, payload) (t_native r)"
  have parse: "parse_frame bytes (int (length bytes)) = Some (hdr, payload)"
    unfolding bytes_def hdr_def by (rule parse_build_frame [OF assms(5)])
  have len: "unat (wh_PayloadLength hdr) = length payload"
    using assms(5) by (simp add: hdr_def sizeof_WireHeader_def)
  have queue: "t_receiveQueue (QueueReceivedData rapi (Some (mac_bytes src)) dest (Some bytes) (int (length bytes)) r)
      = Some (snd (na_queue_send rapi frame q))"
    using QueueReceivedData_eq [OF assms(7,8,9) parse refl] by (simp add: frame_def)
  have "length bytes \<le> MaximumFrameSize"
    unfolding bytes_def length_build_frame [OF assms(5)] using assms(5) by (simp add: sizeof_WireHeader_def)
  moreover have "sr_NativeError (fst (SendDetailed sapi destination protocol (Some payload) (length payload) s))
      = fst (na_send sapi destination bytes (t_native s))"
    using assms(1-5) by (simp add: SendDetailed_def native_eq bytes_def)
  moreover have "frame_data (cf_Received frame) = payload"
    using frame_data_received [OF len] assms(5) by (simp add: frame_def queued_frame_def Let_def)
  moreover have "rf_Protocol (cf_Received frame) = protocol" "rf_Source (cf_Received frame) = src"
    by (simp_all add: frame_def queued_frame_def received_frame_def Let_def MacAddress_new_def hdr_def)
  ultimately show ?thesis using queue fifo_send_room [OF assms(6,10), of frame] by blast
qed


theorem send_reaches_receive_queue_witness:
  "\<exists>bytes frame q'. length bytes \<le> MaximumFrameSize
    \<and> sr_NativeError (fst (SendDetailed (sim_api 2) demo_mac 3 (Some [1, 2]) (length [1 :: byte, 2]) demo_transport))
        = fst (na_send (sim_api 2) demo_mac bytes (t_native demo_transport))
    \<and> t_receiveQueue (QueueReceivedData (sim_api 2) (Some (mac_bytes demo_mac)) None (Some bytes)
        (int (length bytes)) demo_transport) = Some q'
    \<and> q' = [] @ [frame]
    \<and> rf_Source (cf_Received frame) = demo_mac \<and> rf_Protocol (cf_Received frame) = 3
    \<and> frame_data (cf_Received frame) = [1, 2]"
  by (rule send_reaches_receive_queue [OF demo_started(1,2,4,6) _ sim_bounded_fifo [of 2] demo_started(3,1,5)])
    (simp_all add: sizeof_WireHeader_def)

text \<open>
  C7. The native callback, whatever bytes it is handed: a packet that is not a well-formed ESPressio
  frame, or that arrives while no transport listens, changes nothing; a well-formed one is queued as the
  newest frame when there is room, and otherwise only the rejected-frame counter grows by one. An
  accepted frame's payload length is within 242 bytes and within what the driver reported.
\<close>

theorem receive_callback_accounting:
  assumes "bounded_fifo api cap contents" "t_receiveQueue t = Some q"
    and t': "t' = QueueReceivedData api src destination data len t"
    and parsed: "parsed = (case (src, data) of (Some s, Some bytes) \<Rightarrow> parse_frame bytes len | _ \<Rightarrow> None)"
  shows "case parsed of
      None \<Rightarrow> t' = t
    | Some (header, payload) \<Rightarrow>
        unat (wh_PayloadLength header) \<le> MaximumFrameSize - sizeof_WireHeader
        \<and> sizeof_WireHeader + unat (wh_PayloadLength header) \<le> nat len
        \<and> (if \<not> t_callbackInstance t \<or> \<not> t_initialized t then t' = t
           else if length (contents q) < cap
           then (\<exists>q'. t_receiveQueue t' = Some q'
               \<and> contents q' = contents q @ [queued_frame api (the src) destination (header, payload) (t_native t)]
               \<and> t_receiveQueueRejectedCount t' = t_receiveQueueRejectedCount t)
           else t_receiveQueue t' = Some q
             \<and> t_receiveQueueRejectedCount t' = t_receiveQueueRejectedCount t + 1)"
proof (cases parsed)
  case None
  then show ?thesis using assms(2) parsed unfolding t'
    by (auto simp: QueueReceivedData_def split: option.splits)
next
  case (Some pair)
  then obtain header payload s bytes where p: "parsed = Some (header, payload)" "src = Some s" "data = Some bytes"
    "parse_frame bytes len = Some (header, payload)"
    using parsed by (cases pair) (auto split: option.splits)
  have len: "unat (wh_PayloadLength header) \<le> MaximumFrameSize - sizeof_WireHeader"
    "sizeof_WireHeader + unat (wh_PayloadLength header) \<le> nat len"
    by (rule parse_frame_bounds [OF p(4)])+
  show ?thesis
  proof (cases "t_callbackInstance t \<and> t_initialized t")
    case False
    then show ?thesis using p(1) len unfolding t' by (auto simp: QueueReceivedData_def)
  next
    case True
    note eq = QueueReceivedData_eq [OF conjunct1 [OF True] conjunct2 [OF True] assms(2) p(4) refl, of api s destination]
    show ?thesis
      using True p(1,2) len fifo_send_room [OF assms(1)] fifo_send_full [OF assms(1)]
      unfolding t' p(2,3) eq by simp
  qed
qed


lemma demo_frame_parses:
  "parse_frame (build_frame 3 (Some [1, 2]) 2) 10 =
     Some (\<lparr>wh_Magic = FrameMagic, wh_Version = FrameVersion, wh_Protocol = 3, wh_PayloadLength = 2\<rparr>, [1, 2])"
  by code_simp

theorem receive_callback_accounting_witness:
  "\<exists>q'. t_receiveQueue (QueueReceivedData (sim_api 2) (Some (mac_bytes demo_mac)) None
       (Some (build_frame 3 (Some [1, 2]) 2)) 10 demo_transport) = Some q' \<and> length q' = 1"
  using receive_callback_accounting [OF sim_bounded_fifo [of 2] demo_started(5) refl refl,
      of "Some (mac_bytes demo_mac)" None "Some (build_frame 3 (Some [1, 2]) 2)" 10]
  by (auto simp: demo_frame_parses demo_started)


section \<open>The worker\<close>

text \<open>
  Handlers that leave the receive queue alone. The queue is private to the transport, so a handler can
  only reach it by shutting the transport down or starting it.
\<close>

definition ignores_queue :: "('h, 'm, 'o, 'q, 'w) protocol_runner \<Rightarrow> bool" where
  "ignores_queue run \<longleftrightarrow>
     (\<forall>h f t q. run h f (t\<lparr>t_receiveQueue := q\<rparr>) = (run h f t)\<lparr>t_receiveQueue := q\<rparr>)"

lemma RememberPeerInterface_queue:
  "RememberPeerInterface api a i (t\<lparr>t_receiveQueue := q\<rparr>) = (RememberPeerInterface api a i t)\<lparr>t_receiveQueue := q\<rparr>"
proof -
  have hint: "store_hint a i (t\<lparr>t_receiveQueue := q\<rparr>) = (store_hint a i t)\<lparr>t_receiveQueue := q\<rparr>" for t
    by (simp add: store_hint_def split: option.split)
  have migrate: "migrate_peer api a i (t\<lparr>t_receiveQueue := q\<rparr>) = (migrate_peer api a i t)\<lparr>t_receiveQueue := q\<rparr>"
    for t by (simp add: migrate_peer_def native_eq split_beta)
  show ?thesis by (simp add: RememberPeerInterface_def IsManagedPeerAuto_def hint migrate)
qed

lemma ProcessCallbackFrame_queue:
  assumes "ignores_queue run"
  shows "ProcessCallbackFrame api run f (t\<lparr>t_receiveQueue := q\<rparr>)
    = (ProcessCallbackFrame api run f t)\<lparr>t_receiveQueue := q\<rparr>"
proof -
  have run: "run h g (t\<lparr>t_receiveQueue := q\<rparr>) = (run h g t)\<lparr>t_receiveQueue := q\<rparr>" for h g t
    using assms unfolding ignores_queue_def by blast
  have noted: "notify api n (t\<lparr>t_receiveQueue := q\<rparr>) = (notify api n t)\<lparr>t_receiveQueue := q\<rparr>" for n t
    by (simp add: notify_def)
  have handlers: "t_handlers (t\<lparr>t_receiveQueue := q\<rparr>) = t_handlers t" for t by simp
  have if_queue: "(if b then t\<lparr>t_receiveQueue := q\<rparr> else t'\<lparr>t_receiveQueue := q\<rparr>)
      = (if b then t else t')\<lparr>t_receiveQueue := q\<rparr>" for b t t' by simp
  show ?thesis
    unfolding ProcessCallbackFrame_def Let_def RememberPeerInterface_queue if_queue noted handlers
    by (simp only: run split: option.split) simp
qed

lemma drain_queue_fold:
  assumes fifo: "bounded_fifo api cap contents" and run: "ignores_queue run"
  shows "t_receiveQueue t = Some q \<Longrightarrow>
    \<exists>q'. contents q' = [] \<and> drain_queue api run t =
      Some ((foldl (\<lambda>t f. ProcessCallbackFrame api run f t) t (contents q))\<lparr>t_receiveQueue := Some q'\<rparr>)"
proof (induction "contents q" arbitrary: q t)
  case Nil
  then have "drain_queue api run t = Some t"
    using fifo_receive [OF fifo, of q] by (simp add: drain_queue.simps)
  then show ?case using Nil by (auto intro!: exI [of _ q])
next
  case (Cons f fs)
  obtain q1 where q1: "na_queue_receive api q = Some (f, q1)" "contents q1 = fs"
    using fifo_receive [OF fifo, of q] Cons.hyps(2) [symmetric] by auto
  let ?t1 = "ProcessCallbackFrame api run f (t\<lparr>t_receiveQueue := Some q1\<rparr>)"
  have t1: "?t1 = (ProcessCallbackFrame api run f t)\<lparr>t_receiveQueue := Some q1\<rparr>"
    by (rule ProcessCallbackFrame_queue [OF run])
  have fold: "(foldl (\<lambda>t f. ProcessCallbackFrame api run f t) (t\<lparr>t_receiveQueue := x\<rparr>) gs)\<lparr>t_receiveQueue := y\<rparr>
      = (foldl (\<lambda>t f. ProcessCallbackFrame api run f t) t gs)\<lparr>t_receiveQueue := y\<rparr>" for t x y gs
    by (induction gs arbitrary: t) (simp_all add: ProcessCallbackFrame_queue [OF run])
  obtain q' where "contents q' = []" "drain_queue api run ?t1 =
      Some ((foldl (\<lambda>t f. ProcessCallbackFrame api run f t) ?t1 (contents q1))\<lparr>t_receiveQueue := Some q'\<rparr>)"
    using Cons.hyps(1) [OF q1(2) [symmetric], of ?t1] t1 by auto
  moreover have "drain_queue api run t = drain_queue api run ?t1"
    using Cons.prems q1 by (simp add: drain_queue.simps [of api run t])
  ultimately show ?case
    unfolding t1 Cons.hyps(2) [symmetric] q1(2) by (auto simp: fold)
qed

text \<open>
  C3. One pass of the worker over the queue ends, and its effect is that of handling every queued frame
  once, in the order of arrival; the queue is empty afterwards.
\<close>

theorem worker_drains_in_order:
  assumes "bounded_fifo api cap contents" "ignores_queue run" "t_receiveQueue t = Some q"
  shows "\<exists>q'. contents q' = [] \<and> drain_queue api run t =
      Some ((foldl (\<lambda>t f. ProcessCallbackFrame api run f t) t (contents q))\<lparr>t_receiveQueue := Some q'\<rparr>)"
  using drain_queue_fold [OF assms] .

text \<open>A handler that echoes every frame to its sender.\<close>

definition echo :: "(nat, nat, nat, CallbackFrame list, sim) protocol_runner" where
  "echo h f t = snd (SendDetailed (sim_api 2) (rf_Source f) (rf_Protocol f) (Some (frame_data f))
     (length (frame_data f)) t)"

lemma echo_ignores_queue: "ignores_queue echo"
  by (simp add: ignores_queue_def echo_def SendDetailed_def finish_send_def native_eq notify_def Let_def)

definition demo_frame :: CallbackFrame where
  "demo_frame = queued_frame (sim_api 2) (mac_bytes demo_mac) None (WireHeader_default\<lparr>wh_Protocol := 3\<rparr>, [])
     sim_start"

theorem worker_drains_in_order_witness:
  "\<exists>q'. q' = [] \<and> drain_queue (sim_api 2) echo (demo_transport\<lparr>t_receiveQueue := Some [demo_frame, demo_frame]\<rparr>) =
      Some ((foldl (\<lambda>t f. ProcessCallbackFrame (sim_api 2) echo f t)
        (demo_transport\<lparr>t_receiveQueue := Some [demo_frame, demo_frame]\<rparr>) [demo_frame, demo_frame])
        \<lparr>t_receiveQueue := Some q'\<rparr>)"
  by (rule worker_drains_in_order [OF sim_bounded_fifo [of 2] echo_ignores_queue]) simp



section \<open>Every execution keeps the invariant\<close>

text \<open>
  C2. Whatever sequence of public calls, native callbacks, frame deliveries and worker iterations runs,
  starting from a fresh transport and with handlers that use the public interface: no table holds a key
  twice or changes its size once it is in use, an initialized transport has its queue, its worker, its
  observers and its tables, and the native callback is bound only while the transport is initialized and
  its native stack is up.
\<close>

theorem transport_invariant:
  assumes "handlers_use_api api run run_m" "transport_reachable api run run_m t"
  shows "transport_ok t"
  using transport_reachable_ok [OF assms] .

lemma echo_uses_api: "handlers_use_api (sim_api 2) echo (\<lambda>m now t. t)"
  unfolding handlers_use_api_def echo_def by (auto intro: step_Send)

theorem transport_invariant_witness: "transport_ok demo_transport"
proof (rule transport_invariant [OF echo_uses_api])
  have "transport_step (sim_api 2) echo (\<lambda>m now t. t) (Transport_new sim_start) demo_transport"
    unfolding demo_transport_def by (rule step_api) (rule step_Initialize)
  then show "transport_reachable (sim_api 2) echo (\<lambda>m now t. t) demo_transport"
    unfolding transport_reachable_def by blast
qed

text \<open>What a call of \<^verbatim>\<open>Initialize\<close> with configuration \<open>c\<close> promises about its result and the new state.\<close>

definition start_outcome ::
  "ESPNowTransportConfig \<Rightarrow> bool \<times> ('h, 'm, 'o, 'q, 'w) ESPNowTransport \<Rightarrow> bool" where
  "start_outcome c r \<longleftrightarrow> fst r = t_initialized (snd r)
     \<and> (fst r \<longrightarrow> t_radioBinding (snd r) =
          \<lparr>rb_PreferredInterface = Auto, rb_Channel = tc_Channel c, rb_Available = True\<rparr>
        \<and> t_receiveQueueRejectedCount (snd r) = 0 \<and> \<not> t_nativeSuspended (snd r)
        \<and> sr_Success (GetLastSendResult (snd r)))"

lemma start_outcome_failed:
  "\<not> t_initialized t \<Longrightarrow> start_outcome c (initialization_failed api t)"
  by (simp add: start_outcome_def initialization_failed_def notify_def)

lemma cleanup_stopped [simp]: "\<not> t_initialized (CleanupFailedInitialization api t)"
  by (simp add: CleanupFailedInitialization_def Let_def native_eq)

lemma start_worker_outcome: "t_config t = c \<Longrightarrow> start_outcome c (start_worker api t)"
  by (simp add: start_worker_def native_eq Let_def start_outcome_failed)
    (simp add: start_outcome_def notify_def GetLastSendResult_def)

lemma initialize_native_outcome:
  "t_config t = c \<Longrightarrow> start_outcome c (initialize_native api t)"
  by (simp add: initialize_native_def native_eq Let_def start_outcome_failed start_worker_outcome)

lemma initialize_worker_outcome:
  "t_config t = c \<Longrightarrow> \<not> t_initialized t \<Longrightarrow> start_outcome c (initialize_worker api t)"
  by (simp add: initialize_worker_def native_eq Let_def start_outcome_failed initialize_native_outcome)

lemma initialize_queue_outcome:
  "t_config t = c \<Longrightarrow> \<not> t_initialized t \<Longrightarrow> start_outcome c (initialize_queue api t)"
  by (simp add: initialize_queue_def native_eq Let_def start_outcome_failed initialize_worker_outcome)

lemma initialize_radio_outcome:
  "t_config t = c \<Longrightarrow> \<not> t_initialized t \<Longrightarrow> start_outcome c (initialize_radio api t)"
  by (simp add: initialize_radio_def native_eq Let_def start_outcome_failed initialize_queue_outcome)

lemma Initialize_outcome:
  assumes "\<not> t_initialized t"
  shows "start_outcome config (Initialize api config t)"
proof -
  have "\<not> t_initialized (snd (EnsureRuntimeStorage api t))"
    using EnsureRuntimeStorage_step [of t api] assms by (simp add: storage_step_def)
  then show ?thesis
    using assms by (simp add: Initialize_def split_beta Let_def start_outcome_failed initialize_radio_outcome)
      (simp add: start_outcome_def)
qed

text \<open>
  C10. \<^verbatim>\<open>Initialize\<close> called on a stopped transport: its result says whether the transport is running.
  When it succeeds, the radio is available on the configured channel, the statistics are reset and the
  native callback is bound or not as the invariant says; when it fails at any stage, no callback stays
  bound and a later send is refused as not initialized, without reaching the driver.
\<close>

theorem initialize_outcome:
  assumes "transport_ok t" "\<not> t_initialized t" and r: "Initialize api config t = (ok, t')"
  shows "transport_ok t' \<and> ok = t_initialized t'
    \<and> (ok \<longrightarrow> t_radioBinding t' =
          \<lparr>rb_PreferredInterface = Auto, rb_Channel = tc_Channel config, rb_Available = True\<rparr>
        \<and> t_receiveQueueRejectedCount t' = 0 \<and> \<not> t_nativeSuspended t'
        \<and> sr_Success (GetLastSendResult t'))
    \<and> (\<not> ok \<longrightarrow> \<not> t_callbackInstance t'
        \<and> sr_Failure (fst (SendDetailed api destination protocol payload n t')) = NotInitialized)"
proof -
  have ok: "transport_ok t'" using Initialize_ok [OF assms(1), of api config] r by simp
  have out: "start_outcome config (ok, t')" using Initialize_outcome [OF assms(2), of config api] r by simp
  have "\<not> t_initialized t' \<Longrightarrow> \<not> t_callbackInstance t'" using ok by (simp add: transport_ok_def)
  with ok out show ?thesis by (simp add: start_outcome_def SendDetailed_def)
qed

lemma new_stopped [simp]: "\<not> t_initialized (Transport_new w)"
  by (simp add: Transport_new_def)

theorem initialize_outcome_witness:
  "transport_ok demo_transport \<and> t_initialized demo_transport
    \<and> t_radioBinding demo_transport =
        \<lparr>rb_PreferredInterface = Auto, rb_Channel = 0, rb_Available = True\<rparr>
    \<and> t_receiveQueueRejectedCount demo_transport = 0 \<and> \<not> t_nativeSuspended demo_transport
    \<and> sr_Success (GetLastSendResult demo_transport)"
proof -
  have start: "Initialize (sim_api 2) TransportConfig_default (Transport_new sim_start) = (True, demo_transport)"
    by (rule prod_eqI) (simp_all add: demo_transport_def, code_simp)
  show ?thesis
    using initialize_outcome [OF transport_ok_new new_stopped start, of demo_mac 1 None 0]
    by (simp add: TransportConfig_default_def)
qed

text \<open>
  After \<^verbatim>\<open>Shutdown\<close> of a running transport nothing is bound, queued, registered, hinted or managed,
  and a second \<^verbatim>\<open>Shutdown\<close> does nothing.
\<close>

theorem shutdown_clears:
  assumes "transport_ok t" "t_initialized t"
  shows "(let t' = Shutdown api t in transport_ok t' \<and> \<not> t_initialized t' \<and> \<not> t_callbackInstance t'
    \<and> t_receiveQueue t' = None \<and> t_worker t' = None
    \<and> handler_map (t_handlers t') = Map.empty \<and> maintenance_map (t_maintenanceHandlers t') = Map.empty
    \<and> hint_map (t_peerInterfaceHints t') = Map.empty \<and> managed_map (t_managedPeers t') = Map.empty
    \<and> \<not> rb_Available (t_radioBinding t') \<and> Shutdown api t' = t')"
proof -
  have blank: "slot_lookup used key val (map (\<lambda>_. r) rs) = Map.empty" if "\<not> used r"
    for used and key :: "'x \<Rightarrow> 'y" and val :: "'x \<Rightarrow> 'z" and r rs
    using that by (intro ext) (simp add: slot_lookup_None_iff)
  have "\<not> t_initialized (Shutdown api t)"
    using assms(2) by (simp add: Shutdown_def native_eq Let_def notify_def)
  then have again: "Shutdown api (Shutdown api t) = Shutdown api t" by (simp add: Shutdown_def)
  show ?thesis
    unfolding Let_def again using Shutdown_ok [OF assms(1), of api] assms(2)
    by (simp add: Shutdown_def native_eq Let_def notify_def blank handler_used_def maintenance_used_def
        record_defaults)
qed

theorem shutdown_clears_witness:
  "(let t' = Shutdown (sim_api 2) demo_transport in transport_ok t' \<and> \<not> t_initialized t' \<and> \<not> t_callbackInstance t'
    \<and> t_receiveQueue t' = None \<and> t_worker t' = None
    \<and> handler_map (t_handlers t') = Map.empty \<and> maintenance_map (t_maintenanceHandlers t') = Map.empty
    \<and> hint_map (t_peerInterfaceHints t') = Map.empty \<and> managed_map (t_managedPeers t') = Map.empty
    \<and> \<not> rb_Available (t_radioBinding t') \<and> Shutdown (sim_api 2) t' = t')"
  by (rule shutdown_clears [OF demo_ok demo_started(1)])



section \<open>Sending\<close>

text \<open>Which of the four cases of \<^verbatim>\<open>SendDetailed\<close> applies, in the order the code tests them.\<close>

definition send_admission :: "MacAddress \<Rightarrow> nat \<Rightarrow> ('h, 'm, 'o, 'q, 'w) ESPNowTransport \<Rightarrow> ESPNowSendFailure" where
  "send_admission destination n t =
     (if \<not> t_initialized t then NotInitialized
      else if IsZero destination \<or> n > MaximumFrameSize - sizeof_WireHeader then InvalidArgument
      else if t_nativeSuspended t \<or> \<not> rb_Available (t_radioBinding t) then RadioUnavailable
      else NoFailure)"

lemma finish_send_native:
  assumes "t_observable (snd r)"
  shows "t_native (snd (finish_send api d p n r)) =
    na_notify api (if sr_Success (fst r) then OnSendAccepted d p n
      else OnSendFailedDetailed d p n (sr_Failure (fst r)) (sr_NativeError (fst r))) (t_native (snd r))"
  using assms by (cases r) (simp add: finish_send_def notify_def Let_def)

lemma finish_send_last:
  "t_lastSendFailure (snd (finish_send api d p n r)) = sr_Failure (fst r)"
  "t_lastSendNativeError (snd (finish_send api d p n r)) = sr_NativeError (fst r)"
  by (cases r; simp add: finish_send_def notify_def Let_def)+

text \<open>
  C6. Every send of a running transport. A refused send does not reach the driver and reports why
  (invalid argument, radio unavailable); an admitted one makes exactly one driver call with the built
  frame, succeeds exactly when the driver accepts it, and otherwise classifies the driver's error.
  Exactly one notification is issued, of acceptance or of failure, and the last-send query returns the
  result of this call.
\<close>

theorem send_outcome:
  assumes "transport_ok t" "t_initialized t"
    and r: "SendDetailed api destination protocol payload n t = (result, t')"
  shows "GetLastSendResult t' = result \<and>
    (case send_admission destination n t of
       NoFailure \<Rightarrow>
         (let call = na_send api destination (build_frame protocol payload n) (t_native t) in
          result = \<lparr>sr_Success = (fst call = ESP_OK), sr_Failure = ClassifySendFailure (fst call),
                    sr_NativeError = fst call\<rparr>
          \<and> t_native t' = na_notify api (if fst call = ESP_OK then OnSendAccepted destination protocol n
              else OnSendFailedDetailed destination protocol n (ClassifySendFailure (fst call)) (fst call))
              (snd call))
     | failure \<Rightarrow> \<not> sr_Success result \<and> sr_Failure result = failure
         \<and> t_native t' = na_notify api (OnSendFailedDetailed destination protocol n failure
             (sr_NativeError result)) (t_native t))"
proof -
  have ob: "t_observable t" using assms by (simp add: transport_inv_defs)
  have "result = fst (SendDetailed api destination protocol payload n t)"
    "t' = snd (SendDetailed api destination protocol payload n t)" using r by simp_all
  then show ?thesis
    unfolding send_admission_def using assms(2) ob
    by (simp add: SendDetailed_def native_eq Let_def finish_send_native finish_send_last
        GetLastSendResult_def SendResult_default_def ClassifySendFailure_None)
qed

theorem send_outcome_witness:
  "\<exists>result t'. SendDetailed (sim_api 2) demo_mac 3 None 0 demo_transport = (result, t')
     \<and> GetLastSendResult t' = result \<and> sr_Success result"
proof -
  obtain result t' where r: "SendDetailed (sim_api 2) demo_mac 3 None 0 demo_transport = (result, t')"
    by fastforce
  have "send_admission demo_mac 0 demo_transport = NoFailure"
    by (simp add: send_admission_def demo_started)
  moreover have "fst (na_send (sim_api 2) demo_mac (build_frame 3 None 0) (t_native demo_transport)) = ESP_OK"
    by (simp add: sim_api_def)
  ultimately have "GetLastSendResult t' = result \<and> sr_Success result"
    using send_outcome [OF demo_ok demo_started(1) r] by (simp add: Let_def)
  with r show ?thesis by blast
qed


section \<open>Protocol handlers\<close>

text \<open>
  C8. Registering a handler on a running transport (whose allocator does not fail) behaves like an
  insertion into a finite map of at most eight protocols: it is refused exactly when eight other
  protocols have handlers, otherwise frames of that protocol go to the new handler and those of every
  other protocol where they went before; unregistering removes exactly that protocol.
\<close>

theorem handler_registration:
  assumes ok: "transport_ok t" and init: "t_initialized t" and alloc: "fst (na_alloc api (t_native t))"
    and r: "RegisterProtocolHandler api protocol (Some h) t = (result, t')"
  shows "(result = Some False \<longleftrightarrow> find_handler protocol (t_handlers t) = None
        \<and> card {p. find_handler p (t_handlers t) \<noteq> None} = ESPRESSIO_ESPNOW_MAX_PROTOCOL_HANDLERS)
    \<and> (result \<noteq> Some False \<longrightarrow> result = Some True \<and> (\<forall>p. find_handler p (t_handlers t') =
         (if p = protocol then Some h else find_handler p (t_handlers t))))
    \<and> (result = Some False \<longrightarrow> t_handlers t' = t_handlers t)
    \<and> (\<forall>p. find_handler p (t_handlers (UnregisterProtocolHandler protocol t')) =
         (if p = protocol then None else find_handler p (t_handlers t)))"
proof -
  let ?hs = "t_handlers t"
  have hs: "handlers_ok ?hs" "length ?hs = ESPRESSIO_ESPNOW_MAX_PROTOCOL_HANDLERS" "storage_ready t"
    using ok init by (simp_all add: transport_inv_defs)
  have full: "store_handler protocol h ?hs = None \<longleftrightarrow>
      protocol \<notin> dom (handler_map ?hs) \<and> card (dom (handler_map ?hs)) = length ?hs"
    unfolding store_handler_table by (rule handler_slots.put_None [OF hs(1)])
  have res: "(result, t_handlers t') = (case store_handler protocol h ?hs of
      None \<Rightarrow> (Some False, ?hs) | Some hs' \<Rightarrow> (Some True, hs'))"
    using r alloc hs(3)
    by (auto simp: RegisterProtocolHandler_def EnsureRuntimeStorage_id native_eq split: option.splits)
  have unreg: "handler_map (remove_handler protocol hs') = (handler_map hs')(protocol := None)"
    if "handlers_ok hs'" for hs' :: "'a HandlerRecord list" using remove_handler_spec [OF that] by blast
  show ?thesis
  proof (cases "store_handler protocol h ?hs")
    case None
    then show ?thesis
      using res full hs unreg [OF hs(1)]
      by (auto simp: find_handler_map UnregisterProtocolHandler_def dom_def)
  next
    case (Some hs')
    note upd = store_handler_spec [OF hs(1) Some]
    then show ?thesis
      using res full Some unreg [of hs'] hs(2)
      by (auto simp: find_handler_map UnregisterProtocolHandler_def dom_def)
  qed
qed

theorem handler_registration_witness:
  "\<exists>t'. RegisterProtocolHandler (sim_api 2) 3 (Some 7) demo_transport = (Some True, t')
     \<and> find_handler 3 (t_handlers t') = Some 7"
proof -
  have "fst (RegisterProtocolHandler (sim_api 2) 3 (Some 7) demo_transport) = Some True" by code_simp
  then obtain t' where r: "RegisterProtocolHandler (sim_api 2) 3 (Some 7) demo_transport = (Some True, t')"
    by (cases "RegisterProtocolHandler (sim_api 2) 3 (Some 7) demo_transport") auto
  have "fst (na_alloc (sim_api 2) (t_native demo_transport))" by (simp add: sim_api_def)
  with r show ?thesis using handler_registration [OF demo_ok demo_started(1) _ r] by auto
qed



section \<open>Peers and the native peer table\<close>

text \<open>What the driver must hold for a managed peer on interface \<open>i\<close>.\<close>

definition programmed :: "peer_settings \<Rightarrow> wifi_interface \<Rightarrow> esp_now_peer_info option \<Rightarrow> bool" where
  "programmed s i entry \<longleftrightarrow> (case (s, entry) of
       ((ch, _, enc, key), Some info) \<Rightarrow> pi_channel info = ch \<and> pi_ifidx info = i \<and> pi_encrypt info = enc
         \<and> pi_lmk info = (if enc then take 16 key else replicate 16 0)
     | _ \<Rightarrow> False)"

lemma programmed_info: "programmed (peer_settings c) i (Some (program_info c i p))"
  by (simp add: programmed_def peer_settings_def program_info_def)

lemma contract_update:
  assumes "peer_table_contract api tbl"
  shows "na_add_peer api info w = (e, w') \<Longrightarrow>
      tbl w' = (if e = ESP_OK then (tbl w)(pi_peer_addr info \<mapsto> info) else tbl w)"
    and "na_mod_peer api info w = (e, w') \<Longrightarrow>
      tbl w' = (if e = ESP_OK then (tbl w)(pi_peer_addr info \<mapsto> info) else tbl w)"
    and "na_del_peer api a w = (e, w') \<Longrightarrow> tbl w' = (if e = ESP_OK then (tbl w)(a := None) else tbl w)"
    and "na_del_peer api a w = (ESP_ERR_ESPNOW_NOT_FOUND, w') \<Longrightarrow> a \<notin> dom (tbl w)"
    and "tbl (na_notify api n w) = tbl w"
    and "na_is_peer_exist api a w \<longleftrightarrow> a \<in> dom (tbl w)"
  using assms unfolding peer_table_contract_def by (simp_all; blast)+

lemma ProgramPeerNativeLocked_table:
  assumes "peer_table_contract api tbl" "ProgramPeerNativeLocked api c n t = (ok, t')"
  shows "if ok then \<exists>p. tbl (t_native t') =
        (tbl (t_native t))(pc_Address c \<mapsto> program_info c (ResolvePeerInterface api c t) p)
    else tbl (t_native t') = tbl (t_native t)"
proof -
  note tab = contract_update [OF assms(1)]
  have addr: "pi_peer_addr (program_info c i p) = pc_Address c" for i p by (simp add: program_info_def)
  show ?thesis
    using assms(2) tab(1) [OF prod.collapse [symmetric]] tab(2) [OF prod.collapse [symmetric]]
    by (auto simp: ProgramPeerNativeLocked_def native_eq notify_def split_beta Let_def addr tab(5)
        split: if_splits)
qed

text \<open>The peer's interface does not depend on the platform when it is explicit or the binding has a preference.\<close>

lemma ResolvePeerInterface_native:
  assumes "pc_Interface c \<noteq> Auto \<or> rb_PreferredInterface (t_radioBinding t) \<noteq> Auto"
  shows "ResolvePeerInterface api c (t\<lparr>t_native := w\<rparr>) = ResolvePeerInterface api c t"
  using assms by (cases "rb_PreferredInterface (t_radioBinding t)")
    (auto simp: ResolvePeerInterface_def FindPeerInterfaceHint_def Let_def split: option.split)

text \<open>Otherwise it follows the WiFi mode, which adding and modifying peers does not change.\<close>

definition peers_leave_wifi_mode :: "('q, 'w) native_api \<Rightarrow> bool" where
  "peers_leave_wifi_mode api \<longleftrightarrow>
     (\<forall>info w. na_wifi_get_mode api (snd (na_add_peer api info w)) = na_wifi_get_mode api w
        \<and> na_wifi_connected api (snd (na_add_peer api info w)) = na_wifi_connected api w
        \<and> na_wifi_get_mode api (snd (na_mod_peer api info w)) = na_wifi_get_mode api w
        \<and> na_wifi_connected api (snd (na_mod_peer api info w)) = na_wifi_connected api w)"

definition settled_interface :: "('q, 'w) native_api \<Rightarrow> ESPNowRadioBinding \<Rightarrow> ESPNowPeerConfig \<Rightarrow> bool" where
  "settled_interface api binding c \<longleftrightarrow>
     pc_Interface c \<noteq> Auto \<or> rb_PreferredInterface binding \<noteq> Auto \<or> peers_leave_wifi_mode api"

lemma CurrentDefaultInterface_mode:
  "na_wifi_get_mode api w' = na_wifi_get_mode api w \<Longrightarrow> na_wifi_connected api w' = na_wifi_connected api w \<Longrightarrow>
     CurrentDefaultInterface api w' = CurrentDefaultInterface api w"
  by (simp add: CurrentDefaultInterface_def)

lemma ResolvePeerInterface_programmed:
  assumes prog: "ProgramPeerNativeLocked api c False t = (ok, t1)" and settled: "settled_interface api (t_radioBinding t) c'"
  shows "ResolvePeerInterface api c' t1 = ResolvePeerInterface api c' t"
proof -
  obtain w where t1: "t1 = t\<lparr>t_native := w\<rparr>" using ProgramPeerNativeLocked_frame [OF prog] by blast
  show ?thesis
  proof (cases "pc_Interface c' \<noteq> Auto \<or> rb_PreferredInterface (t_radioBinding t) \<noteq> Auto")
    case True
    then show ?thesis unfolding t1 by (rule ResolvePeerInterface_native)
  next
    case False
    then have leave: "peers_leave_wifi_mode api" using settled by (simp add: settled_interface_def)
    have "w = t_native t1" by (simp add: t1)
    then have "CurrentDefaultInterface api w = CurrentDefaultInterface api (t_native t)"
      using leave prog
      by (intro CurrentDefaultInterface_mode)
        (auto simp: ProgramPeerNativeLocked_def native_eq split_beta Let_def peers_leave_wifi_mode_def split: if_splits)
    then show ?thesis unfolding t1 by (auto simp: ResolvePeerInterface_def FindPeerInterfaceHint_def Let_def split: option.split)
  qed
qed

lemma reconcile_loop_table:
  assumes contract: "peer_table_contract api tbl"
    and pref: "\<And>c. c \<in> set cs \<Longrightarrow> settled_interface api (t_radioBinding t) c"
    and dist: "distinct (map pc_Address cs)" and r: "reconcile_loop api cs s t = (True, t')"
  shows "s \<and> (\<forall>a. a \<notin> pc_Address ` set cs \<longrightarrow> tbl (t_native t') a = tbl (t_native t) a)
    \<and> (\<forall>c \<in> set cs. programmed (peer_settings c) (ResolvePeerInterface api c t) (tbl (t_native t') (pc_Address c)))
    \<and> (\<forall>c. settled_interface api (t_radioBinding t) c \<longrightarrow> ResolvePeerInterface api c t' = ResolvePeerInterface api c t)"
  using pref dist r
proof (induction cs arbitrary: s t)
  case Nil
  then show ?case by simp
next
  case (Cons c cs)
  obtain ok t1 where prog: "ProgramPeerNativeLocked api c False t = (ok, t1)" by fastforce
  obtain w where t1: "t1 = t\<lparr>t_native := w\<rparr>" using ProgramPeerNativeLocked_frame [OF prog] by blast
  have loop: "reconcile_loop api cs (s \<and> ok) t1 = (True, t')" using Cons.prems(3) prog by simp
  have same: "ResolvePeerInterface api c' t1 = ResolvePeerInterface api c' t" if "settled_interface api (t_radioBinding t) c'" for c'
    by (rule ResolvePeerInterface_programmed [OF prog that])
  have IH: "(s \<and> ok) \<and> (\<forall>a. a \<notin> pc_Address ` set cs \<longrightarrow> tbl (t_native t') a = tbl (t_native t1) a)
    \<and> (\<forall>c \<in> set cs. programmed (peer_settings c) (ResolvePeerInterface api c t1) (tbl (t_native t') (pc_Address c)))
    \<and> (\<forall>c. settled_interface api (t_radioBinding t1) c \<longrightarrow> ResolvePeerInterface api c t' = ResolvePeerInterface api c t1)"
    by (rule Cons.IH [OF _ _ loop]) (use Cons.prems t1 in auto)
  then obtain p where "tbl (t_native t1) =
      (tbl (t_native t))(pc_Address c \<mapsto> program_info c (ResolvePeerInterface api c t) p)"
    using ProgramPeerNativeLocked_table [OF contract prog] by auto
  then show ?case using IH same Cons.prems(1,2) t1 by (auto simp: programmed_info)
qed

lemma managed_configs:
  assumes "managed_ok ps" "managed_map ps a = Some st"
  shows "peer_config a st \<in> set (map mp_Config (filter mp_Used ps))"
proof -
  obtain r where "List.find (\<lambda>r. mp_Used r \<and> pc_Address (mp_Config r) = a) ps = Some r"
    "peer_settings (mp_Config r) = st"
    using assms(2) by (auto simp: slot_lookup_def)
  then have "r \<in> set ps" "mp_Used r" "pc_Address (mp_Config r) = a" "peer_settings (mp_Config r) = st"
    by (auto simp: find_Some_iff)
  moreover from this(3,4) have "mp_Config r = peer_config a st" by auto
  ultimately show ?thesis by force
qed

lemma reconcile_all:
  assumes "peer_table_contract api tbl" "managed_ok (t_managedPeers t)"
    and settled: "rb_PreferredInterface (t_radioBinding t) \<noteq> Auto \<or> peers_leave_wifi_mode api"
    and r: "ReconcileManagedPeersLocked api t = (True, t')" and m: "managed_map (t_managedPeers t) a = Some st"
  shows "programmed st (ResolvePeerInterface api (peer_config a st) t') (tbl (t_native t') a)"
proof -
  let ?cs = "CopyManagedPeerConfigs t"
  have "reconcile_loop api ?cs True t = (True, t')"
    using r by (auto simp: ReconcileManagedPeersLocked_def split: if_splits)
  moreover have "distinct (map pc_Address ?cs)"
    using assms(2) by (simp add: CopyManagedPeerConfigs_def slots_ok_def o_def)
  moreover have "peer_config a st \<in> set ?cs"
    using managed_configs [OF assms(2) m] by (simp add: CopyManagedPeerConfigs_def)
  moreover have s: "settled_interface api (t_radioBinding t) c" for c using settled by (simp add: settled_interface_def)
  ultimately show ?thesis using reconcile_loop_table [OF assms(1) s] by fastforce
qed


lemma hint_map_cleared [simp]: "hint_map (t_peerInterfaceHints (ClearPeerInterfaceHints t)) = Map.empty"
  by (intro ext) (simp add: ClearPeerInterfaceHints_def slot_lookup_None_iff record_defaults)

text \<open>The interface of a peer nobody has heard: its own, else the one of the binding, else the default of the WiFi mode.\<close>

definition bound_interface :: "('q, 'w) native_api \<Rightarrow> ESPNowRadioBinding \<Rightarrow> ESPNowWiFiInterface \<Rightarrow> 'w \<Rightarrow> wifi_interface" where
  "bound_interface api binding i w =
     (if i \<noteq> Auto then ExplicitInterface i
      else if rb_PreferredInterface binding \<noteq> Auto then ExplicitInterface (rb_PreferredInterface binding)
      else CurrentDefaultInterface api w)"

lemma resolve_after_clear:
  assumes "hint_map (t_peerInterfaceHints t) = Map.empty" "rb_PreferredInterface (t_radioBinding t) = rb_PreferredInterface binding"
  shows "ResolvePeerInterface api c t = bound_interface api binding (pc_Interface c) (t_native t)"
  using assms by (cases "rb_PreferredInterface binding") (auto simp: ResolvePeerInterface_def find_hint_map bound_interface_def)

text \<open>What re-initialization does before it reprograms the peers.\<close>

lemma ReinitializeNativeStateLocked_cases:
  assumes "ReinitializeNativeStateLocked api t = (True, t')"
  obtains w where "ReconcileManagedPeersLocked api
    (t\<lparr>t_callbackInstance := True, t_native := w, t_nativeSuspended := False\<rparr>) = (True, t')"
proof -
  define w where "w = snd (na_register_recv_cb api (snd (na_init api (snd (na_deinit api
    (na_unregister_recv_cb api (t_native t)))))))"
  have "ReconcileManagedPeersLocked api
      (t\<lparr>t_callbackInstance := True, t_native := w, t_nativeSuspended := False\<rparr>) = (True, t')"
    using assms unfolding ReinitializeNativeStateLocked_def w_def
    by (simp add: native_eq Let_def split: if_splits)
  then show thesis by (rule that)
qed

lemma ClearPeerInterfaceHints_fields [simp]:
  "t_nativeSuspended (ClearPeerInterfaceHints t) = t_nativeSuspended t"
  "t_initialized (ClearPeerInterfaceHints t) = t_initialized t"
  "t_radioBinding (ClearPeerInterfaceHints t) = t_radioBinding t"
  "t_managedPeers (ClearPeerInterfaceHints t) = t_managedPeers t"
  by (simp_all add: ClearPeerInterfaceHints_def)

text \<open>A successful binding ends with a reconciliation in a state without hints.\<close>

lemma ApplyRadioBinding_reconciles:
  assumes r: "ApplyRadioBinding api binding reinit t = (True, t')"
  obtains t1 t2 where "ReconcileManagedPeersLocked api t2 = (True, t1)" "t' = t1\<lparr>t_radioBinding := binding\<rparr>"
    "hint_map (t_peerInterfaceHints t2) = Map.empty" "t_managedPeers t2 = t_managedPeers t"
    "t_radioBinding t2 = binding\<lparr>rb_Available := False\<rparr>"
proof -
  define t0 where "t0 = ClearPeerInterfaceHints (t\<lparr>t_radioBinding := binding\<lparr>rb_Available := False\<rparr>\<rparr>)"
  define res where "res = (if reinit \<or> t_nativeSuspended t then ReinitializeNativeStateLocked api t0
      else ReconcileManagedPeersLocked api t0)"
  have res: "fst res" "t' = (snd res)\<lparr>t_radioBinding := binding\<rparr>"
    using r by (auto simp: ApplyRadioBinding_def Let_def split_beta res_def t0_def split: if_splits)
  have t0: "hint_map (t_peerInterfaceHints t0) = Map.empty" "t_managedPeers t0 = t_managedPeers t"
    "t_radioBinding t0 = binding\<lparr>rb_Available := False\<rparr>" by (simp_all add: t0_def)
  show thesis
  proof (cases "reinit \<or> t_nativeSuspended t")
    case True
    then have "ReinitializeNativeStateLocked api t0 = (True, snd res)"
      using res(1) by (metis prod.collapse res_def)
    then obtain w where "ReconcileManagedPeersLocked api
        (t0\<lparr>t_callbackInstance := True, t_native := w, t_nativeSuspended := False\<rparr>) = (True, snd res)"
      by (rule ReinitializeNativeStateLocked_cases)
    then show thesis using res(2) by (rule that) (simp_all add: t0)
  next
    case False
    then have "ReconcileManagedPeersLocked api t0 = (True, snd res)"
      using res(1) by (metis prod.collapse res_def)
    then show thesis using res(2) t0 by (rule that)
  qed
qed

lemma ApplyRadioBinding_failed:
  assumes "ApplyRadioBinding api binding reinit t = (False, t')" "t_initialized t"
  shows "\<not> rb_Available (t_radioBinding t')"
  using assms by (auto simp: ApplyRadioBinding_def Let_def split_beta)

lemma ApplyRadioBinding_binds:
  assumes "peer_table_contract api tbl" "transport_ok t" and settled: "rb_PreferredInterface binding \<noteq> Auto \<or> peers_leave_wifi_mode api"
    and r: "ApplyRadioBinding api binding reinit t = (True, t')"
  shows "t_radioBinding t' = binding" "\<not> t_nativeSuspended t'" "t_managedPeers t' = t_managedPeers t"
    "\<And>a ch i enc key. managed_map (t_managedPeers t) a = Some (ch, i, enc, key) \<Longrightarrow>
       programmed (ch, i, enc, key) (bound_interface api binding i (t_native t')) (tbl (t_native t') a)"
proof -
  obtain t1 t2 where rec: "ReconcileManagedPeersLocked api t2 = (True, t1)"
    and t': "t' = t1\<lparr>t_radioBinding := binding\<rparr>"
    and t2: "hint_map (t_peerInterfaceHints t2) = Map.empty" "t_managedPeers t2 = t_managedPeers t"
      "t_radioBinding t2 = binding\<lparr>rb_Available := False\<rparr>"
    using r by (rule ApplyRadioBinding_reconciles)
  have mok: "managed_ok (t_managedPeers t2)" using transport_ok_tables(4) [OF assms(2)] by (simp add: t2)
  obtain w' where frame: "t1 = t2\<lparr>t_native := w'\<rparr>" using ReconcileManagedPeersLocked_frame [OF rec] by blast
  have resolve: "ResolvePeerInterface api c t1 = bound_interface api binding (pc_Interface c) (t_native t1)" for c
    by (intro resolve_after_clear) (simp_all add: frame t2)
  show "\<not> t_nativeSuspended t'"
    using rec frame by (auto simp: t' ReconcileManagedPeersLocked_def split: if_splits)
  show "programmed (ch, i, enc, key) (bound_interface api binding i (t_native t')) (tbl (t_native t') a)"
    if "managed_map (t_managedPeers t) a = Some (ch, i, enc, key)" for a ch i enc key
    using reconcile_all [OF assms(1) mok _ rec, of a "(ch, i, enc, key)"] that settled
    by (simp add: resolve t2 t')
  show "t_radioBinding t' = binding" "t_managedPeers t' = t_managedPeers t" using frame t2 by (simp_all add: t')
qed

lemma ApplyRadioBinding_programs:
  assumes "peer_table_contract api tbl" "transport_ok t" "rb_PreferredInterface binding \<noteq> Auto"
    and r: "ApplyRadioBinding api binding reinit t = (True, t')"
  shows "t_radioBinding t' = binding" "\<not> t_nativeSuspended t'" "t_managedPeers t' = t_managedPeers t"
    "\<And>a ch i enc key. managed_map (t_managedPeers t) a = Some (ch, i, enc, key) \<Longrightarrow>
       programmed (ch, i, enc, key) (ExplicitInterface (if i = Auto then rb_PreferredInterface binding else i)) (tbl (t_native t') a)"
proof -
  have eq: "bound_interface api binding i w = ExplicitInterface (if i = Auto then rb_PreferredInterface binding else i)" for i w
    using assms(3) by (simp add: bound_interface_def)
  note p = ApplyRadioBinding_binds [OF assms(1,2) disjI1 [OF assms(3)] r, unfolded eq]
  show "t_radioBinding t' = binding" "\<not> t_nativeSuspended t'" "t_managedPeers t' = t_managedPeers t" by (fact p(1), fact p(2), fact p(3))
  show "programmed (ch, i, enc, key) (ExplicitInterface (if i = Auto then rb_PreferredInterface binding else i)) (tbl (t_native t') a)"
    if "managed_map (t_managedPeers t) a = Some (ch, i, enc, key)" for a ch i enc key by (rule p(4) [OF that])
qed

text \<open>
  C4. Applying a shared-radio binding that names an interface: when it succeeds, the binding is in
  force, the native stack is up, and the driver holds every managed peer with its channel, encryption
  and key, peers with an explicit interface on that interface and all others on the interface of the
  binding, whatever interface was learnt before. When it fails, the radio is unavailable and sends are
  refused as such.
\<close>

theorem radio_binding_programs_peers:
  assumes "peer_table_contract api tbl" "transport_ok t" "rb_PreferredInterface binding \<noteq> Auto"
    and r: "ApplyRadioBinding api binding reinit t = (ok, t')"
  shows "(ok \<longrightarrow> t_radioBinding t' = binding \<and> \<not> t_nativeSuspended t' \<and> t_managedPeers t' = t_managedPeers t
      \<and> (\<forall>a ch i enc key. managed_map (t_managedPeers t) a = Some (ch, i, enc, key) \<longrightarrow>
           programmed (ch, i, enc, key)
             (ExplicitInterface (if i = Auto then rb_PreferredInterface binding else i)) (tbl (t_native t') a)))
    \<and> (\<not> ok \<longrightarrow> t_initialized t \<longrightarrow> \<not> rb_Available (t_radioBinding t')
      \<and> (\<not> IsZero destination \<longrightarrow> t_initialized t' \<longrightarrow>
           sr_Failure (fst (SendDetailed api destination protocol payload 0 t')) = RadioUnavailable))"
proof (cases ok)
  case False
  then show ?thesis using ApplyRadioBinding_failed [of api binding reinit t t'] r
    by (auto simp: SendDetailed_def SendResult_default_def)
next
  case True
  with r have "ApplyRadioBinding api binding reinit t = (True, t')" by simp
  from ApplyRadioBinding_programs [OF assms(1-3) this] True show ?thesis by simp
qed


definition demo_peer :: ESPNowPeerConfig where
  "demo_peer = PeerConfig_default\<lparr>pc_Address := demo_mac, pc_Channel := 6\<rparr>"

definition demo_with_peer :: "(nat, nat, nat, CallbackFrame list, sim) ESPNowTransport" where
  "demo_with_peer = snd (AddPeer (sim_api 2) demo_peer demo_transport)"

lemma demo_with_peer_ok: "transport_ok demo_with_peer"
  unfolding demo_with_peer_def by (rule AddPeer_ok [OF demo_ok])

lemma demo_with_peer_managed:
  "managed_map (t_managedPeers demo_with_peer) demo_mac = Some (6, Auto, False, replicate 16 0)"
  by code_simp

theorem radio_binding_programs_peers_witness:
  "\<exists>t'. ApplyRadioBinding (sim_api 2) \<lparr>rb_PreferredInterface = AccessPoint, rb_Channel = 6, rb_Available = True\<rparr>
       True demo_with_peer = (True, t')
     \<and> programmed (6, Auto, False, replicate 16 0) WIFI_IF_AP (map_of (sim_peers (t_native t')) demo_mac)"
proof -
  let ?b = "\<lparr>rb_PreferredInterface = AccessPoint, rb_Channel = 6, rb_Available = True\<rparr>"
  have ok: "fst (ApplyRadioBinding (sim_api 2) ?b True demo_with_peer)" by code_simp
  have pref: "rb_PreferredInterface ?b \<noteq> Auto" by simp
  from fst_True [OF ok] obtain t' where r: "ApplyRadioBinding (sim_api 2) ?b True demo_with_peer = (True, t')"
    ..
  show ?thesis
    using radio_binding_programs_peers [OF sim_peer_table_contract demo_with_peer_ok pref r,
        THEN conjunct1, THEN mp, OF TrueI, THEN conjunct2, THEN conjunct2, THEN conjunct2, rule_format,
        OF demo_with_peer_managed] r by (simp add: ExplicitInterface_def)
qed

lemma add_peer_stored:
  assumes contract: "peer_table_contract api tbl" and mok: "managed_ok (t_managedPeers t)"
    and run: "t_initialized t" "\<not> IsZero (pc_Address c)"
    and ps: "store_managed (pc_Address c) c (t_managedPeers t) = Some ps" and r: "AddPeer api c t = (ok, t')"
  shows "if t_nativeSuspended t
    then ok \<and> t_native t' = t_native t
      \<and> managed_map (t_managedPeers t') = (managed_map (t_managedPeers t))(pc_Address c \<mapsto> peer_settings c)
    else if ok
    then managed_map (t_managedPeers t') = (managed_map (t_managedPeers t))(pc_Address c \<mapsto> peer_settings c)
      \<and> (\<exists>info. tbl (t_native t') = (tbl (t_native t))(pc_Address c \<mapsto> info)
           \<and> programmed (peer_settings c) (ResolvePeerInterface api c t) (Some info))
    else managed_map (t_managedPeers t') = (managed_map (t_managedPeers t))(pc_Address c := None)
      \<and> tbl (t_native t') = tbl (t_native t)"
proof -
  note stored = store_managed_spec [OF mok ps]
  define t1 where "t1 = t\<lparr>t_managedPeers := ps\<rparr>"
  obtain ok2 t2 where p: "ProgramPeerNativeLocked api c True t1 = (ok2, t2)" by fastforce
  then obtain w where t2: "t2 = t1\<lparr>t_native := w\<rparr>" using ProgramPeerNativeLocked_frame by blast
  have resolve: "ResolvePeerInterface api c t1 = ResolvePeerInterface api c t"
    by (simp add: t1_def ResolvePeerInterface_def FindPeerInterfaceHint_def Let_def split: option.split)
  have forget: "managed_map (forget_managed (pc_Address c) ps) = (managed_map (t_managedPeers t))(pc_Address c := None)"
    using forget_managed_spec [of ps "pc_Address c"] stored by simp
  have res: "(ok, t') = (if t_nativeSuspended t then (True, t1) else if \<not> ok2
      then (False, ForgetManagedPeer (pc_Address c) t2) else (True, t2))"
    using r run ps p by (auto simp: AddPeer_def StoreManagedPeer_def t1_def [symmetric]) (simp_all add: t1_def)
  have nat1: "t_native t1 = t_native t" by (simp add: t1_def)
  have prog: "if ok2 then \<exists>q. tbl (t_native t2) = (tbl (t_native t))(pc_Address c \<mapsto>
        program_info c (ResolvePeerInterface api c t) q) else tbl (t_native t2) = tbl (t_native t)"
    using ProgramPeerNativeLocked_table [OF contract p] unfolding resolve nat1 .
  show ?thesis
    using res prog run stored forget programmed_info
    by (auto simp: ForgetManagedPeer_def t2 t1_def split: if_splits)
qed

text \<open>
  C9. \<^verbatim>\<open>AddPeer\<close>. It is refused with nothing changed when the transport is stopped, the address is zero or
  the table of twenty managed peers is full and does not know the peer. While the native stack is
  suspended it only records the peer. Otherwise it succeeds exactly when the driver took the peer; a
  failure leaves the driver's table as it was and the peer unmanaged, even when it was managed before.
\<close>

theorem add_peer_outcome:
  assumes contract: "peer_table_contract api tbl" and "transport_ok t" and r: "AddPeer api c t = (ok, t')"
  shows "if \<not> t_initialized t \<or> IsZero (pc_Address c)
      \<or> pc_Address c \<notin> dom (managed_map (t_managedPeers t))
        \<and> card (dom (managed_map (t_managedPeers t))) = ESPRESSIO_ESPNOW_MAX_MANAGED_PEERS
    then \<not> ok \<and> t' = t
    else if t_nativeSuspended t
    then ok \<and> t_native t' = t_native t
      \<and> managed_map (t_managedPeers t') = (managed_map (t_managedPeers t))(pc_Address c \<mapsto> peer_settings c)
    else if ok
    then managed_map (t_managedPeers t') = (managed_map (t_managedPeers t))(pc_Address c \<mapsto> peer_settings c)
      \<and> (\<exists>info. tbl (t_native t') = (tbl (t_native t))(pc_Address c \<mapsto> info)
           \<and> programmed (peer_settings c) (ResolvePeerInterface api c t) (Some info))
    else managed_map (t_managedPeers t') = (managed_map (t_managedPeers t))(pc_Address c := None)
      \<and> tbl (t_native t') = tbl (t_native t)"
proof (cases "\<not> t_initialized t \<or> IsZero (pc_Address c)")
  case True
  then show ?thesis using r by (auto simp: AddPeer_def)
next
  case False
  then have run: "t_initialized t" "\<not> IsZero (pc_Address c)" by auto
  note mok = transport_ok_tables(4) [OF assms(2)]
  have len: "length (t_managedPeers t) = ESPRESSIO_ESPNOW_MAX_MANAGED_PEERS"
    using assms(2) run by (simp add: transport_inv_defs)
  show ?thesis
  proof (cases "store_managed (pc_Address c) c (t_managedPeers t)")
    case None
    then show ?thesis
      using r run len store_managed_full [OF mok, of c] by (simp add: AddPeer_def StoreManagedPeer_def)
  next
    case (Some ps)
    then show ?thesis
      using add_peer_stored [OF contract mok run Some r] store_managed_full [OF mok, of c] len run by auto
  qed
qed


theorem add_peer_outcome_witness:
  "\<exists>t' info. AddPeer (sim_api 2) demo_peer demo_transport = (True, t')
     \<and> map_of (sim_peers (t_native t')) demo_mac = Some info"
proof -
  have ok: "fst (AddPeer (sim_api 2) demo_peer demo_transport)" by code_simp
  from fst_True [OF ok] obtain t' where r: "AddPeer (sim_api 2) demo_peer demo_transport = (True, t')"
    ..
  have demo: "pc_Address demo_peer = demo_mac" by (simp add: demo_peer_def)
  show ?thesis
    using add_peer_outcome [OF sim_peer_table_contract demo_ok r] r demo_started(1,2,6)
    by (auto simp: demo split: if_splits)
qed

text \<open>
  \<^verbatim>\<open>RemovePeer\<close> of a running transport: unless the driver reports an error other than ``not found'',
  the peer is afterwards unknown everywhere (not managed, without interface hint and, unless the native
  stack is suspended, absent from the driver's table) and every other peer is untouched; otherwise
  nothing changes.
\<close>

theorem remove_peer_outcome:
  assumes contract: "peer_table_contract api tbl" and "transport_ok t" "t_initialized t" "\<not> IsZero a"
    and r: "RemovePeer api a t = (ok, t')"
  shows "if ok
    then managed_map (t_managedPeers t') = (managed_map (t_managedPeers t))(a := None)
      \<and> hint_map (t_peerInterfaceHints t') = (hint_map (t_peerInterfaceHints t))(a := None)
      \<and> tbl (t_native t') = (if t_nativeSuspended t then tbl (t_native t) else (tbl (t_native t))(a := None))
    else \<not> t_nativeSuspended t \<and> t_managedPeers t' = t_managedPeers t
      \<and> t_peerInterfaceHints t' = t_peerInterfaceHints t \<and> tbl (t_native t') = tbl (t_native t)"
proof -
  note tab = contract_update [OF contract]
  obtain e w where del: "na_del_peer api a (t_native t) = (e, w)" by fastforce
  have gone: "(tbl (t_native t))(a := None) = tbl (t_native t)" if "e = ESP_ERR_ESPNOW_NOT_FOUND"
    using tab(4) [of a "t_native t" w] del that by (auto simp: fun_eq_iff)
  have maps: "managed_map (forget_managed a (t_managedPeers t)) = (managed_map (t_managedPeers t))(a := None)"
    "hint_map (clear_hint a (t_peerInterfaceHints t)) = (hint_map (t_peerInterfaceHints t))(a := None)"
    using forget_managed_spec [OF transport_ok_tables(4) [OF assms(2)], of a]
      clear_hint_spec [OF transport_ok_tables(3) [OF assms(2)], of a] by simp_all
  show ?thesis
    using r assms(3,4) del maps tab(3) [OF del] tab(5) gone
    by (auto simp: RemovePeer_def native_eq Let_def notify_def ForgetManagedPeer_def
        ClearPeerInterfaceHint_def split: if_splits)
qed

theorem remove_peer_outcome_witness:
  "\<exists>t'. RemovePeer (sim_api 2) demo_mac demo_with_peer = (True, t')
     \<and> managed_map (t_managedPeers t') demo_mac = None \<and> map_of (sim_peers (t_native t')) demo_mac = None"
proof -
  have ok: "fst (RemovePeer (sim_api 2) demo_mac demo_with_peer)" by code_simp
  from fst_True [OF ok] obtain t' where r: "RemovePeer (sim_api 2) demo_mac demo_with_peer = (True, t')"
    ..
  have demo: "t_initialized demo_with_peer" "\<not> t_nativeSuspended demo_with_peer" by code_simp+
  show ?thesis
    using remove_peer_outcome [OF sim_peer_table_contract demo_with_peer_ok demo(1) demo_started(6) r] r demo
    by simp
qed


section \<open>Learning the interface of a peer\<close>

lemma IsManagedPeerAuto_map:
  "IsManagedPeerAuto a t = (\<exists>ch enc key. managed_map (t_managedPeers t) a = Some (ch, Auto, enc, key))"
  by (auto simp: IsManagedPeerAuto_def slot_lookup_def is_managed_def [abs_def] peer_settings_def split: option.split)

text \<open>
  When a frame from a peer arrives on an interface: a peer that is not managed, or that was given an
  explicit interface, is left alone completely; for a managed peer with automatic interface the arrival
  interface is recorded (whenever the hint table knows it or has room) and from then on is the interface
  that peer is programmed with, the hints of other peers staying as they were.
\<close>

theorem interface_learning:
  assumes "transport_ok t" "\<not> IsZero a"
  shows "case managed_map (t_managedPeers t) a of
      None \<Rightarrow> RememberPeerInterface api a i t = t
    | Some (ch, interface, enc, key) \<Rightarrow>
        if interface \<noteq> Auto
        then RememberPeerInterface api a i t = t
          \<and> ResolvePeerInterface api (peer_config a (ch, interface, enc, key)) t = ExplicitInterface interface
        else a \<in> dom (hint_map (t_peerInterfaceHints t))
            \<or> card (dom (hint_map (t_peerInterfaceHints t))) < length (t_peerInterfaceHints t) \<longrightarrow>
          hint_map (t_peerInterfaceHints (RememberPeerInterface api a i t))
            = (hint_map (t_peerInterfaceHints t))(a \<mapsto> i)
          \<and> ResolvePeerInterface api (peer_config a (ch, interface, enc, key)) (RememberPeerInterface api a i t) = i"
proof -
  note hok = transport_ok_tables(3) [OF assms(1)]
  have mig: "t_peerInterfaceHints (migrate_peer api a i t1) = t_peerInterfaceHints t1"
    for t1 :: "('a, 'b, 'c, 'd, 'e) ESPNowTransport"
    by (simp add: migrate_peer_def native_eq split_beta)
  have learnt: "hint_map (t_peerInterfaceHints (RememberPeerInterface api a i t))
      = (hint_map (t_peerInterfaceHints t))(a \<mapsto> i)"
    if "managed_map (t_managedPeers t) a = Some (ch, Auto, enc, key)"
      "a \<in> dom (hint_map (t_peerInterfaceHints t))
        \<or> card (dom (hint_map (t_peerInterfaceHints t))) < length (t_peerInterfaceHints t)" for ch enc key
  proof -
    have "remember_hint a i (t_peerInterfaceHints t) \<noteq> None"
      using that(2) hint_slots.put_None [OF hok, of a i] unfolding remember_hint_table by auto
    then obtain hs where "remember_hint a i (t_peerInterfaceHints t) = Some hs" by auto
    with remember_hint_spec [OF hok this] that(1) assms(2) show ?thesis
      by (simp add: RememberPeerInterface_def IsManagedPeerAuto_map mig store_hint_def)
  qed
  show ?thesis
    using learnt assms(2)
    by (auto simp: ResolvePeerInterface_def find_hint_map RememberPeerInterface_def IsManagedPeerAuto_map
        split: option.split)
qed

theorem interface_learning_witness:
  "hint_map (t_peerInterfaceHints (RememberPeerInterface (sim_api 2) demo_mac WIFI_IF_AP demo_with_peer)) demo_mac
     = Some WIFI_IF_AP"
proof -
  have "hint_map (t_peerInterfaceHints demo_with_peer) = Map.empty"
    by (rule ext, simp only: slot_lookup_None_iff) code_simp
  moreover have "length (t_peerInterfaceHints demo_with_peer) = 20" by code_simp
  ultimately show ?thesis
    using interface_learning [OF demo_with_peer_ok demo_started(6), of "sim_api 2" WIFI_IF_AP]
      demo_with_peer_managed by simp
qed

end
