(* ===== verification/Command_Protocol.thy ===== *)
theory Command_Protocol
  imports ESPNow_Types Wire_Spec
begin

text \<open>
  \<^verbatim>\<open>src/src/ESPressio_ESPNowCommandProtocol.hpp\<close>: the request and response payloads of the Command
  protocol and the fragments that carry them. The types \<^verbatim>\<open>CommandValue\<close> and the map of named arguments belong
  to the ESPressio Command library: they are the type parameters \<open>'v\<close> and \<open>'n\<close>, with the operations the
  protocol calls in the record \<open>command_values\<close>. A character string is the list of its bytes; a buffer
  that is filled is threaded as a byte list together with the success of the call.
\<close>

section \<open>Data\<close>

type_synonym CommandString = "byte list"

record ('v, 'n) command_values =
  cv_IsNull :: "'v \<Rightarrow> bool"
  cv_Text :: "'v \<Rightarrow> CommandString"
  cv_OfString :: "CommandString \<Rightarrow> 'v"
  cv_items :: "'n \<Rightarrow> (CommandString \<times> 'v) list"
  cv_empty :: 'n
  cv_emplace :: "CommandString \<Rightarrow> 'v \<Rightarrow> 'n \<Rightarrow> 'n"

record ('v, 'n) CommandInvocation =
  ci_path :: "CommandString list"
  ci_positional :: "'v list"
  ci_named :: 'n
  ci_raw :: CommandString

record CommandResult =
  cr_success :: bool
  cr_code :: "32 word"
  cr_message :: CommandString

datatype ESPNowCommandMessageType = Request | Response

fun message_type_id :: "ESPNowCommandMessageType \<Rightarrow> byte" where
  "message_type_id Request = 1"
| "message_type_id Response = 2"

definition CommandMagic :: u32 where "CommandMagic = 0x45434D44"
definition CommandVersion :: byte where "CommandVersion = 1"

record FragmentHeader =
  fh_MagicValue :: u32
  fh_VersionValue :: byte
  fh_Type :: byte
  fh_Reserved :: u16
  fh_RequestID :: u64
  fh_TotalLength :: u32
  fh_FragmentIndex :: u16
  fh_FragmentCount :: u16
  fh_FragmentLength :: u16

definition FragmentHeader_default :: FragmentHeader where
  "FragmentHeader_default =
     \<lparr>fh_MagicValue = CommandMagic, fh_VersionValue = CommandVersion, fh_Type = 0, fh_Reserved = 0,
      fh_RequestID = 0, fh_TotalLength = 0, fh_FragmentIndex = 0, fh_FragmentCount = 0,
      fh_FragmentLength = 0\<rparr>"

definition FragmentHeaderSize :: nat where "FragmentHeaderSize = 26"

record ('v, 'n) CommandRequest =
  rq_RequestID :: u64
  rq_Invocation :: "('v, 'n) CommandInvocation"

record CommandResponse =
  rs_RequestID :: u64
  rs_Result :: CommandResult


section \<open>Writing\<close>

definition AppendU16 :: "nat \<Rightarrow> byte list \<Rightarrow> byte list" where
  "AppendU16 value out =
     (let v = of_nat value :: u16 in out @ [ucast (v AND 0xFF), ucast (drop_bit 8 v AND 0xFF)])"

definition AppendI32 :: "32 word \<Rightarrow> byte list \<Rightarrow> byte list" where
  "AppendI32 v out =
     out @ [ucast (v AND 0xFF), ucast (drop_bit 8 v AND 0xFF), ucast (drop_bit 16 v AND 0xFF),
            ucast (drop_bit 24 v AND 0xFF)]"

definition AppendString :: "CommandString \<Rightarrow> byte list \<Rightarrow> bool \<times> byte list" where
  "AppendString value out =
     (if length value > 0xFFFF then (False, out) else (True, AppendU16 (length value) out @ value))"

definition AppendCommandValue ::
  "('v, 'n) command_values \<Rightarrow> 'v \<Rightarrow> byte list \<Rightarrow> bool \<times> byte list" where
  "AppendCommandValue cv value out =
     (if cv_IsNull cv value then (False, out) else AppendString (cv_Text cv value) out)"

text \<open>A loop over the elements of a container that returns at the first failure.\<close>

fun append_each :: "('a \<Rightarrow> byte list \<Rightarrow> bool \<times> byte list) \<Rightarrow> 'a list \<Rightarrow> byte list \<Rightarrow> bool \<times> byte list" where
  "append_each f [] out = (True, out)"
| "append_each f (x # xs) out = and_then (f x out) (append_each f xs)"

definition append_named ::
  "('v, 'n) command_values \<Rightarrow> CommandString \<times> 'v \<Rightarrow> byte list \<Rightarrow> bool \<times> byte list" where
  "append_named cv item out = and_then (AppendString (fst item) out) (AppendCommandValue cv (snd item))"

definition EncodeRequest ::
  "('v, 'n) command_values \<Rightarrow> ('v, 'n) CommandInvocation \<Rightarrow> bool \<times> byte list" where
  "EncodeRequest cv invocation =
     (if ci_path invocation = [] then (False, [])
      else
        and_then (and_then (and_then
          (append_each AppendString (ci_path invocation) (AppendU16 (length (ci_path invocation)) []))
          (\<lambda>out. append_each (AppendCommandValue cv) (ci_positional invocation)
                   (AppendU16 (length (ci_positional invocation)) out)))
          (\<lambda>out. append_each (append_named cv) (cv_items cv (ci_named invocation))
                   (AppendU16 (length (cv_items cv (ci_named invocation))) out)))
          (AppendString (ci_raw invocation)))"

definition EncodeResponse :: "CommandResult \<Rightarrow> bool \<times> byte list" where
  "EncodeResponse result =
     AppendString (cr_message result) (AppendI32 (cr_code result) [if cr_success result then 1 else 0])"


section \<open>Reading\<close>

record Reader =
  rd_data :: "byte list"
  rd_offset :: nat

definition Reader_new :: "byte list \<Rightarrow> Reader" where
  "Reader_new data = \<lparr>rd_data = data, rd_offset = 0\<rparr>"

abbreviation rd_size :: "Reader \<Rightarrow> nat" where "rd_size r \<equiv> length (rd_data r)"

definition ReadU8 :: "Reader \<Rightarrow> (byte \<times> Reader) option" where
  "ReadU8 r =
     (if rd_offset r + 1 > rd_size r then None
      else Some (rd_data r ! rd_offset r, r\<lparr>rd_offset := rd_offset r + 1\<rparr>))"

definition ReadU16 :: "Reader \<Rightarrow> (u16 \<times> Reader) option" where
  "ReadU16 r =
     (if rd_offset r + 2 > rd_size r then None
      else Some (ucast (rd_data r ! rd_offset r) OR push_bit 8 (ucast (rd_data r ! (rd_offset r + 1))),
                 r\<lparr>rd_offset := rd_offset r + 2\<rparr>))"

definition ReadI32 :: "Reader \<Rightarrow> (32 word \<times> Reader) option" where
  "ReadI32 r =
     (if rd_offset r + 4 > rd_size r then None
      else Some (ucast (rd_data r ! rd_offset r) OR push_bit 8 (ucast (rd_data r ! (rd_offset r + 1)))
                   OR push_bit 16 (ucast (rd_data r ! (rd_offset r + 2)))
                   OR push_bit 24 (ucast (rd_data r ! (rd_offset r + 3))),
                 r\<lparr>rd_offset := rd_offset r + 4\<rparr>))"

definition ReadString :: "Reader \<Rightarrow> (CommandString \<times> Reader) option" where
  "ReadString r =
     (case ReadU16 r of
        None \<Rightarrow> None
      | Some (len, r) \<Rightarrow>
          if rd_offset r + unat len > rd_size r then None
          else Some (take (unat len) (drop (rd_offset r) (rd_data r)),
                     r\<lparr>rd_offset := rd_offset r + unat len\<rparr>))"

definition AtEnd :: "Reader \<Rightarrow> bool" where
  "AtEnd r \<longleftrightarrow> rd_offset r = rd_size r"

fun read_strings :: "nat \<Rightarrow> Reader \<Rightarrow> (CommandString list \<times> Reader) option" where
  "read_strings 0 r = Some ([], r)"
| "read_strings (Suc n) r =
     (case ReadString r of
        None \<Rightarrow> None
      | Some (s, r) \<Rightarrow>
          (case read_strings n r of None \<Rightarrow> None | Some (ss, r) \<Rightarrow> Some (s # ss, r)))"

text \<open>The loop over the named arguments inserts each pair as it is read.\<close>

fun read_named ::
  "('v, 'n) command_values \<Rightarrow> nat \<Rightarrow> 'n \<Rightarrow> Reader \<Rightarrow> ('n \<times> Reader) option" where
  "read_named cv 0 named r = Some (named, r)"
| "read_named cv (Suc n) named r =
     (case ReadString r of
        None \<Rightarrow> None
      | Some (key, r) \<Rightarrow>
          (case ReadString r of
             None \<Rightarrow> None
           | Some (value, r) \<Rightarrow> read_named cv n (cv_emplace cv key (cv_OfString cv value) named) r))"

definition DecodeRequest ::
  "('v, 'n) command_values \<Rightarrow> u64 \<Rightarrow> byte list option \<Rightarrow> nat \<Rightarrow> ('v, 'n) CommandRequest option" where
  "DecodeRequest cv requestID data len =
     (if data = None \<and> len \<noteq> 0 then None
      else
        let r = Reader_new (case data of None \<Rightarrow> [] | Some bytes \<Rightarrow> take len bytes) in
        case ReadU16 r of
          None \<Rightarrow> None
        | Some (count, r) \<Rightarrow>
            if count = 0 then None
            else case read_strings (unat count) r of
              None \<Rightarrow> None
            | Some (path, r) \<Rightarrow>
                case ReadU16 r of
                  None \<Rightarrow> None
                | Some (count, r) \<Rightarrow>
                    case read_strings (unat count) r of
                      None \<Rightarrow> None
                    | Some (positional, r) \<Rightarrow>
                        case ReadU16 r of
                          None \<Rightarrow> None
                        | Some (count, r) \<Rightarrow>
                            case read_named cv (unat count) (cv_empty cv) r of
                              None \<Rightarrow> None
                            | Some (named, r) \<Rightarrow>
                                case ReadString r of
                                  None \<Rightarrow> None
                                | Some (raw, r) \<Rightarrow>
                                    if AtEnd r then
                                      Some \<lparr>rq_RequestID = requestID,
                                        rq_Invocation = \<lparr>ci_path = path,
                                          ci_positional = map (cv_OfString cv) positional,
                                          ci_named = named, ci_raw = raw\<rparr>\<rparr>
                                    else None)"

definition DecodeResponse :: "u64 \<Rightarrow> byte list option \<Rightarrow> nat \<Rightarrow> CommandResponse option" where
  "DecodeResponse requestID data len =
     (case data of
        None \<Rightarrow> None
      | Some bytes \<Rightarrow>
          if len < 5 then None
          else case ReadU8 (Reader_new (take len bytes)) of
            None \<Rightarrow> None
          | Some (success, r) \<Rightarrow>
              if success > 1 then None
              else case ReadI32 r of
                None \<Rightarrow> None
              | Some (code, r) \<Rightarrow>
                  case ReadString r of
                    None \<Rightarrow> None
                  | Some (message, r) \<Rightarrow>
                      if AtEnd r then
                        Some \<lparr>rs_RequestID = requestID,
                          rs_Result = \<lparr>cr_success = (success \<noteq> 0), cr_code = code, cr_message = message\<rparr>\<rparr>
                      else None)"


section \<open>Fragments\<close>

definition fragment_header_write :: "FragmentHeader \<Rightarrow> byte list" where
  "fragment_header_write h =
     le_bytes 4 (fh_MagicValue h) @ [fh_VersionValue h, fh_Type h] @ le_bytes 2 (fh_Reserved h)
     @ le_bytes 8 (fh_RequestID h) @ le_bytes 4 (fh_TotalLength h) @ le_bytes 2 (fh_FragmentIndex h)
     @ le_bytes 2 (fh_FragmentCount h) @ le_bytes 2 (fh_FragmentLength h)"

definition fragment_header_read :: "byte list \<Rightarrow> FragmentHeader" where
  "fragment_header_read bs =
     \<lparr>fh_MagicValue = le_word (take 4 bs), fh_VersionValue = bs ! 4, fh_Type = bs ! 5,
      fh_Reserved = le_word (take 2 (drop 6 bs)), fh_RequestID = le_word (take 8 (drop 8 bs)),
      fh_TotalLength = le_word (take 4 (drop 16 bs)), fh_FragmentIndex = le_word (take 2 (drop 20 bs)),
      fh_FragmentCount = le_word (take 2 (drop 22 bs)), fh_FragmentLength = le_word (take 2 (drop 24 bs))\<rparr>"

definition ParseFragmentHeader :: "byte list option \<Rightarrow> nat \<Rightarrow> (FragmentHeader \<times> byte list) option" where
  "ParseFragmentHeader data len =
     (case data of
        None \<Rightarrow> None
      | Some bytes \<Rightarrow>
          if len < FragmentHeaderSize then None
          else
            let header = fragment_header_read bytes in
            if fh_MagicValue header \<noteq> CommandMagic \<or> fh_VersionValue header \<noteq> CommandVersion then None
            else if fh_Type header \<noteq> message_type_id Request \<and> fh_Type header \<noteq> message_type_id Response then None
            else if fh_FragmentCount header = 0 \<or> fh_FragmentIndex header \<ge> fh_FragmentCount header
                 \<or> fh_TotalLength header = 0 then None
            else if unat (fh_FragmentLength header) > len - FragmentHeaderSize
                 \<or> FragmentHeaderSize + unat (fh_FragmentLength header) \<noteq> len then None
            else Some (header, take (unat (fh_FragmentLength header)) (drop FragmentHeaderSize bytes)))"

definition GetFragmentCount :: "nat \<Rightarrow> nat \<Rightarrow> nat" where
  "GetFragmentCount payloadSize maximumProtocolPayload =
     (if payloadSize = 0 \<or> maximumProtocolPayload \<le> FragmentHeaderSize \<or> payloadSize > 0xFFFFFFFF then 0
      else
        let fragmentCapacity = maximumProtocolPayload - FragmentHeaderSize;
            count = (payloadSize + fragmentCapacity - 1) div fragmentCapacity in
        if count = 0 \<or> count > 0xFFFF then 0 else count)"

definition BuildFragment ::
  "ESPNowCommandMessageType \<Rightarrow> u64 \<Rightarrow> byte list \<Rightarrow> nat \<Rightarrow> nat \<Rightarrow> byte list option" where
  "BuildFragment type requestID payload maximumProtocolPayload fragmentIndex =
     (let fragmentCount = GetFragmentCount (length payload) maximumProtocolPayload in
      if fragmentCount = 0 \<or> fragmentIndex \<ge> fragmentCount then None
      else
        let fragmentCapacity = maximumProtocolPayload - FragmentHeaderSize;
            offset = fragmentIndex * fragmentCapacity;
            remaining = length payload - offset;
            count = (if remaining < fragmentCapacity then remaining else fragmentCapacity);
            header = FragmentHeader_default\<lparr>fh_Type := message_type_id type, fh_RequestID := requestID,
              fh_TotalLength := of_nat (length payload), fh_FragmentIndex := of_nat fragmentIndex,
              fh_FragmentCount := of_nat fragmentCount, fh_FragmentLength := of_nat count\<rparr> in
        Some (fragment_header_write header @ take count (drop offset payload)))"

fun build_each ::
  "ESPNowCommandMessageType \<Rightarrow> u64 \<Rightarrow> byte list \<Rightarrow> nat \<Rightarrow> nat list \<Rightarrow> byte list list option" where
  "build_each type requestID payload maximum [] = Some []"
| "build_each type requestID payload maximum (index # rest) =
     (case BuildFragment type requestID payload maximum index of
        None \<Rightarrow> None
      | Some frame \<Rightarrow> map_option ((#) frame) (build_each type requestID payload maximum rest))"

definition BuildFragments :: "ESPNowCommandMessageType \<Rightarrow> u64 \<Rightarrow> byte list \<Rightarrow> nat \<Rightarrow> byte list list" where
  "BuildFragments type requestID payload maximum =
     (let fragmentCount = GetFragmentCount (length payload) maximum in
      if fragmentCount = 0 then []
      else case build_each type requestID payload maximum [0..<fragmentCount] of
        None \<Rightarrow> []
      | Some frames \<Rightarrow> frames)"

end
