(* ===== verification/Command_Codec.thy ===== *)
theory Command_Codec
  imports Command_Protocol
begin

text \<open>
  The Command payload codec: what the writer appends, what the reader accepts, and that they are inverse
  to each other. \<open>reads\<close> relates a reader to the bytes it has not consumed; every \<^verbatim>\<open>Read\<close> operation gets
  one lemma per direction (what is written can be read, what is read was written).
\<close>

section \<open>The written form\<close>

definition put_u16 :: "nat \<Rightarrow> byte list" where "put_u16 n = le_bytes 2 (of_nat n :: u16)"
definition put_string :: "CommandString \<Rightarrow> byte list" where "put_string s = put_u16 (length s) @ s"
definition put_strings :: "CommandString list \<Rightarrow> byte list" where
  "put_strings ss = put_u16 (length ss) @ concat (map put_string ss)"
definition put_pair :: "CommandString \<times> CommandString \<Rightarrow> byte list" where
  "put_pair p = put_string (fst p) @ put_string (snd p)"
definition put_pairs :: "(CommandString \<times> CommandString) list \<Rightarrow> byte list" where
  "put_pairs ps = put_u16 (length ps) @ concat (map put_pair ps)"

definition short :: "'a list \<Rightarrow> bool" where "short s \<longleftrightarrow> length s \<le> 65535"

text \<open>The textual content of a request: path, positional arguments, named arguments, raw text.\<close>

type_synonym request_text =
  "CommandString list \<times> CommandString list \<times> (CommandString \<times> CommandString) list \<times> CommandString"

fun put_request :: "request_text \<Rightarrow> byte list" where
  "put_request (path, positional, named, raw) =
     put_strings path @ put_strings positional @ put_pairs named @ put_string raw"

fun request_text_ok :: "request_text \<Rightarrow> bool" where
  "request_text_ok (path, positional, named, raw) \<longleftrightarrow>
     path \<noteq> [] \<and> short path \<and> short positional \<and> short named \<and> list_all short path \<and> list_all short positional
     \<and> list_all (\<lambda>(k, v). short k \<and> short v) named \<and> short raw"

definition invocation_text :: "('v, 'n) command_values \<Rightarrow> ('v, 'n) CommandInvocation \<Rightarrow> request_text" where
  "invocation_text cv i =
     (ci_path i, map (cv_Text cv) (ci_positional i), map (\<lambda>(k, v). (k, cv_Text cv v)) (cv_items cv (ci_named i)),
      ci_raw i)"

lemma AppendU16_eq [simp]: "AppendU16 n out = out @ put_u16 n"
  by (simp add: AppendU16_def put_u16_def Let_def le_bytes_2 ucast_u16_mask)

lemma AppendString_eq:
  "AppendString s out = (if short s then (True, out @ put_string s) else (False, out))"
  by (simp add: AppendString_def short_def put_string_def)

lemma AppendCommandValue_eq:
  "AppendCommandValue cv v out =
     (if \<not> cv_IsNull cv v \<and> short (cv_Text cv v) then (True, out @ put_string (cv_Text cv v)) else (False, out))"
  by (simp add: AppendCommandValue_def AppendString_eq)

lemma append_named_eq:
  "append_named cv item out = (True, out') \<longleftrightarrow>
     short (fst item) \<and> \<not> cv_IsNull cv (snd item) \<and> short (cv_Text cv (snd item))
     \<and> out' = out @ put_pair (fst item, cv_Text cv (snd item))"
  by (auto simp: append_named_def and_then_def AppendString_eq AppendCommandValue_eq put_pair_def)

lemma append_each_eq:
  assumes "\<And>x out out'. x \<in> set xs \<Longrightarrow> f x out = (True, out') \<longleftrightarrow> P x \<and> out' = out @ g x"
  shows "append_each f xs out = (True, out') \<longleftrightarrow> list_all P xs \<and> out' = out @ concat (map g xs)"
  using assms
proof (induction xs arbitrary: out)
  case Nil
  then show ?case by auto
next
  case (Cons x xs)
  have "append_each f xs o' = (True, out') \<longleftrightarrow> list_all P xs \<and> out' = o' @ concat (map g xs)" for o'
    by (rule Cons.IH) (simp add: Cons.prems)
  then show ?case by (auto simp: and_then_eq_True Cons.prems)
qed

definition invocation_ok :: "('v, 'n) command_values \<Rightarrow> ('v, 'n) CommandInvocation \<Rightarrow> bool" where
  "invocation_ok cv i \<longleftrightarrow>
     ci_path i \<noteq> [] \<and> list_all short (ci_path i)
     \<and> list_all (\<lambda>v. \<not> cv_IsNull cv v \<and> short (cv_Text cv v)) (ci_positional i)
     \<and> list_all (\<lambda>(k, v). short k \<and> \<not> cv_IsNull cv v \<and> short (cv_Text cv v)) (cv_items cv (ci_named i))
     \<and> short (ci_raw i)"

lemma EncodeRequest_eq:
  "EncodeRequest cv i = (True, bytes) \<longleftrightarrow> invocation_ok cv i \<and> bytes = put_request (invocation_text cv i)"
proof -
  have path: "append_each AppendString (ci_path i) out = (True, out') \<longleftrightarrow>
      list_all short (ci_path i) \<and> out' = out @ concat (map put_string (ci_path i))" for out out'
    by (rule append_each_eq) (auto simp: AppendString_eq)
  have pos: "append_each (AppendCommandValue cv) (ci_positional i) out = (True, out') \<longleftrightarrow>
      list_all (\<lambda>v. \<not> cv_IsNull cv v \<and> short (cv_Text cv v)) (ci_positional i)
      \<and> out' = out @ concat (map (\<lambda>v. put_string (cv_Text cv v)) (ci_positional i))" for out out'
    by (rule append_each_eq) (auto simp: AppendCommandValue_eq)
  have named: "append_each (append_named cv) (cv_items cv (ci_named i)) out = (True, out') \<longleftrightarrow>
      list_all (\<lambda>(k, v). short k \<and> \<not> cv_IsNull cv v \<and> short (cv_Text cv v)) (cv_items cv (ci_named i))
      \<and> out' = out @ concat (map (\<lambda>x. put_pair (fst x, cv_Text cv (snd x))) (cv_items cv (ci_named i)))" for out out'
    by (rule append_each_eq) (auto simp: append_named_eq split_beta)
  have raw: "AppendString (ci_raw i) out = (True, out') \<longleftrightarrow> short (ci_raw i) \<and> out' = out @ put_string (ci_raw i)"
    for out out' by (auto simp: AppendString_eq)
  show ?thesis
    by (auto simp: EncodeRequest_def and_then_eq_True path pos named raw invocation_ok_def invocation_text_def
        put_strings_def put_pairs_def o_def split_beta)
qed



section \<open>The reader\<close>

definition reads :: "Reader \<Rightarrow> byte list \<Rightarrow> bool" where
  "reads r bs \<longleftrightarrow> rd_offset r \<le> rd_size r \<and> drop (rd_offset r) (rd_data r) = bs"

lemma reads_new [simp]: "reads (Reader_new bs) bs"
  by (simp add: reads_def Reader_new_def)

lemma reads_unique: "reads r bs \<Longrightarrow> reads r bs' \<Longrightarrow> bs = bs'"
  by (simp add: reads_def)

lemma reads_AtEnd: "reads r bs \<Longrightarrow> AtEnd r \<longleftrightarrow> bs = []"
  by (auto simp: reads_def AtEnd_def)

lemma reads_length: "reads r bs \<Longrightarrow> rd_size r = rd_offset r + length bs"
  by (auto simp: reads_def)

lemma reads_nth: "reads r bs \<Longrightarrow> k < length bs \<Longrightarrow> rd_data r ! (rd_offset r + k) = bs ! k"
  by (auto simp: reads_def)

lemma reads_advance: "reads r bs \<Longrightarrow> k \<le> length bs \<Longrightarrow> reads (r\<lparr>rd_offset := rd_offset r + k\<rparr>) (drop k bs)"
  by (auto simp: reads_def add.commute)

lemma ReadU8_eq:
  assumes "reads r bs"
  shows "ReadU8 r = (case bs of [] \<Rightarrow> None | b # t \<Rightarrow> Some (b, r\<lparr>rd_offset := rd_offset r + 1\<rparr>))"
  using reads_length [OF assms] reads_nth [OF assms, of 0] by (auto simp: ReadU8_def split: list.split)

lemma ReadU16_eq:
  assumes "reads r bs"
  shows "ReadU16 r = (if length bs < 2 then None
    else Some (le_word (take 2 bs), r\<lparr>rd_offset := rd_offset r + 2\<rparr>))"
proof (cases "length bs < 2")
  case False
  then obtain a b t where "bs = a # b # t" by (cases bs; cases "tl bs") auto
  then show ?thesis
    using reads_length [OF assms] reads_nth [OF assms, of 0] reads_nth [OF assms, of 1]
    by (simp add: ReadU16_def le_word_2 numeral_2_eq_2)
qed (use reads_length [OF assms] in \<open>simp add: ReadU16_def\<close>)

lemma ReadI32_eq:
  assumes "reads r bs" "4 \<le> length bs"
  shows "ReadI32 r = Some (le_word (take 4 bs), r\<lparr>rd_offset := rd_offset r + 4\<rparr>)"
proof -
  have "take 4 bs = [bs ! 0, bs ! 1, bs ! 2, bs ! 3]"
    using assms(2) by (intro nth_equalityI) (auto simp: less_Suc_eq numeral_eq_Suc)
  moreover have nth: "rd_data r ! (rd_offset r + k) = bs ! k" if "k < 4" for k
    using reads_nth [OF assms(1)] assms(2) that by simp
  ultimately show ?thesis
    using reads_length [OF assms(1)] assms(2) nth [of 0] nth [of 1] nth [of 2] nth [of 3]
    by (simp add: ReadI32_def le_word_4)
qed

text \<open>Reading a string.\<close>

lemma ReadString_put:
  assumes "reads r (put_string s @ t)" "short s"
  shows "\<exists>r'. ReadString r = Some (s, r') \<and> reads r' t"
proof -
  let ?bs = "put_string s @ t"
  have u16: "ReadU16 r = Some (of_nat (length s), r\<lparr>rd_offset := rd_offset r + 2\<rparr>)"
    using ReadU16_eq [OF assms(1)] by (simp add: put_string_def put_u16_def)
  have two: "reads (r\<lparr>rd_offset := rd_offset r + 2\<rparr>) (s @ t)"
    using reads_advance [OF assms(1), of 2] by (simp add: put_string_def put_u16_def)
  have fin: "reads (r\<lparr>rd_offset := rd_offset r + 2 + length s\<rparr>) t"
    using reads_advance [OF two, of "length s"] by simp
  have data: "take (length s) (drop (rd_offset r + 2) (rd_data r)) = s"
    "rd_size r = rd_offset r + 2 + length (s @ t)"
    using two reads_length [OF two] by (simp_all add: reads_def)
  show ?thesis
    using assms(2) data fin by (simp add: ReadString_def u16 short_def)
qed

lemma ReadString_get:
  assumes "reads r bs" "ReadString r = Some (s, r')"
  shows "\<exists>t. bs = put_string s @ t \<and> reads r' t \<and> short s"
proof -
  have len: "2 \<le> length bs" using assms ReadU16_eq [OF assms(1)] by (auto simp: ReadString_def split: if_splits)
  define w :: u16 where "w = le_word (take 2 bs)"
  have u16: "ReadU16 r = Some (w, r\<lparr>rd_offset := rd_offset r + 2\<rparr>)"
    using ReadU16_eq [OF assms(1)] len by (simp add: w_def)
  have rd: "reads (r\<lparr>rd_offset := rd_offset r + 2\<rparr>) (drop 2 bs)" by (rule reads_advance [OF assms(1) len])
  have fit: "unat w \<le> length (drop 2 bs)" and s: "s = take (unat w) (drop 2 bs)"
    and r': "r' = r\<lparr>rd_offset := rd_offset r + 2 + unat w\<rparr>"
    using assms(2) u16 reads_length [OF rd] rd by (auto simp: ReadString_def reads_def split: if_splits)
  have "length s = unat w" using s fit by simp
  moreover have "le_bytes 2 w = take 2 bs" unfolding w_def using le_bytes_le_word [of "take 2 bs", where 'a = 16] len by (simp add: min_absorb2)
  ultimately have hdr: "put_u16 (length s) = take 2 bs" by (simp add: put_u16_def)
  have "bs = put_string s @ drop (unat w) (drop 2 bs)"
    unfolding put_string_def hdr append.assoc by (simp only: s append_take_drop_id)
  moreover have "reads r' (drop (unat w) (drop 2 bs))"
    using reads_advance [OF rd fit] by (simp add: r')
  moreover have "short s" using \<open>length s = unat w\<close> unat_u16_bound [of w] by (simp add: short_def)
  ultimately show ?thesis by blast
qed


lemma read_strings_put:
  "reads r (concat (map put_string ss) @ t) \<Longrightarrow> list_all short ss \<Longrightarrow>
   \<exists>r'. read_strings (length ss) r = Some (ss, r') \<and> reads r' t"
proof (induction ss arbitrary: r)
  case (Cons s ss)
  obtain r1 where r1: "ReadString r = Some (s, r1)" "reads r1 (concat (map put_string ss) @ t)"
    using ReadString_put [of r s "concat (map put_string ss) @ t"] Cons.prems by auto
  then show ?case using Cons.IH [OF r1(2)] Cons.prems(2) by auto
qed simp

lemma read_strings_get:
  "reads r bs \<Longrightarrow> read_strings n r = Some (ss, r') \<Longrightarrow>
   \<exists>t. bs = concat (map put_string ss) @ t \<and> reads r' t \<and> list_all short ss \<and> length ss = n"
proof (induction n arbitrary: r bs ss)
  case (Suc n)
  obtain s r1 ss1 where s: "ReadString r = Some (s, r1)" "read_strings n r1 = Some (ss1, r')" "ss = s # ss1"
    using Suc.prems(2) by (auto split: option.splits)
  obtain t1 where t1: "bs = put_string s @ t1" "reads r1 t1" "short s"
    using ReadString_get [OF Suc.prems(1) s(1)] by blast
  show ?case using Suc.IH [OF t1(2) s(2)] t1 s(3) by auto
qed simp

definition emplace_all ::
  "('v, 'n) command_values \<Rightarrow> (CommandString \<times> CommandString) list \<Rightarrow> 'n \<Rightarrow> 'n" where
  "emplace_all cv ps m = foldl (\<lambda>m (k, v). cv_emplace cv k (cv_OfString cv v) m) m ps"

lemma put_pair_Pair: "put_pair (k, v) = put_string k @ put_string v"
  by (simp add: put_pair_def)

lemma read_named_put:
  "reads r (concat (map put_pair ps) @ t) \<Longrightarrow> list_all (\<lambda>(k, v). short k \<and> short v) ps \<Longrightarrow>
   \<exists>r'. read_named cv (length ps) m r = Some (emplace_all cv ps m, r') \<and> reads r' t"
proof (induction ps arbitrary: r m)
  case (Cons p ps)
  obtain k v where p: "p = (k, v)" by fastforce
  let ?t = "concat (map put_pair ps) @ t"
  obtain r1 where r1: "ReadString r = Some (k, r1)" "reads r1 (put_string v @ ?t)"
    using ReadString_put [of r k "put_string v @ ?t"] Cons.prems p by (auto simp: put_pair_Pair)
  obtain r2 where r2: "ReadString r1 = Some (v, r2)" "reads r2 ?t"
    using ReadString_put [OF r1(2)] Cons.prems p by auto
  show ?case using Cons.IH [OF r2(2)] Cons.prems(2) r1(1) r2(1) p by (auto simp: emplace_all_def)
qed (simp add: emplace_all_def)

lemma read_named_get:
  "reads r bs \<Longrightarrow> read_named cv n m r = Some (m', r') \<Longrightarrow>
   \<exists>ps t. bs = concat (map put_pair ps) @ t \<and> reads r' t \<and> list_all (\<lambda>(k, v). short k \<and> short v) ps
     \<and> length ps = n \<and> m' = emplace_all cv ps m"
proof (induction n arbitrary: r bs m)
  case 0
  then show ?case by (auto simp: emplace_all_def intro!: exI [of _ "[]"])
next
  case (Suc n)
  obtain k r1 v r2 where s: "ReadString r = Some (k, r1)" "ReadString r1 = Some (v, r2)"
    "read_named cv n (cv_emplace cv k (cv_OfString cv v) m) r2 = Some (m', r')"
    using Suc.prems(2) by (auto split: option.splits)
  obtain t1 where t1: "bs = put_string k @ t1" "reads r1 t1" "short k"
    using ReadString_get [OF Suc.prems(1) s(1)] by blast
  obtain t2 where t2: "t1 = put_string v @ t2" "reads r2 t2" "short v"
    using ReadString_get [OF t1(2) s(2)] by blast
  obtain ps t where "t2 = concat (map put_pair ps) @ t" "reads r' t"
    "list_all (\<lambda>(k, v). short k \<and> short v) ps" "length ps = n"
    "m' = emplace_all cv ps (cv_emplace cv k (cv_OfString cv v) m)"
    using Suc.IH [OF t2(2) s(3)] by blast
  then show ?case using t1 t2
    by (intro exI [of _ "(k, v) # ps"] exI [of _ t]) (simp add: put_pair_Pair emplace_all_def)
qed

lemma ReadU16_put:
  "reads r (put_u16 n @ t) \<Longrightarrow> \<exists>r'. ReadU16 r = Some (of_nat n, r') \<and> reads r' t"
  using ReadU16_eq [of r "put_u16 n @ t"] reads_advance [of r "put_u16 n @ t" 2]
  by (simp add: put_u16_def)

lemma ReadU16_get:
  assumes "reads r bs" "ReadU16 r = Some (w, r')"
  shows "\<exists>t. bs = put_u16 (unat w) @ t \<and> reads r' t"
proof -
  have len: "2 \<le> length bs" "w = le_word (take 2 bs)" "r' = r\<lparr>rd_offset := rd_offset r + 2\<rparr>"
    using assms(2) ReadU16_eq [OF assms(1)] by (auto split: if_splits)
  have "put_u16 (unat w) = take 2 bs"
    using le_bytes_le_word [of "take 2 bs", where 'a = 16] len by (simp add: put_u16_def min_absorb2)
  then show ?thesis
    using reads_advance [OF assms(1) len(1)] len(3) by (intro exI [of _ "drop 2 bs"]) simp
qed

text \<open>The decoder accepts exactly the written forms of requests, and yields their content.\<close>

fun request_of_text :: "('v, 'n) command_values \<Rightarrow> u64 \<Rightarrow> request_text \<Rightarrow> ('v, 'n) CommandRequest" where
  "request_of_text cv requestID (path, positional, named, raw) =
     \<lparr>rq_RequestID = requestID,
      rq_Invocation = \<lparr>ci_path = path, ci_positional = map (cv_OfString cv) positional,
        ci_named = emplace_all cv named (cv_empty cv), ci_raw = raw\<rparr>\<rparr>"

lemma DecodeRequest_put:
  assumes "request_text_ok content"
  shows "DecodeRequest cv requestID (Some (put_request content)) (length (put_request content))
    = Some (request_of_text cv requestID content)"
proof -
  obtain path pos named raw where content: "content = (path, pos, named, raw)" by (cases content)
  then have ok: "path \<noteq> []" "list_all short path" "list_all short pos" "list_all (\<lambda>(k, v). short k \<and> short v) named"
    "short raw" "unat (of_nat (length path) :: u16) = length path" "unat (of_nat (length pos) :: u16) = length pos"
    "unat (of_nat (length named) :: u16) = length named"
    using assms by (simp_all add: short_def)
  have ne: "(of_nat (length path) :: u16) \<noteq> 0" using ok(1,6) by (metis length_0_conv unat_0)
  let ?d = "put_request content"
  obtain r1 where r1: "ReadU16 (Reader_new ?d) = Some (of_nat (length path), r1)"
      "reads r1 (concat (map put_string path) @ put_strings pos @ put_pairs named @ put_string raw)"
    using ReadU16_put [of "Reader_new ?d" "length path"
        "concat (map put_string path) @ put_strings pos @ put_pairs named @ put_string raw"]
      reads_new [of ?d] by (auto simp: content put_strings_def)
  obtain r2 where r2: "read_strings (length path) r1 = Some (path, r2)"
      "reads r2 (put_strings pos @ put_pairs named @ put_string raw)"
    using read_strings_put [OF r1(2) ok(2)] by auto
  obtain r3 where r3: "ReadU16 r2 = Some (of_nat (length pos), r3)"
      "reads r3 (concat (map put_string pos) @ put_pairs named @ put_string raw)"
    using ReadU16_put [of r2 "length pos"] r2(2) by (auto simp: put_strings_def)
  obtain r4 where r4: "read_strings (length pos) r3 = Some (pos, r4)" "reads r4 (put_pairs named @ put_string raw)"
    using read_strings_put [OF r3(2) ok(3)] by auto
  obtain r5 where r5: "ReadU16 r4 = Some (of_nat (length named), r5)"
      "reads r5 (concat (map put_pair named) @ put_string raw)"
    using ReadU16_put [of r4 "length named"] r4(2) by (auto simp: put_pairs_def)
  obtain r6 where r6: "read_named cv (length named) (cv_empty cv) r5 = Some (emplace_all cv named (cv_empty cv), r6)"
      "reads r6 (put_string raw @ [])"
    using read_named_put [OF r5(2) ok(4), of cv "cv_empty cv"] by auto
  obtain r7 where r7: "ReadString r6 = Some (raw, r7)" "reads r7 []"
    using ReadString_put [OF r6(2) ok(5)] by auto
  show ?thesis
    using r1(1) r2(1) r3(1) r4(1) r5(1) r6(1) r7 ne ok(6-8) reads_AtEnd [OF r7(2)]
    by (simp add: DecodeRequest_def content Let_def)
qed

lemma DecodeRequest_get:
  assumes "DecodeRequest cv requestID (Some bytes) (length bytes) = Some request"
  shows "\<exists>content. request_text_ok content \<and> bytes = put_request content \<and> request = request_of_text cv requestID content"
proof -
  obtain c1 r1 path r2 c2 r3 pos r4 c3 r5 named r6 raw r7 where
    s: "ReadU16 (Reader_new bytes) = Some (c1, r1)" "c1 \<noteq> 0" "read_strings (unat c1) r1 = Some (path, r2)"
      "ReadU16 r2 = Some (c2, r3)" "read_strings (unat c2) r3 = Some (pos, r4)" "ReadU16 r4 = Some (c3, r5)"
      "read_named cv (unat c3) (cv_empty cv) r5 = Some (named, r6)" "ReadString r6 = Some (raw, r7)" "AtEnd r7"
    and request: "request = \<lparr>rq_RequestID = requestID, rq_Invocation = \<lparr>ci_path = path,
      ci_positional = map (cv_OfString cv) pos, ci_named = named, ci_raw = raw\<rparr>\<rparr>"
    using assms by (auto simp: DecodeRequest_def Let_def split: option.splits if_splits)
  obtain t1 where t1: "bytes = put_u16 (unat c1) @ t1" "reads r1 t1" using ReadU16_get [OF reads_new s(1)] by blast
  obtain t2 where t2: "t1 = concat (map put_string path) @ t2" "reads r2 t2" "list_all short path" "length path = unat c1"
    using read_strings_get [OF t1(2) s(3)] by blast
  obtain t3 where t3: "t2 = put_u16 (unat c2) @ t3" "reads r3 t3" using ReadU16_get [OF t2(2) s(4)] by blast
  obtain t4 where t4: "t3 = concat (map put_string pos) @ t4" "reads r4 t4" "list_all short pos" "length pos = unat c2"
    using read_strings_get [OF t3(2) s(5)] by blast
  obtain t5 where t5: "t4 = put_u16 (unat c3) @ t5" "reads r5 t5" using ReadU16_get [OF t4(2) s(6)] by blast
  obtain ps t6 where t6: "t5 = concat (map put_pair ps) @ t6" "reads r6 t6"
      "list_all (\<lambda>(k, v). short k \<and> short v) ps" "length ps = unat c3" "named = emplace_all cv ps (cv_empty cv)"
    using read_named_get [OF t5(2) s(7)] by blast
  obtain t7 where t7: "t6 = put_string raw @ t7" "reads r7 t7" "short raw" using ReadString_get [OF t6(2) s(8)] by blast
  have "t7 = []" using reads_AtEnd [OF t7(2)] s(9) by simp
  then have "bytes = put_request (path, pos, ps, raw)"
    using t1(1) t2(1,4) t3(1) t4(1,4) t5(1) t6(1,4) t7(1) by (simp add: put_strings_def put_pairs_def)
  moreover have "request_text_ok (path, pos, ps, raw)"
    using t2(3,4) t4(3,4) t6(3,4) t7(3) s(2) unat_u16_bound by (auto simp: short_def unat_eq_zero)
  ultimately show ?thesis using request t6(5) by (intro exI [of _ "(path, pos, ps, raw)"]) simp
qed



section \<open>Properties\<close>

text \<open>
  What the protocol relies on in the Command library: a value made from text is not null and has that
  text, and inserting the items of a map of named arguments, in iteration order, into an empty map gives a
  map with the same keys and the inserted values.
\<close>

definition command_values_contract :: "('v, 'n) command_values \<Rightarrow> bool" where
  "command_values_contract cv \<longleftrightarrow>
     (\<forall>s. \<not> cv_IsNull cv (cv_OfString cv s) \<and> cv_Text cv (cv_OfString cv s) = s) \<and>
     (\<forall>m f. cv_items cv (foldl (\<lambda>m (k, v). cv_emplace cv k (f v) m) (cv_empty cv) (cv_items cv m))
        = map (\<lambda>(k, v). (k, f v)) (cv_items cv m))"

lemma emplace_all_items:
  assumes "command_values_contract cv"
  shows "cv_items cv (emplace_all cv (map (\<lambda>(k, v). (k, cv_Text cv v)) (cv_items cv m)) (cv_empty cv))
    = map (\<lambda>(k, v). (k, cv_OfString cv (cv_Text cv v))) (cv_items cv m)"
proof -
  have "foldl (\<lambda>m (k, v). cv_emplace cv k (cv_OfString cv v) m) e (map (\<lambda>(k, v). (k, cv_Text cv v)) xs)
      = foldl (\<lambda>m (k, v). cv_emplace cv k (cv_OfString cv (cv_Text cv v)) m) e xs" for e xs
    by (induction xs arbitrary: e) auto
  then show ?thesis
    using assms unfolding command_values_contract_def emplace_all_def by presburger
qed

lemma DecodeRequest_EncodeRequest:
  assumes contract: "command_values_contract cv" and enc: "EncodeRequest cv invocation = (True, bytes)"
    and "length (ci_path invocation) \<le> 65535" "length (ci_positional invocation) \<le> 65535"
      "length (cv_items cv (ci_named invocation)) \<le> 65535"
  shows "\<exists>request. DecodeRequest cv requestID (Some bytes) (length bytes) = Some request
    \<and> rq_RequestID request = requestID
    \<and> invocation_text cv (rq_Invocation request) = invocation_text cv invocation
    \<and> EncodeRequest cv (rq_Invocation request) = (True, bytes)"
proof -
  have ok: "invocation_ok cv invocation" and bytes: "bytes = put_request (invocation_text cv invocation)"
    using enc by (auto simp: EncodeRequest_eq)
  have fits: "request_text_ok (invocation_text cv invocation)"
    using ok assms(3-5)
    by (auto simp: invocation_text_def invocation_ok_def short_def list_all_iff)
  let ?r = "request_of_text cv requestID (invocation_text cv invocation)"
  have dec: "DecodeRequest cv requestID (Some bytes) (length bytes) = Some ?r"
    unfolding bytes by (rule DecodeRequest_put [OF fits])
  have val: "\<not> cv_IsNull cv (cv_OfString cv s)" "cv_Text cv (cv_OfString cv s) = s" for s
    using contract by (simp_all add: command_values_contract_def)
  have same: "invocation_text cv (rq_Invocation ?r) = invocation_text cv invocation"
    by (simp add: invocation_text_def emplace_all_items [OF contract] val o_def split_beta)
  have "invocation_ok cv (rq_Invocation ?r)"
    using ok by (simp add: invocation_ok_def invocation_text_def emplace_all_items [OF contract] val
        list_all_iff split_beta)
  then have "EncodeRequest cv (rq_Invocation ?r) = (True, bytes)"
    unfolding EncodeRequest_eq same bytes by simp
  with dec same show ?thesis by (intro exI [of _ ?r]) (simp add: invocation_text_def)
qed

text \<open>
  C13. A request that encodes, and whose path and argument counts fit sixteen bits, decodes at the receiver
  to a request with the same id, the same path, raw text and named keys and the same text of every
  argument; encoding the decoded request again gives the same bytes.
\<close>

theorem request_roundtrip:
  assumes contract: "command_values_contract cv" and enc: "EncodeRequest cv invocation = (True, bytes)"
    and "length (ci_path invocation) \<le> 65535" "length (ci_positional invocation) \<le> 65535"
      "length (cv_items cv (ci_named invocation)) \<le> 65535"
  shows "\<exists>request. DecodeRequest cv requestID (Some bytes) (length bytes) = Some request
    \<and> rq_RequestID request = requestID
    \<and> invocation_text cv (rq_Invocation request) = invocation_text cv invocation
    \<and> EncodeRequest cv (rq_Invocation request) = (True, bytes)"
  using assms by (rule DecodeRequest_EncodeRequest)

text \<open>A concrete Command library: values are texts or null, named arguments an association list without repetition.\<close>

definition demo_values :: "(CommandString option, (CommandString \<times> CommandString option) list) command_values" where
  "demo_values = \<lparr>cv_IsNull = (\<lambda>v. v = None), cv_Text = the, cv_OfString = Some,
     cv_items = (\<lambda>m. if distinct (map fst m) then m else []), cv_empty = [],
     cv_emplace = (\<lambda>k v m. if k \<in> fst ` set m then m else m @ [(k, v)])\<rparr>"

lemma demo_emplace:
  assumes "distinct (map fst (acc @ xs))"
  shows "foldl (\<lambda>m (k, v). if k \<in> fst ` set m then m else m @ [(k, f v)]) (map (\<lambda>(k, v). (k, f v)) acc) xs
    = map (\<lambda>(k, v). (k, f v)) (acc @ xs)"
  using assms
proof (induction xs arbitrary: acc)
  case (Cons x xs)
  obtain k v where x: "x = (k, v)" by fastforce
  have "k \<notin> fst ` (\<lambda>(k, v). (k, f v)) ` set acc" using Cons.prems x by (auto simp: image_iff)
  then show ?case using Cons.IH [of "acc @ [x]"] Cons.prems x by simp
qed simp

lemma demo_values_contract: "command_values_contract demo_values"
proof -
  have fold: "foldl (\<lambda>m (k, v). if k \<in> fst ` set m then m else m @ [(k, f v)]) [] xs = map (\<lambda>(k, v). (k, f v)) xs"
    if "distinct (map fst xs)"
    for xs :: "(CommandString \<times> CommandString option) list" and f :: "CommandString option \<Rightarrow> CommandString option"
    using demo_emplace [of "[]" xs f] that by simp
  have keys: "map (fst \<circ> (\<lambda>(k, v). (k, f v))) xs = map fst xs"
    for xs :: "(CommandString \<times> CommandString option) list" and f :: "CommandString option \<Rightarrow> CommandString option"
    by (simp add: o_def split_beta)
  show ?thesis by (simp add: command_values_contract_def demo_values_def fold keys)
qed

definition demo_invocation ::
  "(CommandString option, (CommandString \<times> CommandString option) list) CommandInvocation" where
  "demo_invocation = \<lparr>ci_path = [[100, 111]], ci_positional = [Some [49]], ci_named = [([107], Some [118])],
     ci_raw = []\<rparr>"

theorem request_roundtrip_witness:
  "\<exists>bytes request. EncodeRequest demo_values demo_invocation = (True, bytes)
     \<and> DecodeRequest demo_values 7 (Some bytes) (length bytes) = Some request
     \<and> invocation_text demo_values (rq_Invocation request) = invocation_text demo_values demo_invocation"
proof -
  have "EncodeRequest demo_values demo_invocation
      = (True, [1, 0, 2, 0, 100, 111, 1, 0, 1, 0, 49, 1, 0, 1, 0, 107, 1, 0, 118, 0, 0])"
    by (simp add: EncodeRequest_eq invocation_ok_def invocation_text_def demo_invocation_def demo_values_def
        short_def put_strings_def put_pairs_def put_pair_def put_string_def put_u16_def le_bytes_2)
  from request_roundtrip [OF demo_values_contract this, of 7] this show ?thesis
    by (auto simp: demo_invocation_def demo_values_def)
qed

text \<open>
  C14. The decoder accepts a buffer exactly when it is the complete written form of a request with a
  non-empty path whose strings and counts fit sixteen bits, and then returns that content: nothing else is
  accepted, no byte is left over, and no two contents share a buffer.
\<close>

theorem request_decoder_exact:
  "DecodeRequest cv requestID (Some bytes) (length bytes) = Some request \<longleftrightarrow>
     (\<exists>content. request_text_ok content \<and> bytes = put_request content
        \<and> request = request_of_text cv requestID content)"
  using DecodeRequest_put DecodeRequest_get by blast

text \<open>
  C17. A path (or argument list) whose length is a positive multiple of 65536 is encoded with a count of zero:
  the encoder reports success for a non-empty path and the receiver refuses the request.
\<close>

theorem oversized_path_lost:
  assumes "list_all short (ci_path invocation)" "length (ci_path invocation) = 65536 * Suc k"
    and "invocation_ok cv (invocation\<lparr>ci_path := [[]]\<rparr>)"
  shows "\<exists>bytes. EncodeRequest cv invocation = (True, bytes)
    \<and> DecodeRequest cv requestID (Some bytes) (length bytes) = None"
proof -
  let ?bytes = "put_request (invocation_text cv invocation)"
  have "ci_path invocation \<noteq> []" using assms(2) by auto
  then have enc: "EncodeRequest cv invocation = (True, ?bytes)"
    using assms(1,3) unfolding EncodeRequest_eq by (simp add: invocation_ok_def)
  have zero: "(of_nat (length (ci_path invocation)) :: u16) = 0"
    unfolding assms(2) by (simp only: word_of_nat_eq_0_iff) simp
  obtain rest where "?bytes = put_u16 (length (ci_path invocation)) @ rest"
    by (simp add: invocation_text_def put_strings_def)
  then have "\<exists>r'. ReadU16 (Reader_new ?bytes) = Some (0, r')"
    using ReadU16_put [of "Reader_new ?bytes" "length (ci_path invocation)" rest] reads_new [of ?bytes] zero by auto
  then have "DecodeRequest cv requestID (Some ?bytes) (length ?bytes) = None"
    by (auto simp: DecodeRequest_def)
  with enc show ?thesis by blast
qed

theorem oversized_path_lost_witness:
  "\<exists>bytes. EncodeRequest demo_values (demo_invocation\<lparr>ci_path := replicate 65536 []\<rparr>) = (True, bytes)
    \<and> DecodeRequest demo_values 7 (Some bytes) (length bytes) = None"
  by (rule oversized_path_lost [where k = 0])
    (simp_all add: list_all_iff short_def invocation_ok_def demo_invocation_def demo_values_def)

lemma DecodeResponse_EncodeResponse:
  "EncodeResponse result = (True, bytes) \<Longrightarrow>
   DecodeResponse requestID (Some bytes) (length bytes) = Some \<lparr>rs_RequestID = requestID, rs_Result = result\<rparr>"
proof -
  assume enc: "EncodeResponse result = (True, bytes)"
  have i32: "AppendI32 w out = out @ le_bytes 4 w" for w out
    by (simp add: AppendI32_def le_bytes_4 ucast_u32_mask)
  let ?s = "if cr_success result then 1 else 0 :: byte"
  have ok: "short (cr_message result)"
    and bytes: "bytes = ?s # le_bytes 4 (cr_code result) @ put_string (cr_message result) @ []"
    using enc by (auto simp: EncodeResponse_def i32 AppendString_eq split: if_splits)
  let ?r0 = "Reader_new bytes"
  have r0: "reads ?r0 bytes" by simp
  let ?r1 = "?r0\<lparr>rd_offset := rd_offset ?r0 + 1\<rparr>"
  have r1: "ReadU8 ?r0 = Some (?s, ?r1)" "reads ?r1 (le_bytes 4 (cr_code result) @ put_string (cr_message result) @ [])"
    using ReadU8_eq [OF r0] reads_advance [OF r0, of 1] by (simp_all add: bytes)
  let ?r2 = "?r1\<lparr>rd_offset := rd_offset ?r1 + 4\<rparr>"
  have r2: "ReadI32 ?r1 = Some (cr_code result, ?r2)" "reads ?r2 (put_string (cr_message result) @ [])"
    using ReadI32_eq [OF r1(2)] reads_advance [OF r1(2), of 4] by simp_all
  obtain r3 where r3: "ReadString ?r2 = Some (cr_message result, r3)" "reads r3 []"
    using ReadString_put [OF r2(2) ok] by auto
  have "5 \<le> length bytes" "?s \<le> 1" by (simp_all add: bytes)
  then show ?thesis
    using r1(1) r2(1) r3(1) reads_AtEnd [OF r3(2)] by (simp add: DecodeResponse_def not_less [symmetric])
qed

text \<open>
  C15. A command result encodes exactly when its message fits sixteen bits, and decodes at the requester to
  the same success flag, code and message.
\<close>

theorem response_roundtrip:
  "EncodeResponse result = (True, bytes) \<Longrightarrow>
   DecodeResponse requestID (Some bytes) (length bytes) = Some \<lparr>rs_RequestID = requestID, rs_Result = result\<rparr>"
  by (rule DecodeResponse_EncodeResponse)

theorem response_roundtrip_witness:
  "DecodeResponse 9 (Some [1, 5, 0, 0, 0, 2, 0, 111, 107]) (length [1 :: byte, 5, 0, 0, 0, 2, 0, 111, 107])
    = Some \<lparr>rs_RequestID = 9, rs_Result = \<lparr>cr_success = True, cr_code = 5, cr_message = [111, 107]\<rparr>\<rparr>"
  by (rule response_roundtrip)
    (simp add: EncodeResponse_def AppendI32_def AppendString_eq short_def put_string_def put_u16_def le_bytes_2)

end
