(* ===== verification/Command_Fragments.thy ===== *)
theory Command_Fragments
  imports Command_Codec
begin

text \<open>
  The fragments of the Command protocol interpret the wire contract, and the fragments built for a
  payload carry exactly its consecutive pieces. \<open>command_header\<close> is the header \<^verbatim>\<open>BuildFragment\<close> writes.
\<close>

definition fragment_valid :: "FragmentHeader \<Rightarrow> byte list \<Rightarrow> bool" where
  "fragment_valid h d \<longleftrightarrow>
     fh_MagicValue h = CommandMagic \<and> fh_VersionValue h = CommandVersion
     \<and> (fh_Type h = message_type_id Request \<or> fh_Type h = message_type_id Response)
     \<and> fh_FragmentIndex h < fh_FragmentCount h \<and> fh_TotalLength h \<noteq> 0
     \<and> unat (fh_FragmentLength h) = length d"

lemma length_fragment_header_write [simp]: "length (fragment_header_write h) = 26"
  by (simp add: fragment_header_write_def)

lemma fragment_header_read_write [simp]: "fragment_header_read (fragment_header_write h @ rest) = h"
proof -
  have "drop 16 (fragment_header_write h @ rest) = le_bytes 4 (fh_TotalLength h) @ le_bytes 2 (fh_FragmentIndex h)
      @ le_bytes 2 (fh_FragmentCount h) @ le_bytes 2 (fh_FragmentLength h) @ rest"
    "drop 20 (fragment_header_write h @ rest) = le_bytes 2 (fh_FragmentIndex h)
      @ le_bytes 2 (fh_FragmentCount h) @ le_bytes 2 (fh_FragmentLength h) @ rest"
    "drop 22 (fragment_header_write h @ rest) = le_bytes 2 (fh_FragmentCount h) @ le_bytes 2 (fh_FragmentLength h) @ rest"
    "drop 24 (fragment_header_write h @ rest) = le_bytes 2 (fh_FragmentLength h) @ rest"
    by (simp_all add: fragment_header_write_def)
  then show ?thesis
    by (simp add: fragment_header_read_def) (simp add: fragment_header_write_def nth_append)
qed

lemma word_less_nonzero: "(a :: u16) < b \<Longrightarrow> b \<noteq> 0"
  by auto

lemma ParseFragmentHeader_write:
  assumes "fragment_valid h d"
  shows "ParseFragmentHeader (Some (fragment_header_write h @ d)) (length (fragment_header_write h @ d)) = Some (h, d)"
  using assms word_less_nonzero [of "fh_FragmentIndex h" "fh_FragmentCount h"]
  by (auto simp: ParseFragmentHeader_def fragment_valid_def FragmentHeaderSize_def Let_def not_le)

lemma ParseFragmentHeader_valid:
  assumes "ParseFragmentHeader (Some bs) (length bs) = Some (h, d)"
  shows "fragment_valid h d"
  using assms by (auto simp: ParseFragmentHeader_def fragment_valid_def FragmentHeaderSize_def Let_def split: if_splits)

interpretation command_wire: wire_codec "\<lambda>h d. fragment_header_write h @ d"
  "\<lambda>bs. ParseFragmentHeader (Some bs) (length bs)" fragment_valid
  by unfold_locales (fact ParseFragmentHeader_write, fact ParseFragmentHeader_valid)

text \<open>The header of fragment \<open>i\<close> of \<open>n\<close>, each but the last \<open>cap\<close> bytes long.\<close>

definition command_header ::
  "ESPNowCommandMessageType \<Rightarrow> u64 \<Rightarrow> byte list \<Rightarrow> nat \<Rightarrow> nat \<Rightarrow> nat \<Rightarrow> FragmentHeader" where
  "command_header type requestID payload cap n i =
     FragmentHeader_default\<lparr>fh_Type := message_type_id type, fh_RequestID := requestID,
       fh_TotalLength := of_nat (length payload), fh_FragmentIndex := of_nat i, fh_FragmentCount := of_nat n,
       fh_FragmentLength := of_nat (length (chunk cap payload i))\<rparr>"

lemma GetFragmentCount_eq:
  "GetFragmentCount len maximum =
     (if len = 0 \<or> maximum \<le> FragmentHeaderSize \<or> len > 0xFFFFFFFF
         \<or> ceil_div len (maximum - FragmentHeaderSize) > 0xFFFF then 0
      else ceil_div len (maximum - FragmentHeaderSize))"
  using ceil_div_pos [of len "maximum - FragmentHeaderSize"]
  by (auto simp: GetFragmentCount_def ceil_div_def Let_def)

lemma BuildFragment_eq:
  assumes n: "n = GetFragmentCount (length payload) maximum" and "i < n"
  shows "BuildFragment type requestID payload maximum i =
    Some (fragment_header_write (command_header type requestID payload (maximum - FragmentHeaderSize) n i)
      @ chunk (maximum - FragmentHeaderSize) payload i)"
proof -
  let ?c = "maximum - FragmentHeaderSize"
  have count: "(if length payload - i * ?c < ?c then length payload - i * ?c else ?c) = length (chunk ?c payload i)"
    by (simp add: length_chunk min_def)
  have "take (length (chunk ?c payload i)) (drop (i * ?c) payload) = chunk ?c payload i"
    by (simp add: chunk_def min_def)
  then show ?thesis
    using assms unfolding BuildFragment_def Let_def n [symmetric] count by (simp add: command_header_def)
qed

lemma BuildFragment_None:
  "i \<ge> GetFragmentCount (length payload) maximum \<Longrightarrow> BuildFragment type requestID payload maximum i = None"
  by (simp add: BuildFragment_def)

lemma build_each_eq:
  assumes "\<And>i. i \<in> set is' \<Longrightarrow> BuildFragment type requestID payload maximum i = Some (f i)"
  shows "build_each type requestID payload maximum is' = Some (map f is')"
  using assms by (induction is') auto

lemma BuildFragments_eq:
  "BuildFragments type requestID payload maximum =
     map (\<lambda>i. fragment_header_write (command_header type requestID payload (maximum - FragmentHeaderSize)
           (GetFragmentCount (length payload) maximum) i) @ chunk (maximum - FragmentHeaderSize) payload i)
       [0..<GetFragmentCount (length payload) maximum]"
proof (cases "GetFragmentCount (length payload) maximum = 0")
  case False
  let ?n = "GetFragmentCount (length payload) maximum"
  have "build_each type requestID payload maximum [0..<?n] =
      Some (map (\<lambda>i. fragment_header_write (command_header type requestID payload (maximum - FragmentHeaderSize) ?n i)
        @ chunk (maximum - FragmentHeaderSize) payload i) [0..<?n])"
    by (rule build_each_eq) (simp add: BuildFragment_eq [OF refl])
  then show ?thesis using False by (simp add: BuildFragments_def Let_def)
qed (simp add: BuildFragments_def)

lemma command_header_valid:
  assumes n: "n = GetFragmentCount (length payload) maximum" and i: "i < n" and max: "maximum \<le> 65561"
  shows "fragment_valid (command_header type requestID payload (maximum - FragmentHeaderSize) n i)
    (chunk (maximum - FragmentHeaderSize) payload i)"
proof -
  have len: "0 < length payload" "length payload \<le> 4294967295" "n \<le> 65535"
    using n i by (auto simp: GetFragmentCount_eq split: if_splits)
  have cl: "length (chunk (maximum - FragmentHeaderSize) payload i) \<le> 65535"
    using max by (simp add: length_chunk FragmentHeaderSize_def)
  have "(of_nat i :: u16) < of_nat n" using i len(3) by (simp add: word_less_nat_alt)
  moreover have "(of_nat (length payload) :: u32) \<noteq> 0"
  proof
    assume "(of_nat (length payload) :: u32) = 0"
    then have "unat (of_nat (length payload) :: u32) = 0" by simp
    with len(1,2) show False by simp
  qed
  ultimately show ?thesis
    using cl by (cases type) (simp_all add: fragment_valid_def command_header_def FragmentHeader_default_def)
qed

text \<open>
  C16. Splitting a payload for a transport and reassembling it: whenever a fragment count exists, the
  fragments built are that many, each fits the transport, each parses to its own index, the total length
  and the count, and the data they carry, taken in order, is the payload. The largest transport payload
  covered, 65561 bytes, is the one whose fragment length still fits its sixteen-bit field.
\<close>

theorem fragments_carry_payload:
  assumes n: "n = GetFragmentCount (length payload) maximum" and "n \<noteq> 0" and max: "maximum \<le> 65561"
  shows "length (BuildFragments type requestID payload maximum) = n
    \<and> (\<forall>f \<in> set (BuildFragments type requestID payload maximum). length f \<le> maximum)
    \<and> map (\<lambda>f. ParseFragmentHeader (Some f) (length f)) (BuildFragments type requestID payload maximum)
      = map (\<lambda>i. Some (command_header type requestID payload (maximum - FragmentHeaderSize) n i,
          chunk (maximum - FragmentHeaderSize) payload i)) [0..<n]
    \<and> concat (map (\<lambda>f. snd (the (ParseFragmentHeader (Some f) (length f))))
        (BuildFragments type requestID payload maximum)) = payload"
proof -
  let ?c = "maximum - FragmentHeaderSize"
  let ?h = "command_header type requestID payload ?c n"
  have big: "FragmentHeaderSize < maximum" and ceil: "n = ceil_div (length payload) ?c"
    using n assms(2) by (auto simp: GetFragmentCount_eq split: if_splits)
  have valid: "fragment_valid (?h i) (chunk ?c payload i)" if "i < n" for i
    by (rule command_header_valid [OF n that max])
  note frames = BuildFragments_eq [of type requestID payload maximum, folded n]
  have "\<forall>f \<in> set (BuildFragments type requestID payload maximum). length f \<le> maximum"
    unfolding frames using big by (auto simp: length_chunk FragmentHeaderSize_def)
  moreover have "map (\<lambda>f. ParseFragmentHeader (Some f) (length f)) (BuildFragments type requestID payload maximum)
      = map (\<lambda>i. Some (?h i, chunk ?c payload i)) [0..<n]"
    unfolding frames map_map o_def by (rule command_wire.decode_stream) (rule valid)
  moreover have "concat (map (\<lambda>f. snd (the (ParseFragmentHeader (Some f) (length f))))
      (BuildFragments type requestID payload maximum)) = payload"
    unfolding frames map_map o_def using big by (intro command_wire.stream_payload [OF _ ceil valid]) simp_all
  ultimately show ?thesis by (simp add: frames)
qed

theorem fragments_carry_payload_witness:
  "length (BuildFragments Request 5 (replicate 500 7) 242) = 3
   \<and> concat (map (\<lambda>f. snd (the (ParseFragmentHeader (Some f) (length f))))
        (BuildFragments Request 5 (replicate 500 7) 242)) = replicate 500 7"
proof -
  have "GetFragmentCount (length (replicate 500 (7 :: byte))) 242 = 3"
    by (simp add: GetFragmentCount_def FragmentHeaderSize_def)
  then show ?thesis using fragments_carry_payload [of 3 "replicate 500 7" 242 Request 5] by simp
qed

end
