(* ===== verification/Command_Endpoint.thy ===== *)
theory Command_Endpoint
  imports Command_Fragments
begin

text \<open>
  \<^verbatim>\<open>src/src/ESPressio_ESPNowCommandEndpoint.hpp\<close>: request correlation, reassembly, duplicate suppression and
  timeouts. Everything the endpoint calls outside itself is a field of the parameter \<open>endpoint_env\<close>: the five
  \<^verbatim>\<open>std::function\<close> callbacks, \<^verbatim>\<open>CommandRegistry::Invoke\<close>, \<^verbatim>\<open>CommandResult::Error\<close> and the value operations
  of the Command library. The callbacks read and change the application's world \<open>'w\<close>, which is threaded next
  to the endpoint; they do not call back into the endpoint. Whether a callback is set is a Boolean of the
  endpoint, a completion handler is a value \<open>'k\<close>. A \<^verbatim>\<open>size_t\<close> is a natural number: the only product, fragment
  index times fragment capacity, is below \<open>2 ^ 32\<close> for every protocol payload of at most 65561 bytes.
\<close>

section \<open>Addresses, configuration and records\<close>

datatype ESPNowCommandPeerAddress = PeerAddress byte byte byte byte byte byte

fun peer_bytes :: "ESPNowCommandPeerAddress \<Rightarrow> byte list" where
  "peer_bytes (PeerAddress a b c d e f) = [a, b, c, d, e, f]"

text \<open>\<^verbatim>\<open>operator<\<close> compares the byte arrays lexicographically; addresses are linearly ordered by it.\<close>

instantiation ESPNowCommandPeerAddress :: linorder
begin

definition less_ESPNowCommandPeerAddress :: "ESPNowCommandPeerAddress \<Rightarrow> ESPNowCommandPeerAddress \<Rightarrow> bool" where
  "less_ESPNowCommandPeerAddress p q \<longleftrightarrow> ord_class.lexordp (peer_bytes p) (peer_bytes q)"

definition less_eq_ESPNowCommandPeerAddress :: "ESPNowCommandPeerAddress \<Rightarrow> ESPNowCommandPeerAddress \<Rightarrow> bool" where
  "less_eq_ESPNowCommandPeerAddress p q \<longleftrightarrow> ord_class.lexordp_eq (peer_bytes p) (peer_bytes q)"

instance
proof
  fix p q r :: ESPNowCommandPeerAddress
  have inj: "peer_bytes p = peer_bytes q \<longleftrightarrow> p = q" for p q by (cases p; cases q) auto
  show "p < q \<longleftrightarrow> p \<le> q \<and> \<not> q \<le> p"
    by (metis less_ESPNowCommandPeerAddress_def less_eq_ESPNowCommandPeerAddress_def lexordp_conv_lexordp_eq)
  show "p \<le> p" by (simp add: less_eq_ESPNowCommandPeerAddress_def lexordp_eq_refl)
  show "p \<le> q \<Longrightarrow> q \<le> r \<Longrightarrow> p \<le> r"
    unfolding less_eq_ESPNowCommandPeerAddress_def by (rule lexordp_eq_trans)
  show "p \<le> q \<Longrightarrow> q \<le> p \<Longrightarrow> p = q"
    unfolding less_eq_ESPNowCommandPeerAddress_def using lexordp_eq_antisym inj by blast
  show "p \<le> q \<or> q \<le> p"
    unfolding less_eq_ESPNowCommandPeerAddress_def by (rule lexordp_eq_linear)
qed

end

record ESPNowCommandMetadata =
  md_Transport :: string
  md_RemotePeer :: ESPNowCommandPeerAddress
  md_RequestID :: u64
  md_Duplicate :: bool

record ('v, 'n) ESPNowCommandInvocationContext =
  ic_Metadata :: ESPNowCommandMetadata
  ic_Invocation :: "('v, 'n) CommandInvocation"

record ESPNowCommandEndpointConfig =
  cc_MaximumProtocolPayloadBytes :: nat
  cc_MaximumMessageBytes :: nat
  cc_MaximumOutstandingRequests :: nat
  cc_MaximumReassemblies :: nat
  cc_MaximumDuplicateResults :: nat
  cc_MaximumInboundRequests :: nat
  cc_RequestTimeoutMilliseconds :: u64
  cc_InboundRequestTimeoutMilliseconds :: u64
  cc_ReassemblyTimeoutMilliseconds :: u64
  cc_DuplicateResultLifetimeMilliseconds :: u64

definition CommandEndpointConfig_default :: ESPNowCommandEndpointConfig where
  "CommandEndpointConfig_default =
     \<lparr>cc_MaximumProtocolPayloadBytes = 242, cc_MaximumMessageBytes = 4096, cc_MaximumOutstandingRequests = 8,
      cc_MaximumReassemblies = 8, cc_MaximumDuplicateResults = 8, cc_MaximumInboundRequests = 8,
      cc_RequestTimeoutMilliseconds = 100, cc_InboundRequestTimeoutMilliseconds = 5000,
      cc_ReassemblyTimeoutMilliseconds = 500, cc_DuplicateResultLifetimeMilliseconds = 1000\<rparr>"

record 'k PendingRequest =
  pr_Peer :: ESPNowCommandPeerAddress
  pr_RequestID :: u64
  pr_StartedMilliseconds :: u64
  pr_Completion :: "'k option"

record ('v, 'n) InboundRequest =
  ir_Peer :: ESPNowCommandPeerAddress
  ir_RequestID :: u64
  ir_AcceptedMilliseconds :: u64
  ir_Context :: "('v, 'n) ESPNowCommandInvocationContext"

record Reassembly =
  rb_Peer :: ESPNowCommandPeerAddress
  rb_RequestID :: u64
  rb_Type :: byte
  rb_TotalLength :: u32
  rb_FragmentCount :: u16
  rb_ReceivedCount :: u16
  rb_ReceivedBytes :: nat
  rb_StartedMilliseconds :: u64
  rb_LastUpdatedMilliseconds :: u64
  rb_Buffer :: "byte list"
  rb_ReceivedBits :: "byte list"

record DuplicateResult =
  dr_Peer :: ESPNowCommandPeerAddress
  dr_RequestID :: u64
  dr_CreatedMilliseconds :: u64
  dr_EncodedResponse :: "byte list"

text \<open>The response envelope of the Command library, with the fields \<^verbatim>\<open>CompleteInbound\<close> reads.\<close>

record CommandResponseEnvelope =
  re_RequestId :: u64
  re_Success :: bool
  re_Code :: "32 word"
  re_Message :: CommandString
  re_MessageLength :: nat

record ('v, 'n, 'k, 'w) endpoint_env =
  ev_values :: "('v, 'n) command_values"
  ev_Error :: "string \<Rightarrow> 32 word \<Rightarrow> CommandResult"
  ev_send :: "ESPNowCommandPeerAddress \<Rightarrow> byte list \<Rightarrow> 'w \<Rightarrow> bool \<times> 'w"
  ev_complete :: "'k \<Rightarrow> CommandResult \<Rightarrow> 'w \<Rightarrow> 'w"
  ev_policy :: "('v, 'n) ESPNowCommandInvocationContext \<Rightarrow> 'w \<Rightarrow> CommandResult \<times> 'w"
  ev_observe :: "('v, 'n) ESPNowCommandInvocationContext \<Rightarrow> CommandResult \<Rightarrow> 'w \<Rightarrow> 'w"
  ev_inbound :: "('v, 'n) ESPNowCommandInvocationContext \<Rightarrow> 'w \<Rightarrow> bool \<times> 'w"
  ev_Invoke :: "('v, 'n) CommandInvocation \<Rightarrow> 'w \<Rightarrow> CommandResult \<times> 'w"

record ('v, 'n, 'k) ESPNowCommandEndpoint =
  ce_registry :: bool
  ce_config :: ESPNowCommandEndpointConfig
  ce_sender :: bool
  ce_policy :: bool
  ce_observer :: bool
  ce_inboundHandler :: bool
  ce_pending :: "'k PendingRequest list"
  ce_inbound :: "('v, 'n) InboundRequest list"
  ce_reassemblies :: "Reassembly list"
  ce_duplicates :: "DuplicateResult list"
  ce_nextRequestID :: u64
  ce_initialized :: bool

definition CommandEndpoint_new :: "('v, 'n, 'k) ESPNowCommandEndpoint" where
  "CommandEndpoint_new =
     \<lparr>ce_registry = False, ce_config = CommandEndpointConfig_default, ce_sender = False, ce_policy = False,
      ce_observer = False, ce_inboundHandler = False, ce_pending = [], ce_inbound = [], ce_reassemblies = [],
      ce_duplicates = [], ce_nextRequestID = 1, ce_initialized = False\<rparr>"


section \<open>Helpers\<close>

definition Command_Elapsed :: "u64 \<Rightarrow> u64 \<Rightarrow> u64" where
  "Command_Elapsed now before = (if now \<ge> before then now - before else 0)"

definition ReceiptBitmapBytes :: "nat \<Rightarrow> nat" where
  "ReceiptBitmapBytes fragmentCount = (fragmentCount + 7) div 8"

definition IsFragmentReceived :: "Reassembly \<Rightarrow> nat \<Rightarrow> bool" where
  "IsFragmentReceived state index = bitmap_test (rb_ReceivedBits state) index"

definition MarkFragmentReceived :: "nat \<Rightarrow> Reassembly \<Rightarrow> Reassembly" where
  "MarkFragmentReceived index state = state\<lparr>rb_ReceivedBits := bitmap_set (rb_ReceivedBits state) index\<rparr>"

definition complete_with ::
  "('v, 'n, 'k, 'w) endpoint_env \<Rightarrow> 'k option \<Rightarrow> CommandResult \<Rightarrow> 'w \<Rightarrow> 'w" where
  "complete_with env handler result w = (case handler of None \<Rightarrow> w | Some k \<Rightarrow> ev_complete env k result w)"

fun send_payload_loop ::
  "('v, 'n, 'k, 'w) endpoint_env \<Rightarrow> ESPNowCommandPeerAddress \<Rightarrow> ESPNowCommandMessageType \<Rightarrow> u64 \<Rightarrow> byte list
     \<Rightarrow> nat \<Rightarrow> nat list \<Rightarrow> 'w \<Rightarrow> bool \<times> 'w" where
  "send_payload_loop env peer type requestID payload maximum [] w = (True, w)"
| "send_payload_loop env peer type requestID payload maximum (index # rest) w =
     (case BuildFragment type requestID payload maximum index of
        None \<Rightarrow> (False, w)
      | Some frame \<Rightarrow>
          let (sent, w) = ev_send env peer frame w in
          if \<not> sent then (False, w)
          else send_payload_loop env peer type requestID payload maximum rest w)"

definition SendPayload ::
  "('v, 'n, 'k, 'w) endpoint_env \<Rightarrow> ESPNowCommandEndpointConfig \<Rightarrow> ESPNowCommandPeerAddress
     \<Rightarrow> ESPNowCommandMessageType \<Rightarrow> u64 \<Rightarrow> byte list \<Rightarrow> 'w \<Rightarrow> bool \<times> 'w" where
  "SendPayload env config peer type requestID payload w =
     (let count = GetFragmentCount (length payload) (cc_MaximumProtocolPayloadBytes config) in
      if count = 0 then (False, w)
      else send_payload_loop env peer type requestID payload (cc_MaximumProtocolPayloadBytes config) [0..<count] w)"

definition reassembly_key :: "Reassembly \<Rightarrow> ESPNowCommandPeerAddress \<times> u64 \<times> byte" where
  "reassembly_key r = (rb_Peer r, rb_RequestID r, rb_Type r)"

definition duplicate_key :: "DuplicateResult \<Rightarrow> ESPNowCommandPeerAddress \<times> u64" where
  "duplicate_key d = (dr_Peer d, dr_RequestID d)"

definition inbound_key :: "('v, 'n) InboundRequest \<Rightarrow> ESPNowCommandPeerAddress \<times> u64" where
  "inbound_key r = (ir_Peer r, ir_RequestID r)"

definition pending_key :: "'k PendingRequest \<Rightarrow> ESPNowCommandPeerAddress \<times> u64" where
  "pending_key r = (pr_Peer r, pr_RequestID r)"

text \<open>The finders return the position of the record a C++ pointer designates.\<close>

definition FindReassembly :: "ESPNowCommandPeerAddress \<Rightarrow> u64 \<Rightarrow> byte \<Rightarrow> Reassembly list \<Rightarrow> nat option" where
  "FindReassembly peer requestID type items = find_index (\<lambda>r. reassembly_key r = (peer, requestID, type)) items"

definition FindDuplicate :: "ESPNowCommandPeerAddress \<Rightarrow> u64 \<Rightarrow> DuplicateResult list \<Rightarrow> DuplicateResult option" where
  "FindDuplicate peer requestID items = List.find (\<lambda>d. duplicate_key d = (peer, requestID)) items"

definition FindInbound :: "ESPNowCommandPeerAddress \<Rightarrow> u64 \<Rightarrow> ('v, 'n) InboundRequest list \<Rightarrow> nat option" where
  "FindInbound peer requestID items = find_index (\<lambda>r. inbound_key r = (peer, requestID)) items"

definition RemoveReassembly :: "nat \<Rightarrow> Reassembly list \<Rightarrow> Reassembly list" where
  "RemoveReassembly i items = (if i < length items then erase_at i items else items)"

definition RemoveInbound :: "nat \<Rightarrow> ('v, 'n) InboundRequest list \<Rightarrow> ('v, 'n) InboundRequest list" where
  "RemoveInbound i items = (if i < length items then erase_at i items else items)"

definition StoreDuplicate ::
  "ESPNowCommandPeerAddress \<Rightarrow> u64 \<Rightarrow> u64 \<Rightarrow> byte list \<Rightarrow> nat \<Rightarrow> DuplicateResult list \<Rightarrow> DuplicateResult list" where
  "StoreDuplicate peer requestID now encoded maximum items =
     (let items = (if length items \<ge> maximum then drop 1 items else items) in
      items @ [\<lparr>dr_Peer = peer, dr_RequestID = requestID, dr_CreatedMilliseconds = now,
                 dr_EncodedResponse = encoded\<rparr>])"


section \<open>Lifecycle\<close>

fun fail_all :: "('v, 'n, 'k, 'w) endpoint_env \<Rightarrow> 'k PendingRequest list \<Rightarrow> 'w \<Rightarrow> 'w" where
  "fail_all env [] w = w"
| "fail_all env (p # ps) w =
     fail_all env ps (complete_with env (pr_Completion p) (ev_Error env ''ESP-NOW Command endpoint shut down'' 3) w)"

definition Endpoint_Shutdown ::
  "('v, 'n, 'k, 'w) endpoint_env \<Rightarrow> ('v, 'n, 'k) ESPNowCommandEndpoint \<times> 'w
     \<Rightarrow> ('v, 'n, 'k) ESPNowCommandEndpoint \<times> 'w" where
  "Endpoint_Shutdown env = (\<lambda>(e, w).
     (e\<lparr>ce_pending := [], ce_inbound := [], ce_reassemblies := [], ce_duplicates := [], ce_policy := False,
        ce_observer := False, ce_inboundHandler := False, ce_sender := False, ce_registry := False,
        ce_initialized := False\<rparr>,
      if ce_initialized e then fail_all env (ce_pending e) w else w))"

definition config_accepted :: "ESPNowCommandEndpointConfig \<Rightarrow> bool" where
  "config_accepted config \<longleftrightarrow>
     \<not> (cc_MaximumProtocolPayloadBytes config \<le> FragmentHeaderSize \<or> cc_MaximumMessageBytes config = 0
        \<or> cc_MaximumOutstandingRequests config = 0 \<or> cc_MaximumReassemblies config = 0
        \<or> cc_MaximumDuplicateResults config = 0 \<or> cc_MaximumInboundRequests config = 0
        \<or> cc_InboundRequestTimeoutMilliseconds config = 0)"

definition Endpoint_Initialize ::
  "('v, 'n, 'k, 'w) endpoint_env \<Rightarrow> ESPNowCommandEndpointConfig \<Rightarrow> bool
     \<Rightarrow> ('v, 'n, 'k) ESPNowCommandEndpoint \<times> 'w \<Rightarrow> bool \<times> ('v, 'n, 'k) ESPNowCommandEndpoint \<times> 'w" where
  "Endpoint_Initialize env config sender s =
     (let (e, w) = Endpoint_Shutdown env s in
      if \<not> sender \<or> \<not> config_accepted config then (False, e, w)
      else (True, e\<lparr>ce_registry := True, ce_config := config, ce_sender := sender, ce_initialized := True\<rparr>, w))"

definition SetPolicy :: "bool \<Rightarrow> ('v, 'n, 'k) ESPNowCommandEndpoint \<Rightarrow> ('v, 'n, 'k) ESPNowCommandEndpoint" where
  "SetPolicy policy e = e\<lparr>ce_policy := policy\<rparr>"

definition SetResultObserver :: "bool \<Rightarrow> ('v, 'n, 'k) ESPNowCommandEndpoint \<Rightarrow> ('v, 'n, 'k) ESPNowCommandEndpoint" where
  "SetResultObserver observer e = e\<lparr>ce_observer := observer\<rparr>"

definition SetInboundRequestHandler :: "bool \<Rightarrow> ('v, 'n, 'k) ESPNowCommandEndpoint \<Rightarrow> ('v, 'n, 'k) ESPNowCommandEndpoint" where
  "SetInboundRequestHandler handler e = e\<lparr>ce_inboundHandler := handler\<rparr>"

definition GetOutstandingRequestCount :: "('v, 'n, 'k) ESPNowCommandEndpoint \<Rightarrow> nat" where
  "GetOutstandingRequestCount e = length (ce_pending e)"

definition GetInboundRequestCount :: "('v, 'n, 'k) ESPNowCommandEndpoint \<Rightarrow> nat" where
  "GetInboundRequestCount e = length (ce_inbound e)"

definition GetReassemblyCount :: "('v, 'n, 'k) ESPNowCommandEndpoint \<Rightarrow> nat" where
  "GetReassemblyCount e = length (ce_reassemblies e)"


section \<open>Requests from here\<close>

text \<open>The request identifier, zero skipped, with the successor to store.\<close>

definition next_request_id :: "u64 \<Rightarrow> u64 \<times> u64" where
  "next_request_id n = (if n = 0 then (n + 1, n + 2) else (n, n + 1))"

definition Invoke ::
  "('v, 'n, 'k, 'w) endpoint_env \<Rightarrow> ESPNowCommandPeerAddress \<Rightarrow> ('v, 'n) CommandInvocation \<Rightarrow> 'k option \<Rightarrow> u64
     \<Rightarrow> ('v, 'n, 'k) ESPNowCommandEndpoint \<times> 'w \<Rightarrow> u64 option \<times> ('v, 'n, 'k) ESPNowCommandEndpoint \<times> 'w" where
  "Invoke env peer invocation completion now = (\<lambda>(e, w).
     if \<not> ce_initialized e \<or> \<not> ce_registry e \<or> \<not> ce_sender e \<or> ci_path invocation = []
        \<or> length (ce_pending e) \<ge> cc_MaximumOutstandingRequests (ce_config e) then (None, e, w)
     else
       let (requestID, next) = next_request_id (ce_nextRequestID e); e = e\<lparr>ce_nextRequestID := next\<rparr>;
           (encoded, payload) = EncodeRequest (ev_values env) invocation in
       if \<not> encoded \<or> payload = [] \<or> length payload > cc_MaximumMessageBytes (ce_config e) then (None, e, w)
       else
         let e = e\<lparr>ce_pending := ce_pending e @ [\<lparr>pr_Peer = peer, pr_RequestID = requestID, pr_StartedMilliseconds = now,
                     pr_Completion = completion\<rparr>]\<rparr>;
             (sent, w) = SendPayload env (ce_config e) peer Request requestID payload w in
         if \<not> sent
         then
           let handler = pr_Completion (last (ce_pending e)); e = e\<lparr>ce_pending := butlast (ce_pending e)\<rparr> in
           (None, e, complete_with env handler (ev_Error env ''Failed to send ESP-NOW Command request'' 2) w)
         else (Some requestID, e, w))"


section \<open>Complete messages\<close>

definition SendResponseAndCache ::
  "('v, 'n, 'k, 'w) endpoint_env \<Rightarrow> ESPNowCommandPeerAddress \<Rightarrow> u64 \<Rightarrow> CommandResult \<Rightarrow> u64
     \<Rightarrow> ('v, 'n, 'k) ESPNowCommandEndpoint \<times> 'w \<Rightarrow> bool \<times> ('v, 'n, 'k) ESPNowCommandEndpoint \<times> 'w" where
  "SendResponseAndCache env peer requestID result now = (\<lambda>(e, w).
     let (encoded, payload) = EncodeResponse result in
     if \<not> encoded \<or> payload = [] \<or> length payload > cc_MaximumMessageBytes (ce_config e) then (False, e, w)
     else
       let e = e\<lparr>ce_duplicates := StoreDuplicate peer requestID now payload
                   (cc_MaximumDuplicateResults (ce_config e)) (ce_duplicates e)\<rparr>;
           (sent, w) = SendPayload env (ce_config e) peer Response requestID
                         (dr_EncodedResponse (last (ce_duplicates e))) w in
       (sent, e, w))"

definition SendErrorResponse ::
  "('v, 'n, 'k, 'w) endpoint_env \<Rightarrow> ESPNowCommandPeerAddress \<Rightarrow> u64 \<Rightarrow> string \<Rightarrow> 32 word \<Rightarrow> u64
     \<Rightarrow> ('v, 'n, 'k) ESPNowCommandEndpoint \<times> 'w \<Rightarrow> bool \<times> ('v, 'n, 'k) ESPNowCommandEndpoint \<times> 'w" where
  "SendErrorResponse env peer requestID message code now =
     SendResponseAndCache env peer requestID (ev_Error env message code) now"

definition observe ::
  "('v, 'n, 'k, 'w) endpoint_env \<Rightarrow> ('v, 'n, 'k) ESPNowCommandEndpoint
     \<Rightarrow> ('v, 'n) ESPNowCommandInvocationContext \<Rightarrow> CommandResult \<Rightarrow> 'w \<Rightarrow> 'w" where
  "observe env e context result w = (if ce_observer e then ev_observe env context result w else w)"

text \<open>The part of \<^verbatim>\<open>HandleRequest\<close> after the policy: handoff to the application or synchronous execution.\<close>

definition execute_request ::
  "('v, 'n, 'k, 'w) endpoint_env \<Rightarrow> ESPNowCommandPeerAddress \<Rightarrow> u64 \<Rightarrow> ('v, 'n) ESPNowCommandInvocationContext \<Rightarrow> u64
     \<Rightarrow> ('v, 'n, 'k) ESPNowCommandEndpoint \<times> 'w \<Rightarrow> bool \<times> ('v, 'n, 'k) ESPNowCommandEndpoint \<times> 'w" where
  "execute_request env peer requestID context now = (\<lambda>(e, w).
     if ce_inboundHandler e then
       if length (ce_inbound e) \<ge> cc_MaximumInboundRequests (ce_config e)
       then SendErrorResponse env peer requestID ''Inbound Command capacity exhausted'' 6 now (e, w)
       else
         let e = e\<lparr>ce_inbound := ce_inbound e @ [\<lparr>ir_Peer = peer, ir_RequestID = requestID,
                     ir_AcceptedMilliseconds = now, ir_Context = context\<rparr>]\<rparr>;
             (accepted, w) = ev_inbound env context w in
         if accepted then (True, e, w)
         else SendErrorResponse env peer requestID ''Inbound Command handoff rejected'' 7 now
                (e\<lparr>ce_inbound := butlast (ce_inbound e)\<rparr>, w)
     else
       let (result, w) = ev_Invoke env (ic_Invocation context) w in
       SendResponseAndCache env peer requestID result now (e, observe env e context result w))"

definition HandleRequest ::
  "('v, 'n, 'k, 'w) endpoint_env \<Rightarrow> ESPNowCommandPeerAddress \<Rightarrow> u64 \<Rightarrow> byte list \<Rightarrow> nat \<Rightarrow> u64
     \<Rightarrow> ('v, 'n, 'k) ESPNowCommandEndpoint \<times> 'w \<Rightarrow> bool \<times> ('v, 'n, 'k) ESPNowCommandEndpoint \<times> 'w" where
  "HandleRequest env peer requestID payload payloadSize now = (\<lambda>(e, w).
     case FindDuplicate peer requestID (ce_duplicates e) of
       Some duplicate \<Rightarrow>
         let (sent, w) = SendPayload env (ce_config e) peer Response requestID (dr_EncodedResponse duplicate) w in
         (sent, e, w)
     | None \<Rightarrow>
         if FindInbound peer requestID (ce_inbound e) \<noteq> None then (True, e, w)
         else
           case DecodeRequest (ev_values env) requestID (Some payload) payloadSize of
             None \<Rightarrow> SendErrorResponse env peer requestID ''Malformed ESP-NOW Command request'' 5 now (e, w)
           | Some request \<Rightarrow>
               let context = \<lparr>ic_Metadata = \<lparr>md_Transport = ''esp-now'', md_RemotePeer = peer,
                       md_RequestID = requestID, md_Duplicate = False\<rparr>, ic_Invocation = rq_Invocation request\<rparr> in
               if ce_policy e then
                 let (policyResult, w) = ev_policy env context w in
                 if \<not> cr_success policyResult
                 then SendResponseAndCache env peer requestID policyResult now
                        (e, observe env e context policyResult w)
                 else execute_request env peer requestID context now (e, w)
               else execute_request env peer requestID context now (e, w))"

definition HandleResponse ::
  "('v, 'n, 'k, 'w) endpoint_env \<Rightarrow> ESPNowCommandPeerAddress \<Rightarrow> u64 \<Rightarrow> byte list \<Rightarrow> nat
     \<Rightarrow> ('v, 'n, 'k) ESPNowCommandEndpoint \<times> 'w \<Rightarrow> bool \<times> ('v, 'n, 'k) ESPNowCommandEndpoint \<times> 'w" where
  "HandleResponse env peer requestID payload payloadSize = (\<lambda>(e, w).
     case DecodeResponse requestID (Some payload) payloadSize of
       None \<Rightarrow> (False, e, w)
     | Some response \<Rightarrow>
         (case find_index (\<lambda>p. pending_key p = (peer, requestID)) (ce_pending e) of
            None \<Rightarrow> (False, e, w)
          | Some i \<Rightarrow>
              (True, e\<lparr>ce_pending := erase_at i (ce_pending e)\<rparr>,
               complete_with env (pr_Completion (ce_pending e ! i)) (rs_Result response) w)))"

definition DispatchCompletePayload ::
  "('v, 'n, 'k, 'w) endpoint_env \<Rightarrow> ESPNowCommandPeerAddress \<Rightarrow> byte \<Rightarrow> u64 \<Rightarrow> byte list \<Rightarrow> nat \<Rightarrow> u64
     \<Rightarrow> ('v, 'n, 'k) ESPNowCommandEndpoint \<times> 'w \<Rightarrow> bool \<times> ('v, 'n, 'k) ESPNowCommandEndpoint \<times> 'w" where
  "DispatchCompletePayload env peer type requestID payload payloadSize now s =
     (if type = message_type_id Request then HandleRequest env peer requestID payload payloadSize now s
      else if type = message_type_id Response then HandleResponse env peer requestID payload payloadSize s
      else (False, fst s, snd s))"


section \<open>Fragments\<close>

text \<open>What one fragment does to the reassembly table.\<close>

datatype reassembly_outcome = Refused | Incomplete | Completed byte u64 "byte list"

definition new_reassembly :: "ESPNowCommandPeerAddress \<Rightarrow> FragmentHeader \<Rightarrow> u64 \<Rightarrow> Reassembly" where
  "new_reassembly peer header now =
     \<lparr>rb_Peer = peer, rb_RequestID = fh_RequestID header, rb_Type = fh_Type header,
      rb_TotalLength = fh_TotalLength header, rb_FragmentCount = fh_FragmentCount header, rb_ReceivedCount = 0,
      rb_ReceivedBytes = 0, rb_StartedMilliseconds = now, rb_LastUpdatedMilliseconds = now,
      rb_Buffer = replicate (unat (fh_TotalLength header)) 0,
      rb_ReceivedBits = replicate (ReceiptBitmapBytes (unat (fh_FragmentCount header))) 0\<rparr>"

definition copy_fragment :: "FragmentHeader \<Rightarrow> byte list \<Rightarrow> nat \<Rightarrow> Reassembly \<Rightarrow> Reassembly" where
  "copy_fragment header fragmentData offset r =
     (let r = MarkFragmentReceived (unat (fh_FragmentIndex header)) (r\<lparr>rb_Buffer := blit offset fragmentData (rb_Buffer r)\<rparr>) in
      r\<lparr>rb_ReceivedCount := rb_ReceivedCount r + 1,
        rb_ReceivedBytes := rb_ReceivedBytes r + unat (fh_FragmentLength header)\<rparr>)"

definition update_reassembly ::
  "FragmentHeader \<Rightarrow> byte list \<Rightarrow> nat \<Rightarrow> u64 \<Rightarrow> nat \<Rightarrow> Reassembly list \<Rightarrow> reassembly_outcome \<times> Reassembly list" where
  "update_reassembly header fragmentData offset now i items =
     (let r = items ! i in
      if rb_TotalLength r \<noteq> fh_TotalLength header \<or> rb_FragmentCount r \<noteq> fh_FragmentCount header
      then (Refused, items)
      else
        let r = r\<lparr>rb_LastUpdatedMilliseconds := now\<rparr>; fresh = \<not> IsFragmentReceived r (unat (fh_FragmentIndex header)) in
        if \<not> fresh \<and> fragmentData \<noteq> take (unat (fh_FragmentLength header)) (drop offset (rb_Buffer r))
        then (Refused, items[i := r])
        else
          let r = (if fresh then copy_fragment header fragmentData offset r else r) in
          if rb_ReceivedBytes r > unat (rb_TotalLength r) then (Refused, items[i := r])
          else if rb_ReceivedCount r \<noteq> rb_FragmentCount r then (Incomplete, items[i := r])
          else if rb_ReceivedBytes r \<noteq> unat (rb_TotalLength r) then (Refused, items[i := r])
          else (Completed (rb_Type r) (rb_RequestID r) (rb_Buffer r), RemoveReassembly i (items[i := r])))"

definition reassemble ::
  "ESPNowCommandEndpointConfig \<Rightarrow> ESPNowCommandPeerAddress \<Rightarrow> FragmentHeader \<Rightarrow> byte list \<Rightarrow> u64 \<Rightarrow> Reassembly list
     \<Rightarrow> reassembly_outcome \<times> Reassembly list" where
  "reassemble config peer header fragmentData now items =
     (let fragmentCapacity = cc_MaximumProtocolPayloadBytes config - FragmentHeaderSize;
          fragmentOffset = unat (fh_FragmentIndex header) * fragmentCapacity in
      if fragmentOffset \<ge> unat (fh_TotalLength header)
         \<or> unat (fh_FragmentLength header) > unat (fh_TotalLength header) - fragmentOffset
      then (Refused, items)
      else
        case FindReassembly peer (fh_RequestID header) (fh_Type header) items of
          Some i \<Rightarrow> update_reassembly header fragmentData fragmentOffset now i items
        | None \<Rightarrow>
            if length items \<ge> cc_MaximumReassemblies config then (Refused, items)
            else update_reassembly header fragmentData fragmentOffset now (length items)
                   (items @ [new_reassembly peer header now]))"

definition Receive ::
  "('v, 'n, 'k, 'w) endpoint_env \<Rightarrow> ESPNowCommandPeerAddress \<Rightarrow> byte list option \<Rightarrow> nat \<Rightarrow> u64
     \<Rightarrow> ('v, 'n, 'k) ESPNowCommandEndpoint \<times> 'w \<Rightarrow> bool \<times> ('v, 'n, 'k) ESPNowCommandEndpoint \<times> 'w" where
  "Receive env peer data len now = (\<lambda>(e, w).
     if \<not> ce_initialized e \<or> data = None then (False, e, w)
     else
       case ParseFragmentHeader data len of
         None \<Rightarrow> (False, e, w)
       | Some (header, fragmentData) \<Rightarrow>
           if unat (fh_TotalLength header) > cc_MaximumMessageBytes (ce_config e) then (False, e, w)
           else if fh_FragmentCount header = 1 then
             if fh_FragmentIndex header \<noteq> 0
                \<or> unat (fh_FragmentLength header) \<noteq> unat (fh_TotalLength header) then (False, e, w)
             else DispatchCompletePayload env peer (fh_Type header) (fh_RequestID header) fragmentData
                    (unat (fh_FragmentLength header)) now (e, w)
           else
             let (outcome, items) = reassemble (ce_config e) peer header fragmentData now (ce_reassemblies e);
                 e = e\<lparr>ce_reassemblies := items\<rparr> in
             case outcome of
               Refused \<Rightarrow> (False, e, w)
             | Incomplete \<Rightarrow> (True, e, w)
             | Completed type requestID complete \<Rightarrow>
                 DispatchCompletePayload env peer type requestID complete (length complete) now (e, w))"

definition CompleteInbound ::
  "('v, 'n, 'k, 'w) endpoint_env \<Rightarrow> ESPNowCommandPeerAddress \<Rightarrow> CommandResponseEnvelope \<Rightarrow> u64
     \<Rightarrow> ('v, 'n, 'k) ESPNowCommandEndpoint \<times> 'w \<Rightarrow> bool \<times> ('v, 'n, 'k) ESPNowCommandEndpoint \<times> 'w" where
  "CompleteInbound env peer response now = (\<lambda>(e, w).
     if \<not> ce_initialized e then (False, e, w)
     else
       case FindInbound peer (re_RequestId response) (ce_inbound e) of
         None \<Rightarrow> (False, e, w)
       | Some i \<Rightarrow>
           let result = \<lparr>cr_success = re_Success response, cr_code = re_Code response,
                 cr_message = take (re_MessageLength response) (re_Message response)\<rparr>;
               context = ir_Context (ce_inbound e ! i);
               e = e\<lparr>ce_inbound := RemoveInbound i (ce_inbound e)\<rparr> in
           SendResponseAndCache env peer (re_RequestId response) result now (e, observe env e context result w))"


section \<open>Expiry\<close>

function expire_pending ::
  "('v, 'n, 'k, 'w) endpoint_env \<Rightarrow> u64 \<Rightarrow> u64 \<Rightarrow> nat \<Rightarrow> 'k PendingRequest list \<Rightarrow> 'w \<Rightarrow> 'k PendingRequest list \<times> 'w" where
  "expire_pending env timeout now i pending w =
     (if i < length pending then
        if Command_Elapsed now (pr_StartedMilliseconds (pending ! i)) \<ge> timeout
        then expire_pending env timeout now i (erase_at i pending)
               (complete_with env (pr_Completion (pending ! i)) (ev_Error env ''ESP-NOW Command request timed out'' 4) w)
        else expire_pending env timeout now (Suc i) pending w
      else (pending, w))"
  by pat_completeness auto
termination
  by (relation "measure (\<lambda>(env, timeout, now, i, pending, w). length pending - i)") auto

lemma SendResponseAndCache_inbound [simp]:
  "ce_inbound (fst (snd (SendResponseAndCache env peer requestID result now s))) = ce_inbound (fst s)"
  by (simp add: SendResponseAndCache_def Let_def split_beta)

function expire_inbound ::
  "('v, 'n, 'k, 'w) endpoint_env \<Rightarrow> u64 \<Rightarrow> nat \<Rightarrow> ('v, 'n, 'k) ESPNowCommandEndpoint \<Rightarrow> 'w
     \<Rightarrow> ('v, 'n, 'k) ESPNowCommandEndpoint \<times> 'w" where
  "expire_inbound env now i e w =
     (if i < length (ce_inbound e) then
        let r = ce_inbound e ! i in
        if Command_Elapsed now (ir_AcceptedMilliseconds r) \<ge> cc_InboundRequestTimeoutMilliseconds (ce_config e)
        then
          let result = ev_Error env ''Inbound ESP-NOW Command request timed out'' 8;
              (e', w') = snd (SendResponseAndCache env (ir_Peer r) (ir_RequestID r) result now
                 (e\<lparr>ce_inbound := erase_at i (ce_inbound e)\<rparr>, observe env e (ir_Context r) result w)) in
          expire_inbound env now i e' w'
        else expire_inbound env now (Suc i) e w
      else (e, w))"
  by pat_completeness auto
termination
proof (relation "measure (\<lambda>(env, now, i, e, w). length (ce_inbound e) - i)", goal_cases)
  case (2 env now i e w r result x e' w')
  have "(e', w') = snd (SendResponseAndCache env (ir_Peer r) (ir_RequestID r) result now
      (e\<lparr>ce_inbound := erase_at i (ce_inbound e)\<rparr>, observe env e (ir_Context r) result w))" using 2(5,6) by (rule trans [rotated])
  then have "ce_inbound e' = erase_at i (ce_inbound e)" using SendResponseAndCache_inbound [of env "ir_Peer r" "ir_RequestID r" result now "(e\<lparr>ce_inbound := erase_at i (ce_inbound e)\<rparr>, observe env e (ir_Context r) result w)"] by (simp add: prod_eq_iff)
  then show ?case using 2(1) by auto
qed auto

declare expire_pending.simps [simp del] expire_inbound.simps [simp del]

definition Endpoint_Update ::
  "('v, 'n, 'k, 'w) endpoint_env \<Rightarrow> u64 \<Rightarrow> ('v, 'n, 'k) ESPNowCommandEndpoint \<times> 'w
     \<Rightarrow> ('v, 'n, 'k) ESPNowCommandEndpoint \<times> 'w" where
  "Endpoint_Update env now = (\<lambda>(e, w).
     if \<not> ce_initialized e then (e, w)
     else
       let (pending, w) = expire_pending env (cc_RequestTimeoutMilliseconds (ce_config e)) now 0 (ce_pending e) w;
           (e, w) = expire_inbound env now 0 (e\<lparr>ce_pending := pending\<rparr>) w in
       (e\<lparr>ce_reassemblies := filter (\<lambda>r. \<not> Command_Elapsed now (rb_LastUpdatedMilliseconds r)
              \<ge> cc_ReassemblyTimeoutMilliseconds (ce_config e)) (ce_reassemblies e),
          ce_duplicates := filter (\<lambda>d. \<not> Command_Elapsed now (dr_CreatedMilliseconds d)
              \<ge> cc_DuplicateResultLifetimeMilliseconds (ce_config e)) (ce_duplicates e)\<rparr>, w))"

end
