(* ===== verification/Reassembly_Spec.thy ===== *)
theory Reassembly_Spec
  imports ESPNow_Prelude
begin

text \<open>
  The contract of the reassembly buffers. Security envelopes, Command messages and Events are all split
  into fragments that may arrive in any order and more than once. Whatever a receiver's state looks like,
  what the layers above rely on is: as long as some fragment of the message is missing nothing is
  delivered, and the fragment that completes the set delivers exactly the message. \<open>accept s i\<close> is the
  receiver handling fragment \<open>i\<close> of one fixed message, \<open>seen\<close> the fragments it has of it.
\<close>

locale fragment_reassembly =
  fixes accept :: "'s \<Rightarrow> nat \<Rightarrow> byte list option \<times> 's"
    and seen :: "'s \<Rightarrow> nat set"
    and count :: nat
    and payload :: "byte list"
    and invar :: "'s \<Rightarrow> bool"
  assumes seen_missing: "invar s \<Longrightarrow> seen s \<subset> {..<count}"
    and accept_partial: "invar s \<Longrightarrow> i < count \<Longrightarrow> insert i (seen s) \<noteq> {..<count} \<Longrightarrow>
      fst (accept s i) = None \<and> invar (snd (accept s i)) \<and> seen (snd (accept s i)) = insert i (seen s)"
    and accept_last: "invar s \<Longrightarrow> i < count \<Longrightarrow> insert i (seen s) = {..<count} \<Longrightarrow>
      fst (accept s i) = Some payload"

text \<open>Feeding fragments until something is delivered.\<close>

fun feed :: "('s \<Rightarrow> nat \<Rightarrow> byte list option \<times> 's) \<Rightarrow> 's \<Rightarrow> nat list \<Rightarrow> byte list option \<times> 's" where
  "feed accept s [] = (None, s)"
| "feed accept s (i # is') =
     (case accept s i of
        (Some delivered, s') \<Rightarrow> (Some delivered, s')
      | (None, s') \<Rightarrow> feed accept s' is')"

context fragment_reassembly
begin

lemma feed_delivers_iff:
  assumes "invar s" "set is' \<subseteq> {..<count}"
  shows "fst (feed accept s is') = (if seen s \<union> set is' = {..<count} then Some payload else None)"
  using assms
proof (induction is' arbitrary: s)
  case Nil
  then show ?case using seen_missing [of s] by auto
next
  case (Cons i rest)
  obtain r s' where acc: "accept s i = (r, s')" by fastforce
  show ?case
  proof (cases "insert i (seen s) = {..<count}")
    case True
    then have "r = Some payload" using accept_last [OF Cons.prems(1), of i] Cons.prems(2) acc by simp
    moreover have "seen s \<union> set (i # rest) = {..<count}"
      using True Cons.prems(2) seen_missing [OF Cons.prems(1)] by auto
    ultimately show ?thesis using acc by simp
  next
    case False
    then have p: "r = None" "invar s'" "seen s' = insert i (seen s)"
      using accept_partial [OF Cons.prems(1), of i] Cons.prems(2) acc by simp_all
    then show ?thesis using Cons.IH [OF p(2)] Cons.prems(2) acc by simp
  qed
qed

lemma feed_partial:
  assumes "invar s" "set is' \<subseteq> {..<count}" "seen s \<union> set is' \<noteq> {..<count}"
  shows "invar (snd (feed accept s is')) \<and> seen (snd (feed accept s is')) = seen s \<union> set is'"
  using assms
proof (induction is' arbitrary: s)
  case (Cons i rest)
  have ne: "insert i (seen s) \<noteq> {..<count}" using Cons.prems by auto
  obtain r s' where acc: "accept s i = (r, s')" by fastforce
  have p: "r = None" "invar s'" "seen s' = insert i (seen s)"
    using accept_partial [OF Cons.prems(1) _ ne] Cons.prems(2) acc by simp_all
  show ?case using Cons.IH [OF p(2)] Cons.prems(2,3) acc p by simp
qed simp

end


section \<open>Chunks in a buffer\<close>

lemma chunk_position:
  assumes "0 < c" "p < length xs"
  shows "i * c \<le> p \<and> p < i * c + length (chunk c xs i) \<longleftrightarrow> p div c = i"
proof
  assume "i * c \<le> p \<and> p < i * c + length (chunk c xs i)"
  then have "i * c \<le> p" "p < Suc i * c" by (auto simp: length_chunk)
  then show "p div c = i" using assms(1) by (metis div_nat_eqI mult.commute)
next
  assume i: "p div c = i"
  then have "i * c \<le> p" "p < i * c + c" using assms(1) dividend_less_div_times [of c p] by auto
  then show "i * c \<le> p \<and> p < i * c + length (chunk c xs i)" using assms(2) by (auto simp: length_chunk)
qed

lemma blit_chunk_nth:
  assumes "0 < c" "length buf = length xs" "i * c < length xs" "p < length xs"
  shows "blit (i * c) (chunk c xs i) buf ! p = (if p div c = i then xs ! p else buf ! p)"
proof -
  have "i * c + length (chunk c xs i) \<le> length buf" using assms by (auto simp: length_chunk)
  then have "blit (i * c) (chunk c xs i) buf ! p =
      (if p div c = i then chunk c xs i ! (p - i * c) else buf ! p)"
    using assms by (simp add: nth_blit chunk_position)
  moreover have "chunk c xs i ! (p - i * c) = xs ! p" if "p div c = i"
  proof -
    have "i * c \<le> p" "p - i * c < c" using assms(1) by (auto simp flip: that simp: minus_div_mult_eq_mod)
    then show ?thesis using assms(4) by (simp add: chunk_def)
  qed
  ultimately show ?thesis by simp
qed

lemma sum_chunk_lengths:
  assumes "0 < c"
  shows "(\<Sum>j < ceil_div (length xs) c. length (chunk c xs j)) = length xs"
proof -
  have "(\<Sum>j < ceil_div (length xs) c. length (chunk c xs j))
      = length (concat (map (chunk c xs) [0..<ceil_div (length xs) c]))"
    by (simp add: length_concat comp_def interv_sum_list_conv_sum_set_nat atLeast0LessThan)
  then show ?thesis by (simp add: concat_chunks [OF assms])
qed

text \<open>A part of the chunks is no longer than the whole, and a proper part is not the whole.\<close>

lemma sum_chunk_le:
  assumes "0 < c" "S \<subseteq> {..<ceil_div (length xs) c}"
  shows "(\<Sum>j \<in> S. length (chunk c xs j)) \<le> length xs"
  using sum_mono2 [OF _ assms(2), of "\<lambda>j. length (chunk c xs j)"] sum_chunk_lengths [OF assms(1), of xs] by simp

text \<open>
  A buffer that agrees with the payload on the chunks of \<open>S\<close>: storing chunk \<open>i\<close> adds it, and with all
  chunks the buffer is the payload.
\<close>

definition holds_chunks :: "nat \<Rightarrow> byte list \<Rightarrow> nat set \<Rightarrow> byte list \<Rightarrow> bool" where
  "holds_chunks c payload S buf \<longleftrightarrow>
     length buf = length payload \<and> (\<forall>p < length payload. p div c \<in> S \<longrightarrow> buf ! p = payload ! p)"

lemma holds_chunks_blit:
  assumes "0 < c" "holds_chunks c payload S buf" "i * c < length payload"
  shows "holds_chunks c payload (insert i S) (blit (i * c) (chunk c payload i) buf)"
proof -
  have len: "length buf = length payload" using assms(2) by (simp add: holds_chunks_def)
  have "length (blit (i * c) (chunk c payload i) buf) = length payload"
    using assms(3) len by (subst length_blit) (auto simp: length_chunk)
  then show ?thesis using assms(2) blit_chunk_nth [OF assms(1) len assms(3)] by (simp add: holds_chunks_def)
qed

lemma holds_chunks_full:
  assumes "0 < c" "holds_chunks c payload {..<ceil_div (length payload) c} buf"
  shows "buf = payload"
proof (rule nth_equalityI)
  show "length buf = length payload" using assms(2) by (simp add: holds_chunks_def)
  fix p assume "p < length buf"
  then have p: "p < length payload" using assms(2) by (simp add: holds_chunks_def)
  have "p div c * c \<le> p" by simp
  then have "p div c < ceil_div (length payload) c" unfolding less_ceil_div_iff [OF assms(1)] using p by linarith
  then show "buf ! p = payload ! p" using assms(2) p by (simp add: holds_chunks_def)
qed


section \<open>Counting receipts\<close>

definition receipts :: "nat \<Rightarrow> byte list \<Rightarrow> nat set" where
  "receipts n bits = {i. i < n \<and> bitmap_test bits i}"

lemma receipts_subset: "receipts n bits \<subseteq> {..<n}"
  by (auto simp: receipts_def)

lemma finite_receipts [simp]: "finite (receipts n bits)"
  by (rule finite_subset [OF receipts_subset]) simp

lemma receipts_zero [simp]: "receipts n (replicate k 0) = {}"
  by (simp add: receipts_def bitmap_simps)

lemma receipts_set:
  assumes "i < n" "i div 8 < length bits"
  shows "receipts n (bitmap_set bits i) = insert i (receipts n bits)"
  using assms by (auto simp: receipts_def bitmap_simps)

text \<open>Counting one more receipt in a sixteen-bit counter does not wrap.\<close>

lemma receipts_count:
  fixes count total :: u16
  assumes "unat count = card (receipts (unat total) bits)" "i < unat total" "\<not> bitmap_test bits i"
  shows "unat (count + 1) = Suc (card (receipts (unat total) bits))"
proof -
  have "receipts (unat total) bits \<subset> {..<unat total}" using assms(2,3) by (auto simp: receipts_def)
  then have "card (receipts (unat total) bits) < unat total" by (metis card_lessThan finite_lessThan psubset_card_mono)
  then have "unat count < unat total" using assms(1) by simp
  then show ?thesis unfolding assms(1) [symmetric] using unat_u16_bound [of total]
    by (subst unat_add_lem [THEN iffD1]) simp_all
qed

lemma receipts_complete: "card (receipts n bits) = n \<longleftrightarrow> receipts n bits = {..<n}"
  using receipts_subset [of n bits] by (metis card_lessThan card_subset_eq finite_lessThan)

end
