(* ===== verification/Endpoint_Props.thy ===== *)
theory Endpoint_Props
  imports Command_Endpoint Reassembly_Spec
begin

text \<open>
  The invariant of the Command endpoint: its tables stay within the configured capacities, no two records of
  a table share a key, a request is never both in progress and answered from the cache, and every reassembly
  buffer has the size and the receipt count its header promised. Every public operation preserves it.
\<close>

section \<open>The invariant\<close>

definition received_set :: "Reassembly \<Rightarrow> nat set" where
  "received_set r = {i. i < unat (rb_FragmentCount r) \<and> IsFragmentReceived r i}"

definition reassembly_ok :: "ESPNowCommandEndpointConfig \<Rightarrow> Reassembly \<Rightarrow> bool" where
  "reassembly_ok config r \<longleftrightarrow>
     unat (rb_TotalLength r) \<le> cc_MaximumMessageBytes config \<and> length (rb_Buffer r) = unat (rb_TotalLength r)
     \<and> length (rb_ReceivedBits r) = ReceiptBitmapBytes (unat (rb_FragmentCount r))
     \<and> unat (rb_ReceivedCount r) = card (received_set r)"

definition reassemblies_ok :: "ESPNowCommandEndpointConfig \<Rightarrow> Reassembly list \<Rightarrow> bool" where
  "reassemblies_ok config items \<longleftrightarrow>
     length items \<le> cc_MaximumReassemblies config \<and> distinct (map reassembly_key items)
     \<and> (\<forall>r \<in> set items. reassembly_ok config r)"

definition cached_ok :: "ESPNowCommandEndpointConfig \<Rightarrow> DuplicateResult \<Rightarrow> bool" where
  "cached_ok config d \<longleftrightarrow> dr_EncodedResponse d \<noteq> [] \<and> length (dr_EncodedResponse d) \<le> cc_MaximumMessageBytes config"

definition tables_ok :: "('v, 'n, 'k) ESPNowCommandEndpoint \<Rightarrow> bool" where
  "tables_ok e \<longleftrightarrow>
     length (ce_pending e) \<le> cc_MaximumOutstandingRequests (ce_config e)
     \<and> length (ce_inbound e) \<le> cc_MaximumInboundRequests (ce_config e)
     \<and> length (ce_duplicates e) \<le> cc_MaximumDuplicateResults (ce_config e)
     \<and> distinct (map inbound_key (ce_inbound e)) \<and> distinct (map duplicate_key (ce_duplicates e))
     \<and> inbound_key ` set (ce_inbound e) \<inter> duplicate_key ` set (ce_duplicates e) = {}
     \<and> (\<forall>d \<in> set (ce_duplicates e). cached_ok (ce_config e) d)"

definition endpoint_ok :: "('v, 'n, 'k) ESPNowCommandEndpoint \<Rightarrow> bool" where
  "endpoint_ok e \<longleftrightarrow>
     config_accepted (ce_config e) \<and> tables_ok e \<and> reassemblies_ok (ce_config e) (ce_reassemblies e)
     \<and> (\<not> ce_initialized e \<longrightarrow> ce_pending e = [] \<and> ce_inbound e = [] \<and> ce_reassemblies e = [] \<and> ce_duplicates e = [])"

lemmas endpoint_defs = endpoint_ok_def tables_ok_def reassemblies_ok_def


section \<open>Lifecycle\<close>

lemma CommandEndpoint_new_ok: "endpoint_ok CommandEndpoint_new"
  by (simp add: endpoint_defs CommandEndpoint_new_def config_accepted_def CommandEndpointConfig_default_def
      FragmentHeaderSize_def)

lemma Endpoint_Shutdown_ok: "endpoint_ok (fst s) \<Longrightarrow> endpoint_ok (fst (Endpoint_Shutdown env s))"
  by (simp add: endpoint_defs Endpoint_Shutdown_def split_beta)

lemma Endpoint_Initialize_ok: "endpoint_ok (fst s) \<Longrightarrow> endpoint_ok (fst (snd (Endpoint_Initialize env config sender s)))"
  by (simp add: endpoint_defs Endpoint_Initialize_def Endpoint_Shutdown_def split_beta Let_def)


section \<open>Requests and responses\<close>

lemma FindInbound_None: "FindInbound peer requestID items = None \<longleftrightarrow> (peer, requestID) \<notin> inbound_key ` set items"
  unfolding FindInbound_def find_index_None by (force simp: in_set_conv_nth)

lemma FindInbound_Some:
  "FindInbound peer requestID items = Some i \<Longrightarrow> i < length items \<and> inbound_key (items ! i) = (peer, requestID)"
  unfolding FindInbound_def by (drule find_index_Some) simp

lemma FindDuplicate_None: "FindDuplicate peer requestID items = None \<longleftrightarrow> (peer, requestID) \<notin> duplicate_key ` set items"
  by (auto simp: FindDuplicate_def find_None_iff image_iff)

lemma Invoke_ok:
  assumes "endpoint_ok (fst s)"
  shows "endpoint_ok (fst (snd (Invoke env peer invocation completion now s)))"
  using assms by (auto simp: endpoint_defs Invoke_def split_beta Let_def)

lemma StoreDuplicate_ok:
  assumes "length items \<le> maximum" "0 < maximum" "distinct (map duplicate_key items)"
    and new: "(peer, requestID) \<notin> duplicate_key ` set items"
  shows "length (StoreDuplicate peer requestID now encoded maximum items) \<le> maximum"
    "distinct (map duplicate_key (StoreDuplicate peer requestID now encoded maximum items))"
    "duplicate_key ` set (StoreDuplicate peer requestID now encoded maximum items)
       \<subseteq> insert (peer, requestID) (duplicate_key ` set items)"
proof -
  have drop: "distinct (map duplicate_key (drop 1 items))" "set (drop 1 items) \<subseteq> set items"
    using assms(3) by (simp_all add: drop_map [symmetric] set_drop_subset)
  show "length (StoreDuplicate peer requestID now encoded maximum items) \<le> maximum"
    using assms(1,2) by (auto simp: StoreDuplicate_def Let_def)
  show "distinct (map duplicate_key (StoreDuplicate peer requestID now encoded maximum items))"
    using assms(3) new drop by (auto simp: StoreDuplicate_def Let_def duplicate_key_def)
  show "duplicate_key ` set (StoreDuplicate peer requestID now encoded maximum items)
      \<subseteq> insert (peer, requestID) (duplicate_key ` set items)"
    using drop by (auto simp: StoreDuplicate_def Let_def duplicate_key_def)
qed

lemma SendResponseAndCache_ok:
  assumes ok: "endpoint_ok (fst s)" and "ce_initialized (fst s)"
    and new: "(peer, requestID) \<notin> duplicate_key ` set (ce_duplicates (fst s))"
      "(peer, requestID) \<notin> inbound_key ` set (ce_inbound (fst s))"
  shows "endpoint_ok (fst (snd (SendResponseAndCache env peer requestID result now s)))"
proof -
  let ?e = "fst s"
  have *: "length (ce_duplicates ?e) \<le> cc_MaximumDuplicateResults (ce_config ?e)"
    "0 < cc_MaximumDuplicateResults (ce_config ?e)" "distinct (map duplicate_key (ce_duplicates ?e))"
    using ok by (auto simp: endpoint_defs config_accepted_def)
  obtain encoded payload where enc: "EncodeResponse result = (encoded, payload)" by fastforce
  note store = StoreDuplicate_ok [OF * new(1), of now payload]
  have cached: "\<forall>d \<in> set (StoreDuplicate peer requestID now payload (cc_MaximumDuplicateResults (ce_config ?e)) (ce_duplicates ?e)).
      cached_ok (ce_config ?e) d"
    if "payload \<noteq> []" "length payload \<le> cc_MaximumMessageBytes (ce_config ?e)"
    using ok that by (auto simp: StoreDuplicate_def Let_def endpoint_defs cached_ok_def dest: in_set_dropD)
  have disj: "inbound_key ` set (ce_inbound ?e)
      \<inter> duplicate_key ` set (StoreDuplicate peer requestID now payload (cc_MaximumDuplicateResults (ce_config ?e)) (ce_duplicates ?e)) = {}"
    using ok store(3) new(2) by (auto simp: endpoint_defs)
  show ?thesis
    using ok assms(2) store(1,2) new(2) cached disj
    by (auto simp: SendResponseAndCache_def split_beta Let_def enc endpoint_defs)
qed

lemma execute_request_ok:
  assumes ok: "endpoint_ok (fst s)" and init: "ce_initialized (fst s)"
    and new: "(peer, requestID) \<notin> duplicate_key ` set (ce_duplicates (fst s))"
      "(peer, requestID) \<notin> inbound_key ` set (ce_inbound (fst s))"
  shows "endpoint_ok (fst (snd (execute_request env peer requestID context now s)))"
proof -
  let ?e = "fst s"
  have respond: "endpoint_ok (fst (snd (SendResponseAndCache env peer requestID result now s')))"
    if "fst s' = fst s" for result and s' :: "('a, 'b, 'c) ESPNowCommandEndpoint \<times> 'd"
    using that by (intro SendResponseAndCache_ok) (simp_all add: ok init new)
  have push: "endpoint_ok (?e\<lparr>ce_inbound := ce_inbound ?e @ [r]\<rparr>)"
    if "inbound_key r = (peer, requestID)" "length (ce_inbound ?e) < cc_MaximumInboundRequests (ce_config ?e)" for r
    using ok init new that by (auto simp: endpoint_defs)
  show ?thesis
    using respond push by (simp add: execute_request_def split_beta Let_def SendErrorResponse_def not_le inbound_key_def)
qed

lemma HandleRequest_ok:
  assumes "endpoint_ok (fst s)" "ce_initialized (fst s)"
  shows "endpoint_ok (fst (snd (HandleRequest env peer requestID payload size' now s)))"
proof (cases "FindDuplicate peer requestID (ce_duplicates (fst s)) = None \<and> FindInbound peer requestID (ce_inbound (fst s)) = None")
  case True
  then have new: "(peer, requestID) \<notin> duplicate_key ` set (ce_duplicates (fst s))"
    "(peer, requestID) \<notin> inbound_key ` set (ce_inbound (fst s))"
    by (simp_all add: FindDuplicate_None FindInbound_None)
  have "endpoint_ok (fst (snd (SendResponseAndCache env peer requestID result now s')))"
    "endpoint_ok (fst (snd (execute_request env peer requestID ctx now s')))"
    if "fst s' = fst s" for result ctx and s' :: "('a, 'b, 'c) ESPNowCommandEndpoint \<times> 'd"
    using assms new that by (simp_all add: SendResponseAndCache_ok execute_request_ok)
  then show ?thesis
    using True by (simp add: HandleRequest_def split_beta Let_def SendErrorResponse_def split: option.split)
next
  case False
  then show ?thesis using assms by (auto simp: HandleRequest_def split_beta Let_def split: option.split)
qed

lemma HandleResponse_ok:
  assumes "endpoint_ok (fst s)" "ce_initialized (fst s)"
  shows "endpoint_ok (fst (snd (HandleResponse env peer requestID payload size' s)))"
  using assms
  by (auto simp: HandleResponse_def split_beta endpoint_defs dest: find_index_Some split: option.split)

lemma DispatchCompletePayload_ok:
  assumes "endpoint_ok (fst s)" "ce_initialized (fst s)"
  shows "endpoint_ok (fst (snd (DispatchCompletePayload env peer type requestID payload size' now s)))"
  using assms by (simp add: DispatchCompletePayload_def HandleRequest_ok HandleResponse_ok)

lemma remove_inbound_ok:
  assumes ok: "endpoint_ok e" and i: "i < length (ce_inbound e)"
  shows "endpoint_ok (e\<lparr>ce_inbound := erase_at i (ce_inbound e)\<rparr>)"
    "inbound_key (ce_inbound e ! i) \<notin> inbound_key ` set (erase_at i (ce_inbound e))"
    "inbound_key (ce_inbound e ! i) \<notin> duplicate_key ` set (ce_duplicates e)"
    "ce_initialized e"
proof -
  note d = distinct_erase_at [of inbound_key "ce_inbound e" i]
  show init: "ce_initialized e" using ok i by (auto simp: endpoint_ok_def)
  show "inbound_key (ce_inbound e ! i) \<notin> inbound_key ` set (erase_at i (ce_inbound e))"
    using ok i d(2) by (simp add: endpoint_defs)
  show "inbound_key (ce_inbound e ! i) \<notin> duplicate_key ` set (ce_duplicates e)"
    using ok nth_mem [OF i] unfolding endpoint_defs by blast
  show "endpoint_ok (e\<lparr>ce_inbound := erase_at i (ce_inbound e)\<rparr>)"
    using ok i d init by (auto simp: endpoint_defs)
qed

lemma CompleteInbound_ok:
  assumes "endpoint_ok (fst s)"
  shows "endpoint_ok (fst (snd (CompleteInbound env peer response now s)))"
proof (cases "FindInbound peer (re_RequestId response) (ce_inbound (fst s))")
  case (Some i)
  note i = FindInbound_Some [OF Some]
  note r = remove_inbound_ok [OF assms conjunct1 [OF i], unfolded conjunct2 [OF i]]
  have "endpoint_ok (fst (snd (SendResponseAndCache env peer (re_RequestId response) result now
      (fst s\<lparr>ce_inbound := erase_at i (ce_inbound (fst s))\<rparr>, w))))" for result w
    by (rule SendResponseAndCache_ok) (simp_all add: r)
  then show ?thesis using assms Some i
    by (simp add: CompleteInbound_def split_beta Let_def RemoveInbound_def)
qed (use assms in \<open>simp add: CompleteInbound_def split_beta\<close>)


section \<open>Expiry\<close>

lemma SendResponseAndCache_fields [simp]:
  "ce_config (fst (snd (SendResponseAndCache env peer requestID result now s))) = ce_config (fst s)"
  "ce_pending (fst (snd (SendResponseAndCache env peer requestID result now s))) = ce_pending (fst s)"
  "ce_reassemblies (fst (snd (SendResponseAndCache env peer requestID result now s))) = ce_reassemblies (fst s)"
  "ce_initialized (fst (snd (SendResponseAndCache env peer requestID result now s))) = ce_initialized (fst s)"
  by (simp_all add: SendResponseAndCache_def Let_def split_beta)

lemma expire_inbound_ok: "endpoint_ok e \<Longrightarrow> endpoint_ok (fst (expire_inbound env now i e w))"
proof (induction env now i e w rule: expire_inbound.induct)
  case (1 env now i e w)
  let ?r = "ce_inbound e ! i"
  let ?result = "ev_Error env ''Inbound ESP-NOW Command request timed out'' 8"
  let ?s = "SendResponseAndCache env (ir_Peer ?r) (ir_RequestID ?r) ?result now
     (e\<lparr>ce_inbound := erase_at i (ce_inbound e)\<rparr>, observe env e (ir_Context ?r) ?result w)"
  have "endpoint_ok (fst (snd ?s))" if "i < length (ce_inbound e)"
    using remove_inbound_ok [OF "1.prems" that]
    by (intro SendResponseAndCache_ok) (simp_all add: inbound_key_def)
  then show ?case
    using 1 unfolding expire_inbound.simps [of env now i e w] Let_def
    by (simp add: split_beta)
qed

lemma expire_pending_eq:
  assumes "\<forall>j < i. Command_Elapsed now (pr_StartedMilliseconds (pending ! j)) < timeout" "i \<le> length pending"
  shows "expire_pending env timeout now i pending w =
    (filter (\<lambda>p. Command_Elapsed now (pr_StartedMilliseconds p) < timeout) pending,
     fold (\<lambda>p. complete_with env (pr_Completion p) (ev_Error env ''ESP-NOW Command request timed out'' 4))
       (filter (\<lambda>p. timeout \<le> Command_Elapsed now (pr_StartedMilliseconds p)) pending) w)"
  using assms
proof (induction env timeout now i pending w rule: expire_pending.induct)
  case (1 env timeout now i pending w)
  let ?old = "\<lambda>p. timeout \<le> Command_Elapsed now (pr_StartedMilliseconds p)"
  let ?new = "\<lambda>p. Command_Elapsed now (pr_StartedMilliseconds p) < timeout"
  show ?case
  proof (cases "i < length pending")
    case True
    have young: "\<forall>p \<in> set (take i pending). ?new p" using "1.prems" True by (auto simp: in_set_conv_nth)
    note split = erase_at_split [OF True]
    show ?thesis
    proof (cases "?old (pending ! i)")
      case old: True
      have "filter ?new pending = filter ?new (erase_at i pending)"
        using old by (subst split) (simp add: erase_at_def not_less)
      moreover have "filter ?old (take i pending) = []" using young by (auto simp: filter_empty_conv not_le)
      then have "filter ?old pending = pending ! i # filter ?old (erase_at i pending)"
        using old by (subst split) (simp add: erase_at_def)
      moreover have "\<forall>j < i. ?new (erase_at i pending ! j)" "i \<le> length (erase_at i pending)"
        using "1.prems" True by (auto simp: erase_at_def nth_append)
      ultimately show ?thesis
        using "1.IH"(1) [OF True old] True old by (simp add: expire_pending.simps [of env timeout now i pending])
    next
      case False
      then show ?thesis using "1.IH"(2) [OF True False] "1.prems" True
        by (auto simp: expire_pending.simps [of env timeout now i pending] less_Suc_eq)
    qed
  next
    case False
    then have "filter ?new pending = pending" "filter ?old pending = []"
      using "1.prems" by (force simp: in_set_conv_nth filter_id_conv filter_empty_conv not_le)+
    then show ?thesis using False by (simp add: expire_pending.simps [of env timeout now i pending])
  qed
qed

lemma Endpoint_Update_ok: "endpoint_ok (fst s) \<Longrightarrow> endpoint_ok (fst (Endpoint_Update env now s))"
proof (cases "ce_initialized (fst s)")
  case True
  assume ok: "endpoint_ok (fst s)"
  let ?t = "cc_RequestTimeoutMilliseconds (ce_config (fst s))"
  obtain p w where p: "expire_pending env ?t now 0 (ce_pending (fst s)) (snd s) = (p, w)" by fastforce
  then have pf: "p = filter (\<lambda>p. Command_Elapsed now (pr_StartedMilliseconds p) < ?t) (ce_pending (fst s))"
    by (simp add: expire_pending_eq)
  have shrink: "length p \<le> length (ce_pending (fst s))" unfolding pf by simp
  have "endpoint_ok (fst s\<lparr>ce_pending := p\<rparr>)"
    using ok True shrink by (auto simp: endpoint_defs)
  from expire_inbound_ok [OF this, of env now 0 w]
  have in_ok: "endpoint_ok (fst (expire_inbound env now 0 (fst s\<lparr>ce_pending := p\<rparr>) w))" .
  have cut: "endpoint_ok (e\<lparr>ce_reassemblies := filter P (ce_reassemblies e), ce_duplicates := filter Q (ce_duplicates e)\<rparr>)"
    if "endpoint_ok e" for e :: "('a, 'b, 'c) ESPNowCommandEndpoint" and P Q
    using that by (auto simp: endpoint_defs distinct_map_filter intro: order_trans [OF length_filter_le])
  show ?thesis using True cut [OF in_ok] by (simp add: Endpoint_Update_def split_beta Let_def p)
qed (simp add: Endpoint_Update_def split_beta)


section \<open>Fragments\<close>

lemma ReceiptBitmapBytes_index: "i < n \<Longrightarrow> i div 8 < ReceiptBitmapBytes n"
  unfolding ReceiptBitmapBytes_def by linarith

lemma received_set_subset: "received_set r \<subseteq> {..<unat (rb_FragmentCount r)}"
  by (auto simp: received_set_def)

lemma finite_received_set [simp]: "finite (received_set r)"
  by (rule finite_subset [OF received_set_subset]) simp

lemma copy_fragment_fields [simp]:
  "rb_Peer (copy_fragment h d off r) = rb_Peer r" "rb_RequestID (copy_fragment h d off r) = rb_RequestID r"
  "rb_Type (copy_fragment h d off r) = rb_Type r" "rb_TotalLength (copy_fragment h d off r) = rb_TotalLength r"
  "rb_FragmentCount (copy_fragment h d off r) = rb_FragmentCount r"
  "rb_Buffer (copy_fragment h d off r) = blit off d (rb_Buffer r)"
  "rb_ReceivedBytes (copy_fragment h d off r) = rb_ReceivedBytes r + unat (fh_FragmentLength h)"
  "rb_ReceivedCount (copy_fragment h d off r) = rb_ReceivedCount r + 1"
  "reassembly_key (copy_fragment h d off r) = reassembly_key r"
  by (simp_all add: copy_fragment_def Let_def MarkFragmentReceived_def reassembly_key_def)

lemma received_set_copy:
  assumes "length (rb_ReceivedBits r) = ReceiptBitmapBytes (unat (rb_FragmentCount r))"
    and "unat (fh_FragmentIndex h) < unat (rb_FragmentCount r)"
  shows "received_set (copy_fragment h d off r) = insert (unat (fh_FragmentIndex h)) (received_set r)"
  using assms ReceiptBitmapBytes_index [OF assms(2)]
  by (auto simp: received_set_def copy_fragment_def Let_def MarkFragmentReceived_def IsFragmentReceived_def bitmap_simps)

text \<open>Storing a fragment that was missing keeps the buffer's size and counts it, without wrap-around.\<close>

lemma copy_fragment_ok:
  assumes ok: "reassembly_ok config r" and fresh: "\<not> IsFragmentReceived r (unat (fh_FragmentIndex h))"
    and idx: "unat (fh_FragmentIndex h) < unat (rb_FragmentCount r)" and fits: "off + length d \<le> unat (rb_TotalLength r)"
  shows "reassembly_ok config (copy_fragment h d off r)"
    "unat (rb_ReceivedCount (copy_fragment h d off r)) = Suc (card (received_set r))"
proof -
  let ?i = "unat (fh_FragmentIndex h)"
  have bits: "length (rb_ReceivedBits r) = ReceiptBitmapBytes (unat (rb_FragmentCount r))"
    and count: "unat (rb_ReceivedCount r) = card (received_set r)" using ok by (simp_all add: reassembly_ok_def)
  have new: "?i \<notin> received_set r" using fresh by (simp add: received_set_def)
  have "received_set r \<subset> {..<unat (rb_FragmentCount r)}" using received_set_subset new idx by auto
  then have "card (received_set r) < unat (rb_FragmentCount r)" by (metis card_lessThan finite_lessThan psubset_card_mono)
  then have less: "unat (rb_ReceivedCount r) < unat (rb_FragmentCount r)" by (simp add: count)
  then show c: "unat (rb_ReceivedCount (copy_fragment h d off r)) = Suc (card (received_set r))"
    unfolding copy_fragment_fields count [symmetric] using unat_u16_bound [of "rb_FragmentCount r"]
    by (subst unat_add_lem [THEN iffD1]) (simp_all)
  show "reassembly_ok config (copy_fragment h d off r)"
    unfolding reassembly_ok_def received_set_copy [OF bits idx] c
    using ok fits new by (simp add: reassembly_ok_def length_blit) (simp add: copy_fragment_def MarkFragmentReceived_def)
qed

lemma touch_ok: "reassembly_ok config (r\<lparr>rb_LastUpdatedMilliseconds := now\<rparr>) = reassembly_ok config r"
  "received_set (r\<lparr>rb_LastUpdatedMilliseconds := now\<rparr>) = received_set r"
  "IsFragmentReceived (r\<lparr>rb_LastUpdatedMilliseconds := now\<rparr>) j = IsFragmentReceived r j"
  "reassembly_key (r\<lparr>rb_LastUpdatedMilliseconds := now\<rparr>) = reassembly_key r"
  by (simp_all add: reassembly_ok_def received_set_def IsFragmentReceived_def reassembly_key_def)

lemma reassemblies_ok_update:
  assumes "reassemblies_ok config items" "i < length items" "reassembly_ok config r" "reassembly_key r = reassembly_key (items ! i)"
  shows "reassemblies_ok config (items[i := r])" "reassemblies_ok config (RemoveReassembly i (items[i := r]))"
proof -
  have "map reassembly_key (items[i := r]) = map reassembly_key items"
    using assms(2,4) by (metis list_update_id map_update)
  then show u: "reassemblies_ok config (items[i := r])"
    using assms set_update_subset_insert [of items i r] by (auto simp: reassemblies_ok_def)
  show "reassemblies_ok config (RemoveReassembly i (items[i := r]))"
    using u assms(2) distinct_erase_at(1) [of reassembly_key "items[i := r]" i] set_erase_at [of i "items[i := r]"]
    by (auto simp: reassemblies_ok_def RemoveReassembly_def)
qed

lemma update_reassembly_ok:
  assumes items: "reassemblies_ok config items" and i: "i < length items"
    and idx: "fh_FragmentIndex h < fh_FragmentCount h" and fits: "off + length d \<le> unat (fh_TotalLength h)"
  shows "reassemblies_ok config (snd (update_reassembly h d off now i items))"
proof (cases "rb_TotalLength (items ! i) \<noteq> fh_TotalLength h \<or> rb_FragmentCount (items ! i) \<noteq> fh_FragmentCount h")
  case True
  then show ?thesis using items by (simp add: update_reassembly_def Let_def)
next
  case False
  let ?r = "(items ! i)\<lparr>rb_LastUpdatedMilliseconds := now\<rparr>"
  have ok: "reassembly_ok config ?r" using items i by (simp add: reassemblies_ok_def touch_ok)
  have idx': "unat (fh_FragmentIndex h) < unat (rb_FragmentCount ?r)" using idx False by (simp add: word_less_nat_alt)
  have copy: "reassembly_ok config (copy_fragment h d off ?r)" if "\<not> IsFragmentReceived ?r (unat (fh_FragmentIndex h))"
    using that ok fits idx' False by (intro copy_fragment_ok(1)) simp_all
  define r' where "r' = (if IsFragmentReceived ?r (unat (fh_FragmentIndex h)) then ?r else copy_fragment h d off ?r)"
  have "snd (update_reassembly h d off now i items) \<in> {items[i := r'], RemoveReassembly i (items[i := r'])}"
    using False by (simp add: update_reassembly_def Let_def r'_def)
  moreover have "reassembly_ok config r'" "reassembly_key r' = reassembly_key (items ! i)"
    using ok copy by (simp_all add: r'_def touch_ok)
  ultimately show ?thesis using reassemblies_ok_update [OF items i] by auto
qed

lemma FindReassembly_None:
  "FindReassembly peer requestID type items = None \<longleftrightarrow> (peer, requestID, type) \<notin> reassembly_key ` set items"
  unfolding FindReassembly_def find_index_None by (force simp: in_set_conv_nth)

lemma FindReassembly_Some:
  "FindReassembly peer requestID type items = Some i \<Longrightarrow> i < length items \<and> reassembly_key (items ! i) = (peer, requestID, type)"
  unfolding FindReassembly_def by (drule find_index_Some) simp

lemma new_reassembly_ok:
  assumes "unat (fh_TotalLength h) \<le> cc_MaximumMessageBytes config"
  shows "reassembly_ok config (new_reassembly peer h now)" "received_set (new_reassembly peer h now) = {}"
    "reassembly_key (new_reassembly peer h now) = (peer, fh_RequestID h, fh_Type h)"
  using assms
  by (simp_all add: reassembly_ok_def received_set_def new_reassembly_def IsFragmentReceived_def bitmap_simps reassembly_key_def)

lemma reassemble_ok:
  assumes items: "reassemblies_ok config items" and len: "unat (fh_TotalLength h) \<le> cc_MaximumMessageBytes config"
    and valid: "fragment_valid h d"
  shows "reassemblies_ok config (snd (reassemble config peer h d now items))"
proof -
  let ?off = "unat (fh_FragmentIndex h) * (cc_MaximumProtocolPayloadBytes config - FragmentHeaderSize)"
  have idx: "fh_FragmentIndex h < fh_FragmentCount h" and dl: "length d = unat (fh_FragmentLength h)"
    using valid by (simp_all add: fragment_valid_def)
  have old: "reassemblies_ok config (snd (update_reassembly h d ?off now i items))"
    if "?off + length d \<le> unat (fh_TotalLength h)" "FindReassembly peer (fh_RequestID h) (fh_Type h) items = Some i" for i
    using update_reassembly_ok [OF items _ idx that(1)] FindReassembly_Some [OF that(2)] by blast
  have new: "reassemblies_ok config (snd (update_reassembly h d ?off now (length items) (items @ [new_reassembly peer h now])))"
    if "?off + length d \<le> unat (fh_TotalLength h)" "FindReassembly peer (fh_RequestID h) (fh_Type h) items = None"
      "length items < cc_MaximumReassemblies config"
    using items that new_reassembly_ok [OF len]
    by (intro update_reassembly_ok [OF _ _ idx]) (auto simp: reassemblies_ok_def FindReassembly_None)
  show ?thesis
    using items old new dl by (auto simp: reassemble_def Let_def not_le split: option.split)
qed

lemma Receive_ok:
  assumes ok: "endpoint_ok (fst s)"
  shows "endpoint_ok (fst (snd (Receive env peer (Some data) (length data) now s)))"
proof (cases "ParseFragmentHeader (Some data) (length data)")
  case None
  then show ?thesis using ok by (simp add: Receive_def split_beta)
next
  case (Some hd')
  obtain h d where hd: "hd' = (h, d)" by fastforce
  have valid: "fragment_valid h d" using Some hd by (simp add: ParseFragmentHeader_valid)
  have dispatch: "endpoint_ok (fst (snd (DispatchCompletePayload env peer type requestID payload n now s')))"
    if "endpoint_ok (fst s')" "ce_initialized (fst s')" for type requestID payload n
      and s' :: "('a, 'b, 'c) ESPNowCommandEndpoint \<times> 'd"
    using that by (rule DispatchCompletePayload_ok)
  let ?items = "snd (reassemble (ce_config (fst s)) peer h d now (ce_reassemblies (fst s)))"
  have "endpoint_ok (fst s\<lparr>ce_reassemblies := ?items\<rparr>)"
    if "ce_initialized (fst s)" "unat (fh_TotalLength h) \<le> cc_MaximumMessageBytes (ce_config (fst s))"
    using ok that reassemble_ok [OF _ that(2) valid, of "ce_reassemblies (fst s)" peer now]
    by (simp add: endpoint_ok_def tables_ok_def)
  then show ?thesis
    using ok dispatch by (simp add: Receive_def split_beta Some hd Let_def split: reassembly_outcome.split)
qed

end
