(* ===== verification/Endpoint_Reassembly.thy ===== *)
theory Endpoint_Reassembly
  imports Endpoint_Props
begin

text \<open>
  The endpoint's reassembly table interprets the reassembly contract. The fragments are those
  \<^verbatim>\<open>BuildFragment\<close> produces for one message, the table holds other messages \<open>base\<close> besides it, and fragment
  after fragment arrives at the times \<open>clock 0\<close>, \<open>clock 1\<close>, ...
\<close>

section \<open>One message in the table\<close>

record message =
  ms_peer :: ESPNowCommandPeerAddress
  ms_type :: ESPNowCommandMessageType
  ms_id :: u64
  ms_payload :: "byte list"

abbreviation ms_key :: "message \<Rightarrow> ESPNowCommandPeerAddress \<times> u64 \<times> byte" where
  "ms_key m \<equiv> (ms_peer m, ms_id m, message_type_id (ms_type m))"

definition frag_cap :: "ESPNowCommandEndpointConfig \<Rightarrow> nat" where
  "frag_cap config = cc_MaximumProtocolPayloadBytes config - FragmentHeaderSize"

definition frag_count :: "ESPNowCommandEndpointConfig \<Rightarrow> message \<Rightarrow> nat" where
  "frag_count config m = GetFragmentCount (length (ms_payload m)) (cc_MaximumProtocolPayloadBytes config)"

definition frag_header :: "ESPNowCommandEndpointConfig \<Rightarrow> message \<Rightarrow> nat \<Rightarrow> FragmentHeader" where
  "frag_header config m i =
     command_header (ms_type m) (ms_id m) (ms_payload m) (frag_cap config) (frag_count config m) i"

definition frag_data :: "ESPNowCommandEndpointConfig \<Rightarrow> message \<Rightarrow> nat \<Rightarrow> byte list" where
  "frag_data config m i = chunk (frag_cap config) (ms_payload m) i"

definition message_ok :: "ESPNowCommandEndpointConfig \<Rightarrow> message \<Rightarrow> bool" where
  "message_ok config m \<longleftrightarrow>
     cc_MaximumProtocolPayloadBytes config \<le> 65561 \<and> length (ms_payload m) \<le> cc_MaximumMessageBytes config
     \<and> 2 \<le> frag_count config m"

lemma message_okD:
  assumes "message_ok config m"
  shows "0 < frag_cap config" "frag_count config m = ceil_div (length (ms_payload m)) (frag_cap config)"
    "frag_count config m \<le> 65535" "length (ms_payload m) \<le> 4294967295" "2 \<le> frag_count config m"
    "length (ms_payload m) \<le> cc_MaximumMessageBytes config" "frag_cap config \<le> 65535"
proof -
  have c: "frag_count config m \<noteq> 0" using assms by (simp add: message_ok_def)
  show "0 < frag_cap config" "frag_count config m = ceil_div (length (ms_payload m)) (frag_cap config)"
    "frag_count config m \<le> 65535" "length (ms_payload m) \<le> 4294967295"
    using c by (auto simp: frag_count_def frag_cap_def GetFragmentCount_eq split: if_splits)
  show "2 \<le> frag_count config m" "length (ms_payload m) \<le> cc_MaximumMessageBytes config" "frag_cap config \<le> 65535"
    using assms by (auto simp: message_ok_def frag_cap_def FragmentHeaderSize_def)
qed

lemma frag_header_fields [simp]:
  "fh_RequestID (frag_header config m i) = ms_id m" "fh_Type (frag_header config m i) = message_type_id (ms_type m)"
  "fh_TotalLength (frag_header config m i) = of_nat (length (ms_payload m))"
  "fh_FragmentCount (frag_header config m i) = of_nat (frag_count config m)"
  "fh_FragmentIndex (frag_header config m i) = of_nat i"
  "fh_FragmentLength (frag_header config m i) = of_nat (length (frag_data config m i))"
  by (simp_all add: frag_header_def command_header_def frag_data_def)

lemma frag_header_words:
  assumes ok: "message_ok config m" and i: "i < frag_count config m"
  shows "unat (fh_TotalLength (frag_header config m i)) = length (ms_payload m)"
    "unat (fh_FragmentCount (frag_header config m i)) = frag_count config m"
    "unat (fh_FragmentIndex (frag_header config m i)) = i"
    "unat (fh_FragmentLength (frag_header config m i)) = length (frag_data config m i)"
    "fragment_valid (frag_header config m i) (frag_data config m i)"
    "i * frag_cap config < length (ms_payload m)"
    "i * frag_cap config + length (frag_data config m i) \<le> length (ms_payload m)"
proof -
  note o = message_okD [OF ok]
  show "unat (fh_TotalLength (frag_header config m i)) = length (ms_payload m)"
    "unat (fh_FragmentCount (frag_header config m i)) = frag_count config m"
    "unat (fh_FragmentIndex (frag_header config m i)) = i"
    using o i by (simp_all del: of_nat_numeral)
  have "length (frag_data config m i) \<le> 65535" using o(7) by (simp add: frag_data_def length_chunk)
  then show "unat (fh_FragmentLength (frag_header config m i)) = length (frag_data config m i)" by simp
  show "fragment_valid (frag_header config m i) (frag_data config m i)"
    using command_header_valid [of "frag_count config m" "ms_payload m" "cc_MaximumProtocolPayloadBytes config" i] i ok
    by (simp add: frag_header_def frag_data_def frag_count_def frag_cap_def message_ok_def)
  show p: "i * frag_cap config < length (ms_payload m)" using i o(1,2) by (simp add: less_ceil_div_iff)
  then show "i * frag_cap config + length (frag_data config m i) \<le> length (ms_payload m)"
    by (auto simp: frag_data_def length_chunk)
qed

text \<open>What the record of a message in progress holds.\<close>

definition record_good :: "ESPNowCommandEndpointConfig \<Rightarrow> message \<Rightarrow> Reassembly \<Rightarrow> bool" where
  "record_good config m r \<longleftrightarrow>
     reassembly_ok config r \<and> reassembly_key r = ms_key m \<and> unat (rb_TotalLength r) = length (ms_payload m)
     \<and> unat (rb_FragmentCount r) = frag_count config m
     \<and> rb_ReceivedBytes r = (\<Sum>j \<in> received_set r. length (frag_data config m j))
     \<and> (\<forall>p < length (ms_payload m). p div frag_cap config \<in> received_set r \<longrightarrow> rb_Buffer r ! p = ms_payload m ! p)"

lemma record_good_touch: "record_good config m (r\<lparr>rb_LastUpdatedMilliseconds := now\<rparr>) = record_good config m r"
  by (simp add: record_good_def touch_ok)

lemma record_good_new:
  assumes "message_ok config m" "i < frag_count config m"
  shows "record_good config m (new_reassembly (ms_peer m) (frag_header config m i) now)"
proof -
  note o = message_okD [OF assms(1)]
  note w = frag_header_words [OF assms]
  note n = new_reassembly_ok [of "frag_header config m i" config "ms_peer m" now, unfolded w(1), OF o(6)]
  show ?thesis unfolding record_good_def n(2) using n(1,3) w(1,2) by (simp add: new_reassembly_def)
qed

lemma record_good_copy:
  assumes ok: "message_ok config m" and i: "i < frag_count config m"
    and good: "record_good config m r" and fresh: "\<not> IsFragmentReceived r i"
  shows "record_good config m (copy_fragment (frag_header config m i) (frag_data config m i) (i * frag_cap config) r)"
    "received_set (copy_fragment (frag_header config m i) (frag_data config m i) (i * frag_cap config) r)
       = insert i (received_set r)"
proof -
  let ?h = "frag_header config m i" and ?d = "frag_data config m i" and ?off = "i * frag_cap config"
  let ?r = "copy_fragment ?h ?d ?off r"
  note o = message_okD [OF ok]
  note w = frag_header_words [OF ok i]
  have r: "reassembly_ok config r" "unat (rb_TotalLength r) = length (ms_payload m)"
    "unat (rb_FragmentCount r) = frag_count config m" using good by (simp_all add: record_good_def)
  have idx: "unat (fh_FragmentIndex ?h) < unat (rb_FragmentCount r)" using w(3) r(3) i by simp
  have bits: "length (rb_ReceivedBits r) = ReceiptBitmapBytes (unat (rb_FragmentCount r))" "length (rb_Buffer r) = length (ms_payload m)"
    using r by (simp_all add: reassembly_ok_def)
  show set: "received_set ?r = insert i (received_set r)"
    using received_set_copy [OF bits(1) idx] w(3) by simp
  have new: "i \<notin> received_set r" using fresh by (simp add: received_set_def)
  have "reassembly_ok config ?r"
    by (rule copy_fragment_ok(1) [OF r(1) _ idx]) (use fresh w r in simp_all)
  moreover have "rb_ReceivedBytes ?r = (\<Sum>j \<in> received_set ?r. length (frag_data config m j))"
    unfolding set using good new w(4) by (simp add: record_good_def)
  moreover have "rb_Buffer ?r ! p = ms_payload m ! p"
    if "p < length (ms_payload m)" "p div frag_cap config \<in> received_set ?r" for p
    using that good blit_chunk_nth [OF o(1) bits(2) w(6) that(1)] unfolding set
    by (auto simp: record_good_def frag_data_def)
  ultimately show "record_good config m ?r" using good by (simp add: record_good_def)
qed

lemma record_complete:
  assumes ok: "message_ok config m" and good: "record_good config m r"
  shows "rb_ReceivedBytes r \<le> unat (rb_TotalLength r)"
    "rb_ReceivedCount r = rb_FragmentCount r \<longleftrightarrow> received_set r = {..<frag_count config m}"
    "received_set r = {..<frag_count config m} \<Longrightarrow> rb_ReceivedBytes r = unat (rb_TotalLength r) \<and> rb_Buffer r = ms_payload m"
proof -
  note o = message_okD [OF ok]
  have sub: "received_set r \<subseteq> {..<frag_count config m}"
    using received_set_subset [of r] good by (simp add: record_good_def)
  have g: "unat (rb_TotalLength r) = length (ms_payload m)" "unat (rb_FragmentCount r) = frag_count config m"
    "unat (rb_ReceivedCount r) = card (received_set r)" "length (rb_Buffer r) = length (ms_payload m)"
    "rb_ReceivedBytes r = (\<Sum>j \<in> received_set r. length (frag_data config m j))"
    using good by (simp_all add: record_good_def reassembly_ok_def)
  show "rb_ReceivedBytes r \<le> unat (rb_TotalLength r)"
    using sum_chunk_le [OF o(1)] sub unfolding g frag_data_def o(2) by blast
  have "card (received_set r) = frag_count config m \<longleftrightarrow> received_set r = {..<frag_count config m}"
    using sub by (metis card_lessThan card_subset_eq finite_lessThan)
  then show "rb_ReceivedCount r = rb_FragmentCount r \<longleftrightarrow> received_set r = {..<frag_count config m}"
    using g(2,3) by (metis unsigned_word_eqI)
  assume full: "received_set r = {..<frag_count config m}"
  have "rb_Buffer r = ms_payload m"
  proof (rule nth_equalityI)
    fix p assume "p < length (rb_Buffer r)"
    then have p: "p < length (ms_payload m)" using g(4) by simp
    have "p div frag_cap config * frag_cap config \<le> p" by simp
    then have "p div frag_cap config < frag_count config m"
      unfolding o(2) less_ceil_div_iff [OF o(1)] using p by linarith
    then show "rb_Buffer r ! p = ms_payload m ! p" using good p full by (simp add: record_good_def)
  qed (simp add: g(4))
  moreover have "rb_ReceivedBytes r = unat (rb_TotalLength r)"
    unfolding g full frag_data_def o(2) by (rule sum_chunk_lengths [OF o(1)])
  ultimately show "rb_ReceivedBytes r = unat (rb_TotalLength r) \<and> rb_Buffer r = ms_payload m" by simp
qed


section \<open>Accepting a fragment\<close>

definition endpoint_accept ::
  "ESPNowCommandEndpointConfig \<Rightarrow> message \<Rightarrow> Reassembly list \<times> (nat \<Rightarrow> u64) \<Rightarrow> nat
     \<Rightarrow> byte list option \<times> Reassembly list \<times> (nat \<Rightarrow> u64)" where
  "endpoint_accept config m s i =
     (let (outcome, items) = reassemble config (ms_peer m) (frag_header config m i) (frag_data config m i)
            (snd s 0) (fst s) in
      (case outcome of Completed _ _ complete \<Rightarrow> Some complete | _ \<Rightarrow> None, items, \<lambda>k. snd s (Suc k)))"

definition endpoint_seen :: "Reassembly list \<Rightarrow> Reassembly list \<times> (nat \<Rightarrow> u64) \<Rightarrow> nat set" where
  "endpoint_seen base s = (if fst s = base then {} else received_set (last (fst s)))"

definition table_invar :: "ESPNowCommandEndpointConfig \<Rightarrow> message \<Rightarrow> Reassembly list \<Rightarrow> Reassembly list \<Rightarrow> bool" where
  "table_invar config m base items \<longleftrightarrow>
     message_ok config m \<and> length base < cc_MaximumReassemblies config \<and> ms_key m \<notin> reassembly_key ` set base
     \<and> (items = base \<or> (\<exists>r. items = base @ [r] \<and> record_good config m r \<and> received_set r \<subset> {..<frag_count config m}))"

definition endpoint_invar ::
  "ESPNowCommandEndpointConfig \<Rightarrow> message \<Rightarrow> Reassembly list \<Rightarrow> Reassembly list \<times> (nat \<Rightarrow> u64) \<Rightarrow> bool" where
  "endpoint_invar config m base s \<longleftrightarrow> table_invar config m base (fst s)"

lemma find_index_append_new:
  "\<forall>x \<in> set xs. \<not> P x \<Longrightarrow> P y \<Longrightarrow> find_index P (xs @ [y]) = Some (length xs)"
  by (induction xs) auto

text \<open>One fragment of the message, on the record it finds or creates.\<close>

lemma update_reassembly_message:
  assumes ok: "message_ok config m" and i: "i < frag_count config m" and good: "record_good config m r"
  shows "if insert i (received_set r) = {..<frag_count config m}
    then update_reassembly (frag_header config m i) (frag_data config m i) (i * frag_cap config) now (length base) (base @ [r])
      = (Completed (message_type_id (ms_type m)) (ms_id m) (ms_payload m), base)
    else \<exists>r'. update_reassembly (frag_header config m i) (frag_data config m i) (i * frag_cap config) now (length base) (base @ [r])
        = (Incomplete, base @ [r']) \<and> record_good config m r' \<and> received_set r' = insert i (received_set r)"
proof -
  let ?h = "frag_header config m i" and ?d = "frag_data config m i" and ?off = "i * frag_cap config"
  let ?t = "r\<lparr>rb_LastUpdatedMilliseconds := now\<rparr>"
  define r' where "r' = (if IsFragmentReceived ?t i then ?t else copy_fragment ?h ?d ?off ?t)"
  note w = frag_header_words [OF ok i]
  note o = message_okD [OF ok]
  have gt: "record_good config m ?t" using good by (simp add: record_good_touch)
  have g': "record_good config m r'" "received_set r' = insert i (received_set r)"
  proof -
    show "record_good config m r'" using gt record_good_copy(1) [OF ok i gt] by (simp add: r'_def)
    show "received_set r' = insert i (received_set r)"
    proof (cases "IsFragmentReceived r i")
      case True
      then have "i \<in> received_set r" using i good by (simp add: received_set_def record_good_def)
      then show ?thesis using True by (simp add: r'_def touch_ok insert_absorb)
    next
      case False
      then show ?thesis using record_good_copy(2) [OF ok i gt] by (simp add: r'_def touch_ok)
    qed
  qed
  have same: "rb_TotalLength r = fh_TotalLength ?h" "rb_FragmentCount r = fh_FragmentCount ?h"
    using good w(1,2) unfolding record_good_def by (metis unsigned_word_eqI)+
  have keep: "?d = take (unat (fh_FragmentLength ?h)) (drop ?off (rb_Buffer ?t))" if "IsFragmentReceived ?t i"
  proof -
    have seen: "i \<in> received_set r" using that i good by (simp add: received_set_def record_good_def touch_ok)
    have len: "length (rb_Buffer r) = length (ms_payload m)" using good by (simp add: record_good_def reassembly_ok_def)
    have "take (length ?d) (drop ?off (rb_Buffer r)) = take (length ?d) (drop ?off (ms_payload m))"
    proof (rule nth_equalityI)
      fix k assume "k < length (take (length ?d) (drop ?off (rb_Buffer r)))"
      then have k: "k < length ?d" "?off + k < length (ms_payload m)" using len by auto
      have "(?off + k) div frag_cap config = i"
        using chunk_position [OF o(1) k(2), of i] k(1) by (simp add: frag_data_def)
      then show "take (length ?d) (drop ?off (rb_Buffer r)) ! k = take (length ?d) (drop ?off (ms_payload m)) ! k"
        using good seen k len by (simp add: record_good_def)
    qed (simp add: len)
    also have "\<dots> = ?d" by (simp add: frag_data_def chunk_def min_def)
    finally show ?thesis using w(4) by simp
  qed
  note done' = record_complete [OF ok g'(1), unfolded g'(2)]
  have key: "rb_Type r' = message_type_id (ms_type m)" "rb_RequestID r' = ms_id m"
    using g'(1) by (simp_all add: record_good_def reassembly_key_def)
  have alt: "(if \<not> IsFragmentReceived ?t i then copy_fragment ?h ?d ?off ?t else ?t) = r'"
    by (simp add: r'_def)
  have match: "(\<not> \<not> IsFragmentReceived ?t i \<and> ?d \<noteq> take (unat (fh_FragmentLength ?h)) (drop ?off (rb_Buffer ?t))) = False"
    using keep by blast
  have step: "update_reassembly ?h ?d ?off now (length base) (base @ [r]) =
      (if rb_ReceivedCount r' \<noteq> rb_FragmentCount r' then (Incomplete, base @ [r'])
       else if rb_ReceivedBytes r' \<noteq> unat (rb_TotalLength r') then (Refused, base @ [r'])
       else (Completed (rb_Type r') (rb_RequestID r') (rb_Buffer r'), base))"
    using same done'(1) unfolding update_reassembly_def Let_def w(3) nth_append_length alt match if_False
    by (simp add: RemoveReassembly_def erase_at_def not_less)
  show ?thesis
  proof (cases "insert i (received_set r) = {..<frag_count config m}")
    case True
    then show ?thesis using done'(2,3) key unfolding step by simp
  next
    case False
    then show ?thesis using done'(2) g' unfolding step by simp
  qed
qed

lemma reassemble_message:
  assumes inv: "table_invar config m base items" and i: "i < frag_count config m"
    and seen: "seen = endpoint_seen base (items, clock)"
  shows "if insert i seen = {..<frag_count config m}
    then reassemble config (ms_peer m) (frag_header config m i) (frag_data config m i) now items =
      (Completed (message_type_id (ms_type m)) (ms_id m) (ms_payload m), base)
    else \<exists>items'. reassemble config (ms_peer m) (frag_header config m i) (frag_data config m i) now items = (Incomplete, items')
      \<and> table_invar config m base items' \<and> endpoint_seen base (items', clock') = insert i seen"
proof -
  let ?h = "frag_header config m i" and ?d = "frag_data config m i"
  have ok: "message_ok config m" and new: "ms_key m \<notin> reassembly_key ` set base"
    and room: "length base < cc_MaximumReassemblies config" using inv by (simp_all add: table_invar_def)
  note w = frag_header_words [OF ok i]
  have in_range: "\<not> (unat (fh_FragmentIndex ?h) * (cc_MaximumProtocolPayloadBytes config - FragmentHeaderSize) \<ge> unat (fh_TotalLength ?h)
      \<or> unat (fh_FragmentLength ?h) > unat (fh_TotalLength ?h)
           - unat (fh_FragmentIndex ?h) * (cc_MaximumProtocolPayloadBytes config - FragmentHeaderSize))"
    unfolding w(1,3,4) frag_cap_def [symmetric] using w(6,7) by linarith
  have "\<exists>r. record_good config m r \<and> received_set r = seen \<and>
     reassemble config (ms_peer m) ?h ?d now items
       = update_reassembly ?h ?d (i * frag_cap config) now (length base) (base @ [r])"
  proof (cases "items = base")
    case True
    have "FindReassembly (ms_peer m) (fh_RequestID ?h) (fh_Type ?h) items = None"
      using new True by (simp add: FindReassembly_None)
    moreover have "received_set (new_reassembly (ms_peer m) ?h now) = {}"
      by (rule new_reassembly_ok(2) [where config = config]) (use w(1) message_okD(6) [OF ok] in simp)
    ultimately show ?thesis
      using record_good_new [OF ok i, of now] in_range room True seen w(3)
      unfolding reassemble_def Let_def by (auto simp: endpoint_seen_def frag_cap_def)
  next
    case False
    then obtain r where r: "items = base @ [r]" "record_good config m r" using inv by (auto simp: table_invar_def)
    have "FindReassembly (ms_peer m) (fh_RequestID ?h) (fh_Type ?h) items = Some (length base)"
      unfolding FindReassembly_def r(1)
      by (rule find_index_append_new) (use new r(2) in \<open>auto simp: record_good_def image_iff\<close>)
    then show ?thesis
      using r in_range seen w(3) False unfolding reassemble_def Let_def by (auto simp: endpoint_seen_def frag_cap_def)
  qed
  then obtain r where r: "record_good config m r" "received_set r = seen"
    "reassemble config (ms_peer m) ?h ?d now items = update_reassembly ?h ?d (i * frag_cap config) now (length base) (base @ [r])"
    by blast
  note u = update_reassembly_message [OF ok i r(1), of now base]
  show ?thesis
  proof (cases "insert i seen = {..<frag_count config m}")
    case True
    then show ?thesis using u r by simp
  next
    case False
    then have "\<exists>r'. reassemble config (ms_peer m) ?h ?d now items = (Incomplete, base @ [r'])
        \<and> record_good config m r' \<and> received_set r' = insert i seen"
      using u [unfolded r(2)] unfolding r(3) by simp
    then obtain r' where r': "reassemble config (ms_peer m) ?h ?d now items = (Incomplete, base @ [r'])"
      "record_good config m r'" "received_set r' = insert i seen" by blast
    have "received_set r' \<subset> {..<frag_count config m}"
      using received_set_subset [of r'] r'(2,3) False unfolding record_good_def psubset_eq by metis
    then have "table_invar config m base (base @ [r'])"
      using r'(2) ok new room unfolding table_invar_def by blast
    moreover have "endpoint_seen base (base @ [r'], clock') = insert i seen"
      by (simp add: endpoint_seen_def r'(3))
    ultimately show ?thesis unfolding if_not_P [OF False] using r'(1) by blast
  qed
qed

interpretation endpoint_reassembly: fragment_reassembly
  "endpoint_accept config m" "endpoint_seen base" "frag_count config m" "ms_payload m" "endpoint_invar config m base"
  for config m base
proof
  fix s assume inv: "endpoint_invar config m base s"
  then have "0 < frag_count config m" using message_okD(5) [of config m] by (simp add: endpoint_invar_def table_invar_def)
  then show "endpoint_seen base s \<subset> {..<frag_count config m}"
    using inv by (auto simp: endpoint_invar_def table_invar_def endpoint_seen_def)
next
  fix s i assume a: "endpoint_invar config m base s" "i < frag_count config m"
    "insert i (endpoint_seen base s) \<noteq> {..<frag_count config m}"
  from reassemble_message [OF a(1) [unfolded endpoint_invar_def] a(2) refl, of "snd s" "snd s 0" "\<lambda>k. snd s (Suc k)",
      unfolded prod.collapse if_not_P [OF a(3)]]
  obtain items' where "reassemble config (ms_peer m) (frag_header config m i) (frag_data config m i) (snd s 0) (fst s) = (Incomplete, items')"
    "table_invar config m base items'" "endpoint_seen base (items', \<lambda>k. snd s (Suc k)) = insert i (endpoint_seen base s)"
    by blast
  then show "fst (endpoint_accept config m s i) = None
      \<and> endpoint_invar config m base (snd (endpoint_accept config m s i))
      \<and> endpoint_seen base (snd (endpoint_accept config m s i)) = insert i (endpoint_seen base s)"
    by (simp add: endpoint_accept_def endpoint_invar_def)
next
  fix s i assume a: "endpoint_invar config m base s" "i < frag_count config m"
    "insert i (endpoint_seen base s) = {..<frag_count config m}"
  from reassemble_message [OF a(1) [unfolded endpoint_invar_def] a(2) refl, of "snd s" "snd s 0"] a(3)
  show "fst (endpoint_accept config m s i) = Some (ms_payload m)"
    by (simp add: endpoint_accept_def)
qed

end
