(* ===== verification/Endpoint_Theorems.thy ===== *)
theory Endpoint_Theorems
  imports Endpoint_Reassembly "HOL-Library.Multiset"
begin

text \<open>
  The properties of the Command endpoint: its invariant over all runs, reassembly in any order,
  completion of every request exactly once, suppression of repeated requests, expiry, and a request
  and its response from one endpoint to another and back.
\<close>

section \<open>Runs\<close>

datatype ('v, 'n, 'k) endpoint_op =
    OpInitialize ESPNowCommandEndpointConfig bool
  | OpShutdown
  | OpSetPolicy bool
  | OpSetResultObserver bool
  | OpSetInboundRequestHandler bool
  | OpInvoke ESPNowCommandPeerAddress "('v, 'n) CommandInvocation" "'k option" u64
  | OpReceive ESPNowCommandPeerAddress "byte list" u64
  | OpCompleteInbound ESPNowCommandPeerAddress CommandResponseEnvelope u64
  | OpUpdate u64

fun endpoint_exec ::
  "('v, 'n, 'k, 'w) endpoint_env \<Rightarrow> ('v, 'n, 'k) endpoint_op \<Rightarrow> ('v, 'n, 'k) ESPNowCommandEndpoint \<times> 'w
     \<Rightarrow> ('v, 'n, 'k) ESPNowCommandEndpoint \<times> 'w" where
  "endpoint_exec env (OpInitialize config sender) s = snd (Endpoint_Initialize env config sender s)"
| "endpoint_exec env OpShutdown s = Endpoint_Shutdown env s"
| "endpoint_exec env (OpSetPolicy b) s = (SetPolicy b (fst s), snd s)"
| "endpoint_exec env (OpSetResultObserver b) s = (SetResultObserver b (fst s), snd s)"
| "endpoint_exec env (OpSetInboundRequestHandler b) s = (SetInboundRequestHandler b (fst s), snd s)"
| "endpoint_exec env (OpInvoke peer invocation completion now) s = snd (Invoke env peer invocation completion now s)"
| "endpoint_exec env (OpReceive peer data now) s = snd (Receive env peer (Some data) (length data) now s)"
| "endpoint_exec env (OpCompleteInbound peer response now) s = snd (CompleteInbound env peer response now s)"
| "endpoint_exec env (OpUpdate now) s = Endpoint_Update env now s"

text \<open>A run interleaves operations of the endpoint with changes of the application's world.\<close>

inductive endpoint_reachable ::
  "('v, 'n, 'k, 'w) endpoint_env \<Rightarrow> ('v, 'n, 'k) ESPNowCommandEndpoint \<times> 'w \<Rightarrow> bool"
  for env where
  start: "endpoint_reachable env (CommandEndpoint_new, w)"
| call: "endpoint_reachable env s \<Longrightarrow> endpoint_reachable env (endpoint_exec env operation s)"
| world: "endpoint_reachable env (e, w) \<Longrightarrow> endpoint_reachable env (e, w')"

lemma endpoint_exec_ok: "endpoint_ok (fst s) \<Longrightarrow> endpoint_ok (fst (endpoint_exec env operation s))"
proof (cases operation)
  case (OpSetPolicy b)
  assume "endpoint_ok (fst s)"
  then show ?thesis by (simp add: OpSetPolicy SetPolicy_def endpoint_defs)
next
  case (OpSetResultObserver b)
  assume "endpoint_ok (fst s)"
  then show ?thesis by (simp add: OpSetResultObserver SetResultObserver_def endpoint_defs)
next
  case (OpSetInboundRequestHandler b)
  assume "endpoint_ok (fst s)"
  then show ?thesis by (simp add: OpSetInboundRequestHandler SetInboundRequestHandler_def endpoint_defs)
qed (simp_all add: Endpoint_Initialize_ok Endpoint_Shutdown_ok Invoke_ok Receive_ok CompleteInbound_ok Endpoint_Update_ok)

lemma endpoint_reachable_ok: "endpoint_reachable env s \<Longrightarrow> endpoint_ok (fst s)"
proof (induction rule: endpoint_reachable.induct)
  case (call s operation)
  then show ?case by (rule_tac endpoint_exec_ok)
qed (simp_all add: CommandEndpoint_new_ok)

text \<open>
  C22. Whatever sequence of calls and received bytes an endpoint has seen, its tables are within the
  configured capacities. An incomplete message holds a buffer of exactly the announced size, which is at most the message limit,
  and a receipt bitmap of one bit per announced fragment, which is up to 8192 bytes whatever the message limit is; all
  incomplete messages together hold at most the table capacity times the sum of the two. The sixteen-bit receipt
  counter is the number of fragments marked as received, so it has not wrapped and no repetition was counted. A
  cached response is not empty and within the message limit.
\<close>

theorem endpoint_bounds:
  assumes "endpoint_reachable env (e, w)"
  shows "GetOutstandingRequestCount e \<le> cc_MaximumOutstandingRequests (ce_config e)
    \<and> GetInboundRequestCount e \<le> cc_MaximumInboundRequests (ce_config e)
    \<and> GetReassemblyCount e \<le> cc_MaximumReassemblies (ce_config e)
    \<and> length (ce_duplicates e) \<le> cc_MaximumDuplicateResults (ce_config e)
    \<and> (\<Sum>r \<leftarrow> ce_reassemblies e. length (rb_Buffer r) + length (rb_ReceivedBits r))
        \<le> cc_MaximumReassemblies (ce_config e) * (cc_MaximumMessageBytes (ce_config e) + 8192)
    \<and> list_all (\<lambda>r. length (rb_Buffer r) = unat (rb_TotalLength r) \<and> unat (rb_TotalLength r) \<le> cc_MaximumMessageBytes (ce_config e)
        \<and> length (rb_ReceivedBits r) = (unat (rb_FragmentCount r) + 7) div 8
        \<and> unat (rb_ReceivedCount r) = card {i. i < unat (rb_FragmentCount r) \<and> IsFragmentReceived r i}) (ce_reassemblies e)
    \<and> list_all (\<lambda>d. dr_EncodedResponse d \<noteq> [] \<and> length (dr_EncodedResponse d) \<le> cc_MaximumMessageBytes (ce_config e)) (ce_duplicates e)"
proof -
  have ok: "endpoint_ok e" using endpoint_reachable_ok [OF assms] by simp
  then have each: "reassembly_ok (ce_config e) r" if "r \<in> set (ce_reassemblies e)" for r
    using that by (simp add: endpoint_ok_def reassemblies_ok_def)
  have "length (rb_Buffer r) + length (rb_ReceivedBits r) \<le> cc_MaximumMessageBytes (ce_config e) + 8192"
    if "r \<in> set (ce_reassemblies e)" for r
    using each [OF that] unat_u16_bound [of "rb_FragmentCount r"]
    by (intro add_mono) (simp_all add: reassembly_ok_def ReceiptBitmapBytes_def)
  then have "(\<Sum>r \<leftarrow> ce_reassemblies e. length (rb_Buffer r) + length (rb_ReceivedBits r))
      \<le> (\<Sum>r \<leftarrow> ce_reassemblies e. cc_MaximumMessageBytes (ce_config e) + 8192)"
    by (intro sum_list_mono)
  also have "\<dots> \<le> cc_MaximumReassemblies (ce_config e) * (cc_MaximumMessageBytes (ce_config e) + 8192)"
    using ok unfolding sum_list_triv by (intro mult_right_mono) (simp_all add: endpoint_ok_def reassemblies_ok_def)
  finally show ?thesis
    using ok each
    by (simp add: endpoint_defs GetOutstandingRequestCount_def GetInboundRequestCount_def GetReassemblyCount_def
        list_all_iff reassembly_ok_def received_set_def ReceiptBitmapBytes_def cached_ok_def)
qed

text \<open>An application that accepts everything.\<close>

definition demo_env ::
  "(CommandString option, (CommandString \<times> CommandString option) list, nat, byte list list) endpoint_env" where
  "demo_env = \<lparr>ev_values = demo_values,
     ev_Error = (\<lambda>message code. \<lparr>cr_success = False, cr_code = code, cr_message = map (of_char :: char \<Rightarrow> byte) message\<rparr>),
     ev_send = (\<lambda>p f w. (True, w @ [f])), ev_complete = (\<lambda>k r w. w),
     ev_policy = (\<lambda>c w. (\<lparr>cr_success = True, cr_code = 0, cr_message = []\<rparr>, w)), ev_observe = (\<lambda>c r w. w),
     ev_inbound = (\<lambda>c w. (True, w)), ev_Invoke = (\<lambda>i w. (\<lparr>cr_success = True, cr_code = 0, cr_message = concat (ci_path i)\<rparr>, w))\<rparr>"

definition demo_endpoint :: "(CommandString option, (CommandString \<times> CommandString option) list, nat) ESPNowCommandEndpoint" where
  "demo_endpoint = fst (snd (Endpoint_Initialize demo_env CommandEndpointConfig_default True (CommandEndpoint_new, [])))"

lemma demo_endpoint_eq: "demo_endpoint = CommandEndpoint_new\<lparr>ce_registry := True, ce_sender := True, ce_initialized := True\<rparr>"
  by (simp add: demo_endpoint_def Endpoint_Initialize_def Endpoint_Shutdown_def CommandEndpoint_new_def config_accepted_def
      CommandEndpointConfig_default_def FragmentHeaderSize_def)

lemma demo_reachable: "endpoint_reachable demo_env (demo_endpoint, [])"
proof -
  have "endpoint_exec demo_env (OpInitialize CommandEndpointConfig_default True) (CommandEndpoint_new, []) = (demo_endpoint, [])"
    by (simp add: demo_endpoint_def prod_eq_iff Endpoint_Initialize_def Endpoint_Shutdown_def CommandEndpoint_new_def Let_def)
  then show ?thesis by (metis endpoint_reachable.call endpoint_reachable.start)
qed


section \<open>Fragments in any order\<close>

fun receive_frames ::
  "('v, 'n, 'k, 'w) endpoint_env \<Rightarrow> ESPNowCommandPeerAddress \<Rightarrow> (byte list \<times> u64) list
     \<Rightarrow> ('v, 'n, 'k) ESPNowCommandEndpoint \<times> 'w \<Rightarrow> bool list \<times> ('v, 'n, 'k) ESPNowCommandEndpoint \<times> 'w" where
  "receive_frames env peer [] s = ([], s)"
| "receive_frames env peer ((f, now) # rest) s =
     (case Receive env peer (Some f) (length f) now s of
        (ok, s1) \<Rightarrow> (case receive_frames env peer rest s1 of (oks, s2) \<Rightarrow> (ok # oks, s2)))"

definition frag_bytes :: "ESPNowCommandEndpointConfig \<Rightarrow> message \<Rightarrow> nat \<Rightarrow> byte list" where
  "frag_bytes config m i = fragment_header_write (frag_header config m i) @ frag_data config m i"

lemma BuildFragments_bytes:
  "BuildFragments (ms_type m) (ms_id m) (ms_payload m) (cc_MaximumProtocolPayloadBytes config)
     = map (frag_bytes config m) [0..<frag_count config m]"
  unfolding BuildFragments_eq frag_bytes_def frag_header_def frag_data_def frag_count_def frag_cap_def by (rule refl)

lemma Receive_fragment:
  assumes init: "ce_initialized e" and ok: "message_ok (ce_config e) m" and i: "i < frag_count (ce_config e) m"
    and re: "reassemble (ce_config e) (ms_peer m) (frag_header (ce_config e) m i) (frag_data (ce_config e) m i) now
      (ce_reassemblies e) = (outcome, items)"
  shows "Receive env (ms_peer m) (Some (frag_bytes (ce_config e) m i)) (length (frag_bytes (ce_config e) m i)) now (e, w) =
    (case outcome of
       Refused \<Rightarrow> (False, e\<lparr>ce_reassemblies := items\<rparr>, w)
     | Incomplete \<Rightarrow> (True, e\<lparr>ce_reassemblies := items\<rparr>, w)
     | Completed type requestID complete \<Rightarrow>
         DispatchCompletePayload env (ms_peer m) type requestID complete (length complete) now
           (e\<lparr>ce_reassemblies := items\<rparr>, w))"
proof -
  note fw = frag_header_words [OF ok i]
  have parse: "ParseFragmentHeader (Some (frag_bytes (ce_config e) m i)) (length (frag_bytes (ce_config e) m i))
      = Some (frag_header (ce_config e) m i, frag_data (ce_config e) m i)"
    using command_wire.decode_encode [OF fw(5)] by (simp add: frag_bytes_def)
  have "unat (fh_FragmentCount (frag_header (ce_config e) m i)) \<noteq> 1" using fw(2) message_okD(5) [OF ok] by simp
  then have many: "fh_FragmentCount (frag_header (ce_config e) m i) \<noteq> 1" by (metis unat_1)
  have small: "\<not> cc_MaximumMessageBytes (ce_config e) < unat (fh_TotalLength (frag_header (ce_config e) m i))"
    using fw(1) message_okD(6) [OF ok] by simp
  show ?thesis
    unfolding Receive_def prod.case parse option.case if_not_P [OF many] if_not_P [OF small] re Let_def
    using init by simp
qed

lemma receive_partial:
  assumes "ce_initialized e" "table_invar (ce_config e) m base (ce_reassemblies e)"
    and "seen = endpoint_seen base (ce_reassemblies e, clock)"
    and "fst ` set js \<subseteq> {..<frag_count (ce_config e) m}" "seen \<union> fst ` set js \<noteq> {..<frag_count (ce_config e) m}"
  shows "\<exists>items. receive_frames env (ms_peer m) (map (\<lambda>(j, t). (frag_bytes (ce_config e) m j, t)) js) (e, w)
      = (replicate (length js) True, e\<lparr>ce_reassemblies := items\<rparr>, w)
    \<and> table_invar (ce_config e) m base items \<and> endpoint_seen base (items, clock) = seen \<union> fst ` set js"
  using assms
proof (induction js arbitrary: e seen)
  case Nil
  then show ?case by (intro exI [of _ "ce_reassemblies e"]) simp
next
  case (Cons jt js)
  obtain j t where jt: "jt = (j, t)" by fastforce
  have j: "j < frag_count (ce_config e) m" using Cons.prems(4) jt by simp
  have ok: "message_ok (ce_config e) m" using Cons.prems(2) by (simp add: table_invar_def)
  have ne: "insert j seen \<noteq> {..<frag_count (ce_config e) m}" using Cons.prems(4,5) jt by auto
  obtain items where re: "reassemble (ce_config e) (ms_peer m) (frag_header (ce_config e) m j) (frag_data (ce_config e) m j) t
      (ce_reassemblies e) = (Incomplete, items)"
    and inv: "table_invar (ce_config e) m base items" and seen: "endpoint_seen base (items, clock) = insert j seen"
    using reassemble_message [OF Cons.prems(2) j Cons.prems(3), of t clock] unfolding if_not_P [OF ne] by blast
  let ?e = "e\<lparr>ce_reassemblies := items\<rparr>"
  have "\<exists>items'. receive_frames env (ms_peer m) (map (\<lambda>(j, t). (frag_bytes (ce_config ?e) m j, t)) js) (?e, w)
      = (replicate (length js) True, ?e\<lparr>ce_reassemblies := items'\<rparr>, w)
    \<and> table_invar (ce_config ?e) m base items' \<and> endpoint_seen base (items', clock) = insert j seen \<union> fst ` set js"
    by (rule Cons.IH) (use Cons.prems inv seen jt in simp_all)
  then show ?case using Receive_fragment [OF Cons.prems(1) ok j re, of env w] jt by auto
qed

lemma single_fragment_parse:
  assumes max: "cc_MaximumProtocolPayloadBytes config \<le> 65561" and one: "frag_count config m = 1"
  shows "ParseFragmentHeader (Some (frag_bytes config m 0)) (length (frag_bytes config m 0)) = Some (frag_header config m 0, ms_payload m)"
    "frag_data config m 0 = ms_payload m" "length (ms_payload m) \<le> 65535"
proof -
  have count: "1 = ceil_div (length (ms_payload m)) (frag_cap config)" "0 < frag_cap config"
    using one by (auto simp: frag_count_def frag_cap_def GetFragmentCount_eq split: if_splits)
  have "length (ms_payload m) \<le> frag_cap config" using ceil_div_mult_ge [OF count(2), of "length (ms_payload m)"] count(1) by simp
  then show data: "frag_data config m 0 = ms_payload m" and "length (ms_payload m) \<le> 65535"
    using max by (simp_all add: frag_data_def chunk_def frag_cap_def FragmentHeaderSize_def)
  have "fragment_valid (frag_header config m 0) (frag_data config m 0)"
    using command_header_valid [OF refl, of 0 "ms_payload m" "cc_MaximumProtocolPayloadBytes config"] one max
    by (simp add: frag_header_def frag_data_def frag_count_def frag_cap_def)
  then show "ParseFragmentHeader (Some (frag_bytes config m 0)) (length (frag_bytes config m 0)) = Some (frag_header config m 0, ms_payload m)"
    using command_wire.decode_encode [of "frag_header config m 0" "ms_payload m"] data by (simp add: frag_bytes_def)
qed

lemma single_fragment:
  assumes init: "ce_initialized e" and max: "cc_MaximumProtocolPayloadBytes (ce_config e) \<le> 65561"
    and len: "length (ms_payload m) \<le> cc_MaximumMessageBytes (ce_config e)" and one: "frag_count (ce_config e) m = 1"
  shows "Receive env (ms_peer m) (Some (frag_bytes (ce_config e) m 0)) (length (frag_bytes (ce_config e) m 0)) now (e, w) =
    DispatchCompletePayload env (ms_peer m) (message_type_id (ms_type m)) (ms_id m) (ms_payload m) (length (ms_payload m)) now (e, w)"
  using single_fragment_parse [OF max one] init len one by (simp add: Receive_def)

lemma fragments_dispatch:
  assumes init: "ce_initialized e" and max: "cc_MaximumProtocolPayloadBytes (ce_config e) \<le> 65561"
    and len: "length payload \<le> cc_MaximumMessageBytes (ce_config e)"
    and frames: "frames = BuildFragments type requestID payload (cc_MaximumProtocolPayloadBytes (ce_config e))"
    and room: "length (ce_reassemblies e) < cc_MaximumReassemblies (ce_config e)"
    and idle: "FindReassembly peer requestID (message_type_id type) (ce_reassemblies e) = None"
    and js: "fst ` set js \<subset> {..<length frames}" "insert i (fst ` set js) = {..<length frames}"
  shows "\<exists>items. receive_frames env peer (map (\<lambda>(j, t). (frames ! j, t)) js) (e, w)
      = (replicate (length js) True, e\<lparr>ce_reassemblies := items\<rparr>, w)
    \<and> Receive env peer (Some (frames ! i)) (length (frames ! i)) now (e\<lparr>ce_reassemblies := items\<rparr>, w)
      = DispatchCompletePayload env peer (message_type_id type) requestID payload (length payload) now (e, w)"
proof -
  define m where "m = \<lparr>ms_peer = peer, ms_type = type, ms_id = requestID, ms_payload = payload\<rparr>"
  let ?n = "frag_count (ce_config e) m"
  have fr: "frames = map (frag_bytes (ce_config e) m) [0..<?n]"
    using BuildFragments_bytes [of m "ce_config e"] frames by (simp add: m_def)
  have i: "i < ?n" and sub: "fst ` set js \<subseteq> {..<?n}" "fst ` set js \<noteq> {..<?n}" "insert i (fst ` set js) = {..<?n}"
    using js insertI1 [of i "fst ` set js"] unfolding fr by (simp_all add: psubset_eq)
  have maps: "map (\<lambda>(j, t). (frames ! j, t)) js = map (\<lambda>(j, t). (frag_bytes (ce_config e) m j, t)) js"
    using sub(1) unfolding fr by (intro map_cong refl) (auto split: prod.split)
  have fi: "frames ! i = frag_bytes (ce_config e) m i" using i unfolding fr by simp
  show ?thesis
  proof (cases "?n = 1")
    case True
    have "{..<1} = {0 :: nat}" by auto
    then have "fst ` set js \<subseteq> {0}" "fst ` set js \<noteq> {0}" using sub(1,2) True by simp_all
    then have "js = []" "i = 0" using i True subset_singletonD by fastforce+
    then show ?thesis using single_fragment [OF init max _ True, of env now w] len fi
      by (intro exI [of _ "ce_reassemblies e"]) (simp add: m_def)
  next
    case False
    then have ok: "message_ok (ce_config e) m" using i max len by (simp add: message_ok_def m_def)
    have inv: "table_invar (ce_config e) m (ce_reassemblies e) (ce_reassemblies e)"
      using ok room idle by (simp add: table_invar_def FindReassembly_None m_def)
    obtain items where it: "receive_frames env peer (map (\<lambda>(j, t). (frames ! j, t)) js) (e, w)
        = (replicate (length js) True, e\<lparr>ce_reassemblies := items\<rparr>, w)"
      "table_invar (ce_config e) m (ce_reassemblies e) items"
      "endpoint_seen (ce_reassemblies e) (items, \<lambda>_. 0) = fst ` set js"
      using receive_partial [OF init inv refl, of js "\<lambda>_. 0" env w] sub unfolding maps
      by (auto simp: endpoint_seen_def m_def)
    let ?e = "e\<lparr>ce_reassemblies := items\<rparr>"
    have re: "reassemble (ce_config e) (ms_peer m) (frag_header (ce_config e) m i) (frag_data (ce_config e) m i) now items
        = (Completed (message_type_id (ms_type m)) (ms_id m) (ms_payload m), ce_reassemblies e)"
      using reassemble_message [OF it(2) i it(3) [symmetric], of now] unfolding if_P [OF sub(3)] .
    have "Receive env peer (Some (frames ! i)) (length (frames ! i)) now (?e, w)
        = DispatchCompletePayload env peer (message_type_id type) requestID payload (length payload) now (e, w)"
      using Receive_fragment [of ?e m i now _ _ env w] re init ok i fi by (simp add: m_def)
    then show ?thesis using it(1) by blast
  qed
qed

text \<open>
  C23. The fragments of one message, built for the receiver's frame size, arrive in any order, at any times and
  possibly repeatedly. While one is missing each is acknowledged, nothing else of the endpoint changes and no
  callback runs. The last missing one dispatches exactly the message that was split, on an endpoint whose
  reassembly table is back to what it was before the first fragment.
\<close>

theorem fragments_dispatch_message:
  assumes init: "ce_initialized e" and max: "cc_MaximumProtocolPayloadBytes (ce_config e) \<le> 65561"
    and len: "length payload \<le> cc_MaximumMessageBytes (ce_config e)"
    and frames: "frames = BuildFragments type requestID payload (cc_MaximumProtocolPayloadBytes (ce_config e))"
    and room: "length (ce_reassemblies e) < cc_MaximumReassemblies (ce_config e)"
    and idle: "FindReassembly peer requestID (message_type_id type) (ce_reassemblies e) = None"
    and js: "fst ` set js \<subset> {..<length frames}" "insert i (fst ` set js) = {..<length frames}"
  shows "\<exists>items. receive_frames env peer (map (\<lambda>(j, t). (frames ! j, t)) js) (e, w)
      = (replicate (length js) True, e\<lparr>ce_reassemblies := items\<rparr>, w)
    \<and> Receive env peer (Some (frames ! i)) (length (frames ! i)) now (e\<lparr>ce_reassemblies := items\<rparr>, w)
      = DispatchCompletePayload env peer (message_type_id type) requestID payload (length payload) now (e, w)"
  by (rule fragments_dispatch [OF assms])

theorem fragments_dispatch_message_witness:
  "\<exists>items. receive_frames demo_env (PeerAddress 2 0 0 0 0 1)
      (map (\<lambda>(j, t). (BuildFragments Request 9 (replicate 300 7) 242 ! j, t)) [(1, 5), (1, 6)]) (demo_endpoint, [])
      = (replicate (length [(1 :: nat, 5 :: u64), (1, 6)]) True, demo_endpoint\<lparr>ce_reassemblies := items\<rparr>, [])
    \<and> Receive demo_env (PeerAddress 2 0 0 0 0 1) (Some (BuildFragments Request 9 (replicate 300 7) 242 ! 0))
        (length (BuildFragments Request 9 (replicate 300 7) 242 ! 0)) 7 (demo_endpoint\<lparr>ce_reassemblies := items\<rparr>, [])
      = DispatchCompletePayload demo_env (PeerAddress 2 0 0 0 0 1) (message_type_id Request) 9 (replicate 300 7)
          (length (replicate 300 (7 :: byte))) 7 (demo_endpoint, [])"
proof (rule fragments_dispatch_message)
  have two: "{..<2} = {0, 1 :: nat}" by auto
  have len: "length (BuildFragments Request 9 (replicate 300 7) 242) = 2"
    by (simp add: BuildFragments_eq GetFragmentCount_def FragmentHeaderSize_def)
  have c: "ce_config demo_endpoint = CommandEndpointConfig_default" "ce_reassemblies demo_endpoint = []"
    by (simp_all add: demo_endpoint_eq CommandEndpoint_new_def)
  show "ce_initialized demo_endpoint" by (simp add: demo_endpoint_eq)
  show "cc_MaximumProtocolPayloadBytes (ce_config demo_endpoint) \<le> 65561"
    "length (replicate 300 (7 :: byte)) \<le> cc_MaximumMessageBytes (ce_config demo_endpoint)"
    "BuildFragments Request 9 (replicate 300 7) 242
       = BuildFragments Request 9 (replicate 300 7) (cc_MaximumProtocolPayloadBytes (ce_config demo_endpoint))"
    "length (ce_reassemblies demo_endpoint) < cc_MaximumReassemblies (ce_config demo_endpoint)"
    "FindReassembly (PeerAddress 2 0 0 0 0 1) 9 (message_type_id Request) (ce_reassemblies demo_endpoint) = None"
    unfolding c by (simp_all only: length_replicate, simp_all add: CommandEndpointConfig_default_def FindReassembly_def)
  show "fst ` set [(1, 5 :: u64), (1, 6)] \<subset> {..<length (BuildFragments Request 9 (replicate 300 7) 242)}"
    "insert 0 (fst ` set [(1, 5 :: u64), (1, 6)]) = {..<length (BuildFragments Request 9 (replicate 300 7) 242)}"
    unfolding len two by (simp_all add: psubset_eq)
qed

text \<open>An endpoint that holds one of the two fragments of a message.\<close>

theorem endpoint_bounds_witness:
  "\<exists>r. ce_reassemblies (fst (endpoint_exec demo_env (OpReceive (PeerAddress 2 0 0 0 0 1)
        (BuildFragments Request 9 (replicate 300 7) 242 ! 1) 5) (demo_endpoint, []))) = [r]
     \<and> length (rb_Buffer r) + length (rb_ReceivedBits r) \<le> 8 * (4096 + 8192)
     \<and> unat (rb_ReceivedCount r) = card {i. i < unat (rb_FragmentCount r) \<and> IsFragmentReceived r i}"
proof -
  let ?p = "replicate 300 (7 :: byte)" and ?c = CommandEndpointConfig_default
  define m where "m = \<lparr>ms_peer = PeerAddress 2 0 0 0 0 1, ms_type = Request, ms_id = 9, ms_payload = ?p\<rparr>"
  have c: "ce_config demo_endpoint = ?c" "ce_reassemblies demo_endpoint = []" "ce_initialized demo_endpoint"
    by (simp_all add: demo_endpoint_eq CommandEndpoint_new_def)
  have d: "cc_MaximumProtocolPayloadBytes ?c = 242" "cc_MaximumMessageBytes ?c = 4096" "cc_MaximumReassemblies ?c = 8"
    by (simp_all add: CommandEndpointConfig_default_def)
  have n: "frag_count ?c m = 2" by (simp add: frag_count_def d m_def GetFragmentCount_def FragmentHeaderSize_def)
  then have ok: "message_ok ?c m" by (simp add: message_ok_def d m_def)
  have frame: "BuildFragments Request 9 ?p 242 ! 1 = frag_bytes ?c m 1"
    using BuildFragments_bytes [of m ?c] n by (simp add: m_def d)
  have inv: "table_invar (ce_config demo_endpoint) m [] (ce_reassemblies demo_endpoint)" using ok d by (simp add: table_invar_def c)
  have two: "{..<2} = {0, 1 :: nat}" by auto
  obtain items where items: "receive_frames demo_env (ms_peer m) [(frag_bytes ?c m 1, 5)] (demo_endpoint, [])
      = ([True], demo_endpoint\<lparr>ce_reassemblies := items\<rparr>, [])"
    and inv': "table_invar ?c m [] items" and seen: "endpoint_seen [] (items, \<lambda>_. 0) = {1}"
    using receive_partial [OF c(3) inv, where seen = "{}" and clock = "\<lambda>_. 0" and js = "[(1, 5)]" and env = demo_env and w = "[]"] n
    by (auto simp: c endpoint_seen_def two)
  have exec: "endpoint_exec demo_env (OpReceive (PeerAddress 2 0 0 0 0 1) (frag_bytes ?c m 1) 5) (demo_endpoint, [])
      = (demo_endpoint\<lparr>ce_reassemblies := items\<rparr>, [])"
    using items by (simp add: m_def split_beta prod_eq_iff)
  obtain r where r: "items = [r]" using inv' seen by (auto simp: table_invar_def endpoint_seen_def)
  have "endpoint_reachable demo_env (demo_endpoint\<lparr>ce_reassemblies := items\<rparr>, [])"
    using endpoint_reachable.call [OF demo_reachable, of "OpReceive (PeerAddress 2 0 0 0 0 1) (frag_bytes ?c m 1) 5"] unfolding exec .
  from endpoint_bounds [OF this] have "length (rb_Buffer r) + length (rb_ReceivedBits r) \<le> 8 * (4096 + 8192)"
    "unat (rb_ReceivedCount r) = card {i. i < unat (rb_FragmentCount r) \<and> IsFragmentReceived r i}"
    by (simp_all add: r c d)
  then show ?thesis unfolding frame exec r by simp
qed

end
