(* ===== verification/Command_Exchange.thy ===== *)
theory Command_Exchange
  imports Endpoint_Theorems
begin

text \<open>
  What callers of the Command endpoint rely on: every completion handler runs exactly once, a repeated
  request is answered from the cache and not executed again, overdue entries are expired, and a request
  sent by one endpoint reaches the registry of another and its result comes back.
\<close>

section \<open>Completion handlers\<close>

text \<open>The application's world extended by the list of completion handlers called so far, with their results.\<close>

definition logging ::
  "('v, 'n, 'k, 'w) endpoint_env \<Rightarrow> ('v, 'n, 'k, 'w \<times> ('k \<times> CommandResult) list) endpoint_env" where
  "logging env =
     \<lparr>ev_values = ev_values env, ev_Error = ev_Error env,
      ev_send = (\<lambda>p f (w, log). case ev_send env p f w of (r, w) \<Rightarrow> (r, w, log)),
      ev_complete = (\<lambda>k r (w, log). (ev_complete env k r w, log @ [(k, r)])),
      ev_policy = (\<lambda>c (w, log). case ev_policy env c w of (r, w) \<Rightarrow> (r, w, log)),
      ev_observe = (\<lambda>c r (w, log). (ev_observe env c r w, log)),
      ev_inbound = (\<lambda>c (w, log). case ev_inbound env c w of (r, w) \<Rightarrow> (r, w, log)),
      ev_Invoke = (\<lambda>i (w, log). case ev_Invoke env i w of (r, w) \<Rightarrow> (r, w, log))\<rparr>"

definition handlers :: "'k PendingRequest list \<Rightarrow> 'k list" where
  "handlers ps = List.map_filter pr_Completion ps"

lemma handlers_simps [simp]:
  "handlers [] = []" "handlers (p # ps) = (case pr_Completion p of None \<Rightarrow> handlers ps | Some k \<Rightarrow> k # handlers ps)"
  "handlers (ps @ qs) = handlers ps @ handlers qs"
  by (auto simp: handlers_def map_filter_def split: option.split)

lemma logging_quiet [simp]:
  "snd (snd (ev_send (logging env) p f w)) = snd w" "snd (snd (ev_policy (logging env) c w)) = snd w"
  "snd (ev_observe (logging env) c r w) = snd w" "snd (snd (ev_inbound (logging env) c w)) = snd w"
  "snd (snd (ev_Invoke (logging env) i w)) = snd w"
  by (simp_all add: logging_def split_beta)

lemma complete_with_logging:
  "snd (complete_with (logging env) handler result w)
     = snd w @ (case handler of None \<Rightarrow> [] | Some k \<Rightarrow> [(k, result)])"
  by (simp add: complete_with_def logging_def split_beta split: option.split)

lemma send_payload_loop_quiet [simp]:
  "snd (snd (send_payload_loop (logging env) peer type requestID payload maximum is' w)) = snd w"
  by (induction is' arbitrary: w) (simp_all add: split_beta Let_def split: option.split)

lemma SendPayload_quiet [simp]: "snd (snd (SendPayload (logging env) config peer type requestID payload w)) = snd w"
  by (simp add: SendPayload_def Let_def)

lemma SendResponseAndCache_quiet [simp]:
  "snd (snd (snd (SendResponseAndCache (logging env) peer requestID result now s))) = snd (snd s)"
  by (simp add: SendResponseAndCache_def split_beta Let_def)

lemma observe_quiet [simp]: "snd (observe (logging env) e c r w) = snd w"
  by (simp add: observe_def)

lemma execute_request_quiet:
  "snd (snd (snd (execute_request (logging env) peer requestID c now s))) = snd (snd s)
   \<and> ce_pending (fst (snd (execute_request (logging env) peer requestID c now s))) = ce_pending (fst s)"
  by (simp add: execute_request_def split_beta Let_def SendErrorResponse_def)

lemma HandleRequest_quiet:
  "snd (snd (snd (HandleRequest (logging env) peer requestID payload n now s))) = snd (snd s)
   \<and> ce_pending (fst (snd (HandleRequest (logging env) peer requestID payload n now s))) = ce_pending (fst s)"
  by (simp add: HandleRequest_def split_beta Let_def SendErrorResponse_def execute_request_quiet split: option.split)

lemma expire_inbound_quiet:
  "snd (snd (expire_inbound (logging env) now i e w)) = snd w
   \<and> ce_pending (fst (expire_inbound (logging env) now i e w)) = ce_pending e"
proof (induction "logging env" now i e w rule: expire_inbound.induct)
  case (1 now i e w)
  show ?case unfolding expire_inbound.simps [of _ now i e w] Let_def using 1 by (simp add: split_beta Let_def)
qed

text \<open>The balance of one operation: handlers submitted and open before are those called now and open after.\<close>

definition balance ::
  "'k list \<Rightarrow> ('v, 'n, 'k) ESPNowCommandEndpoint \<times> 'w \<times> ('k \<times> CommandResult) list
     \<Rightarrow> ('v, 'n, 'k) ESPNowCommandEndpoint \<times> 'w \<times> ('k \<times> CommandResult) list \<Rightarrow> bool" where
  "balance ks s s' \<longleftrightarrow>
     mset (map fst (snd (snd s))) + mset (handlers (ce_pending (fst s))) + mset ks
       = mset (map fst (snd (snd s'))) + mset (handlers (ce_pending (fst s')))"

lemma balance_quiet: "snd (snd s') = snd (snd s) \<Longrightarrow> ce_pending (fst s') = ce_pending (fst s) \<Longrightarrow> balance [] s s'"
  by (simp add: balance_def)

lemma balance_trans:
  assumes "balance ks s s1" "balance ks' s1 s2"
  shows "balance (ks @ ks') s s2"
  using assms unfolding balance_def by (metis add.assoc mset_append)

lemma handlers_erase:
  assumes "i < length ps"
  shows "mset (handlers ps) = mset (case pr_Completion (ps ! i) of None \<Rightarrow> [] | Some k \<Rightarrow> [k]) + mset (handlers (erase_at i ps))"
  by (subst erase_at_split [OF assms]) (simp add: erase_at_def split: option.split)

lemma handlers_partition: "mset (handlers ps) = mset (handlers (filter (\<lambda>p. \<not> P p) ps)) + mset (handlers (filter P ps))"
  by (induction ps) (auto split: option.split)

lemma HandleResponse_balance: "balance [] s (snd (HandleResponse (logging env) peer requestID payload n s))"
proof -
  show ?thesis
  proof (cases "find_index (\<lambda>p. pending_key p = (peer, requestID)) (ce_pending (fst s))")
    case (Some i)
    then have "i < length (ce_pending (fst s))" using find_index_Some [OF Some] by simp
    from handlers_erase [OF this] Some show ?thesis
      by (simp add: balance_def HandleResponse_def split_beta complete_with_logging split: option.split)
  qed (simp add: balance_def HandleResponse_def split_beta split: option.split)
qed

lemma DispatchCompletePayload_balance:
  "balance [] s (snd (DispatchCompletePayload (logging env) peer type requestID payload n now s))"
  by (simp add: DispatchCompletePayload_def HandleResponse_balance balance_quiet HandleRequest_quiet)

lemma Receive_balance: "balance [] s (snd (Receive (logging env) peer data n now s))"
proof -
  have same: "balance [] (fst s\<lparr>ce_reassemblies := items\<rparr>, snd s) s' = balance [] s s'" for items s'
    by (simp add: balance_def)
  have refl': "balance [] s (fst s\<lparr>ce_reassemblies := items\<rparr>, snd s)" "balance [] s (fst s, snd s)" for items
    by (simp_all add: balance_def)
  have "balance [] s (snd (DispatchCompletePayload (logging env) peer type requestID payload k now
      (fst s\<lparr>ce_reassemblies := items\<rparr>, snd s)))" for type requestID payload k items
    using DispatchCompletePayload_balance [of "(fst s\<lparr>ce_reassemblies := items\<rparr>, snd s)"] by (simp only: same)
  moreover have "balance [] s (snd (DispatchCompletePayload (logging env) peer type requestID payload k now (fst s, snd s)))"
    for type requestID payload k by (simp add: DispatchCompletePayload_balance)
  ultimately show ?thesis
    using refl' by (simp add: Receive_def split_beta Let_def split: option.split reassembly_outcome.split)
qed

lemma fail_all_log: "map fst (snd (fail_all (logging env) ps w)) = map fst (snd w) @ handlers ps"
  by (induction ps arbitrary: w) (simp_all add: complete_with_logging split: option.split)

lemma expire_fold_log:
  "map fst (snd (fold (\<lambda>p. complete_with (logging env) (pr_Completion p) r) ps w)) = map fst (snd w) @ handlers ps"
  by (induction ps arbitrary: w) (simp_all add: complete_with_logging split: option.split)

text \<open>The handlers an operation takes over: the one of an \<^verbatim>\<open>Invoke\<close> that gets as far as the table.\<close>

definition taken_over :: "('v, 'n, 'k, 'w) endpoint_env \<Rightarrow> ('v, 'n, 'k) endpoint_op \<Rightarrow> ('v, 'n, 'k) ESPNowCommandEndpoint \<Rightarrow> 'k list" where
  "taken_over env operation e =
     (case operation of
        OpInvoke peer invocation completion now \<Rightarrow>
          (let (encoded, payload) = EncodeRequest (ev_values env) invocation in
           if ce_initialized e \<and> ce_registry e \<and> ce_sender e \<and> ci_path invocation \<noteq> []
              \<and> length (ce_pending e) < cc_MaximumOutstandingRequests (ce_config e)
              \<and> encoded \<and> payload \<noteq> [] \<and> length payload \<le> cc_MaximumMessageBytes (ce_config e)
           then (case completion of None \<Rightarrow> [] | Some k \<Rightarrow> [k]) else [])
      | _ \<Rightarrow> [])"

fun endpoint_run ::
  "('v, 'n, 'k, 'w) endpoint_env \<Rightarrow> ('v, 'n, 'k) endpoint_op list \<Rightarrow> ('v, 'n, 'k) ESPNowCommandEndpoint \<times> 'w
     \<Rightarrow> ('v, 'n, 'k) ESPNowCommandEndpoint \<times> 'w" where
  "endpoint_run env [] s = s"
| "endpoint_run env (operation # rest) s = endpoint_run env rest (endpoint_exec env operation s)"

fun run_taken_over ::
  "('v, 'n, 'k, 'w) endpoint_env \<Rightarrow> ('v, 'n, 'k) endpoint_op list \<Rightarrow> ('v, 'n, 'k) ESPNowCommandEndpoint \<times> 'w \<Rightarrow> 'k list" where
  "run_taken_over env [] s = []"
| "run_taken_over env (operation # rest) s =
     taken_over env operation (fst s) @ run_taken_over env rest (endpoint_exec env operation s)"

lemma Invoke_balance:
  "balance (taken_over (logging env) (OpInvoke peer invocation completion now) (fst s)) s
     (snd (Invoke (logging env) peer invocation completion now s))"
  by (auto simp: balance_def taken_over_def Invoke_def split_beta Let_def complete_with_logging not_le split: option.split)

lemma Endpoint_Shutdown_balance:
  "endpoint_ok (fst s) \<Longrightarrow> balance [] s (Endpoint_Shutdown (logging env) s)"
  by (auto simp: balance_def Endpoint_Shutdown_def split_beta fail_all_log endpoint_ok_def simp del: mset_map)

lemma Endpoint_Update_balance: "balance [] s (Endpoint_Update (logging env) now s)"
proof (cases "ce_initialized (fst s)")
  case True
  let ?t = "cc_RequestTimeoutMilliseconds (ce_config (fst s))" and ?ps = "ce_pending (fst s)"
  show ?thesis
    using True expire_inbound_quiet [of env now 0]
      handlers_partition [of ?ps "\<lambda>p. Command_Elapsed now (pr_StartedMilliseconds p) < ?t"]
    by (simp add: balance_def Endpoint_Update_def split_beta Let_def expire_pending_eq expire_fold_log not_less
        del: mset_map)
qed (simp add: Endpoint_Update_def split_beta balance_def)

lemma endpoint_exec_balance:
  assumes "endpoint_ok (fst s)"
  shows "balance (taken_over (logging env) operation (fst s)) s (endpoint_exec (logging env) operation s)"
proof (cases operation)
  case (OpInitialize config sender)
  then show ?thesis
    using Endpoint_Shutdown_balance [OF assms, of env]
    by (simp add: taken_over_def Endpoint_Initialize_def split_beta Let_def balance_def)
next
  case (OpInvoke peer invocation completion now)
  then show ?thesis using Invoke_balance by simp
next
  case (OpCompleteInbound peer response now)
  have "balance [] s (snd (CompleteInbound (logging env) peer response now s))"
    by (rule balance_quiet) (simp_all add: CompleteInbound_def split_beta Let_def split: option.split)
  then show ?thesis by (simp add: OpCompleteInbound taken_over_def)
qed (simp_all add: taken_over_def Endpoint_Shutdown_balance [OF assms] Receive_balance Endpoint_Update_balance,
    simp_all add: balance_def SetPolicy_def SetResultObserver_def SetInboundRequestHandler_def)

lemma endpoint_run_balance:
  assumes "endpoint_ok (fst s)"
  shows "endpoint_ok (fst (endpoint_run (logging env) ops s))
    \<and> balance (run_taken_over (logging env) ops s) s (endpoint_run (logging env) ops s)"
  using assms
proof (induction ops arbitrary: s)
  case (Cons operation ops)
  note ok = endpoint_exec_ok [OF Cons.prems, of "logging env" operation]
  show ?case using Cons.IH [OF ok] balance_trans [OF endpoint_exec_balance [OF Cons.prems, of env operation]] by simp
qed (simp add: balance_def)

text \<open>
  C20. Over any run of an endpoint, from its construction on, the completion handlers that were called,
  together with those of the requests still pending, are exactly the handlers of the requests it took over:
  none is lost and none is called twice. A shutdown at the end of the run has called them all.
\<close>

theorem completions_exactly_once:
  "mset (map fst (snd (snd (endpoint_run (logging env) ops (CommandEndpoint_new, w, [])))))
     + mset (handlers (ce_pending (fst (endpoint_run (logging env) ops (CommandEndpoint_new, w, [])))))
     = mset (run_taken_over (logging env) ops (CommandEndpoint_new, w, []))
   \<and> mset (map fst (snd (snd (endpoint_exec (logging env) OpShutdown (endpoint_run (logging env) ops (CommandEndpoint_new, w, []))))))
     = mset (run_taken_over (logging env) ops (CommandEndpoint_new, w, []))"
proof -
  let ?s = "(CommandEndpoint_new, w, [])" and ?r = "endpoint_run (logging env) ops (CommandEndpoint_new, w, [])"
  have r: "endpoint_ok (fst ?r)" "balance (run_taken_over (logging env) ops ?s) ?s ?r"
    using endpoint_run_balance [of ?s env ops] by (simp_all add: CommandEndpoint_new_ok)
  have "balance [] ?r (Endpoint_Shutdown (logging env) ?r)" by (rule Endpoint_Shutdown_balance [OF r(1)])
  moreover have "ce_pending (fst (Endpoint_Shutdown (logging env) ?r)) = []"
    by (simp add: Endpoint_Shutdown_def split_beta)
  ultimately show ?thesis using r(2) by (simp add: balance_def CommandEndpoint_new_def)
qed

section \<open>The response cache\<close>

text \<open>A bounded queue: appending drops the oldest entries beyond the bound.\<close>

definition fifo :: "nat \<Rightarrow> 'a list \<Rightarrow> 'a list \<Rightarrow> 'a list" where
  "fifo maximum xs new = drop (length xs + length new - maximum) (xs @ new)"

lemma fifo_Nil: "length xs \<le> maximum \<Longrightarrow> fifo maximum xs [] = xs"
  by (simp add: fifo_def)

lemma length_fifo: "length (fifo maximum xs new) = min maximum (length xs + length new)"
  by (simp add: fifo_def)

lemma fifo_append: "fifo maximum (fifo maximum xs as) bs = fifo maximum xs (as @ bs)"
proof -
  define ys where "ys = xs @ as"
  let ?k = "length ys - maximum"
  have one: "fifo maximum xs as = drop ?k ys" by (simp add: fifo_def ys_def del: drop_append)
  have "drop ?k ys @ bs = drop ?k (ys @ bs)" by simp
  then have "fifo maximum (drop ?k ys) bs = drop (length (drop ?k ys) + length bs - maximum) (drop ?k (ys @ bs))"
    by (simp add: fifo_def del: drop_append)
  also have "\<dots> = drop (length ys + length bs - maximum) (ys @ bs)"
    unfolding drop_drop by (rule arg_cong [of _ _ "\<lambda>n. drop n (ys @ bs)"]) auto
  finally show ?thesis unfolding one by (simp add: fifo_def ys_def add.assoc del: drop_append)
qed

lemma StoreDuplicate_fifo:
  assumes "length items \<le> maximum" "0 < maximum"
  shows "StoreDuplicate peer requestID now encoded maximum items =
    fifo maximum items [\<lparr>dr_Peer = peer, dr_RequestID = requestID, dr_CreatedMilliseconds = now, dr_EncodedResponse = encoded\<rparr>]"
  using assms by (cases "length items = maximum") (auto simp: StoreDuplicate_def fifo_def Let_def drop_Suc neq_Nil_conv)

abbreviation maximum_duplicates :: "('v, 'n, 'k) ESPNowCommandEndpoint \<Rightarrow> nat" where
  "maximum_duplicates e \<equiv> cc_MaximumDuplicateResults (ce_config e)"

definition cache_ok :: "('v, 'n, 'k) ESPNowCommandEndpoint \<Rightarrow> bool" where
  "cache_ok e \<longleftrightarrow> length (ce_duplicates e) \<le> maximum_duplicates e \<and> 0 < maximum_duplicates e"

lemma endpoint_ok_cache: "endpoint_ok e \<Longrightarrow> cache_ok e"
  by (auto simp: cache_ok_def endpoint_defs config_accepted_def)

lemma cache_ok_cong: "ce_duplicates e' = ce_duplicates e \<Longrightarrow> ce_config e' = ce_config e \<Longrightarrow> cache_ok e' = cache_ok e"
  by (simp add: cache_ok_def)

lemma cache_ok_fifo: "cache_ok e \<Longrightarrow> ce_duplicates e' = fifo (maximum_duplicates e) (ce_duplicates e) new \<Longrightarrow>
    ce_config e' = ce_config e \<Longrightarrow> cache_ok e'"
  by (simp add: cache_ok_def length_fifo)

lemma fifo_same: "cache_ok e \<Longrightarrow> fifo (maximum_duplicates e) (ce_duplicates e) [] = ce_duplicates e"
  by (simp add: cache_ok_def fifo_Nil)

text \<open>What an answer to a request leaves in the cache: its encoding, unless it does not encode or is too long.\<close>

definition cached_response ::
  "ESPNowCommandEndpointConfig \<Rightarrow> u64 \<Rightarrow> ESPNowCommandPeerAddress \<times> u64 \<times> CommandResult \<Rightarrow> DuplicateResult list" where
  "cached_response config now = (\<lambda>(peer, requestID, result).
     case EncodeResponse result of (encoded, bytes) \<Rightarrow>
       if encoded \<and> length bytes \<le> cc_MaximumMessageBytes config
       then [\<lparr>dr_Peer = peer, dr_RequestID = requestID, dr_CreatedMilliseconds = now, dr_EncodedResponse = bytes\<rparr>] else [])"

lemma EncodeResponse_nonempty: "EncodeResponse result = (True, bytes) \<Longrightarrow> bytes \<noteq> []"
  by (auto simp: EncodeResponse_def AppendString_def AppendI32_def split: if_splits)

lemma SendResponseAndCache_duplicates:
  assumes "cache_ok (fst s)"
  shows "ce_duplicates (fst (snd (SendResponseAndCache env peer requestID result now s))) =
    fifo (maximum_duplicates (fst s)) (ce_duplicates (fst s)) (cached_response (ce_config (fst s)) now (peer, requestID, result))"
  using assms EncodeResponse_nonempty [of result "snd (EncodeResponse result)"]
  by (cases "EncodeResponse result")
    (auto simp: SendResponseAndCache_def cached_response_def split_beta Let_def fifo_same StoreDuplicate_fifo cache_ok_def)

lemma respond_duplicates:
  assumes "cache_ok e" "ce_config e1 = ce_config e" "ce_duplicates e1 = ce_duplicates e"
  shows "ce_duplicates (fst (snd (SendResponseAndCache env peer requestID result now (e1, w)))) =
    fifo (maximum_duplicates e) (ce_duplicates e) (cached_response (ce_config e) now (peer, requestID, result))"
  using SendResponseAndCache_duplicates [of "(e1, w)" env peer requestID result now] assms cache_ok_cong [OF assms(3,2)] by simp


subsection \<open>The answers an operation gives\<close>

abbreviation request_context ::
  "ESPNowCommandPeerAddress \<Rightarrow> u64 \<Rightarrow> ('v, 'n) CommandInvocation \<Rightarrow> ('v, 'n) ESPNowCommandInvocationContext" where
  "request_context peer requestID invocation \<equiv>
     \<lparr>ic_Metadata = \<lparr>md_Transport = ''esp-now'', md_RemotePeer = peer, md_RequestID = requestID, md_Duplicate = False\<rparr>,
      ic_Invocation = invocation\<rparr>"

text \<open>
  The answer given at once to a complete request message: none when the request is answered already or is in
  progress, or when the application takes it over; otherwise an error, the refusal of the policy, or the result
  of the registry.
\<close>

definition request_answer ::
  "('v, 'n, 'k, 'w) endpoint_env \<Rightarrow> ESPNowCommandPeerAddress \<Rightarrow> u64 \<Rightarrow> byte list \<Rightarrow> ('v, 'n, 'k) ESPNowCommandEndpoint \<times> 'w
     \<Rightarrow> CommandResult option" where
  "request_answer env peer requestID payload = (\<lambda>(e, w).
     if (peer, requestID) \<in> duplicate_key ` set (ce_duplicates e) \<union> inbound_key ` set (ce_inbound e) then None
     else
       case DecodeRequest (ev_values env) requestID (Some payload) (length payload) of
         None \<Rightarrow> Some (ev_Error env ''Malformed ESP-NOW Command request'' 5)
       | Some request \<Rightarrow>
           let context = request_context peer requestID (rq_Invocation request);
               verdict = ev_policy env context w; w1 = (if ce_policy e then snd verdict else w) in
           if ce_policy e \<and> \<not> cr_success (fst verdict) then Some (fst verdict)
           else if \<not> ce_inboundHandler e then Some (fst (ev_Invoke env (rq_Invocation request) w1))
           else if cc_MaximumInboundRequests (ce_config e) \<le> length (ce_inbound e)
           then Some (ev_Error env ''Inbound Command capacity exhausted'' 6)
           else if fst (ev_inbound env context w1) then None
           else Some (ev_Error env ''Inbound Command handoff rejected'' 7))"

text \<open>The message a received frame completes: itself when it is the only fragment, or the one reassembled with it.\<close>

definition complete_message ::
  "('v, 'n, 'k) ESPNowCommandEndpoint \<Rightarrow> ESPNowCommandPeerAddress \<Rightarrow> byte list \<Rightarrow> u64 \<Rightarrow> (byte \<times> u64 \<times> byte list) option" where
  "complete_message e peer data now =
     (case ParseFragmentHeader (Some data) (length data) of
        None \<Rightarrow> None
      | Some (h, d) \<Rightarrow>
          if cc_MaximumMessageBytes (ce_config e) < unat (fh_TotalLength h) then None
          else if fh_FragmentCount h = 1
          then (if fh_FragmentIndex h = 0 \<and> unat (fh_FragmentLength h) = unat (fh_TotalLength h)
                then Some (fh_Type h, fh_RequestID h, d) else None)
          else
            (case fst (reassemble (ce_config e) peer h d now (ce_reassemblies e)) of
               Completed type requestID message \<Rightarrow> Some (type, requestID, message)
             | _ \<Rightarrow> None))"

definition timeout_answer ::
  "('v, 'n, 'k, 'w) endpoint_env \<Rightarrow> ('v, 'n) InboundRequest \<Rightarrow> ESPNowCommandPeerAddress \<times> u64 \<times> CommandResult" where
  "timeout_answer env r = (ir_Peer r, ir_RequestID r, ev_Error env ''Inbound ESP-NOW Command request timed out'' 8)"

definition inbound_overdue :: "u64 \<Rightarrow> ('v, 'n, 'k) ESPNowCommandEndpoint \<Rightarrow> ('v, 'n) InboundRequest \<Rightarrow> bool" where
  "inbound_overdue now e r \<longleftrightarrow>
     cc_InboundRequestTimeoutMilliseconds (ce_config e) \<le> Command_Elapsed now (ir_AcceptedMilliseconds r)"

fun answers ::
  "('v, 'n, 'k, 'w) endpoint_env \<Rightarrow> ('v, 'n, 'k) endpoint_op \<Rightarrow> ('v, 'n, 'k) ESPNowCommandEndpoint \<times> 'w
     \<Rightarrow> (ESPNowCommandPeerAddress \<times> u64 \<times> CommandResult) list" where
  "answers env (OpReceive peer data now) (e, w) =
     (case (if ce_initialized e then complete_message e peer data now else None) of
        None \<Rightarrow> []
      | Some (type, requestID, message) \<Rightarrow>
          if type = message_type_id Request
          then (case request_answer env peer requestID message (e, w) of None \<Rightarrow> [] | Some result \<Rightarrow> [(peer, requestID, result)])
          else [])"
| "answers env (OpCompleteInbound peer response now) (e, w) =
     (if (peer, re_RequestId response) \<in> inbound_key ` set (ce_inbound e)
      then [(peer, re_RequestId response, \<lparr>cr_success = re_Success response, cr_code = re_Code response,
              cr_message = take (re_MessageLength response) (re_Message response)\<rparr>)] else [])"
| "answers env (OpUpdate now) (e, w) = map (timeout_answer env) (filter (inbound_overdue now e) (ce_inbound e))"
| "answers env _ s = []"

fun operation_time :: "('v, 'n, 'k) endpoint_op \<Rightarrow> u64" where
  "operation_time (OpReceive peer data now) = now"
| "operation_time (OpCompleteInbound peer response now) = now"
| "operation_time (OpUpdate now) = now"
| "operation_time _ = 0"

abbreviation newly_cached ::
  "('v, 'n, 'k, 'w) endpoint_env \<Rightarrow> ('v, 'n, 'k) endpoint_op \<Rightarrow> ('v, 'n, 'k) ESPNowCommandEndpoint \<times> 'w \<Rightarrow> DuplicateResult list" where
  "newly_cached env operation s \<equiv>
     concat (map (cached_response (ce_config (fst s)) (operation_time operation)) (answers env operation s))"

lemma HandleRequest_duplicates:
  assumes c: "cache_ok e"
  shows "ce_duplicates (fst (snd (HandleRequest env peer requestID payload (length payload) now (e, w)))) =
    fifo (maximum_duplicates e) (ce_duplicates e)
      (case request_answer env peer requestID payload (e, w) of None \<Rightarrow> [] | Some result \<Rightarrow> cached_response (ce_config e) now (peer, requestID, result))"
proof (cases "FindDuplicate peer requestID (ce_duplicates e) = None \<and> FindInbound peer requestID (ce_inbound e) = None")
  case False
  then have "request_answer env peer requestID payload (e, w) = None"
    by (auto simp: request_answer_def FindDuplicate_None FindInbound_None)
  with False show ?thesis by (auto simp: HandleRequest_def split_beta fifo_same [OF c] split: option.split)
next
  case True
  then have "(peer, requestID) \<notin> duplicate_key ` set (ce_duplicates e) \<union> inbound_key ` set (ce_inbound e)"
    by (simp add: FindDuplicate_None FindInbound_None)
  then show ?thesis
    using True
    by (simp add: HandleRequest_def execute_request_def SendErrorResponse_def request_answer_def respond_duplicates [OF c] split_beta
        Let_def fifo_same [OF c] split: option.split)
qed

lemma HandleResponse_duplicates: "ce_duplicates (fst (snd (HandleResponse env peer requestID payload n s))) = ce_duplicates (fst s)"
  by (simp add: HandleResponse_def split_beta split: option.split)

lemma request_answer_cong [simp]:
  "request_answer env peer requestID payload (e\<lparr>ce_reassemblies := items\<rparr>, w) = request_answer env peer requestID payload (e, w)"
  by (auto simp: request_answer_def Let_def split: option.split)

lemma Dispatch_duplicates:
  assumes "cache_ok e"
  shows "ce_duplicates (fst (snd (DispatchCompletePayload env peer type requestID payload (length payload) now (e\<lparr>ce_reassemblies := items\<rparr>, w)))) =
    fifo (maximum_duplicates e) (ce_duplicates e)
      (if type = message_type_id Request
       then (case request_answer env peer requestID payload (e, w) of None \<Rightarrow> [] | Some result \<Rightarrow> cached_response (ce_config e) now (peer, requestID, result))
       else [])"
proof -
  have c: "cache_ok (e\<lparr>ce_reassemblies := items\<rparr>)" using assms by (simp add: cache_ok_def)
  show ?thesis
    using HandleRequest_duplicates [OF c, of env peer requestID payload now w]
    by (cases "request_answer env peer requestID payload (e, w)")
      (simp_all add: DispatchCompletePayload_def HandleResponse_duplicates fifo_same [OF assms])
qed

text \<open>A frame either only touches the reassembly table or hands on the message it completes.\<close>

lemma Receive_complete:
  assumes init: "ce_initialized e"
  shows "\<exists>items. case complete_message e peer data now of
      None \<Rightarrow> \<exists>taken. Receive env peer (Some data) (length data) now (e, w) = (taken, e\<lparr>ce_reassemblies := items\<rparr>, w)
    | Some (type, requestID, message) \<Rightarrow> Receive env peer (Some data) (length data) now (e, w)
        = DispatchCompletePayload env peer type requestID message (length message) now (e\<lparr>ce_reassemblies := items\<rparr>, w)"
proof (cases "ParseFragmentHeader (Some data) (length data)")
  case None
  then show ?thesis by (intro exI [of _ "ce_reassemblies e"]) (auto simp: Receive_def complete_message_def)
next
  case (Some parsed)
  then obtain h d where parse: "ParseFragmentHeader (Some data) (length data) = Some (h, d)" by fastforce
  have len: "unat (fh_FragmentLength h) = length d" using ParseFragmentHeader_valid [OF parse] by (simp add: fragment_valid_def)
  obtain outcome items where re: "reassemble (ce_config e) peer h d now (ce_reassemblies e) = (outcome, items)" by fastforce
  show ?thesis
  proof (cases "cc_MaximumMessageBytes (ce_config e) < unat (fh_TotalLength h) \<or> fh_FragmentCount h = 1")
    case True
    then show ?thesis
      by (intro exI [of _ "ce_reassemblies e"]) (auto simp: Receive_def complete_message_def init parse len)
  next
    case False
    then show ?thesis
      by (intro exI [of _ items]) (auto simp: Receive_def complete_message_def init parse re split: reassembly_outcome.split)
  qed
qed

lemma Receive_duplicates:
  assumes c: "cache_ok e"
  shows "ce_duplicates (fst (snd (Receive env peer (Some data) (length data) now (e, w)))) =
    fifo (maximum_duplicates e) (ce_duplicates e) (newly_cached env (OpReceive peer data now) (e, w))"
proof (cases "ce_initialized e")
  case False
  then show ?thesis by (simp add: Receive_def fifo_same [OF c])
next
  case True
  obtain items where it: "case complete_message e peer data now of
      None \<Rightarrow> \<exists>taken. Receive env peer (Some data) (length data) now (e, w) = (taken, e\<lparr>ce_reassemblies := items\<rparr>, w)
    | Some (type, requestID, message) \<Rightarrow> Receive env peer (Some data) (length data) now (e, w)
        = DispatchCompletePayload env peer type requestID message (length message) now (e\<lparr>ce_reassemblies := items\<rparr>, w)"
    using Receive_complete [OF True] by (rule exE)
  show ?thesis
  proof (cases "complete_message e peer data now")
    case None
    then show ?thesis using it True by (auto simp: fifo_same [OF c])
  next
    case (Some m)
    obtain type requestID message where m: "m = (type, requestID, message)" by (cases m)
    have "Receive env peer (Some data) (length data) now (e, w)
        = DispatchCompletePayload env peer type requestID message (length message) now (e\<lparr>ce_reassemblies := items\<rparr>, w)"
      using it Some m by simp
    then show ?thesis
      using Some m True Dispatch_duplicates [OF c, of env peer type requestID message now items w]
      by (cases "request_answer env peer requestID message (e, w)") simp_all
  qed
qed

lemma CompleteInbound_duplicates:
  assumes ok: "endpoint_ok e"
  shows "ce_duplicates (fst (snd (CompleteInbound env peer response now (e, w)))) =
    fifo (maximum_duplicates e) (ce_duplicates e) (newly_cached env (OpCompleteInbound peer response now) (e, w))"
proof -
  note c = endpoint_ok_cache [OF ok]
  show ?thesis
  proof (cases "FindInbound peer (re_RequestId response) (ce_inbound e)")
    case None
    then show ?thesis by (simp add: CompleteInbound_def FindInbound_None [THEN iffD1, OF None] fifo_same [OF c])
  next
    case (Some i)
    then have "(peer, re_RequestId response) \<in> inbound_key ` set (ce_inbound e)"
      using FindInbound_None [of peer "re_RequestId response" "ce_inbound e"] by auto
    moreover have "ce_initialized e" using ok FindInbound_Some [OF Some] by (auto simp: endpoint_ok_def)
    ultimately show ?thesis using Some by (simp add: CompleteInbound_def Let_def respond_duplicates [OF c])
  qed
qed

lemma expire_inbound_eq:
  assumes "\<forall>j < i. \<not> inbound_overdue now e (ce_inbound e ! j)" "i \<le> length (ce_inbound e)" "cache_ok e"
  shows "ce_inbound (fst (expire_inbound env now i e w)) = filter (\<lambda>r. \<not> inbound_overdue now e r) (ce_inbound e)
    \<and> ce_reassemblies (fst (expire_inbound env now i e w)) = ce_reassemblies e
    \<and> ce_pending (fst (expire_inbound env now i e w)) = ce_pending e \<and> ce_config (fst (expire_inbound env now i e w)) = ce_config e
    \<and> ce_duplicates (fst (expire_inbound env now i e w)) = fifo (maximum_duplicates e) (ce_duplicates e)
        (concat (map (\<lambda>r. cached_response (ce_config e) now (timeout_answer env r)) (filter (inbound_overdue now e) (ce_inbound e))))"
  using assms
proof (induction env now i e w rule: expire_inbound.induct)
  case (1 env now i e w)
  let ?new = "\<lambda>r. \<not> inbound_overdue now e r" and ?old = "inbound_overdue now e"
  let ?r = "ce_inbound e ! i" and ?result = "ev_Error env ''Inbound ESP-NOW Command request timed out'' 8"
  let ?s = "SendResponseAndCache env (ir_Peer ?r) (ir_RequestID ?r) ?result now
     (e\<lparr>ce_inbound := erase_at i (ce_inbound e)\<rparr>, observe env e (ir_Context ?r) ?result w)"
  show ?case
  proof (cases "i < length (ce_inbound e)")
    case True
    have young: "filter ?old (take i (ce_inbound e)) = []" using "1.prems"(1) True by (auto simp: filter_empty_conv in_set_conv_nth)
    note split = erase_at_split [OF True]
    show ?thesis
    proof (cases "?old ?r")
      case old: True
      then have old': "cc_InboundRequestTimeoutMilliseconds (ce_config e) \<le> Command_Elapsed now (ir_AcceptedMilliseconds ?r)"
        by (simp add: inbound_overdue_def)
      have f: "filter ?new (ce_inbound e) = filter ?new (erase_at i (ce_inbound e))"
        using old by (subst split) (simp add: erase_at_def)
      have g: "filter ?old (ce_inbound e) = ?r # filter ?old (erase_at i (ce_inbound e))"
        using old young by (subst split) (simp add: erase_at_def)
      have dup: "ce_duplicates (fst (snd ?s)) = fifo (maximum_duplicates e) (ce_duplicates e) (cached_response (ce_config e) now (timeout_answer env ?r))"
        unfolding timeout_answer_def by (rule respond_duplicates [OF "1.prems"(3)]) simp_all
      have e: "expire_inbound env now i e w = expire_inbound env now i (fst (snd ?s)) (snd (snd ?s))"
        unfolding expire_inbound.simps [of env now i e w] Let_def using True old' by (simp add: split_beta)
      have od: "inbound_overdue now (fst (snd ?s)) = ?old" by (simp add: fun_eq_iff inbound_overdue_def)
      have "\<forall>j < i. ?new (erase_at i (ce_inbound e) ! j)" "i \<le> length (erase_at i (ce_inbound e))"
        using "1.prems" True by (auto simp: erase_at_def nth_append)
      moreover have "cache_ok (fst (snd ?s))" by (rule cache_ok_fifo [OF "1.prems"(3) dup]) simp
      ultimately show ?thesis
        unfolding e f g using "1.IH"(1) [OF True refl old' refl prod.collapse] by (simp add: od dup fifo_append)
    next
      case False
      then have fresh: "\<not> cc_InboundRequestTimeoutMilliseconds (ce_config e) \<le> Command_Elapsed now (ir_AcceptedMilliseconds ?r)"
        by (simp add: inbound_overdue_def)
      have "expire_inbound env now i e w = expire_inbound env now (Suc i) e w"
        unfolding expire_inbound.simps [of env now i e w] Let_def using True fresh by simp
      then show ?thesis using "1.IH"(2) [OF True refl fresh] "1.prems" True False by (auto simp: less_Suc_eq)
    qed
  next
    case False
    then have "filter ?new (ce_inbound e) = ce_inbound e" "filter ?old (ce_inbound e) = []"
      using "1.prems"(1,2) by (force simp: in_set_conv_nth filter_id_conv filter_empty_conv)+
    then show ?thesis using False "1.prems"(3) by (simp add: expire_inbound.simps [of env now i e w] fifo_same)
  qed
qed

lemma Endpoint_Update_duplicates:
  assumes ok: "endpoint_ok e"
  shows "ce_duplicates (fst (Endpoint_Update env now (e, w))) =
    filter (\<lambda>d. Command_Elapsed now (dr_CreatedMilliseconds d) < cc_DuplicateResultLifetimeMilliseconds (ce_config e))
      (fifo (maximum_duplicates e) (ce_duplicates e) (newly_cached env (OpUpdate now) (e, w)))"
proof (cases "ce_initialized e")
  case True
  obtain p v where p: "expire_pending env (cc_RequestTimeoutMilliseconds (ce_config e)) now 0 (ce_pending e) w = (p, v)" by fastforce
  have c: "cache_ok (e\<lparr>ce_pending := p\<rparr>)" using endpoint_ok_cache [OF ok] by (simp add: cache_ok_def)
  have od: "inbound_overdue now (e\<lparr>ce_pending := p\<rparr>) = inbound_overdue now e" by (simp add: fun_eq_iff inbound_overdue_def)
  show ?thesis
    using True expire_inbound_eq [OF _ _ c, of 0 now env v] by (simp add: Endpoint_Update_def p split_beta Let_def not_le od o_def)
next
  case False
  then show ?thesis using ok by (simp add: Endpoint_Update_def endpoint_ok_def fifo_def)
qed

text \<open>
  C25. The response cache is a bounded queue of the answers given. Whatever operation is made, the responses it caches are the
  encodings of the answers it gives, in order and under the peer, identifier and time of the request: the answer to a request
  that a received frame completes (an error, a refusal of the policy or the result of the registry), the response to a request
  that was handed off, or the timeout error of each overdue one. They are appended, and only the oldest
  entries beyond the configured maximum are dropped. Besides, an update removes exactly the entries whose lifetime is over, and starting
  or shutting down empties the cache; every other operation leaves it alone.
\<close>

theorem cache_is_bounded_queue:
  assumes "endpoint_reachable env (e, w)"
  shows "ce_duplicates (fst (endpoint_exec env operation (e, w))) =
    (case operation of
       OpInitialize config sender \<Rightarrow> []
     | OpShutdown \<Rightarrow> []
     | OpUpdate now \<Rightarrow> filter (\<lambda>d. Command_Elapsed now (dr_CreatedMilliseconds d) < cc_DuplicateResultLifetimeMilliseconds (ce_config e))
         (fifo (cc_MaximumDuplicateResults (ce_config e)) (ce_duplicates e) (newly_cached env operation (e, w)))
     | _ \<Rightarrow> fifo (cc_MaximumDuplicateResults (ce_config e)) (ce_duplicates e) (newly_cached env operation (e, w)))"
proof -
  have ok: "endpoint_ok e" using endpoint_reachable_ok [OF assms] by simp
  note c = endpoint_ok_cache [OF ok]
  show ?thesis
  proof (cases operation)
    case (OpReceive peer data now)
    then show ?thesis using Receive_duplicates [OF c, of env peer data now w] by simp
  next
    case (OpCompleteInbound peer response now)
    then show ?thesis using CompleteInbound_duplicates [OF ok, of env peer response now w] by simp
  next
    case (OpUpdate now)
    then show ?thesis using Endpoint_Update_duplicates [OF ok, of env now w] by simp
  next
    case (OpInvoke peer invocation completion now)
    then show ?thesis by (simp add: Invoke_def split_beta Let_def fifo_same [OF c])
  qed (simp_all add: Endpoint_Initialize_def Endpoint_Shutdown_def split_beta Let_def SetPolicy_def SetResultObserver_def
      SetInboundRequestHandler_def fifo_same [OF c])
qed

subsection \<open>A concrete request\<close>

text \<open>The invocation of the path \<^verbatim>\<open>do\<close>, encoded, and the frame that carries it from one peer.\<close>

abbreviation demo_peer :: ESPNowCommandPeerAddress where
  "demo_peer \<equiv> PeerAddress 2 0 0 0 0 1"

abbreviation demo_request :: "byte list" where
  "demo_request \<equiv> [1, 0, 2, 0, 100, 111, 0, 0, 0, 0, 0, 0]"

abbreviation demo_frame :: "u64 \<Rightarrow> byte list" where
  "demo_frame requestID \<equiv> BuildFragments Request requestID demo_request 242 ! 0"

lemmas demo_defs = demo_endpoint_eq CommandEndpoint_new_def CommandEndpointConfig_default_def

lemma demo_message:
  assumes "ce_config e = CommandEndpointConfig_default"
  shows "complete_message e demo_peer (demo_frame requestID) now = Some (message_type_id Request, requestID, demo_request)"
proof -
  let ?c = CommandEndpointConfig_default
  define m where "m = \<lparr>ms_peer = demo_peer, ms_type = Request, ms_id = requestID, ms_payload = demo_request\<rparr>"
  have one: "frag_count ?c m = 1"
    by (simp add: frag_count_def m_def GetFragmentCount_def FragmentHeaderSize_def CommandEndpointConfig_default_def)
  have f: "demo_frame requestID = frag_bytes ?c m 0"
    using BuildFragments_bytes [of m ?c] one by (simp add: m_def CommandEndpointConfig_default_def)
  have "cc_MaximumProtocolPayloadBytes ?c \<le> 65561" by (simp add: CommandEndpointConfig_default_def)
  note parse = single_fragment_parse [OF this one]
  show ?thesis
    unfolding f complete_message_def parse(1) option.case prod.case
    by (simp add: assms frag_header_fields one parse(2)) (simp add: m_def CommandEndpointConfig_default_def)
qed

lemma demo_decode: "DecodeRequest (ev_values demo_env) requestID (Some demo_request) (length demo_request) =
    Some \<lparr>rq_RequestID = requestID, rq_Invocation = \<lparr>ci_path = [[100, 111]], ci_positional = [], ci_named = [], ci_raw = []\<rparr>\<rparr>"
  by (simp add: DecodeRequest_def Reader_new_def ReadU16_def ReadString_def AtEnd_def demo_env_def demo_values_def)

lemma demo_response:
  "EncodeResponse \<lparr>cr_success = True, cr_code = 0, cr_message = [100, 111]\<rparr> = (True, [1, 0, 0, 0, 0, 2, 0, 100, 111])"
  by (simp add: EncodeResponse_def AppendI32_def AppendString_def put_u16_def le_bytes_2)

lemma demo_newly_cached:
  assumes "ce_config e = CommandEndpointConfig_default" "ce_initialized e" "\<not> ce_policy e" "\<not> ce_inboundHandler e"
    and "(demo_peer, requestID) \<notin> duplicate_key ` set (ce_duplicates e) \<union> inbound_key ` set (ce_inbound e)"
  shows "newly_cached demo_env (OpReceive demo_peer (demo_frame requestID) now) (e, w) =
    [\<lparr>dr_Peer = demo_peer, dr_RequestID = requestID, dr_CreatedMilliseconds = now, dr_EncodedResponse = [1, 0, 0, 0, 0, 2, 0, 100, 111]\<rparr>]"
proof -
  have "request_answer demo_env demo_peer requestID demo_request (e, w) = Some \<lparr>cr_success = True, cr_code = 0, cr_message = [100, 111]\<rparr>"
    unfolding request_answer_def prod.case if_not_P [OF assms(5)] demo_decode option.case using assms by (simp add: demo_env_def)
  then show ?thesis using assms(1,2) demo_response by (simp add: demo_message cached_response_def CommandEndpointConfig_default_def)
qed

text \<open>The request answered by the registry: the cache holds its encoded result.\<close>

theorem cache_is_bounded_queue_witness:
  "ce_duplicates (fst (endpoint_exec demo_env (OpReceive demo_peer (demo_frame 9) 5) (demo_endpoint, [])))
   = [\<lparr>dr_Peer = demo_peer, dr_RequestID = 9, dr_CreatedMilliseconds = 5, dr_EncodedResponse = [1, 0, 0, 0, 0, 2, 0, 100, 111]\<rparr>]"
  using cache_is_bounded_queue [OF demo_reachable, of "OpReceive demo_peer (demo_frame 9) 5"]
    demo_newly_cached [of demo_endpoint 9 "[]" 5]
  by (simp add: fifo_def demo_defs del: answers.simps)


section \<open>Repeated requests\<close>

lemma FindDuplicate_cached:
  assumes "distinct (map duplicate_key items)" "d \<in> set items"
  shows "FindDuplicate (dr_Peer d) (dr_RequestID d) items = Some d"
  using assms by (induction items) (auto simp: FindDuplicate_def duplicate_key_def)

lemma SendResponseAndCache_encoded:
  assumes "EncodeResponse result = (True, response)" "length response \<le> cc_MaximumMessageBytes (ce_config e)"
  shows "SendResponseAndCache env peer requestID result now (e, w) =
    (let S = SendPayload env (ce_config e) peer Response requestID response w in
     (fst S, e\<lparr>ce_duplicates := StoreDuplicate peer requestID now response (maximum_duplicates e) (ce_duplicates e)\<rparr>, snd S))"
  using assms EncodeResponse_nonempty [OF assms(1)]
  by (simp add: SendResponseAndCache_def StoreDuplicate_def split_beta Let_def)

lemma StoreDuplicate_last:
  "\<lparr>dr_Peer = peer, dr_RequestID = requestID, dr_CreatedMilliseconds = now, dr_EncodedResponse = encoded\<rparr>
     \<in> set (StoreDuplicate peer requestID now encoded maximum items)"
  by (simp add: StoreDuplicate_def Let_def)

lemma HandleRequest_executes:
  assumes new: "FindDuplicate peer requestID (ce_duplicates e) = None" "FindInbound peer requestID (ce_inbound e) = None"
    and dec: "DecodeRequest (ev_values env) requestID (Some payload) size' = Some request"
    and direct: "\<not> ce_policy e" "\<not> ce_inboundHandler e"
    and res: "ev_Invoke env (rq_Invocation request) w = (result, w1)"
  shows "HandleRequest env peer requestID payload size' now (e, w) =
    SendResponseAndCache env peer requestID result now
      (e, observe env e (request_context peer requestID (rq_Invocation request)) result w1)"
  using assms by (simp add: HandleRequest_def execute_request_def Let_def)

lemma HandleRequest_cached:
  assumes "endpoint_ok e" "d \<in> set (ce_duplicates e)"
  shows "HandleRequest env (dr_Peer d) (dr_RequestID d) payload size' now (e, w) =
    (let S = SendPayload env (ce_config e) (dr_Peer d) Response (dr_RequestID d) (dr_EncodedResponse d) w in (fst S, e, snd S))"
  using FindDuplicate_cached [OF _ assms(2)] assms(1) by (simp add: HandleRequest_def endpoint_defs split_beta Let_def)

text \<open>What may happen to an endpoint and the application's world after a given moment.\<close>

inductive endpoint_leads ::
  "('v, 'n, 'k, 'w) endpoint_env \<Rightarrow> ('v, 'n, 'k) ESPNowCommandEndpoint \<times> 'w \<Rightarrow> ('v, 'n, 'k) ESPNowCommandEndpoint \<times> 'w \<Rightarrow> bool"
  for env s where
  here: "endpoint_leads env s s"
| call: "endpoint_leads env s s' \<Longrightarrow> endpoint_leads env s (endpoint_exec env operation s')"
| world: "endpoint_leads env s (e, w) \<Longrightarrow> endpoint_leads env s (e, w')"

lemma endpoint_leads_ok: "endpoint_leads env s s' \<Longrightarrow> endpoint_ok (fst s) \<Longrightarrow> endpoint_ok (fst s')"
proof (induction rule: endpoint_leads.induct)
  case (call s' operation)
  then show ?case using endpoint_exec_ok by blast
qed simp_all

text \<open>
  C21. A request that was executed once is not executed again while its response is cached. The first arrival calls the
  registry once, tells the observer, sends the encoded result and caches it. Then any operations of the endpoint may
  follow, other requests among them; as long as that cache entry is there, an arrival with the same peer and identifier, whatever
  its payload and time, changes nothing in the endpoint, calls nothing but the sender, and sends the same bytes again.
\<close>

theorem repeated_request_not_executed:
  assumes "endpoint_reachable env (e, w)" "ce_initialized e"
    and "FindDuplicate peer requestID (ce_duplicates e) = None" "FindInbound peer requestID (ce_inbound e) = None"
    and "DecodeRequest (ev_values env) requestID (Some payload) (length payload) = Some request"
    and "\<not> ce_policy e" "\<not> ce_inboundHandler e"
    and "ev_Invoke env (rq_Invocation request) w = (result, w1)"
    and enc: "EncodeResponse result = (True, response)" "length response \<le> cc_MaximumMessageBytes (ce_config e)"
    and s1: "HandleRequest env peer requestID payload (length payload) now (e, w) = (sent, e1, w2)"
    and entry: "entry = \<lparr>dr_Peer = peer, dr_RequestID = requestID, dr_CreatedMilliseconds = now, dr_EncodedResponse = response\<rparr>"
    and later: "endpoint_leads env (e1, w2) (e', w')" "entry \<in> set (ce_duplicates e')"
  shows "(sent, w2) = SendPayload env (ce_config e) peer Response requestID response
        (observe env e (request_context peer requestID (rq_Invocation request)) result w1)
    \<and> entry \<in> set (ce_duplicates e1)
    \<and> HandleRequest env peer requestID payload' (length payload') now' (e', w')
      = (let S = SendPayload env (ce_config e') peer Response requestID response w' in (fst S, e', snd S))"
proof (intro conjI)
  have ok: "endpoint_ok e" using endpoint_reachable_ok [OF assms(1)] by simp
  note eq = HandleRequest_executes [OF assms(3-8), of now, unfolded SendResponseAndCache_encoded [OF enc] Let_def]
  show "(sent, w2) = SendPayload env (ce_config e) peer Response requestID response
      (observe env e (request_context peer requestID (rq_Invocation request)) result w1)"
    using eq s1 by (simp add: prod_eq_iff)
  show "entry \<in> set (ce_duplicates e1)" using eq s1 StoreDuplicate_last unfolding entry by auto
  have "endpoint_ok e1" using HandleRequest_ok [of "(e, w)" env peer requestID payload "length payload" now] ok assms(2) s1 by simp
  then have "endpoint_ok e'" using endpoint_leads_ok [OF later(1)] by simp
  from HandleRequest_cached [OF this later(2)]
  show "HandleRequest env peer requestID payload' (length payload') now' (e', w')
      = (let S = SendPayload env (ce_config e') peer Response requestID response w' in (fst S, e', snd S))"
    by (simp add: entry)
qed

text \<open>After request 9 another request is received and answered; then 9 arrives again.\<close>

theorem repeated_request_not_executed_witness:
  "\<exists>sent e1 w2 e' w'.
     HandleRequest demo_env demo_peer 9 demo_request (length demo_request) 5 (demo_endpoint, []) = (sent, e1, w2)
     \<and> endpoint_exec demo_env (OpReceive demo_peer (demo_frame 10) 6) (e1, w2) = (e', w')
     \<and> map dr_RequestID (ce_duplicates e') = [9, 10]
     \<and> HandleRequest demo_env demo_peer 9 [] (length ([] :: byte list)) 8 (e', w')
       = (let S = SendPayload demo_env (ce_config e') demo_peer Response 9 [1, 0, 0, 0, 0, 2, 0, 100, 111] w' in (fst S, e', snd S))"
proof -
  let ?inv = "\<lparr>ci_path = [[100, 111]], ci_positional = [], ci_named = [], ci_raw = []\<rparr>"
  let ?entry = "\<lambda>i t. \<lparr>dr_Peer = demo_peer, dr_RequestID = i, dr_CreatedMilliseconds = t, dr_EncodedResponse = [1, 0, 0, 0, 0, 2, 0, 100, 111]\<rparr>"
  have init: "ce_initialized demo_endpoint" "\<not> ce_policy demo_endpoint" "\<not> ce_inboundHandler demo_endpoint"
    "FindDuplicate demo_peer 9 (ce_duplicates demo_endpoint) = None" "FindInbound demo_peer 9 (ce_inbound demo_endpoint) = None"
    by (simp_all add: demo_endpoint_eq CommandEndpoint_new_def FindDuplicate_def FindInbound_def)
  have run: "ev_Invoke demo_env (rq_Invocation \<lparr>rq_RequestID = 9, rq_Invocation = ?inv\<rparr>) []
      = (\<lparr>cr_success = True, cr_code = 0, cr_message = [100, 111]\<rparr>, [])"
    by (simp add: demo_env_def)
  have fits: "length [1 :: byte, 0, 0, 0, 0, 2, 0, 100, 111] \<le> cc_MaximumMessageBytes (ce_config demo_endpoint)"
    by (simp add: demo_defs)
  obtain sent e1 w2 where s1: "HandleRequest demo_env demo_peer 9 demo_request (length demo_request) 5 (demo_endpoint, []) = (sent, e1, w2)"
    by (cases rule: prod_cases3)
  have e1: "e1 = demo_endpoint\<lparr>ce_duplicates := [?entry 9 5]\<rparr>"
    using s1 unfolding HandleRequest_executes [OF init(4,5) demo_decode init(2,3) run] SendResponseAndCache_encoded [OF demo_response fits] Let_def
    by (simp add: demo_defs StoreDuplicate_def)
  obtain e' w' where exec: "endpoint_exec demo_env (OpReceive demo_peer (demo_frame 10) 6) (e1, w2) = (e', w')" by fastforce
  have cached: "ce_duplicates e' = [?entry 9 5, ?entry 10 6]"
    using Receive_duplicates [of e1 demo_env demo_peer "demo_frame 10" 6 w2] demo_newly_cached [of e1 10 w2 6] exec
    by (simp add: e1 fifo_def cache_ok_def demo_defs duplicate_key_def del: answers.simps)
  have leads: "endpoint_leads demo_env (e1, w2) (e', w')" using endpoint_leads.call [OF endpoint_leads.here] exec by metis
  have "HandleRequest demo_env demo_peer 9 [] (length ([] :: byte list)) 8 (e', w')
      = (let S = SendPayload demo_env (ce_config e') demo_peer Response 9 [1, 0, 0, 0, 0, 2, 0, 100, 111] w' in (fst S, e', snd S))"
    by (rule repeated_request_not_executed [OF demo_reachable init(1,4,5) demo_decode init(2,3) run demo_response fits s1 refl leads,
        THEN conjunct2, THEN conjunct2]) (simp add: cached)
  with s1 exec cached show ?thesis by (intro exI conjI) simp_all
qed


section \<open>Expiry\<close>

lemma expire_fold_results:
  "snd (fold (\<lambda>p. complete_with (logging env) (pr_Completion p) r) ps w) = snd w @ map (\<lambda>k. (k, r)) (handlers ps)"
  by (induction ps arbitrary: w) (simp_all add: complete_with_logging split: option.split)

text \<open>
  C24. An update removes exactly the overdue entries of all tables, in order. Of the pending requests, the handed-off
  requests and the partial messages it keeps those whose time has not run out; of the cached responses too, after the timeout
  error of each overdue handed-off request has been added to them, which at a full cache costs the oldest ones their place. The handler
  of each overdue pending request is called with the timeout error, oldest first, and no other handler is called. So a request can
  stay pending for longer than its timeout only as long as no update is made.
\<close>

theorem update_expires_overdue:
  assumes "ce_initialized e" "endpoint_ok e"
  shows "ce_pending (fst (Endpoint_Update (logging env) now (e, w, log)))
      = filter (\<lambda>p. Command_Elapsed now (pr_StartedMilliseconds p) < cc_RequestTimeoutMilliseconds (ce_config e)) (ce_pending e)
    \<and> ce_inbound (fst (Endpoint_Update (logging env) now (e, w, log)))
      = filter (\<lambda>r. Command_Elapsed now (ir_AcceptedMilliseconds r) < cc_InboundRequestTimeoutMilliseconds (ce_config e)) (ce_inbound e)
    \<and> ce_reassemblies (fst (Endpoint_Update (logging env) now (e, w, log)))
      = filter (\<lambda>r. Command_Elapsed now (rb_LastUpdatedMilliseconds r) < cc_ReassemblyTimeoutMilliseconds (ce_config e)) (ce_reassemblies e)
    \<and> ce_duplicates (fst (Endpoint_Update (logging env) now (e, w, log)))
      = filter (\<lambda>d. Command_Elapsed now (dr_CreatedMilliseconds d) < cc_DuplicateResultLifetimeMilliseconds (ce_config e))
          (fifo (cc_MaximumDuplicateResults (ce_config e)) (ce_duplicates e)
            (concat (map (\<lambda>r. cached_response (ce_config e) now
                (ir_Peer r, ir_RequestID r, ev_Error env ''Inbound ESP-NOW Command request timed out'' 8))
              (filter (\<lambda>r. cc_InboundRequestTimeoutMilliseconds (ce_config e) \<le> Command_Elapsed now (ir_AcceptedMilliseconds r)) (ce_inbound e)))))
    \<and> snd (snd (Endpoint_Update (logging env) now (e, w, log)))
      = log @ map (\<lambda>k. (k, ev_Error env ''ESP-NOW Command request timed out'' 4))
          (handlers (filter (\<lambda>p. cc_RequestTimeoutMilliseconds (ce_config e) \<le> Command_Elapsed now (pr_StartedMilliseconds p)) (ce_pending e)))"
proof -
  let ?t = "cc_RequestTimeoutMilliseconds (ce_config e)"
  obtain p v where p: "expire_pending (logging env) ?t now 0 (ce_pending e) (w, log) = (p, v)"
    by (rule prod.exhaust)
  have pe: "p = filter (\<lambda>p. Command_Elapsed now (pr_StartedMilliseconds p) < ?t) (ce_pending e)"
    and v: "v = fold (\<lambda>p. complete_with (logging env) (pr_Completion p) (ev_Error (logging env) ''ESP-NOW Command request timed out'' 4))
       (filter (\<lambda>p. ?t \<le> Command_Elapsed now (pr_StartedMilliseconds p)) (ce_pending e)) (w, log)"
    using p by (simp_all add: expire_pending_eq)
  have err: "ev_Error (logging env) = ev_Error env" by (simp add: logging_def)
  have od: "inbound_overdue now (e\<lparr>ce_pending := p\<rparr>) =
      (\<lambda>r. cc_InboundRequestTimeoutMilliseconds (ce_config e) \<le> Command_Elapsed now (ir_AcceptedMilliseconds r))"
    by (simp add: fun_eq_iff inbound_overdue_def)
  have "cache_ok (e\<lparr>ce_pending := p\<rparr>)" using endpoint_ok_cache [OF assms(2)] by (simp add: cache_ok_def)
  note ei = expire_inbound_eq [of 0 now "e\<lparr>ce_pending := p\<rparr>" "logging env" v, OF _ _ this]
  note eq = expire_inbound_quiet [of env now 0 "e\<lparr>ce_pending := p\<rparr>" v]
  have log': "snd v = log @ map (\<lambda>k. (k, ev_Error env ''ESP-NOW Command request timed out'' 4))
      (handlers (filter (\<lambda>p. ?t \<le> Command_Elapsed now (pr_StartedMilliseconds p)) (ce_pending e)))"
    unfolding v err by (simp add: expire_fold_results)
  show ?thesis
    using assms(1) ei eq by (simp add: Endpoint_Update_def p split_beta Let_def pe [symmetric] log' not_le od timeout_answer_def err)
qed

text \<open>One overdue and one young entry in each of three tables.\<close>

theorem update_expires_overdue_witness:
  "let p = \<lambda>i t. \<lparr>pr_Peer = demo_peer, pr_RequestID = i, pr_StartedMilliseconds = t, pr_Completion = Some 6\<rparr>;
       r = \<lambda>i t. \<lparr>ir_Peer = demo_peer, ir_RequestID = i, ir_AcceptedMilliseconds = t,
         ir_Context = request_context demo_peer i \<lparr>ci_path = [], ci_positional = [], ci_named = [], ci_raw = []\<rparr>\<rparr>;
       d = \<lambda>i t. \<lparr>dr_Peer = demo_peer, dr_RequestID = i, dr_CreatedMilliseconds = t, dr_EncodedResponse = [1]\<rparr>;
       e = fst (Endpoint_Update (logging demo_env) 6000 (demo_endpoint\<lparr>ce_pending := [p 1 50, p 2 5950], ce_inbound := [r 3 100, r 4 5000],
         ce_duplicates := [d 5 4000, d 6 5500]\<rparr>, [], []))
   in ce_pending e = [p 2 5950] \<and> ce_inbound e = [r 4 5000]
      \<and> map (\<lambda>d. (dr_RequestID d, dr_CreatedMilliseconds d)) (ce_duplicates e) = [(6, 5500), (3, 6000)]"
proof -
  let ?p = "\<lambda>i t. \<lparr>pr_Peer = demo_peer, pr_RequestID = i, pr_StartedMilliseconds = t, pr_Completion = Some 6\<rparr>"
  let ?r = "\<lambda>i t. \<lparr>ir_Peer = demo_peer, ir_RequestID = i, ir_AcceptedMilliseconds = t,
         ir_Context = request_context demo_peer i \<lparr>ci_path = [], ci_positional = [], ci_named = [], ci_raw = []\<rparr>\<rparr>"
  let ?d = "\<lambda>i t. \<lparr>dr_Peer = demo_peer, dr_RequestID = i, dr_CreatedMilliseconds = t, dr_EncodedResponse = [1]\<rparr>"
  let ?e = "demo_endpoint\<lparr>ce_pending := [?p 1 50, ?p 2 5950], ce_inbound := [?r 3 100, ?r 4 5000], ce_duplicates := [?d 5 4000, ?d 6 5500]\<rparr>"
  have init: "ce_initialized ?e" by (simp add: demo_endpoint_eq)
  have ok: "endpoint_ok ?e"
    using CommandEndpoint_new_ok
    by (simp add: endpoint_defs demo_defs cached_ok_def inbound_key_def duplicate_key_def config_accepted_def FragmentHeaderSize_def)
  have "cached_response (ce_config demo_endpoint) 6000 (demo_peer, 3, ev_Error demo_env ''Inbound ESP-NOW Command request timed out'' 8)
      = [\<lparr>dr_Peer = demo_peer, dr_RequestID = 3, dr_CreatedMilliseconds = 6000, dr_EncodedResponse =
          snd (EncodeResponse (ev_Error demo_env ''Inbound ESP-NOW Command request timed out'' 8))\<rparr>]"
    by (simp add: cached_response_def demo_env_def EncodeResponse_def AppendI32_def AppendString_def put_u16_def demo_defs)
  with update_expires_overdue [OF init ok, of demo_env 6000 "[]" "[]"] show ?thesis
    by (simp add: Let_def Command_Elapsed_def fifo_def demo_defs)
qed

section \<open>From one endpoint to another and back\<close>

fun send_all :: "('v, 'n, 'k, 'w) endpoint_env \<Rightarrow> ESPNowCommandPeerAddress \<Rightarrow> byte list list \<Rightarrow> 'w \<Rightarrow> bool \<times> 'w" where
  "send_all env peer [] w = (True, w)"
| "send_all env peer (f # fs) w =
     (case ev_send env peer f w of (sent, w) \<Rightarrow> if sent then send_all env peer fs w else (False, w))"

text \<open>Sending a payload is sending its fragments in order until one is refused.\<close>

lemma SendPayload_eq:
  "SendPayload env config peer type requestID payload w =
     (if GetFragmentCount (length payload) (cc_MaximumProtocolPayloadBytes config) = 0 then (False, w)
      else send_all env peer (BuildFragments type requestID payload (cc_MaximumProtocolPayloadBytes config)) w)"
proof -
  let ?max = "cc_MaximumProtocolPayloadBytes config"
  let ?n = "GetFragmentCount (length payload) ?max"
  let ?f = "\<lambda>i. fragment_header_write (command_header type requestID payload (?max - FragmentHeaderSize) ?n i)
      @ chunk (?max - FragmentHeaderSize) payload i"
  have "send_payload_loop env peer type requestID payload ?max is' w = send_all env peer (map ?f is') w"
    if "set is' \<subseteq> {..<?n}" for is'
    using that
  proof (induction is' arbitrary: w)
    case (Cons i rest)
    then show ?case using BuildFragment_eq [OF refl, of i payload ?max] by (simp add: split_beta)
  qed simp
  from this [of "[0..<?n]"] show ?thesis
    by (simp add: SendPayload_def Let_def BuildFragments_eq lessThan_atLeast0)
qed

lemma Invoke_success:
  assumes "Invoke env peer invocation completion now (e, w) = (Some requestID, e1, w1)"
  shows "\<exists>payload. EncodeRequest (ev_values env) invocation = (True, payload)
    \<and> length payload \<le> cc_MaximumMessageBytes (ce_config e)
    \<and> requestID = fst (next_request_id (ce_nextRequestID e)) \<and> ce_initialized e
    \<and> e1 = e\<lparr>ce_nextRequestID := snd (next_request_id (ce_nextRequestID e)), ce_pending := ce_pending e
        @ [\<lparr>pr_Peer = peer, pr_RequestID = requestID, pr_StartedMilliseconds = now, pr_Completion = completion\<rparr>]\<rparr>
    \<and> send_all env peer (BuildFragments Request requestID payload (cc_MaximumProtocolPayloadBytes (ce_config e))) w = (True, w1)"
proof -
  obtain encoded payload where enc: "EncodeRequest (ev_values env) invocation = (encoded, payload)" by fastforce
  obtain sent w2 where sent: "SendPayload env (ce_config e) peer Request (fst (next_request_id (ce_nextRequestID e))) payload w = (sent, w2)"
    by fastforce
  show ?thesis
    using assms sent by (auto simp: Invoke_def enc split_beta Let_def SendPayload_eq split: if_splits)
qed

text \<open>
  C18. An invocation accepted by one endpoint reaches the registry of another. The frames sent are the fragments
  of the encoded request, in order; delivered to an idle endpoint in any order and possibly repeatedly they
  cause nothing until the last missing one, which calls the registry once with an invocation of the same
  content, tells the observer, caches the encoded result and sends it.
\<close>

theorem request_reaches_registry:
  assumes client: "Invoke envC server invocation completion t0 (c, wc) = (Some requestID, c1, wc1)"
    and enc: "EncodeRequest (ev_values envC) invocation = (True, payload)"
    and frames: "frames = BuildFragments Request requestID payload (cc_MaximumProtocolPayloadBytes (ce_config c))"
    and same: "ev_values envS = ev_values envC" "command_values_contract (ev_values envC)"
      "cc_MaximumProtocolPayloadBytes (ce_config s) = cc_MaximumProtocolPayloadBytes (ce_config c)"
      "cc_MaximumProtocolPayloadBytes (ce_config c) \<le> 65561"
      "cc_MaximumMessageBytes (ce_config c) \<le> cc_MaximumMessageBytes (ce_config s)"
    and counts: "length (ci_path invocation) \<le> 65535" "length (ci_positional invocation) \<le> 65535"
      "length (cv_items (ev_values envC) (ci_named invocation)) \<le> 65535"
    and idle: "ce_initialized s" "\<not> ce_policy s" "\<not> ce_inboundHandler s"
      "FindReassembly peer requestID (message_type_id Request) (ce_reassemblies s) = None"
      "length (ce_reassemblies s) < cc_MaximumReassemblies (ce_config s)"
      "FindDuplicate peer requestID (ce_duplicates s) = None" "FindInbound peer requestID (ce_inbound s) = None"
    and js: "fst ` set js \<subset> {..<length frames}" "insert i (fst ` set js) = {..<length frames}"
  shows "send_all envC server frames wc = (True, wc1)
    \<and> (\<exists>invocation' items. invocation_text (ev_values envS) invocation' = invocation_text (ev_values envC) invocation
       \<and> receive_frames envS peer (map (\<lambda>(j, t). (frames ! j, t)) js) (s, ws)
         = (replicate (length js) True, s\<lparr>ce_reassemblies := items\<rparr>, ws)
       \<and> Receive envS peer (Some (frames ! i)) (length (frames ! i)) now (s\<lparr>ce_reassemblies := items\<rparr>, ws)
         = (let (result, ws1) = ev_Invoke envS invocation' ws in
            SendResponseAndCache envS peer requestID result now
              (s, observe envS s (request_context peer requestID invocation') result ws1)))"
proof -
  have len: "length payload \<le> cc_MaximumMessageBytes (ce_config c)" and sent: "send_all envC server frames wc = (True, wc1)"
    using Invoke_success [OF client] enc frames by auto
  obtain request where dec: "DecodeRequest (ev_values envS) requestID (Some payload) (length payload) = Some request"
    and content: "invocation_text (ev_values envS) (rq_Invocation request) = invocation_text (ev_values envC) invocation"
    using DecodeRequest_EncodeRequest [OF same(2) enc counts, of requestID] same(1) by auto
  obtain result ws1 where run: "ev_Invoke envS (rq_Invocation request) ws = (result, ws1)" by fastforce
  have handled: "DispatchCompletePayload envS peer (message_type_id Request) requestID payload (length payload) now (s, ws)
      = SendResponseAndCache envS peer requestID result now
          (s, observe envS s (request_context peer requestID (rq_Invocation request)) result ws1)"
    using HandleRequest_executes [OF idle(6,7) dec idle(2,3) run] by (simp add: DispatchCompletePayload_def)
  have fs: "cc_MaximumProtocolPayloadBytes (ce_config s) \<le> 65561" "length payload \<le> cc_MaximumMessageBytes (ce_config s)"
    "frames = BuildFragments Request requestID payload (cc_MaximumProtocolPayloadBytes (ce_config s))"
    using same(3-5) len frames by simp_all
  from fragments_dispatch [OF idle(1) fs idle(5,4) js, of envS ws now]
  have "\<exists>items. receive_frames envS peer (map (\<lambda>(j, t). (frames ! j, t)) js) (s, ws)
      = (replicate (length js) True, s\<lparr>ce_reassemblies := items\<rparr>, ws)
    \<and> Receive envS peer (Some (frames ! i)) (length (frames ! i)) now (s\<lparr>ce_reassemblies := items\<rparr>, ws)
      = (let (result, ws1) = ev_Invoke envS (rq_Invocation request) ws in
          SendResponseAndCache envS peer requestID result now
            (s, observe envS s (request_context peer requestID (rq_Invocation request)) result ws1))"
    unfolding handled run by simp
  with sent content show ?thesis by blast
qed

theorem request_reaches_registry_witness:
  "\<exists>frames c1 wc1 invocation' items.
     Invoke demo_env (PeerAddress 2 0 0 0 0 9) \<lparr>ci_path = [[100, 111]], ci_positional = [], ci_named = [], ci_raw = []\<rparr>
       (Some 3) 5 (demo_endpoint, []) = (Some 1, c1, wc1)
     \<and> send_all demo_env (PeerAddress 2 0 0 0 0 9) frames [] = (True, wc1)
     \<and> ci_path invocation' = [[100, 111]]
     \<and> Receive demo_env (PeerAddress 2 0 0 0 0 1) (Some (frames ! 0)) (length (frames ! 0)) 7 (demo_endpoint\<lparr>ce_reassemblies := items\<rparr>, [])
       = (let (result, ws1) = ev_Invoke demo_env invocation' [] in
          SendResponseAndCache demo_env (PeerAddress 2 0 0 0 0 1) 1 result 7
            (demo_endpoint, observe demo_env demo_endpoint (request_context (PeerAddress 2 0 0 0 0 1) 1 invocation') result ws1))"
proof -
  let ?srv = "PeerAddress 2 0 0 0 0 9" and ?cl = "PeerAddress 2 0 0 0 0 1"
  let ?inv = "\<lparr>ci_path = [[100, 111]], ci_positional = [], ci_named = [], ci_raw = []\<rparr>"
  let ?bytes = "[1, 0, 2, 0, 100, 111, 0, 0, 0, 0, 0, 0] :: byte list"
  let ?frames = "BuildFragments Request 1 ?bytes (cc_MaximumProtocolPayloadBytes (ce_config demo_endpoint))"
  have vals: "ev_values demo_env = demo_values" "ev_send demo_env = (\<lambda>p f w. (True, w @ [f]))" by (simp_all add: demo_env_def)
  have enc: "EncodeRequest demo_values ?inv = (True, ?bytes)"
    by (simp add: EncodeRequest_def and_then_def append_named_def AppendString_def AppendCommandValue_def demo_values_def
        put_u16_def le_bytes_2)
  have c: "ce_config demo_endpoint = CommandEndpointConfig_default" "ce_initialized demo_endpoint" "ce_registry demo_endpoint"
    "ce_sender demo_endpoint" "ce_pending demo_endpoint = []" "ce_nextRequestID demo_endpoint = 1" "\<not> ce_policy demo_endpoint"
    "\<not> ce_inboundHandler demo_endpoint" "ce_reassemblies demo_endpoint = []" "ce_duplicates demo_endpoint = []" "ce_inbound demo_endpoint = []"
    by (simp_all add: demo_endpoint_eq CommandEndpoint_new_def)
  have count: "GetFragmentCount (length ?bytes) 242 = 1" by (simp add: GetFragmentCount_def FragmentHeaderSize_def)
  have frames: "length ?frames = 1" unfolding c(1) using count by (simp add: BuildFragments_eq CommandEndpointConfig_default_def)
  have all: "send_all demo_env p fs w = (True, w @ fs)" for p fs w by (induction fs arbitrary: w) (simp_all add: vals)
  have inv: "Invoke demo_env ?srv ?inv (Some 3) 5 (demo_endpoint, []) =
      (Some 1, demo_endpoint\<lparr>ce_nextRequestID := 2, ce_pending := [\<lparr>pr_Peer = ?srv, pr_RequestID = 1, pr_StartedMilliseconds = 5, pr_Completion = Some 3\<rparr>]\<rparr>, ?frames)"
    using count by (simp add: Invoke_def c vals enc next_request_id_def SendPayload_eq all CommandEndpointConfig_default_def Let_def)
  have one: "fst ` set ([] :: (nat \<times> u64) list) \<subset> {..<length ?frames}" "insert 0 (fst ` set ([] :: (nat \<times> u64) list)) = {..<length ?frames}"
    unfolding frames by auto
  have contract: "command_values_contract (ev_values demo_env)" unfolding vals by (rule demo_values_contract)
  have max: "cc_MaximumProtocolPayloadBytes (ce_config demo_endpoint) \<le> 65561"
    unfolding c by (simp add: CommandEndpointConfig_default_def)
  have counts: "length (ci_path ?inv) \<le> 65535" "length (ci_positional ?inv) \<le> 65535"
    "length (cv_items (ev_values demo_env) (ci_named ?inv)) \<le> 65535" unfolding vals by (simp_all add: demo_values_def)
  have idle: "FindReassembly ?cl 1 (message_type_id Request) (ce_reassemblies demo_endpoint) = None"
    "length (ce_reassemblies demo_endpoint) < cc_MaximumReassemblies (ce_config demo_endpoint)"
    "FindDuplicate ?cl 1 (ce_duplicates demo_endpoint) = None" "FindInbound ?cl 1 (ce_inbound demo_endpoint) = None"
    unfolding c by (simp_all add: CommandEndpointConfig_default_def FindReassembly_def FindDuplicate_def FindInbound_def)
  obtain invocation' items where r: "send_all demo_env ?srv ?frames [] = (True, ?frames)"
    "invocation_text (ev_values demo_env) invocation' = invocation_text (ev_values demo_env) ?inv"
    "Receive demo_env ?cl (Some (?frames ! 0)) (length (?frames ! 0)) 7 (demo_endpoint\<lparr>ce_reassemblies := items\<rparr>, [])
       = (let (result, ws1) = ev_Invoke demo_env invocation' [] in
          SendResponseAndCache demo_env ?cl 1 result 7
            (demo_endpoint, observe demo_env demo_endpoint (request_context ?cl 1 invocation') result ws1))"
    using request_reaches_registry [OF inv enc [folded vals(1)] refl refl contract refl max order_refl counts c(2,7,8) idle one, of "[]" 7]
    by blast
  moreover have "ci_path invocation' = [[100, 111]]"
    using r(2) by (simp add: invocation_text_def)
  ultimately show ?thesis using inv by blast
qed

text \<open>
  C19. The response to a pending request completes it. The fragments of the encoded result, in any order and
  possibly repeated, cause nothing until the last missing one; that one removes the oldest pending request with
  this peer and identifier and calls its handler with the result that was encoded. When no other pending
  request has that key, the same response delivered again is refused and calls nothing.
\<close>

theorem response_completes_request:
  assumes "ce_initialized e" "cc_MaximumProtocolPayloadBytes (ce_config e) \<le> 65561"
    and enc: "EncodeResponse result = (True, response)" "length response \<le> cc_MaximumMessageBytes (ce_config e)"
    and frames: "frames = BuildFragments Response requestID response (cc_MaximumProtocolPayloadBytes (ce_config e))"
    and "length (ce_reassemblies e) < cc_MaximumReassemblies (ce_config e)"
    and "FindReassembly peer requestID (message_type_id Response) (ce_reassemblies e) = None"
    and js: "fst ` set js \<subset> {..<length frames}" "insert i (fst ` set js) = {..<length frames}"
    and pend: "ce_pending e = older @ p # newer" "pending_key p = (peer, requestID)" "(peer, requestID) \<notin> pending_key ` set older"
  shows "\<exists>items. receive_frames env peer (map (\<lambda>(j, t). (frames ! j, t)) js) (e, w)
      = (replicate (length js) True, e\<lparr>ce_reassemblies := items\<rparr>, w)
    \<and> Receive env peer (Some (frames ! i)) (length (frames ! i)) now (e\<lparr>ce_reassemblies := items\<rparr>, w)
      = (True, e\<lparr>ce_pending := older @ newer\<rparr>, complete_with env (pr_Completion p) result w)
    \<and> ((peer, requestID) \<in> pending_key ` set newer
       \<or> HandleResponse env peer requestID response (length response) (e\<lparr>ce_pending := older @ newer\<rparr>, w')
         = (False, e\<lparr>ce_pending := older @ newer\<rparr>, w'))"
proof -
  have dec: "DecodeResponse requestID (Some response) (length response) = Some \<lparr>rs_RequestID = requestID, rs_Result = result\<rparr>"
    by (rule DecodeResponse_EncodeResponse [OF enc(1)])
  have "find_index (\<lambda>p. pending_key p = (peer, requestID)) (older @ p # newer) = Some (length older)"
    using pend(2,3) by (induction older) auto
  then have first: "DispatchCompletePayload env peer (message_type_id Response) requestID response (length response) now (e, w)
      = (True, e\<lparr>ce_pending := older @ newer\<rparr>, complete_with env (pr_Completion p) result w)"
    using pend(1) by (simp add: DispatchCompletePayload_def HandleResponse_def dec erase_at_def)
  have "find_index (\<lambda>p. pending_key p = (peer, requestID)) (older @ newer) = None"
    if "(peer, requestID) \<notin> pending_key ` set newer"
    unfolding find_index_None using pend(3) that by (metis Un_iff image_eqI nth_mem set_append)
  then have "(peer, requestID) \<in> pending_key ` set newer
      \<or> HandleResponse env peer requestID response (length response) (e\<lparr>ce_pending := older @ newer\<rparr>, w')
        = (False, e\<lparr>ce_pending := older @ newer\<rparr>, w')"
    by (cases "(peer, requestID) \<in> pending_key ` set newer") (simp_all add: HandleResponse_def dec)
  then show ?thesis
    using fragments_dispatch [OF assms(1,2) enc(2) frames assms(6,7) js, of env w now] first by auto
qed

theorem response_completes_request_witness:
  "\<exists>items. Receive demo_env (PeerAddress 2 0 0 0 0 9) (Some (BuildFragments Response 1 [1, 0, 0, 0, 0, 2, 0, 100, 111] 242 ! 0))
      (length (BuildFragments Response 1 [1, 0, 0, 0, 0, 2, 0, 100, 111] 242 ! 0)) 7
      (demo_endpoint\<lparr>ce_pending := [\<lparr>pr_Peer = PeerAddress 2 0 0 0 0 9, pr_RequestID = 1, pr_StartedMilliseconds = 5,
         pr_Completion = Some 3\<rparr>], ce_reassemblies := items\<rparr>, [])
    = (True, demo_endpoint\<lparr>ce_pending := []\<rparr>, complete_with demo_env (Some 3)
        \<lparr>cr_success = True, cr_code = 0, cr_message = [100, 111]\<rparr> [])"
proof -
  let ?p = "\<lparr>pr_Peer = PeerAddress 2 0 0 0 0 9, pr_RequestID = 1, pr_StartedMilliseconds = 5, pr_Completion = Some 3\<rparr>"
  let ?e = "demo_endpoint\<lparr>ce_pending := [?p]\<rparr>" and ?r = "[1, 0, 0, 0, 0, 2, 0, 100, 111] :: byte list"
  let ?frames = "BuildFragments Response 1 ?r 242"
  have c: "ce_config ?e = CommandEndpointConfig_default" "ce_initialized ?e" "ce_pending ?e = [] @ ?p # []" "ce_reassemblies ?e = []"
    by (simp_all add: demo_endpoint_eq CommandEndpoint_new_def)
  have max: "cc_MaximumProtocolPayloadBytes (ce_config ?e) \<le> 65561" "length ?r \<le> cc_MaximumMessageBytes (ce_config ?e)"
    "?frames = BuildFragments Response 1 ?r (cc_MaximumProtocolPayloadBytes (ce_config ?e))"
    "length (ce_reassemblies ?e) < cc_MaximumReassemblies (ce_config ?e)"
    "FindReassembly (PeerAddress 2 0 0 0 0 9) 1 (message_type_id Response) (ce_reassemblies ?e) = None"
    unfolding c by (simp_all add: CommandEndpointConfig_default_def FindReassembly_def)
  have enc: "EncodeResponse \<lparr>cr_success = True, cr_code = 0, cr_message = [100, 111]\<rparr> = (True, ?r)"
    by (simp add: EncodeResponse_def AppendI32_def AppendString_def put_u16_def le_bytes_2)
  have len: "length ?frames = 1" by (simp add: BuildFragments_eq GetFragmentCount_def FragmentHeaderSize_def)
  have one: "fst ` set ([] :: (nat \<times> u64) list) \<subset> {..<length ?frames}" "insert 0 (fst ` set ([] :: (nat \<times> u64) list)) = {..<length ?frames}"
    unfolding len by auto
  have key: "pending_key ?p = (PeerAddress 2 0 0 0 0 9, 1)" "(PeerAddress 2 0 0 0 0 9, 1) \<notin> pending_key ` set ([] :: nat PendingRequest list)"
    by (simp_all add: pending_key_def)
  from response_completes_request [OF c(2) max(1) enc max(2,3,4,5) one c(3) key, of demo_env "[]" 7 "[]"]
  show ?thesis by auto
qed

text \<open>
  C26. A result that cannot be sent back is lost and does not protect against repetition: when the result of an
  executed request does not encode, or encodes to more than the maximum message size, nothing is sent or
  cached and the endpoint is as before, so the next arrival of the same request calls the registry again.
\<close>

theorem unsendable_result_executes_again:
  assumes "FindDuplicate peer requestID (ce_duplicates e) = None" "FindInbound peer requestID (ce_inbound e) = None"
    and "DecodeRequest (ev_values env) requestID (Some payload) (length payload) = Some request"
    and "\<not> ce_policy e" "\<not> ce_inboundHandler e"
    and "ev_Invoke env (rq_Invocation request) w = (result, w1)"
    and big: "\<not> fst (EncodeResponse result) \<or> cc_MaximumMessageBytes (ce_config e) < length (snd (EncodeResponse result))"
  shows "HandleRequest env peer requestID payload (length payload) now (e, w)
      = (False, e, observe env e (request_context peer requestID (rq_Invocation request)) result w1)
    \<and> HandleRequest env peer requestID payload (length payload) now' (e, w')
      = (let (result', w2) = ev_Invoke env (rq_Invocation request) w' in
         SendResponseAndCache env peer requestID result' now'
           (e, observe env e (request_context peer requestID (rq_Invocation request)) result' w2))"
proof -
  obtain result' w2 where again: "ev_Invoke env (rq_Invocation request) w' = (result', w2)" by fastforce
  show ?thesis
    using HandleRequest_executes [OF assms(1-6), of now] HandleRequest_executes [OF assms(1-5) again, of now'] again big
    by (auto simp: SendResponseAndCache_def split_beta)
qed

theorem unsendable_result_executes_again_witness:
  "fst (HandleRequest (demo_env\<lparr>ev_Invoke := \<lambda>i w. (\<lparr>cr_success = True, cr_code = 0, cr_message = replicate 5000 97\<rparr>, w @ [[1]])\<rparr>)
      (PeerAddress 2 0 0 0 0 1) 9 [1, 0, 2, 0, 100, 111, 0, 0, 0, 0, 0, 0]
      (length [1 :: byte, 0, 2, 0, 100, 111, 0, 0, 0, 0, 0, 0]) 5 (demo_endpoint, [])) = False"
proof -
  let ?p = "PeerAddress 2 0 0 0 0 1" and ?bytes = "[1, 0, 2, 0, 100, 111, 0, 0, 0, 0, 0, 0] :: byte list"
  let ?result = "\<lparr>cr_success = True, cr_code = 0, cr_message = replicate 5000 97\<rparr>"
  let ?env = "demo_env\<lparr>ev_Invoke := \<lambda>i w. (?result, w @ [[1]])\<rparr>"
  let ?inv = "\<lparr>ci_path = [[100, 111]], ci_positional = [], ci_named = [], ci_raw = []\<rparr>"
  have dec: "DecodeRequest (ev_values ?env) 9 (Some ?bytes) (length ?bytes) = Some \<lparr>rq_RequestID = 9, rq_Invocation = ?inv\<rparr>"
    by (simp add: DecodeRequest_def Reader_new_def ReadU16_def ReadString_def AtEnd_def demo_env_def demo_values_def)
  have init: "\<not> ce_policy demo_endpoint" "\<not> ce_inboundHandler demo_endpoint" "cc_MaximumMessageBytes (ce_config demo_endpoint) = 4096"
    "FindDuplicate ?p 9 (ce_duplicates demo_endpoint) = None" "FindInbound ?p 9 (ce_inbound demo_endpoint) = None"
    by (simp_all add: demo_endpoint_eq CommandEndpoint_new_def FindDuplicate_def FindInbound_def CommandEndpointConfig_default_def)
  have run: "ev_Invoke ?env (rq_Invocation \<lparr>rq_RequestID = 9, rq_Invocation = ?inv\<rparr>) [] = (?result, [[1]])" by simp
  have len: "5000 \<le> length (snd (EncodeResponse ?result))"
    by (simp add: EncodeResponse_def AppendString_def)
  have big: "\<not> fst (EncodeResponse ?result) \<or> cc_MaximumMessageBytes (ce_config demo_endpoint) < length (snd (EncodeResponse ?result))"
    unfolding init(3) using len by linarith
  show ?thesis
    using unsendable_result_executes_again [OF init(4,5) dec init(1,2) run big, THEN conjunct1] by simp
qed

end
