(* ===== verification/Security_Protocol.thy ===== *)
theory Security_Protocol
  imports ESPNow_Types Wire_Spec Reassembly_Spec
begin

text \<open>
  \<^verbatim>\<open>src/src/ESPressio_ESPNowSecurityProtocol.hpp\<close>: fragments of Security envelopes and their reassembly.
  \<open>SecFragment\<close> is \<^verbatim>\<open>Fragment\<close>, whose borrowed \<^verbatim>\<open>Data\<close> pointer is an optional byte list; the two fixed
  arrays of a \<^verbatim>\<open>ReassemblyState\<close> are lists of eight elements. Capacity that \<^verbatim>\<open>Reset\<close> retains and
  \<^verbatim>\<open>ReleaseStorage\<close> returns is not part of the state, so both clear the same fields.
\<close>

section \<open>Data\<close>

definition SecMagic :: u32 where "SecMagic = 0x53454345"
definition SecVersion :: byte where "SecVersion = 1"
definition SecHeaderSize :: nat where "SecHeaderSize = 15"
definition MaximumFragmentPayload :: nat where
  "MaximumFragmentPayload = MaximumFrameSize - 8 - SecHeaderSize"
definition MaximumFragments :: nat where "MaximumFragments = 8"
definition MaximumEnvelopeBytes :: nat where
  "MaximumEnvelopeBytes = MaximumFragmentPayload * MaximumFragments"

lemmas sec_constants = SecMagic_def SecVersion_def SecHeaderSize_def MaximumFragmentPayload_def
  MaximumFragments_def MaximumEnvelopeBytes_def

record SecFragment =
  sf_ApplicationProtocol :: byte
  sf_MessageID :: u32
  sf_Index :: u16
  sf_Count :: u16
  sf_Data :: "byte list option"
  sf_DataSize :: nat

record ReassemblyState =
  ra_Source :: MacAddress
  ra_ApplicationProtocol :: byte
  ra_MessageID :: u32
  ra_Count :: u16
  ra_Fragments :: "byte list list"
  ra_Present :: "bool list"
  ra_Received :: nat

definition ReassemblyState_default :: ReassemblyState where
  "ReassemblyState_default =
     \<lparr>ra_Source = MacAddress 0 0 0 0 0 0, ra_ApplicationProtocol = 0, ra_MessageID = 0, ra_Count = 0,
      ra_Fragments = replicate MaximumFragments [], ra_Present = replicate MaximumFragments False,
      ra_Received = 0\<rparr>"

definition Reset :: "ReassemblyState \<Rightarrow> ReassemblyState" where
  "Reset st =
     st\<lparr>ra_Source := MacAddress 0 0 0 0 0 0, ra_ApplicationProtocol := 0, ra_MessageID := 0, ra_Count := 0,
        ra_Received := 0, ra_Present := map (\<lambda>_. False) (ra_Present st),
        ra_Fragments := map (\<lambda>_. []) (ra_Fragments st)\<rparr>"

definition ReleaseStorage :: "ReassemblyState \<Rightarrow> ReassemblyState" where
  "ReleaseStorage st = (Reset st)\<lparr>ra_Fragments := map (\<lambda>_. []) (ra_Fragments (Reset st))\<rparr>"


section \<open>Encoding and decoding\<close>

definition Append16 :: "u16 \<Rightarrow> byte list \<Rightarrow> byte list" where
  "Append16 value out = out @ [ucast value, ucast (drop_bit 8 value)]"

fun append32_loop :: "nat \<Rightarrow> nat \<Rightarrow> u32 \<Rightarrow> byte list \<Rightarrow> byte list" where
  "append32_loop 0 index value out = out"
| "append32_loop (Suc n) index value out =
     append32_loop n (Suc index) value (out @ [ucast (drop_bit (index * 8) value)])"

definition Append32 :: "u32 \<Rightarrow> byte list \<Rightarrow> byte list" where
  "Append32 value out = append32_loop 4 0 value out"

definition EncodeFragmentPayload ::
  "byte \<Rightarrow> u32 \<Rightarrow> u16 \<Rightarrow> u16 \<Rightarrow> byte list option \<Rightarrow> nat \<Rightarrow> bool \<times> byte list" where
  "EncodeFragmentPayload applicationProtocol messageID index count data len =
     (if count = 0 \<or> unat count > MaximumFragments \<or> index \<ge> count \<or> len > MaximumFragmentPayload
         \<or> data = None \<and> len \<noteq> 0 then (False, [])
      else
        let out = Append32 SecMagic [];
            out = out @ [SecVersion] @ [0] @ [applicationProtocol];
            out = Append32 messageID out;
            out = Append16 index out;
            out = Append16 count out in
        (True, if len \<noteq> 0 then out @ take len (the data) else out))"

definition EncodeFragment :: "SecFragment \<Rightarrow> bool \<times> byte list" where
  "EncodeFragment f =
     EncodeFragmentPayload (sf_ApplicationProtocol f) (sf_MessageID f) (sf_Index f) (sf_Count f)
       (sf_Data f) (sf_DataSize f)"

text \<open>The reads take the input, its size and the running offset; \<^const>\<open>None\<close> is a short input.\<close>

definition Read8 :: "byte list \<Rightarrow> nat \<Rightarrow> nat \<Rightarrow> (byte \<times> nat) option" where
  "Read8 input len offset = (if offset + 1 > len then None else Some (input ! offset, offset + 1))"

definition Read16 :: "byte list \<Rightarrow> nat \<Rightarrow> nat \<Rightarrow> (u16 \<times> nat) option" where
  "Read16 input len offset =
     (if offset + 2 > len then None
      else Some (ucast (input ! offset) OR push_bit 8 (ucast (input ! (offset + 1))), offset + 2))"

definition Read32 :: "byte list \<Rightarrow> nat \<Rightarrow> nat \<Rightarrow> (u32 \<times> nat) option" where
  "Read32 input len offset =
     (if offset + 4 > len then None
      else Some (foldl (\<lambda>value index. value OR push_bit (index * 8) (ucast (input ! (offset + index)))) 0 [0..<4],
                 offset + 4))"

definition DecodeFragment :: "byte list option \<Rightarrow> nat \<Rightarrow> SecFragment option" where
  "DecodeFragment data len =
     (case data of
        None \<Rightarrow> None
      | Some input \<Rightarrow>
          if len < SecHeaderSize then None
          else case Read32 input len 0 of None \<Rightarrow> None | Some (magic, o1) \<Rightarrow>
            case Read8 input len o1 of None \<Rightarrow> None | Some (version, o2) \<Rightarrow>
            case Read8 input len o2 of None \<Rightarrow> None | Some (flags, o3) \<Rightarrow>
            case Read8 input len o3 of None \<Rightarrow> None | Some (protocol, o4) \<Rightarrow>
            case Read32 input len o4 of None \<Rightarrow> None | Some (messageID, o5) \<Rightarrow>
            case Read16 input len o5 of None \<Rightarrow> None | Some (index, o6) \<Rightarrow>
            case Read16 input len o6 of None \<Rightarrow> None | Some (count, o7) \<Rightarrow>
              if magic \<noteq> SecMagic \<or> version \<noteq> SecVersion \<or> count = 0 \<or> unat count > MaximumFragments
                 \<or> index \<ge> count \<or> len - o7 > MaximumFragmentPayload then None
              else Some \<lparr>sf_ApplicationProtocol = protocol, sf_MessageID = messageID, sf_Index = index,
                sf_Count = count, sf_Data = Some (drop o7 (take len input)), sf_DataSize = len - o7\<rparr>)"

fun fragment_loop ::
  "byte \<Rightarrow> u32 \<Rightarrow> byte list \<Rightarrow> nat \<Rightarrow> nat list \<Rightarrow> byte list list \<Rightarrow> bool \<times> byte list list" where
  "fragment_loop protocol messageID data count [] frames = (True, frames)"
| "fragment_loop protocol messageID data count (index # rest) frames =
     (let offset = index * MaximumFragmentPayload;
          bytes = min MaximumFragmentPayload (length data - offset);
          (ok, encoded) = EncodeFragmentPayload protocol messageID (of_nat index) (of_nat count)
             (Some (drop offset data)) bytes in
      if ok then fragment_loop protocol messageID data count rest (frames @ [encoded]) else (False, frames))"

definition FragmentEnvelope :: "byte \<Rightarrow> u32 \<Rightarrow> byte list option \<Rightarrow> nat \<Rightarrow> bool \<times> byte list list" where
  "FragmentEnvelope protocol messageID data len =
     (if data = None \<and> len \<noteq> 0 \<or> len = 0 \<or> len > MaximumEnvelopeBytes then (False, [])
      else
        let count = (len + MaximumFragmentPayload - 1) div MaximumFragmentPayload in
        if count = 0 \<or> count > MaximumFragments then (False, [])
        else fragment_loop protocol messageID (take len (the data)) count [0..<count] [])"


section \<open>Reassembly\<close>

definition matches :: "ReassemblyState \<Rightarrow> MacAddress \<Rightarrow> SecFragment \<Rightarrow> bool" where
  "matches st source f \<longleftrightarrow>
     \<not> (ra_MessageID st = 0 \<or> ra_MessageID st \<noteq> sf_MessageID f \<or> ra_Source st \<noteq> source
        \<or> ra_Count st \<noteq> sf_Count f \<or> ra_ApplicationProtocol st \<noteq> sf_ApplicationProtocol f)"

definition begin_message :: "ReassemblyState \<Rightarrow> MacAddress \<Rightarrow> SecFragment \<Rightarrow> ReassemblyState" where
  "begin_message st source f =
     (if matches st source f then st
      else (Reset st)\<lparr>ra_Source := source, ra_ApplicationProtocol := sf_ApplicationProtocol f,
             ra_MessageID := sf_MessageID f, ra_Count := sf_Count f\<rparr>)"

definition store_fragment :: "ReassemblyState \<Rightarrow> SecFragment \<Rightarrow> ReassemblyState" where
  "store_fragment st f =
     (let i = unat (sf_Index f) in
      if \<not> ra_Present st ! i
      then st\<lparr>ra_Fragments := (ra_Fragments st)[i := take (sf_DataSize f) (case sf_Data f of None \<Rightarrow> [] | Some d \<Rightarrow> d)],
              ra_Present := (ra_Present st)[i := True], ra_Received := ra_Received st + 1\<rparr>
      else st)"

text \<open>The result: success, the new state and the content of \<^verbatim>\<open>completed\<close>.\<close>

definition AcceptFragment ::
  "ReassemblyState \<Rightarrow> MacAddress \<Rightarrow> SecFragment \<Rightarrow> bool \<times> ReassemblyState \<times> byte list" where
  "AcceptFragment st source f =
     (if sf_Count f = 0 \<or> unat (sf_Count f) > MaximumFragments \<or> sf_Index f \<ge> sf_Count f
         \<or> sf_Data f = None \<and> sf_DataSize f \<noteq> 0 \<or> sf_DataSize f > MaximumFragmentPayload
      then (False, st, [])
      else
        let st = store_fragment (begin_message st source f) f in
        if ra_Received st \<noteq> unat (ra_Count st) then (True, st, [])
        else
          let parts = map (\<lambda>i. ra_Fragments st ! i) [0..<unat (ra_Count st)];
              total = sum_list (map length parts) in
          if total > MaximumEnvelopeBytes then (False, Reset st, [])
          else (True, Reset st, concat parts))"

end
