(* ===== verification/Security_Props.thy ===== *)
theory Security_Props
  imports Security_Protocol
begin

text \<open>
  The Security fragments interpret the wire contract and their reassembly interprets the reassembly
  contract: an envelope that was split is delivered by the receiver, whatever the order and however often
  its fragments arrive, exactly when the last missing one does.
\<close>

section \<open>The wire form\<close>

type_synonym sec_header = "byte \<times> u32 \<times> u16 \<times> u16"

fun sec_bytes :: "sec_header \<Rightarrow> byte list \<Rightarrow> byte list" where
  "sec_bytes (protocol, messageID, index, count) d =
     le_bytes 4 SecMagic @ [SecVersion, 0, protocol] @ le_bytes 4 messageID @ le_bytes 2 index @ le_bytes 2 count @ d"

fun sec_valid :: "sec_header \<Rightarrow> byte list \<Rightarrow> bool" where
  "sec_valid (protocol, messageID, index, count) d \<longleftrightarrow>
     count \<noteq> 0 \<and> unat count \<le> MaximumFragments \<and> index < count \<and> length d \<le> MaximumFragmentPayload"

fun sec_fragment_of :: "sec_header \<Rightarrow> byte list \<Rightarrow> SecFragment" where
  "sec_fragment_of (protocol, messageID, index, count) d =
     \<lparr>sf_ApplicationProtocol = protocol, sf_MessageID = messageID, sf_Index = index, sf_Count = count,
      sf_Data = Some d, sf_DataSize = length d\<rparr>"

definition sec_header_of :: "SecFragment \<Rightarrow> sec_header" where
  "sec_header_of f = (sf_ApplicationProtocol f, sf_MessageID f, sf_Index f, sf_Count f)"

lemma Append32_eq: "Append32 w out = out @ le_bytes 4 w"
  by (simp add: Append32_def numeral_eq_Suc drop_bit_drop_bit)

lemma Append16_eq: "Append16 w out = out @ le_bytes 2 w"
  by (simp add: Append16_def le_bytes_2)

lemma EncodeFragmentPayload_eq:
  "EncodeFragmentPayload p i k n (Some d) (length d) =
     (if sec_valid (p, i, k, n) d then (True, sec_bytes (p, i, k, n) d) else (False, []))"
  by (auto simp: EncodeFragmentPayload_def Append32_eq Append16_eq Let_def)

lemma Read32_eq:
  assumes "offset + 4 \<le> len" "len \<le> length input"
  shows "Read32 input len offset = Some (le_word (take 4 (drop offset input)), offset + 4)"
proof -
  have "take 4 (drop offset input) = [input ! offset, input ! (offset + 1), input ! (offset + 2), input ! (offset + 3)]"
    using assms by (intro nth_equalityI) (auto simp: less_Suc_eq numeral_eq_Suc)
  moreover have "[0..<4] = [0, 1, 2, 3 :: nat]" by (simp add: upt_rec)
  ultimately show ?thesis using assms by (simp add: Read32_def le_word_4 or.assoc)
qed

lemma Read16_eq:
  assumes "offset + 2 \<le> len" "len \<le> length input"
  shows "Read16 input len offset = Some (le_word (take 2 (drop offset input)), offset + 2)"
proof -
  have "take 2 (drop offset input) = [input ! offset, input ! (offset + 1)]"
    using assms by (intro nth_equalityI) (auto simp: less_Suc_eq numeral_eq_Suc)
  then show ?thesis using assms by (simp add: Read16_def le_word_2)
qed

lemma DecodeFragment_eq:
  assumes "SecHeaderSize \<le> length bs"
  shows "DecodeFragment (Some bs) (length bs) =
    (let h = (bs ! 6, le_word (take 4 (drop 7 bs)), le_word (take 2 (drop 11 bs)), le_word (take 2 (drop 13 bs)));
         d = drop 15 bs in
     if le_word (take 4 bs) = SecMagic \<and> bs ! 4 = SecVersion \<and> sec_valid h d then Some (sec_fragment_of h d) else None)"
  using assms
  by (auto simp: DecodeFragment_def SecHeaderSize_def Read32_eq Read16_eq Read8_def Let_def not_less)

lemma DecodeFragment_bytes:
  assumes "sec_valid h d"
  shows "DecodeFragment (Some (sec_bytes h d)) (length (sec_bytes h d)) = Some (sec_fragment_of h d)"
proof -
  obtain p i k n where h: "h = (p, i, k, n)" by (cases h)
  have d: "drop 7 (sec_bytes h d) = le_bytes 4 i @ le_bytes 2 k @ le_bytes 2 n @ d"
    "drop 11 (sec_bytes h d) = le_bytes 2 k @ le_bytes 2 n @ d" "drop 13 (sec_bytes h d) = le_bytes 2 n @ d"
    "drop 15 (sec_bytes h d) = d" "take 4 (sec_bytes h d) = le_bytes 4 SecMagic"
    "sec_bytes h d ! 4 = SecVersion" "sec_bytes h d ! 6 = p" "SecHeaderSize \<le> length (sec_bytes h d)"
    by (simp_all add: h SecHeaderSize_def nth_append)
  show ?thesis unfolding DecodeFragment_eq [OF d(8)] d Let_def using assms h by simp
qed

interpretation security_wire: wire_codec "sec_bytes"
  "\<lambda>bs. map_option (\<lambda>f. (sec_header_of f, the (sf_Data f))) (DecodeFragment (Some bs) (length bs))" sec_valid
proof
  fix h d assume "sec_valid h d"
  then show "map_option (\<lambda>f. (sec_header_of f, the (sf_Data f)))
      (DecodeFragment (Some (sec_bytes h d)) (length (sec_bytes h d))) = Some (h, d)"
    by (simp only: DecodeFragment_bytes) (cases h, simp add: sec_header_of_def)
next
  fix bs h d
  assume r: "map_option (\<lambda>f. (sec_header_of f, the (sf_Data f))) (DecodeFragment (Some bs) (length bs)) = Some (h, d)"
  then have "SecHeaderSize \<le> length bs" by (auto simp: DecodeFragment_def not_less split: if_splits)
  with r show "sec_valid h d"
    by (auto simp: DecodeFragment_eq Let_def sec_header_of_def split: if_splits)
qed



section \<open>Splitting\<close>

lemma sec_sizes: "MaximumFragmentPayload = 227" "MaximumFragments = 8" "MaximumEnvelopeBytes = 1816"
  by (simp_all add: sec_constants)

definition sec_count :: "byte list \<Rightarrow> nat" where
  "sec_count payload = ceil_div (length payload) MaximumFragmentPayload"

definition sec_header :: "byte \<Rightarrow> u32 \<Rightarrow> byte list \<Rightarrow> nat \<Rightarrow> sec_header" where
  "sec_header protocol messageID payload i = (protocol, messageID, of_nat i, of_nat (sec_count payload))"

abbreviation sec_chunk :: "byte list \<Rightarrow> nat \<Rightarrow> byte list" where
  "sec_chunk payload i \<equiv> chunk MaximumFragmentPayload payload i"

definition envelope_ok :: "byte list \<Rightarrow> bool" where
  "envelope_ok payload \<longleftrightarrow> payload \<noteq> [] \<and> length payload \<le> MaximumEnvelopeBytes"

lemma sec_count_bounds:
  assumes "envelope_ok payload"
  shows "0 < sec_count payload" "sec_count payload \<le> MaximumFragments"
proof -
  show "0 < sec_count payload"
    using assms by (simp add: sec_count_def envelope_ok_def sec_sizes ceil_div_pos)
  have "\<not> 8 < ceil_div (length payload) 227"
    using assms less_ceil_div_iff [of 227 8 "length payload"] by (simp add: envelope_ok_def sec_sizes)
  then show "sec_count payload \<le> MaximumFragments" by (simp add: sec_count_def sec_sizes)
qed

lemma sec_header_valid:
  assumes "envelope_ok payload" "i < sec_count payload"
  shows "sec_valid (sec_header protocol messageID payload i) (sec_chunk payload i)"
proof -
  note b = sec_count_bounds [OF assms(1)]
  have n: "unat (of_nat (sec_count payload) :: u16) = sec_count payload"
    "unat (of_nat i :: u16) = i" using b assms(2) by (simp_all add: sec_sizes)
  moreover have "(of_nat (sec_count payload) :: u16) \<noteq> 0" using b(1) n(1) by (metis less_irrefl unat_0)
  ultimately show ?thesis
    using assms(2) b(2) by (simp add: sec_header_def word_less_nat_alt length_chunk)
qed

lemma EncodeFragmentPayload_take:
  "EncodeFragmentPayload p i k n (Some d) m = EncodeFragmentPayload p i k n (Some (take m d)) m"
  by (simp add: EncodeFragmentPayload_def Let_def)

lemma fragment_loop_eq:
  assumes "envelope_ok payload" "set is' \<subseteq> {..<sec_count payload}"
  shows "fragment_loop protocol messageID payload (sec_count payload) is' frames =
    (True, frames @ map (\<lambda>i. sec_bytes (sec_header protocol messageID payload i) (sec_chunk payload i)) is')"
  using assms(2)
proof (induction is' arbitrary: frames)
  case (Cons i rest)
  then have i: "i < sec_count payload" by simp
  have len: "min MaximumFragmentPayload (length payload - i * MaximumFragmentPayload) = length (sec_chunk payload i)"
    by (simp add: length_chunk)
  have "EncodeFragmentPayload protocol messageID (of_nat i) (of_nat (sec_count payload))
      (Some (drop (i * MaximumFragmentPayload) payload)) (length (sec_chunk payload i))
    = EncodeFragmentPayload protocol messageID (of_nat i) (of_nat (sec_count payload))
      (Some (sec_chunk payload i)) (length (sec_chunk payload i))"
    by (subst EncodeFragmentPayload_take) (simp add: chunk_def min_def)
  also have "\<dots> = (True, sec_bytes (sec_header protocol messageID payload i) (sec_chunk payload i))"
    unfolding EncodeFragmentPayload_eq using sec_header_valid [OF assms(1) i, of protocol messageID]
    by (simp add: sec_header_def)
  finally show ?case using Cons.IH Cons.prems by (simp add: Let_def len)
qed simp

lemma FragmentEnvelope_eq:
  assumes "envelope_ok payload"
  shows "FragmentEnvelope protocol messageID (Some payload) (length payload) =
    (True, map (\<lambda>i. sec_bytes (sec_header protocol messageID payload i) (sec_chunk payload i)) [0..<sec_count payload])"
proof -
  have "(length payload + MaximumFragmentPayload - 1) div MaximumFragmentPayload = sec_count payload"
    by (simp add: sec_count_def ceil_div_def)
  then show ?thesis
    using assms sec_count_bounds [OF assms] fragment_loop_eq [OF assms, of "[0..<sec_count payload]"]
    by (simp add: FragmentEnvelope_def envelope_ok_def Let_def lessThan_atLeast0)
qed


section \<open>Reassembly\<close>

definition sec_fragment :: "byte \<Rightarrow> u32 \<Rightarrow> byte list \<Rightarrow> nat \<Rightarrow> SecFragment" where
  "sec_fragment protocol messageID payload i =
     sec_fragment_of (sec_header protocol messageID payload i) (sec_chunk payload i)"

definition sec_accept ::
  "MacAddress \<Rightarrow> byte \<Rightarrow> u32 \<Rightarrow> byte list \<Rightarrow> ReassemblyState \<Rightarrow> nat \<Rightarrow> byte list option \<times> ReassemblyState" where
  "sec_accept source protocol messageID payload st i =
     (case AcceptFragment st source (sec_fragment protocol messageID payload i) of
        (ok, st', completed) \<Rightarrow> (if completed = [] then None else Some completed, st'))"

definition sec_current :: "MacAddress \<Rightarrow> byte \<Rightarrow> u32 \<Rightarrow> byte list \<Rightarrow> ReassemblyState \<Rightarrow> bool" where
  "sec_current source protocol messageID payload st \<longleftrightarrow>
     ra_MessageID st \<noteq> 0 \<and> ra_MessageID st = messageID \<and> ra_Source st = source
     \<and> ra_Count st = of_nat (sec_count payload) \<and> ra_ApplicationProtocol st = protocol"

definition present_set :: "ReassemblyState \<Rightarrow> nat set" where
  "present_set st = {i. i < length (ra_Present st) \<and> ra_Present st ! i}"

definition sec_seen :: "MacAddress \<Rightarrow> byte \<Rightarrow> u32 \<Rightarrow> byte list \<Rightarrow> ReassemblyState \<Rightarrow> nat set" where
  "sec_seen source protocol messageID payload st =
     (if sec_current source protocol messageID payload st then present_set st else {})"

definition state_sized :: "ReassemblyState \<Rightarrow> bool" where
  "state_sized st \<longleftrightarrow> length (ra_Fragments st) = MaximumFragments \<and> length (ra_Present st) = MaximumFragments"

definition holds_pieces :: "byte list \<Rightarrow> ReassemblyState \<Rightarrow> bool" where
  "holds_pieces payload st \<longleftrightarrow>
     present_set st \<subset> {..<sec_count payload} \<and> ra_Received st = card (present_set st)
     \<and> (\<forall>i \<in> present_set st. ra_Fragments st ! i = sec_chunk payload i)"

definition sec_invar :: "MacAddress \<Rightarrow> byte \<Rightarrow> u32 \<Rightarrow> byte list \<Rightarrow> ReassemblyState \<Rightarrow> bool" where
  "sec_invar source protocol messageID payload st \<longleftrightarrow>
     messageID \<noteq> 0 \<and> envelope_ok payload \<and> state_sized st
     \<and> (sec_current source protocol messageID payload st \<longrightarrow> holds_pieces payload st)"

lemma sec_begin:
  assumes "sec_invar source protocol messageID payload st"
    and st1: "st1 = begin_message st source (sec_fragment protocol messageID payload i)"
  shows "sec_current source protocol messageID payload st1" "state_sized st1" "holds_pieces payload st1"
    "present_set st1 = sec_seen source protocol messageID payload st"
proof -
  have m: "matches st source (sec_fragment protocol messageID payload i) = sec_current source protocol messageID payload st"
    by (auto simp: matches_def sec_current_def sec_fragment_def sec_header_def)
  have pos: "{} \<subset> {..<sec_count payload}"
    using sec_count_bounds assms(1) by (auto simp: sec_invar_def)
  have fresh: "present_set (Reset st\<lparr>ra_Source := s, ra_ApplicationProtocol := p, ra_MessageID := mi, ra_Count := c\<rparr>) = {}"
    for s p mi c by (auto simp: present_set_def Reset_def)
  show "sec_current source protocol messageID payload st1" "state_sized st1" "holds_pieces payload st1"
    "present_set st1 = sec_seen source protocol messageID payload st"
    using assms(1) pos fresh unfolding st1 begin_message_def m
    by (auto simp: sec_invar_def sec_seen_def sec_current_def state_sized_def holds_pieces_def Reset_def
        sec_fragment_def sec_header_def)
qed


lemma sec_store:
  assumes "holds_pieces payload st" "state_sized st" "i < sec_count payload" "envelope_ok payload"
    and st2: "st2 = store_fragment st (sec_fragment protocol messageID payload i)"
  shows "state_sized st2" "present_set st2 = insert i (present_set st)"
    "ra_Received st2 = card (insert i (present_set st))"
    "\<forall>j \<in> present_set st2. ra_Fragments st2 ! j = sec_chunk payload j"
    "sec_current source protocol messageID payload st2 = sec_current source protocol messageID payload st"
proof -
  have i: "unat (of_nat i :: u16) = i" "i < length (ra_Present st)" "i < length (ra_Fragments st)"
    using assms(2,3) sec_count_bounds(2) [OF assms(4)] by (simp_all add: state_sized_def sec_sizes)
  have idx: "unat (sf_Index (sec_fragment protocol messageID payload i)) = i"
    "sf_Data (sec_fragment protocol messageID payload i) = Some (sec_chunk payload i)"
    "sf_DataSize (sec_fragment protocol messageID payload i) = length (sec_chunk payload i)"
    using i(1) by (simp_all add: sec_fragment_def sec_header_def)
  have fin: "finite (present_set st)" by (rule finite_subset [of _ "{..<length (ra_Present st)}"]) (auto simp: present_set_def)
  have mem: "ra_Present st ! i \<longleftrightarrow> i \<in> present_set st" using i(2) by (simp add: present_set_def)
  have upd: "present_set (st\<lparr>ra_Fragments := fs, ra_Present := (ra_Present st)[i := True], ra_Received := r\<rparr>)
      = insert i (present_set st)" for fs r
    using i(2) by (auto simp: present_set_def nth_list_update)
  have frag: "(ra_Fragments st)[i := sec_chunk payload i] ! j = sec_chunk payload j" if "j = i \<or> j \<in> present_set st" for j
    using that assms(1) i(3) by (auto simp: holds_pieces_def nth_list_update)
  have eq: "st2 = (if i \<in> present_set st then st else st\<lparr>ra_Fragments := (ra_Fragments st)[i := sec_chunk payload i],
      ra_Present := (ra_Present st)[i := True], ra_Received := ra_Received st + 1\<rparr>)"
    unfolding st2 store_fragment_def Let_def idx mem by simp
  show "state_sized st2" using assms(2) unfolding eq by (simp add: state_sized_def)
  show "present_set st2 = insert i (present_set st)" unfolding eq using upd by auto
  show "ra_Received st2 = card (insert i (present_set st))"
    unfolding eq using assms(1) fin by (auto simp: holds_pieces_def insert_absorb)
  show "\<forall>j \<in> present_set st2. ra_Fragments st2 ! j = sec_chunk payload j"
    unfolding eq using frag upd assms(1) by (auto simp: holds_pieces_def)
  show "sec_current source protocol messageID payload st2 = sec_current source protocol messageID payload st"
    unfolding eq by (simp add: sec_current_def)
qed

lemma sec_parts:
  assumes "\<forall>j \<in> present_set st. ra_Fragments st ! j = sec_chunk payload j" "present_set st = {..<sec_count payload}"
    "envelope_ok payload"
  shows "concat (map (\<lambda>i. ra_Fragments st ! i) [0..<sec_count payload]) = payload"
    "sum_list (map length (map (\<lambda>i. ra_Fragments st ! i) [0..<sec_count payload])) \<le> MaximumEnvelopeBytes"
proof -
  have "map (\<lambda>i. ra_Fragments st ! i) [0..<sec_count payload] = map (sec_chunk payload) [0..<sec_count payload]"
    using assms(1,2) by simp
  then show c: "concat (map (\<lambda>i. ra_Fragments st ! i) [0..<sec_count payload]) = payload"
    unfolding sec_count_def by (simp only:) (rule concat_chunks, simp add: sec_sizes)
  show "sum_list (map length (map (\<lambda>i. ra_Fragments st ! i) [0..<sec_count payload])) \<le> MaximumEnvelopeBytes"
    using assms(3) unfolding length_concat [symmetric] c by (simp add: envelope_ok_def)
qed

lemma sec_guard:
  assumes "sec_valid h d" "f = sec_fragment_of h d"
  shows "\<not> (sf_Count f = 0 \<or> unat (sf_Count f) > MaximumFragments \<or> sf_Index f \<ge> sf_Count f
      \<or> sf_Data f = None \<and> sf_DataSize f \<noteq> 0 \<or> sf_DataSize f > MaximumFragmentPayload)"
  using assms by (cases h) auto

lemma sec_accept_cases:
  assumes inv: "sec_invar source protocol messageID payload st" and i: "i < sec_count payload"
  shows "if insert i (sec_seen source protocol messageID payload st) = {..<sec_count payload}
    then fst (sec_accept source protocol messageID payload st i) = Some payload
    else fst (sec_accept source protocol messageID payload st i) = None
      \<and> sec_invar source protocol messageID payload (snd (sec_accept source protocol messageID payload st i))
      \<and> sec_seen source protocol messageID payload (snd (sec_accept source protocol messageID payload st i))
        = insert i (sec_seen source protocol messageID payload st)"
proof -
  let ?f = "sec_fragment protocol messageID payload i"
  define st1 where "st1 = begin_message st source ?f"
  define st2 where "st2 = store_fragment st1 ?f"
  have env: "envelope_ok payload" "messageID \<noteq> 0" using inv by (simp_all add: sec_invar_def)
  note b = sec_begin [OF inv st1_def]
  note s = sec_store [OF b(3,2) i env(1) st2_def]
  have cur: "sec_current source protocol messageID payload st2" using s(5) b(1) by simp
  have n: "unat (ra_Count st2) = sec_count payload"
    using cur sec_count_bounds(2) [OF env(1)] by (simp add: sec_current_def sec_sizes)
  have valid: "sec_valid (sec_header protocol messageID payload i) (sec_chunk payload i)"
    by (rule sec_header_valid [OF env(1) i])
  have sub: "insert i (sec_seen source protocol messageID payload st) \<subseteq> {..<sec_count payload}"
    using b(3,4) i by (auto simp: holds_pieces_def)
  have done_iff: "ra_Received st2 = sec_count payload \<longleftrightarrow>
      insert i (sec_seen source protocol messageID payload st) = {..<sec_count payload}"
  proof
    assume "ra_Received st2 = sec_count payload"
    then show "insert i (sec_seen source protocol messageID payload st) = {..<sec_count payload}"
      using card_subset_eq [OF finite_lessThan sub] s(3) b(4) by simp
  next
    assume "insert i (sec_seen source protocol messageID payload st) = {..<sec_count payload}"
    then show "ra_Received st2 = sec_count payload" using s(3) b(4) by simp
  qed
  have guard: "\<not> (sf_Count ?f = 0 \<or> unat (sf_Count ?f) > MaximumFragments \<or> sf_Index ?f \<ge> sf_Count ?f
      \<or> sf_Data ?f = None \<and> sf_DataSize ?f \<noteq> 0 \<or> sf_DataSize ?f > MaximumFragmentPayload)"
    by (rule sec_guard [OF valid]) (simp add: sec_fragment_def)
  have acc: "AcceptFragment st source ?f = (if ra_Received st2 \<noteq> sec_count payload then (True, st2, [])
      else let parts = map (\<lambda>i. ra_Fragments st2 ! i) [0..<sec_count payload] in
        if sum_list (map length parts) > MaximumEnvelopeBytes then (False, Reset st2, [])
        else (True, Reset st2, concat parts))"
    unfolding AcceptFragment_def if_not_P [OF guard] st1_def [symmetric] st2_def [symmetric] Let_def n by (rule refl)
  show ?thesis
  proof (cases "insert i (sec_seen source protocol messageID payload st) = {..<sec_count payload}")
    case True
    have "present_set st2 = {..<sec_count payload}" using s(2) b(4) True by simp
    note parts = sec_parts [OF s(4) this env(1)]
    show ?thesis
      using True acc done_iff parts env(1) by (simp add: sec_accept_def Let_def envelope_ok_def not_less)
  next
    case False
    then have "AcceptFragment st source ?f = (True, st2, [])" using acc done_iff by simp
    moreover have "holds_pieces payload st2"
      using s(2-4) b(4) sub False by (auto simp: holds_pieces_def)
    ultimately show ?thesis
      using False s(1,2) b(4) cur env by (simp add: sec_accept_def sec_invar_def sec_seen_def)
  qed
qed

interpretation sec_reassembly: fragment_reassembly
  "sec_accept source protocol messageID payload" "sec_seen source protocol messageID payload"
  "sec_count payload" payload "sec_invar source protocol messageID payload"
  for source protocol messageID payload
proof
  fix st assume inv: "sec_invar source protocol messageID payload st"
  then show "sec_seen source protocol messageID payload st \<subset> {..<sec_count payload}"
    using sec_count_bounds(1) [of payload] by (auto simp: sec_invar_def sec_seen_def holds_pieces_def)
next
  fix st i assume "sec_invar source protocol messageID payload st" "i < sec_count payload"
    "insert i (sec_seen source protocol messageID payload st) \<noteq> {..<sec_count payload}"
  then show "fst (sec_accept source protocol messageID payload st i) = None
      \<and> sec_invar source protocol messageID payload (snd (sec_accept source protocol messageID payload st i))
      \<and> sec_seen source protocol messageID payload (snd (sec_accept source protocol messageID payload st i))
        = insert i (sec_seen source protocol messageID payload st)"
    using sec_accept_cases by presburger
next
  fix st i assume "sec_invar source protocol messageID payload st" "i < sec_count payload"
    "insert i (sec_seen source protocol messageID payload st) = {..<sec_count payload}"
  then show "fst (sec_accept source protocol messageID payload st i) = Some payload"
    using sec_accept_cases by presburger
qed



section \<open>Properties\<close>

text \<open>A receiver's handling of frame \<open>i\<close> of a sequence of encoded frames.\<close>

definition receive_frame ::
  "MacAddress \<Rightarrow> byte list list \<Rightarrow> ReassemblyState \<Rightarrow> nat \<Rightarrow> byte list option \<times> ReassemblyState" where
  "receive_frame source frames st i =
     (case DecodeFragment (Some (frames ! i)) (length (frames ! i)) of
        None \<Rightarrow> (None, st)
      | Some f \<Rightarrow>
          (case AcceptFragment st source f of
             (ok, st', completed) \<Rightarrow> (if completed = [] then None else Some completed, st')))"

lemma feed_cong:
  "(\<And>s i. i \<in> set is' \<Longrightarrow> f s i = g s i) \<Longrightarrow> feed f s is' = feed g s is'"
  by (induction is' arbitrary: s) (auto split: option.split prod.split)

lemma receive_frame_eq:
  assumes "envelope_ok payload" "i < sec_count payload"
    and frames: "frames = map (\<lambda>i. sec_bytes (sec_header protocol messageID payload i) (sec_chunk payload i)) [0..<sec_count payload]"
  shows "receive_frame source frames st i = sec_accept source protocol messageID payload st i"
proof -
  have nth: "frames ! i = sec_bytes (sec_header protocol messageID payload i) (sec_chunk payload i)"
    using assms(2) by (simp add: frames)
  have "DecodeFragment (Some (frames ! i)) (length (frames ! i)) = Some (sec_fragment protocol messageID payload i)"
    unfolding nth sec_fragment_def by (rule DecodeFragment_bytes [OF sec_header_valid [OF assms(1,2)]])
  then show ?thesis by (simp add: receive_frame_def sec_accept_def)
qed

text \<open>
  C12. A non-empty envelope of at most 1816 bytes is split into at most eight frames that fit the transport.
  A receiver that is not already in the middle of this message, fed these frames in any order, any number
  of times each and with any left-over state of another message, delivers nothing before every frame has
  arrived, and delivers exactly the envelope when the last missing one does.
\<close>

theorem envelope_delivered_any_order:
  assumes "messageID \<noteq> 0" "payload \<noteq> []" "length payload \<le> MaximumEnvelopeBytes"
    and split: "FragmentEnvelope protocol messageID (Some payload) (length payload) = (ok, frames)"
    and "length (ra_Fragments st) = MaximumFragments" "length (ra_Present st) = MaximumFragments"
    and "ra_MessageID st \<noteq> messageID \<or> ra_Source st \<noteq> source" and "set is' \<subseteq> {..<length frames}"
  shows "ok \<and> length frames \<le> MaximumFragments \<and> (\<forall>f \<in> set frames. length f \<le> MaximumFrameSize - 8)
    \<and> fst (feed (receive_frame source frames) st is')
      = (if set is' = {..<length frames} then Some payload else None)"
proof -
  have env: "envelope_ok payload" using assms(2,3) by (simp add: envelope_ok_def)
  have frames: "ok" "frames = map (\<lambda>i. sec_bytes (sec_header protocol messageID payload i) (sec_chunk payload i))
      [0..<sec_count payload]"
    using split FragmentEnvelope_eq [OF env] by simp_all
  have n: "length frames = sec_count payload" by (simp add: frames)
  have inv: "sec_invar source protocol messageID payload st"
    using env assms(1,5-7) by (auto simp: sec_invar_def state_sized_def sec_current_def)
  have none: "sec_seen source protocol messageID payload st = {}"
    using assms(7) by (auto simp: sec_seen_def sec_current_def)
  have "feed (receive_frame source frames) st is' = feed (sec_accept source protocol messageID payload) st is'"
    by (rule feed_cong) (use assms(8) n receive_frame_eq [OF env _ frames(2)] in auto)
  moreover have "fst (feed (sec_accept source protocol messageID payload) st is')
      = (if sec_seen source protocol messageID payload st \<union> set is' = {..<sec_count payload} then Some payload else None)"
    by (rule sec_reassembly.feed_delivers_iff [OF inv]) (use assms(8) n in simp)
  moreover have "\<forall>f \<in> set frames. length f \<le> MaximumFrameSize - 8"
    unfolding frames by (auto simp: sec_header_def length_chunk sec_sizes)
  ultimately show ?thesis using frames(1) n none sec_count_bounds(2) [OF env] by simp
qed

theorem envelope_delivered_any_order_witness:
  "\<exists>frames. FragmentEnvelope 3 7 (Some (replicate 500 1)) (length (replicate 500 (1 :: byte))) = (True, frames)
    \<and> length frames = 3
    \<and> fst (feed (receive_frame (MacAddress 2 0 0 0 0 1) frames) ReassemblyState_default [2, 0, 2, 1])
      = Some (replicate 500 1)"
proof -
  let ?p = "replicate 500 (1 :: byte)"
  have env: "envelope_ok ?p" by (simp add: envelope_ok_def sec_sizes)
  have n: "sec_count ?p = 3" by (simp add: sec_count_def sec_sizes ceil_div_def)
  obtain frames where f: "FragmentEnvelope 3 7 (Some ?p) (length ?p) = (True, frames)" "length frames = 3"
    using FragmentEnvelope_eq [OF env, of 3 7] n by simp
  have "{0, 1, 2} = {..<(3 :: nat)}" by auto
  then show ?thesis
    using envelope_delivered_any_order [OF _ _ _ f(1), of ReassemblyState_default "MacAddress 2 0 0 0 0 1" "[2, 0, 2, 1]"] f
    by (auto simp: ReassemblyState_default_def sec_sizes insert_commute)
qed

end
