(* ===== verification/Secure_Transport.thy ===== *)
theory Secure_Transport
  imports Security_Props Transport_Props
begin

text \<open>
  \<^verbatim>\<open>src/src/ESPressio_ESPNowSecureTransport.hpp\<close>: protected payloads over fragmented frames. The transport it
  is bound to is threaded next to its own state; \<open>handler\<close> is the closure it registers there. The
  \<^verbatim>\<open>TransportSecurity\<close> object belongs to the ESPressio Security library: its state is \<open>'s\<close> and its two
  operations are the parameter \<open>security_api\<close>, with results \<open>'r\<close> and opened payloads \<open>'p\<close>. A call of a
  receive or failure callback is an element of the returned list; \<open>sx_receiveHandler\<close> and
  \<open>sx_failureHandler\<close> say whether the callbacks are set. The replacement cursor is only used modulo eight,
  which divides the range of \<^verbatim>\<open>size_t\<close>, so it is a natural number.
\<close>

section \<open>State\<close>

record ('s, 'r, 'p) security_api =
  sa_Protect :: "byte \<Rightarrow> byte list option \<Rightarrow> nat \<Rightarrow> 's \<Rightarrow> 'r \<times> byte list \<times> 's"
  sa_Unprotect :: "byte \<Rightarrow> byte list \<Rightarrow> 's \<Rightarrow> 'r \<times> 'p \<times> 's"
  sa_Success :: "'r \<Rightarrow> bool"

datatype ('r, 'p) secure_event =
  SecureReceived ESPNowReceivedFrame 'p | SecureFailed ESPNowReceivedFrame 'r

record 's ESPNowSecureTransport =
  sx_security :: "'s option"
  sx_receiveHandler :: bool
  sx_failureHandler :: bool
  sx_reassembly :: "ReassemblyState list"
  sx_nextMessageID :: u32
  sx_replacementCursor :: nat
  sx_initialized :: bool

definition SecureTransport_new :: "'s ESPNowSecureTransport" where
  "SecureTransport_new =
     \<lparr>sx_security = None, sx_receiveHandler = False, sx_failureHandler = False,
      sx_reassembly = replicate 8 ReassemblyState_default, sx_nextMessageID = 1, sx_replacementCursor = 0,
      sx_initialized = False\<rparr>"


section \<open>Lifecycle\<close>

text \<open>The result \<^const>\<open>None\<close> is an exception of the registration.\<close>

definition Secure_Initialize ::
  "('q, 'w) native_api \<Rightarrow> 'h \<Rightarrow> 's \<Rightarrow> 's ESPNowSecureTransport \<times> ('h, 'm, 'o, 'q, 'w) ESPNowTransport
     \<Rightarrow> bool option \<times> 's ESPNowSecureTransport \<times> ('h, 'm, 'o, 'q, 'w) ESPNowTransport" where
  "Secure_Initialize api handler security = (\<lambda>(x, t).
     if sx_initialized x then (Some True, x, t)
     else
       let x = x\<lparr>sx_security := Some security\<rparr>;
           (registered, t) = RegisterProtocolHandler api (protocol_id SecureTransport) (Some handler) t in
       case registered of
         None \<Rightarrow> (None, x, t)
       | Some r \<Rightarrow> (Some r, x\<lparr>sx_initialized := r\<rparr>, t))"

definition Secure_Shutdown ::
  "'s ESPNowSecureTransport \<times> ('h, 'm, 'o, 'q, 'w) ESPNowTransport
     \<Rightarrow> 's ESPNowSecureTransport \<times> ('h, 'm, 'o, 'q, 'w) ESPNowTransport" where
  "Secure_Shutdown = (\<lambda>(x, t).
     if \<not> sx_initialized x then (x, t)
     else
       (x\<lparr>sx_security := None, sx_initialized := False, sx_nextMessageID := 1, sx_replacementCursor := 0,
          sx_reassembly := map ReleaseStorage (sx_reassembly x)\<rparr>,
        UnregisterProtocolHandler (protocol_id SecureTransport) t))"

definition SetReceiveHandler :: "bool \<Rightarrow> 's ESPNowSecureTransport \<Rightarrow> 's ESPNowSecureTransport" where
  "SetReceiveHandler present x = x\<lparr>sx_receiveHandler := present\<rparr>"

definition SetSecurityFailureHandler :: "bool \<Rightarrow> 's ESPNowSecureTransport \<Rightarrow> 's ESPNowSecureTransport" where
  "SetSecurityFailureHandler present x = x\<lparr>sx_failureHandler := present\<rparr>"


section \<open>Sending\<close>

fun secure_send_loop ::
  "('q, 'w) native_api \<Rightarrow> MacAddress \<Rightarrow> byte \<Rightarrow> u32 \<Rightarrow> byte list \<Rightarrow> nat \<Rightarrow> nat list
     \<Rightarrow> ('h, 'm, 'o, 'q, 'w) ESPNowTransport \<Rightarrow> bool \<times> ('h, 'm, 'o, 'q, 'w) ESPNowTransport" where
  "secure_send_loop api destination protocol messageID secured count [] t = (True, t)"
| "secure_send_loop api destination protocol messageID secured count (index # rest) t =
     (let offset = index * MaximumFragmentPayload;
          bytes = min MaximumFragmentPayload (length secured - offset);
          (ok, encoded) = EncodeFragmentPayload protocol messageID (of_nat index) (of_nat count)
             (Some (drop offset secured)) bytes in
      if \<not> ok then (False, t)
      else
        let (sent, t) = Send api destination (protocol_id SecureTransport) (Some encoded) (length encoded) t in
        if \<not> sent then (False, t)
        else secure_send_loop api destination protocol messageID secured count rest t)"

text \<open>The next message identifier, zero skipped.\<close>

definition next_message_id :: "'s ESPNowSecureTransport \<Rightarrow> u32 \<times> 's ESPNowSecureTransport" where
  "next_message_id x =
     (let messageID = sx_nextMessageID x; x = x\<lparr>sx_nextMessageID := messageID + 1\<rparr> in
      if messageID = 0
      then (sx_nextMessageID x, x\<lparr>sx_nextMessageID := sx_nextMessageID x + 1\<rparr>)
      else (messageID, x))"

definition Secure_Send ::
  "('q, 'w) native_api \<Rightarrow> ('s, 'r, 'p) security_api \<Rightarrow> MacAddress \<Rightarrow> byte \<Rightarrow> byte list option \<Rightarrow> nat
     \<Rightarrow> 's ESPNowSecureTransport \<times> ('h, 'm, 'o, 'q, 'w) ESPNowTransport
     \<Rightarrow> bool \<times> 'r option \<times> 's ESPNowSecureTransport \<times> ('h, 'm, 'o, 'q, 'w) ESPNowTransport" where
  "Secure_Send api sec destination protocol payload payloadLength = (\<lambda>(x, t).
     case sx_security x of
       None \<Rightarrow> (False, None, x, t)
     | Some s \<Rightarrow>
         if \<not> sx_initialized x \<or> IsZero destination \<or> payload = None \<and> payloadLength \<noteq> 0
         then (False, None, x, t)
         else
           let (result, secured, s) = sa_Protect sec protocol payload payloadLength s;
               x = x\<lparr>sx_security := Some s\<rparr> in
           if \<not> sa_Success sec result \<or> secured = [] \<or> length secured > MaximumEnvelopeBytes
           then (False, Some result, x, t)
           else
             let (messageID, x) = next_message_id x;
                 fragmentCount = (length secured + MaximumFragmentPayload - 1) div MaximumFragmentPayload in
             if fragmentCount = 0 \<or> fragmentCount > MaximumFragments then (False, Some result, x, t)
             else
               let (ok, t) = secure_send_loop api destination protocol messageID secured fragmentCount
                     [0..<fragmentCount] t in
               (ok, Some result, x, t))"


section \<open>Receiving\<close>

definition slot_of :: "MacAddress \<Rightarrow> u32 \<Rightarrow> ReassemblyState \<Rightarrow> bool" where
  "slot_of source messageID st \<longleftrightarrow> ra_MessageID st = messageID \<and> ra_Source st = source"

definition SlotFor :: "MacAddress \<Rightarrow> u32 \<Rightarrow> 's ESPNowSecureTransport \<Rightarrow> nat \<times> 's ESPNowSecureTransport" where
  "SlotFor source messageID x =
     (case find_index (slot_of source messageID) (sx_reassembly x) of
        Some k \<Rightarrow> (k, x)
      | None \<Rightarrow>
          (case find_index (\<lambda>st. ra_MessageID st = 0) (sx_reassembly x) of
             Some k \<Rightarrow> (k, x)
           | None \<Rightarrow>
               let k = sx_replacementCursor x mod length (sx_reassembly x) in
               (k, x\<lparr>sx_replacementCursor := sx_replacementCursor x + 1,
                     sx_reassembly := (sx_reassembly x)[k := Reset (sx_reassembly x ! k)]\<rparr>)))"

text \<open>The first block of \<^verbatim>\<open>HandleFrame\<close>: the application protocol and envelope to unprotect, if complete.\<close>

definition reassemble_frame ::
  "ESPNowReceivedFrame \<Rightarrow> 's ESPNowSecureTransport \<Rightarrow> (byte \<times> byte list) option \<times> 's ESPNowSecureTransport" where
  "reassemble_frame frame x =
     (case DecodeFragment (Some (rf_Payload frame)) (unat (rf_PayloadLength frame)) of
        None \<Rightarrow> (None, x)
      | Some fragment \<Rightarrow>
          let (k, x) = SlotFor (rf_Source frame) (sf_MessageID fragment) x;
              (ok, st, envelope) = AcceptFragment (sx_reassembly x ! k) (rf_Source frame) fragment;
              x = x\<lparr>sx_reassembly := (sx_reassembly x)[k := st]\<rparr> in
          if \<not> ok \<or> envelope = [] then (None, x)
          else (Some (sf_ApplicationProtocol fragment, envelope), x))"

definition HandleFrame ::
  "('s, 'r, 'p) security_api \<Rightarrow> ESPNowReceivedFrame \<Rightarrow> 's ESPNowSecureTransport
     \<Rightarrow> ('r, 'p) secure_event list \<times> 's ESPNowSecureTransport" where
  "HandleFrame sec frame x =
     (case sx_security x of
        None \<Rightarrow> ([], x)
      | Some s \<Rightarrow>
          (case reassemble_frame frame x of
             (None, x) \<Rightarrow> ([], x)
           | (Some (protocol, envelope), x) \<Rightarrow>
               let (result, opened, s) = sa_Unprotect sec protocol envelope s;
                   x = x\<lparr>sx_security := Some s\<rparr> in
               if \<not> sa_Success sec result
               then (if sx_failureHandler x then [SecureFailed frame result] else [], x)
               else (if sx_receiveHandler x then [SecureReceived frame opened] else [], x)))"

end
