(* ===== verification/Secure_Props.thy ===== *)
theory Secure_Props
  imports Secure_Transport
begin

text \<open>
  The secure transport's slots interpret the reassembly contract as well, and sending and receiving
  compose: what \<^verbatim>\<open>Protect\<close> produced at the sender reaches \<^verbatim>\<open>Unprotect\<close> at the receiver.
\<close>

section \<open>Slots\<close>

lemma Read32_take: "len \<le> length bs \<Longrightarrow> Read32 (take len bs) len off = Read32 bs len off"
  by (cases "off + 4 \<le> len") (simp_all add: Read32_eq take_drop min_def, simp_all add: Read32_def)

lemma Read16_take: "len \<le> length bs \<Longrightarrow> Read16 (take len bs) len off = Read16 bs len off"
  by (cases "off + 2 \<le> len") (simp_all add: Read16_eq take_drop min_def, simp_all add: Read16_def)

lemma Read8_take: "len \<le> length bs \<Longrightarrow> Read8 (take len bs) len off = Read8 bs len off"
  by (simp add: Read8_def)

lemma DecodeFragment_take:
  assumes "len \<le> length bs"
  shows "DecodeFragment (Some bs) len = DecodeFragment (Some (take len bs)) len"
  unfolding DecodeFragment_def option.case Read32_take [OF assms] Read16_take [OF assms] Read8_take [OF assms]
    take_take min.idem by (rule refl)

text \<open>\<open>frames i\<close> is a received frame from \<open>source\<close> carrying fragment \<open>i\<close> of \<open>envelope\<close>.\<close>

definition carries ::
  "MacAddress \<Rightarrow> byte \<Rightarrow> u32 \<Rightarrow> byte list \<Rightarrow> (nat \<Rightarrow> ESPNowReceivedFrame) \<Rightarrow> bool" where
  "carries source protocol messageID envelope frames \<longleftrightarrow>
     (\<forall>i < sec_count envelope. rf_Source (frames i) = source
        \<and> unat (rf_PayloadLength (frames i)) \<le> length (rf_Payload (frames i))
        \<and> frame_data (frames i) = sec_bytes (sec_header protocol messageID envelope i) (sec_chunk envelope i))"

lemma carries_decode:
  assumes "carries source protocol messageID envelope frames" "envelope_ok envelope" "i < sec_count envelope"
  shows "DecodeFragment (Some (rf_Payload (frames i))) (unat (rf_PayloadLength (frames i)))
    = Some (sec_fragment protocol messageID envelope i)" "rf_Source (frames i) = source"
proof -
  let ?b = "sec_bytes (sec_header protocol messageID envelope i) (sec_chunk envelope i)"
  have c: "unat (rf_PayloadLength (frames i)) \<le> length (rf_Payload (frames i))"
    "take (unat (rf_PayloadLength (frames i))) (rf_Payload (frames i)) = ?b" "rf_Source (frames i) = source"
    using assms(1,3) by (auto simp: carries_def frame_data_def)
  have len: "unat (rf_PayloadLength (frames i)) = length ?b" using c(1) unfolding c(2) [symmetric] by simp
  show "DecodeFragment (Some (rf_Payload (frames i))) (unat (rf_PayloadLength (frames i)))
      = Some (sec_fragment protocol messageID envelope i)"
    unfolding DecodeFragment_take [OF c(1)] c(2) unfolding len sec_fragment_def
    by (rule DecodeFragment_bytes [OF sec_header_valid [OF assms(2,3)]])
  show "rf_Source (frames i) = source" by (rule c(3))
qed

definition secure_accept ::
  "(nat \<Rightarrow> ESPNowReceivedFrame) \<Rightarrow> 's ESPNowSecureTransport \<Rightarrow> nat \<Rightarrow> byte list option \<times> 's ESPNowSecureTransport" where
  "secure_accept frames x i = (case reassemble_frame (frames i) x of (r, x') \<Rightarrow> (map_option snd r, x'))"

definition secure_seen ::
  "MacAddress \<Rightarrow> byte \<Rightarrow> u32 \<Rightarrow> byte list \<Rightarrow> 's ESPNowSecureTransport \<Rightarrow> nat set" where
  "secure_seen source protocol messageID envelope x =
     (case find_index (slot_of source messageID) (sx_reassembly x) of
        None \<Rightarrow> {}
      | Some k \<Rightarrow> sec_seen source protocol messageID envelope (sx_reassembly x ! k))"

definition slots_sound :: "'s ESPNowSecureTransport \<Rightarrow> bool" where
  "slots_sound x \<longleftrightarrow> length (sx_reassembly x) = 8 \<and> (\<forall>k < 8. state_sized (sx_reassembly x ! k))"

definition secure_invar ::
  "MacAddress \<Rightarrow> byte \<Rightarrow> u32 \<Rightarrow> byte list \<Rightarrow> (nat \<Rightarrow> ESPNowReceivedFrame) \<Rightarrow> 's ESPNowSecureTransport \<Rightarrow> bool" where
  "secure_invar source protocol messageID envelope frames x \<longleftrightarrow>
     carries source protocol messageID envelope frames \<and> messageID \<noteq> 0 \<and> envelope_ok envelope \<and> slots_sound x
     \<and> (\<forall>j < 8. \<forall>k < 8. slot_of source messageID (sx_reassembly x ! j)
          \<and> slot_of source messageID (sx_reassembly x ! k) \<longrightarrow> j = k)
     \<and> (\<forall>k < 8. slot_of source messageID (sx_reassembly x ! k)
          \<longrightarrow> sec_invar source protocol messageID envelope (sx_reassembly x ! k))"

lemma current_slot: "sec_current source protocol messageID envelope st \<Longrightarrow> slot_of source messageID st"
  by (simp add: sec_current_def slot_of_def)

lemma seen_current: "sec_seen source protocol messageID envelope st \<noteq> {} \<Longrightarrow> slot_of source messageID st"
  by (auto simp: sec_seen_def intro: current_slot split: if_splits)

text \<open>The slot that \<^verbatim>\<open>SlotFor\<close> hands out, and what it leaves of the others.\<close>

lemma SlotFor_spec:
  assumes inv: "secure_invar source protocol messageID envelope frames x"
    and r: "SlotFor source messageID x = (k, x1)"
  shows "k < 8" "slots_sound x1" "sec_invar source protocol messageID envelope (sx_reassembly x1 ! k)"
    "sec_seen source protocol messageID envelope (sx_reassembly x1 ! k)
       = secure_seen source protocol messageID envelope x"
    "\<forall>j < 8. j \<noteq> k \<longrightarrow> \<not> slot_of source messageID (sx_reassembly x1 ! j)"
proof -
  let ?S = "sx_reassembly x"
  have base: "length ?S = 8" "\<forall>k < 8. state_sized (?S ! k)" "messageID \<noteq> 0" "envelope_ok envelope"
    using inv by (simp_all add: secure_invar_def slots_sound_def)
  have idle: "sec_invar source protocol messageID envelope st" "sec_seen source protocol messageID envelope st = {}"
    if "ra_MessageID st = 0" "state_sized st" for st
    using that base(3,4) by (auto simp: sec_invar_def sec_current_def sec_seen_def)
  have reset: "ra_MessageID (Reset st) = 0" "state_sized st \<Longrightarrow> state_sized (Reset st)" for st
    by (simp_all add: Reset_def state_sized_def)
  have "k < 8 \<and> slots_sound x1 \<and> sec_invar source protocol messageID envelope (sx_reassembly x1 ! k)
    \<and> sec_seen source protocol messageID envelope (sx_reassembly x1 ! k) = secure_seen source protocol messageID envelope x
    \<and> (\<forall>j < 8. j \<noteq> k \<longrightarrow> \<not> slot_of source messageID (sx_reassembly x1 ! j))"
  proof (cases "find_index (slot_of source messageID) ?S")
    case (Some k')
    then have "k = k'" "x1 = x" using r by (simp_all add: SlotFor_def)
    then show ?thesis
      using Some find_index_Some [OF Some] inv base(1) by (auto simp: secure_invar_def secure_seen_def)
  next
    case None
    then have none: "\<not> slot_of source messageID (?S ! j)" if "j < 8" for j
      using that base(1) by (simp add: find_index_None)
    have seen: "secure_seen source protocol messageID envelope x = {}" using None by (simp add: secure_seen_def)
    show ?thesis
    proof (cases "find_index (\<lambda>st. ra_MessageID st = 0) ?S")
      case (Some k')
      then have "k = k'" "x1 = x" using r None by (simp_all add: SlotFor_def)
      then show ?thesis
        using find_index_Some [OF Some] none seen idle base inv by (auto simp: secure_invar_def)
    next
      case None': None
      let ?k = "sx_replacementCursor x mod length ?S"
      have k: "k = ?k" "sx_reassembly x1 = ?S[?k := Reset (?S ! ?k)]" "?k < 8"
        using r None None' base(1) by (auto simp: SlotFor_def Let_def)
      then show ?thesis
        using none seen idle reset base by (auto simp: slots_sound_def nth_list_update)
    qed
  qed
  then show "k < 8" "slots_sound x1" "sec_invar source protocol messageID envelope (sx_reassembly x1 ! k)"
    "sec_seen source protocol messageID envelope (sx_reassembly x1 ! k)
       = secure_seen source protocol messageID envelope x"
    "\<forall>j < 8. j \<noteq> k \<longrightarrow> \<not> slot_of source messageID (sx_reassembly x1 ! j)" by blast+
qed


lemma secure_accept_cases:
  assumes inv: "secure_invar source protocol messageID envelope frames x" and i: "i < sec_count envelope"
  shows "if insert i (secure_seen source protocol messageID envelope x) = {..<sec_count envelope}
    then fst (secure_accept frames x i) = Some envelope
    else fst (secure_accept frames x i) = None
      \<and> secure_invar source protocol messageID envelope frames (snd (secure_accept frames x i))
      \<and> secure_seen source protocol messageID envelope (snd (secure_accept frames x i))
        = insert i (secure_seen source protocol messageID envelope x)"
proof -
  have base: "carries source protocol messageID envelope frames" "messageID \<noteq> 0" "envelope_ok envelope"
    using inv by (simp_all add: secure_invar_def)
  note dec = carries_decode [OF base(1,3) i]
  let ?f = "sec_fragment protocol messageID envelope i"
  have fid: "sf_MessageID ?f = messageID" by (simp add: sec_fragment_def sec_header_def)
  obtain k x1 where slot: "SlotFor source messageID x = (k, x1)" by fastforce
  note sl = SlotFor_spec [OF inv slot]
  obtain ok st out where acc: "AcceptFragment (sx_reassembly x1 ! k) source ?f = (ok, st, out)" by (cases rule: prod_cases3)
  let ?x2 = "x1\<lparr>sx_reassembly := (sx_reassembly x1)[k := st]\<rparr>"
  have out_ok: "out \<noteq> [] \<Longrightarrow> ok"
    using acc by (auto simp: AcceptFragment_def Let_def split: if_splits)
  have step: "secure_accept frames x i = (if out = [] then None else Some out, ?x2)"
    using acc out_ok by (auto simp: secure_accept_def reassemble_frame_def dec fid slot)
  have sec: "sec_accept source protocol messageID envelope (sx_reassembly x1 ! k) i = (if out = [] then None else Some out, st)"
    by (simp add: sec_accept_def acc)
  note cases = sec_accept_cases [OF sl(3) i, unfolded sl(4) sec]
  show ?thesis
  proof (cases "insert i (secure_seen source protocol messageID envelope x) = {..<sec_count envelope}")
    case True
    then show ?thesis using cases step by simp
  next
    case False
    then have st: "out = []" "sec_invar source protocol messageID envelope st"
      "sec_seen source protocol messageID envelope st = insert i (secure_seen source protocol messageID envelope x)"
      using cases by (auto split: if_splits)
    have so: "slot_of source messageID st" using st(3) by (intro seen_current [of _ protocol _ envelope]) auto
    have len: "length (sx_reassembly x1) = 8" using sl(2) by (simp add: slots_sound_def)
    have find: "find_index (slot_of source messageID) (sx_reassembly ?x2) = Some k"
      using find_index_update [of k "sx_reassembly x1" "slot_of source messageID" st] so sl(1,5) len by simp
    have "secure_seen source protocol messageID envelope ?x2 = insert i (secure_seen source protocol messageID envelope x)"
      using find sl(1) len st(3) by (simp add: secure_seen_def)
    moreover have "secure_invar source protocol messageID envelope frames ?x2"
      using base sl(1,2,5) st(2) len
      by (auto simp: secure_invar_def slots_sound_def nth_list_update sec_invar_def)
    ultimately show ?thesis using False step st(1) by simp
  qed
qed

interpretation secure_reassembly: fragment_reassembly
  "secure_accept frames" "secure_seen source protocol messageID envelope" "sec_count envelope" envelope
  "secure_invar source protocol messageID envelope frames"
  for frames source protocol messageID envelope
proof
  fix x :: "'a ESPNowSecureTransport" assume inv: "secure_invar source protocol messageID envelope frames x"
  show "secure_seen source protocol messageID envelope x \<subset> {..<sec_count envelope}"
    using sec_reassembly.seen_missing SlotFor_spec(3,4) [OF inv prod.collapse [symmetric]] by metis
next
  fix x :: "'a ESPNowSecureTransport" and i
  assume a: "secure_invar source protocol messageID envelope frames x" "i < sec_count envelope"
    "insert i (secure_seen source protocol messageID envelope x) \<noteq> {..<sec_count envelope}"
  show "fst (secure_accept frames x i) = None
      \<and> secure_invar source protocol messageID envelope frames (snd (secure_accept frames x i))
      \<and> secure_seen source protocol messageID envelope (snd (secure_accept frames x i))
        = insert i (secure_seen source protocol messageID envelope x)"
    using secure_accept_cases [OF a(1,2)] a(3) by simp
next
  fix x :: "'a ESPNowSecureTransport" and i
  assume a: "secure_invar source protocol messageID envelope frames x" "i < sec_count envelope"
    "insert i (secure_seen source protocol messageID envelope x) = {..<sec_count envelope}"
  show "fst (secure_accept frames x i) = Some envelope"
    using secure_accept_cases [OF a(1,2)] a(3) by simp
qed



section \<open>From sender to receiver\<close>

fun send_frames ::
  "('q, 'w) native_api \<Rightarrow> MacAddress \<Rightarrow> byte list list \<Rightarrow> ('h, 'm, 'o, 'q, 'w) ESPNowTransport
     \<Rightarrow> bool \<times> ('h, 'm, 'o, 'q, 'w) ESPNowTransport" where
  "send_frames api destination [] t = (True, t)"
| "send_frames api destination (f # fs) t =
     (case Send api destination (protocol_id SecureTransport) (Some f) (length f) t of
        (sent, t) \<Rightarrow> if sent then send_frames api destination fs t else (False, t))"

lemma secure_send_loop_eq:
  assumes "envelope_ok secured" "set is' \<subseteq> {..<sec_count secured}"
  shows "secure_send_loop api destination protocol messageID secured (sec_count secured) is' t =
    send_frames api destination
      (map (\<lambda>i. sec_bytes (sec_header protocol messageID secured i) (sec_chunk secured i)) is') t"
  using assms(2)
proof (induction is' arbitrary: t)
  case (Cons i rest)
  let ?f = "sec_bytes (sec_header protocol messageID secured i) (sec_chunk secured i)"
  have "fragment_loop protocol messageID secured (sec_count secured) [i] [] = (True, [?f])"
    using fragment_loop_eq [OF assms(1), of "[i]"] Cons.prems by simp
  then have "EncodeFragmentPayload protocol messageID (of_nat i) (of_nat (sec_count secured))
      (Some (drop (i * MaximumFragmentPayload) secured))
      (min MaximumFragmentPayload (length secured - i * MaximumFragmentPayload)) = (True, ?f)"
    by (auto simp: Let_def split: prod.splits if_splits)
  then show ?case using Cons.IH Cons.prems by (simp add: Let_def split: prod.split)
qed simp

lemma next_message_id_nonzero: "fst (next_message_id x) \<noteq> 0"
  by (simp add: next_message_id_def Let_def)

lemma Secure_Send_frames:
  assumes "sx_security x = Some s" "sx_initialized x" "\<not> IsZero destination"
    and prot: "sa_Protect sec protocol (Some payload) (length payload) s = (result, secured, s')"
    and "sa_Success sec result" "envelope_ok secured"
  shows "\<exists>frames. FragmentEnvelope protocol (fst (next_message_id x)) (Some secured) (length secured) = (True, frames)
    \<and> (let r = Secure_Send api sec destination protocol (Some payload) (length payload) (x, t) in
       (fst r, snd (snd (snd r))) = send_frames api destination frames t)"
proof -
  have count: "(length secured + MaximumFragmentPayload - 1) div MaximumFragmentPayload = sec_count secured"
    by (simp add: sec_count_def ceil_div_def)
  have id: "fst (next_message_id (x\<lparr>sx_security := Some s'\<rparr>)) = fst (next_message_id x)"
    by (simp add: next_message_id_def Let_def)
  show ?thesis
    using assms sec_count_bounds [OF assms(6)] secure_send_loop_eq [OF assms(6), of "[0..<sec_count secured]"]
    by (simp add: FragmentEnvelope_eq [OF assms(6)] Secure_Send_def count [unfolded One_nat_def] Let_def split_beta
        id envelope_ok_def lessThan_atLeast0)
qed

fun handle_all ::
  "('s, 'r, 'p) security_api \<Rightarrow> (nat \<Rightarrow> ESPNowReceivedFrame) \<Rightarrow> nat list \<Rightarrow> 's ESPNowSecureTransport
     \<Rightarrow> ('r, 'p) secure_event list \<times> 's ESPNowSecureTransport" where
  "handle_all sec frames [] y = ([], y)"
| "handle_all sec frames (i # rest) y =
     (case HandleFrame sec (frames i) y of
        (es, y1) \<Rightarrow> (case handle_all sec frames rest y1 of (es', y2) \<Rightarrow> (es @ es', y2)))"

lemma handle_all_append:
  "handle_all sec frames (is' @ js) y = (case handle_all sec frames is' y of
     (es, y1) \<Rightarrow> case handle_all sec frames js y1 of (es', y2) \<Rightarrow> (es @ es', y2))"
  by (induction is' arbitrary: y) (auto split: prod.split)

lemma reassemble_frame_fields:
  "sx_security (snd (reassemble_frame f x)) = sx_security x"
  "sx_receiveHandler (snd (reassemble_frame f x)) = sx_receiveHandler x"
  "sx_failureHandler (snd (reassemble_frame f x)) = sx_failureHandler x"
proof -
  have slot: "sx_security (snd (SlotFor a b x)) = sx_security x"
    "sx_receiveHandler (snd (SlotFor a b x)) = sx_receiveHandler x"
    "sx_failureHandler (snd (SlotFor a b x)) = sx_failureHandler x" for a b
    by (simp_all add: SlotFor_def Let_def split: option.split)
  show "sx_security (snd (reassemble_frame f x)) = sx_security x"
    "sx_receiveHandler (snd (reassemble_frame f x)) = sx_receiveHandler x"
    "sx_failureHandler (snd (reassemble_frame f x)) = sx_failureHandler x"
    by (simp_all add: reassemble_frame_def split_beta slot Let_def split: option.split)
qed

lemma reassemble_frame_protocol:
  assumes "carries source protocol messageID envelope frames" "envelope_ok envelope" "i < sec_count envelope"
    and "reassemble_frame (frames i) x = (Some (p, e), x')"
  shows "p = protocol"
proof -
  have "sf_ApplicationProtocol (sec_fragment protocol messageID envelope i) = protocol"
    by (simp add: sec_fragment_def sec_header_def)
  then show ?thesis
    using assms(4) carries_decode [OF assms(1-3)]
    by (simp add: reassemble_frame_def split_beta Let_def split: if_splits)
qed

text \<open>Handling the fragments in any order: no event until the last missing one.\<close>

lemma handle_partial:
  assumes "secure_invar source protocol messageID envelope frames y" "set js \<subseteq> {..<sec_count envelope}"
    and "secure_seen source protocol messageID envelope y \<union> set js \<noteq> {..<sec_count envelope}"
    and "sx_security y = Some r"
  shows "\<exists>y'. handle_all sec frames js y = ([], y') \<and> secure_invar source protocol messageID envelope frames y'
    \<and> secure_seen source protocol messageID envelope y' = secure_seen source protocol messageID envelope y \<union> set js
    \<and> sx_security y' = Some r \<and> sx_receiveHandler y' = sx_receiveHandler y \<and> sx_failureHandler y' = sx_failureHandler y"
  using assms
proof (induction js arbitrary: y)
  case Nil
  then show ?case by simp
next
  case (Cons i js)
  have i: "i < sec_count envelope" and ne: "insert i (secure_seen source protocol messageID envelope y) \<noteq> {..<sec_count envelope}"
    using Cons.prems(2,3) by auto
  obtain a y1 where ra: "reassemble_frame (frames i) y = (a, y1)" by fastforce
  have acc: "secure_accept frames y i = (map_option snd a, y1)" by (simp add: secure_accept_def ra)
  have y1: "a = None" "secure_invar source protocol messageID envelope frames y1"
    "secure_seen source protocol messageID envelope y1 = insert i (secure_seen source protocol messageID envelope y)"
    using secure_reassembly.accept_partial [OF Cons.prems(1) i ne] acc by simp_all
  have keep: "sx_security y1 = Some r" "sx_receiveHandler y1 = sx_receiveHandler y" "sx_failureHandler y1 = sx_failureHandler y"
    using reassemble_frame_fields [of "frames i" y] ra Cons.prems(4) by simp_all
  have "HandleFrame sec (frames i) y = ([], y1)" using Cons.prems(4) ra y1(1) by (simp add: HandleFrame_def)
  moreover obtain y' where "handle_all sec frames js y1 = ([], y')" "secure_invar source protocol messageID envelope frames y'"
    "secure_seen source protocol messageID envelope y' = secure_seen source protocol messageID envelope y1 \<union> set js"
    "sx_security y' = Some r" "sx_receiveHandler y' = sx_receiveHandler y1" "sx_failureHandler y' = sx_failureHandler y1"
    using Cons.IH [OF y1(2) _ _ keep(1)] Cons.prems(2,3) y1(3) by auto
  ultimately show ?case using y1(3) keep by simp
qed

lemma handle_last:
  assumes inv: "secure_invar source protocol messageID envelope frames y" and i: "i < sec_count envelope"
    and full: "insert i (secure_seen source protocol messageID envelope y) = {..<sec_count envelope}"
    and "sx_security y = Some r" and un: "sa_Unprotect sec protocol envelope r = (result, opened, r')"
  shows "fst (HandleFrame sec (frames i) y) =
    (if sa_Success sec result then (if sx_receiveHandler y then [SecureReceived (frames i) opened] else [])
     else (if sx_failureHandler y then [SecureFailed (frames i) result] else []))"
proof -
  have base: "carries source protocol messageID envelope frames" "envelope_ok envelope"
    using inv by (simp_all add: secure_invar_def)
  obtain a y1 where ra: "reassemble_frame (frames i) y = (a, y1)" by fastforce
  have "map_option snd a = Some envelope"
    using secure_reassembly.accept_last [OF inv i full] ra by (simp add: secure_accept_def)
  then obtain p where a: "a = Some (p, envelope)" by auto
  have "p = protocol" by (rule reassemble_frame_protocol [OF base i ra [unfolded a]])
  then show ?thesis
    using assms(4) ra a un reassemble_frame_fields [of "frames i" y] by (simp add: HandleFrame_def)
qed

text \<open>The frames a receiver got from \<open>source\<close>: frame \<open>k\<close> has the bytes of the \<open>k\<close>-th frame that was sent.\<close>

definition received_as :: "MacAddress \<Rightarrow> byte list list \<Rightarrow> (nat \<Rightarrow> ESPNowReceivedFrame) \<Rightarrow> bool" where
  "received_as source fs frames \<longleftrightarrow>
     (\<forall>k < length fs. rf_Source (frames k) = source \<and> frame_data (frames k) = fs ! k
        \<and> unat (rf_PayloadLength (frames k)) \<le> length (rf_Payload (frames k)))"

lemma received_carries:
  assumes "envelope_ok envelope" "FragmentEnvelope protocol messageID (Some envelope) (length envelope) = (built, fs)"
    and "received_as source fs frames"
  shows "built" "length fs = sec_count envelope" "carries source protocol messageID envelope frames"
  using assms(2,3) by (auto simp: FragmentEnvelope_eq [OF assms(1)] received_as_def carries_def)

text \<open>
  C11. End to end: a payload that \<^verbatim>\<open>Protect\<close> turns into an envelope is sent as the fragments the sender builds of it, in
  order, until one is refused. A receiver that is not in the middle of that message and gets the bytes of
  these fragments in any order, possibly repeatedly, calls no handler before the last missing one arrives; then
  it calls \<^verbatim>\<open>Unprotect\<close> on exactly the envelope \<^verbatim>\<open>Protect\<close> produced and hands its outcome, opened payload or
  failure, to the matching handler once.
\<close>

theorem secure_end_to_end:
  assumes "sx_security x = Some s" "sx_initialized x" "\<not> IsZero destination"
    and "sa_Protect sec protocol (Some payload) (length payload) s = (protected, secured, s')"
    and "sa_Success sec protected" "secured \<noteq> []" "length secured \<le> MaximumEnvelopeBytes"
    and fragments: "FragmentEnvelope protocol (fst (next_message_id x)) (Some secured) (length secured) = (built, fs)"
    and received: "received_as source fs frames"
    and "length (sx_reassembly y) = 8" "\<forall>k < 8. state_sized (sx_reassembly y ! k)"
    and idle: "\<forall>k < 8. \<not> slot_of source (fst (next_message_id x)) (sx_reassembly y ! k)"
    and "sx_security y = Some r" "sa_Unprotect sec' protocol secured r = (result, opened, r')"
    and js: "set js \<subset> {..<length fs}" "insert i (set js) = {..<length fs}"
  shows "built
    \<and> (let sent = Secure_Send api sec destination protocol (Some payload) (length payload) (x, t) in
       (fst sent, snd (snd (snd sent))) = send_frames api destination fs t)
    \<and> fst (handle_all sec' frames js y) = []
    \<and> fst (handle_all sec' frames (js @ [i]) y) =
      (if sa_Success sec' result then (if sx_receiveHandler y then [SecureReceived (frames i) opened] else [])
       else (if sx_failureHandler y then [SecureFailed (frames i) result] else []))"
proof -
  let ?id = "fst (next_message_id x)"
  have env: "envelope_ok secured" using assms(6,7) by (simp add: envelope_ok_def)
  note rc = received_carries [OF env fragments received]
  have inv: "secure_invar source protocol ?id secured frames y"
    using rc(3) env assms(10,11) idle next_message_id_nonzero by (simp add: secure_invar_def slots_sound_def)
  have seen: "secure_seen source protocol ?id secured y = {}"
    using idle assms(10) by (auto simp: secure_seen_def dest: find_index_Some split: option.split)
  obtain y' where y': "handle_all sec' frames js y = ([], y')" "secure_invar source protocol ?id secured frames y'"
    "secure_seen source protocol ?id secured y' = set js" "sx_security y' = Some r"
    "sx_receiveHandler y' = sx_receiveHandler y" "sx_failureHandler y' = sx_failureHandler y"
    using handle_partial [OF inv _ _ assms(13), of js sec'] js(1) seen rc(2) by auto
  have i: "i < sec_count secured" using js(2) rc(2) by auto
  have app: "fst (handle_all sec' frames (js @ [i]) y) = fst (HandleFrame sec' (frames i) y')"
    using y'(1) by (auto simp: handle_all_append split: prod.split)
  show ?thesis
    using Secure_Send_frames [OF assms(1-5) env, of api t] fragments rc(1) handle_last [OF y'(2) i _ y'(4) assms(14)] y'(1,3,5,6) js(2) rc(2) app
    by simp
qed


text \<open>A security layer that leaves payloads as they are.\<close>

definition plain_security :: "(unit, bool, byte list) security_api" where
  "plain_security = \<lparr>sa_Protect = (\<lambda>p payload n s. (True, take n (the payload), s)),
     sa_Unprotect = (\<lambda>p e s. (True, e, s)), sa_Success = (\<lambda>r. r)\<rparr>"

definition demo_secure :: "unit ESPNowSecureTransport" where
  "demo_secure = SecureTransport_new\<lparr>sx_security := Some (), sx_receiveHandler := True, sx_initialized := True\<rparr>"

definition demo_secure_frame :: "MacAddress \<Rightarrow> byte list list \<Rightarrow> nat \<Rightarrow> ESPNowReceivedFrame" where
  "demo_secure_frame source fs i =
     ReceivedFrame_default\<lparr>rf_Source := source, rf_PayloadLength := of_nat (length (fs ! i)), rf_Payload := fs ! i\<rparr>"

theorem secure_end_to_end_witness:
  "\<exists>fs. FragmentEnvelope 3 1 (Some (replicate 300 5)) 300 = (True, fs) \<and> length fs = 2
     \<and> fst (handle_all plain_security (demo_secure_frame (MacAddress 2 0 0 0 0 1) fs) ([1, 1] @ [0]) demo_secure)
       = [SecureReceived (demo_secure_frame (MacAddress 2 0 0 0 0 1) fs 0) (replicate 300 5)]"
proof -
  let ?p = "replicate 300 (5 :: byte)" and ?src = "MacAddress 2 0 0 0 0 1"
  have id: "fst (next_message_id demo_secure) = 1"
    by (simp add: next_message_id_def demo_secure_def SecureTransport_new_def)
  have env: "envelope_ok ?p" by (simp add: envelope_ok_def sec_sizes)
  obtain built fs where frag: "FragmentEnvelope 3 (fst (next_message_id demo_secure)) (Some ?p) (length ?p) = (built, fs)"
    by fastforce
  have "length f \<le> 65535" if "f \<in> set fs" for f
    using frag [unfolded FragmentEnvelope_eq [OF env]] that by (auto simp: sec_header_def length_chunk sec_sizes)
  then have rec: "received_as ?src fs (demo_secure_frame ?src fs)"
    by (simp add: received_as_def demo_secure_frame_def frame_data_def)
  have n: "built" "length fs = 2"
    using received_carries [OF env frag rec] by (simp_all add: sec_count_def sec_sizes ceil_div_def)
  have slots: "length (sx_reassembly demo_secure) = 8" "\<forall>k < 8. state_sized (sx_reassembly demo_secure ! k)"
    "\<forall>k < 8. \<not> slot_of ?src (fst (next_message_id demo_secure)) (sx_reassembly demo_secure ! k)"
    unfolding id by (simp_all add: demo_secure_def SecureTransport_new_def ReassemblyState_default_def state_sized_def
        slot_of_def sec_sizes)
  have two: "{..<2} = {0, 1 :: nat}" by auto
  have set: "set [1, 1] \<subset> {..<length fs}" "insert 0 (set [1, 1]) = {..<length fs}"
    unfolding n two by (simp_all add: psubset_eq)
  have dest: "\<not> IsZero ?src" by (simp add: IsZero_iff)
  have ready: "sx_security demo_secure = Some ()" "sx_initialized demo_secure" "sx_receiveHandler demo_secure"
    by (simp_all add: demo_secure_def)
  have prot: "sa_Protect plain_security 3 (Some ?p) (length ?p) () = (True, ?p, ())"
    "sa_Unprotect plain_security 3 ?p () = (True, ?p, ())" "sa_Success plain_security True"
    by (simp_all add: plain_security_def)
  have size: "?p \<noteq> []" "length ?p \<le> MaximumEnvelopeBytes" by (simp_all add: sec_sizes)
  have "fst (handle_all plain_security (demo_secure_frame ?src fs) ([1, 1] @ [0]) demo_secure)
      = [SecureReceived (demo_secure_frame ?src fs 0) ?p]"
    using secure_end_to_end [OF ready(1,2) dest prot(1,3) size frag rec slots ready(1) prot(2) set, THEN conjunct2,
        THEN conjunct2, THEN conjunct2] by (simp only: prot(3) ready(3) if_True)
  moreover have "FragmentEnvelope 3 1 (Some ?p) 300 = (True, fs)" using frag n(1) unfolding id by simp
  ultimately show ?thesis using n(2) by blast
qed

end
