(* ===== verification/Async_Handler.thy ===== *)
theory Async_Handler
  imports ESPNow_Types
begin

text \<open>
  \<^verbatim>\<open>src/src/ESPressio_ESPNowAsyncProtocolHandler.hpp\<close>: a pool of frame slots in front of a task queue. The
  queue is a \<^verbatim>\<open>Task::TaskExecutor\<close> of another library and is the parameter \<open>executor_api\<close>: it is created
  from a task configuration, started and stopped, accepts work items, hands them to its task one after
  another, and reports the items it discards. A work item, a pointer into the pool, is the index of its
  slot. The methods hold the lifecycle lock or the pool lock and are atomic steps; the task runs between
  them. The same parameter serves the outbound task of the Event transport.
\<close>

section \<open>The task library\<close>

record 'p TaskConfiguration =
  tc_Name :: string
  tc_StackSize :: u32
  tc_Priority :: u32
  tc_Core :: "32 word"
  tc_QueueDepth :: nat
  tc_OverflowPolicy :: 'p

text \<open>
  \<open>ex_Submit\<close> and \<open>ex_Stop\<close> return the items for which the executor calls its discard callback;
  \<open>ex_Take\<close> is the executor's task taking the next item; \<open>ex_Alloc\<close> is the success of an allocation.
\<close>

record ('x, 'p, 'w) executor_api =
  ex_Alloc :: "'w \<Rightarrow> bool \<times> 'w"
  ex_Initialize :: "'p TaskConfiguration \<Rightarrow> 'w \<Rightarrow> 'x option \<times> 'w"
  ex_Start :: "'x \<Rightarrow> 'w \<Rightarrow> bool \<times> 'x \<times> 'w"
  ex_Stop :: "'x \<Rightarrow> 'w \<Rightarrow> nat list \<times> 'w"
  ex_Submit :: "nat \<Rightarrow> 'x \<Rightarrow> bool \<times> nat list \<times> 'x"
  ex_Take :: "'x \<Rightarrow> (nat \<times> 'x) option"

text \<open>
  The documented behaviour: a queue of at most \<open>depth\<close> items. An accepted item is appended after the
  executor discarded some of the oldest; a refused one changes nothing; the task takes the oldest.
\<close>

definition executor_contract :: "('x, 'p, 'w) executor_api \<Rightarrow> nat \<Rightarrow> ('x \<Rightarrow> nat list) \<Rightarrow> bool" where
  "executor_contract api depth queued \<longleftrightarrow>
     (\<forall>x. length (queued x) \<le> depth) \<and>
     (\<forall>i x. case ex_Submit api i x of
        (True, discarded, x') \<Rightarrow> (\<exists>kept. queued x = discarded @ kept \<and> queued x' = kept @ [i])
      | (False, discarded, x') \<Rightarrow> discarded = [] \<and> queued x' = queued x) \<and>
     (\<forall>x. case queued x of
        [] \<Rightarrow> ex_Take api x = None
      | i # rest \<Rightarrow> (\<exists>x'. ex_Take api x = Some (i, x') \<and> queued x' = rest))"


section \<open>State\<close>

definition ESPRESSIO_ESPNOW_ASYNC_PROTOCOL_STACK_SIZE :: u32 where "ESPRESSIO_ESPNOW_ASYNC_PROTOCOL_STACK_SIZE = 6144"
definition ESPRESSIO_ESPNOW_ASYNC_PROTOCOL_QUEUE_DEPTH :: nat where "ESPRESSIO_ESPNOW_ASYNC_PROTOCOL_QUEUE_DEPTH = 8"
definition ESPRESSIO_ESPNOW_ASYNC_PROTOCOL_PRIORITY :: u32 where "ESPRESSIO_ESPNOW_ASYNC_PROTOCOL_PRIORITY = 2"

record 'p AsyncConfiguration =
  ac_Name :: string
  ac_StackSize :: u32
  ac_Priority :: u32
  ac_Core :: "32 word"
  ac_QueueDepth :: nat
  ac_OverflowPolicy :: 'p

text \<open>The default overflow policy, \<^verbatim>\<open>TaskQueueOverflowPolicy::Reject\<close>, is a value of the task library.\<close>

definition AsyncConfiguration_default :: "'p \<Rightarrow> 'p AsyncConfiguration" where
  "AsyncConfiguration_default reject =
     \<lparr>ac_Name = ''espnowProtocol'', ac_StackSize = ESPRESSIO_ESPNOW_ASYNC_PROTOCOL_STACK_SIZE,
      ac_Priority = ESPRESSIO_ESPNOW_ASYNC_PROTOCOL_PRIORITY, ac_Core = - 1,
      ac_QueueDepth = ESPRESSIO_ESPNOW_ASYNC_PROTOCOL_QUEUE_DEPTH, ac_OverflowPolicy = reject\<rparr>"

record ('h, 'x, 'p) ESPNowAsyncProtocolHandler =
  ah_configuration :: "'p AsyncConfiguration"
  ah_executor :: "'x option"
  ah_frames :: "ESPNowReceivedFrame list"
  ah_slotInUse :: "byte list"
  ah_handler :: "'h option"
  ah_handoffRejected :: u64
  ah_initialized :: bool

definition AsyncProtocolHandler_new :: "'p \<Rightarrow> ('h, 'x, 'p) ESPNowAsyncProtocolHandler" where
  "AsyncProtocolHandler_new reject =
     \<lparr>ah_configuration = AsyncConfiguration_default reject, ah_executor = None, ah_frames = [], ah_slotInUse = [],
      ah_handler = None, ah_handoffRejected = 0, ah_initialized = False\<rparr>"


section \<open>The pool\<close>

definition AcquireFrame ::
  "ESPNowReceivedFrame \<Rightarrow> ('h, 'x, 'p) ESPNowAsyncProtocolHandler \<Rightarrow> nat option \<times> ('h, 'x, 'p) ESPNowAsyncProtocolHandler" where
  "AcquireFrame frame a =
     (case find_index (\<lambda>s. s = 0) (take (length (ah_frames a)) (ah_slotInUse a)) of
        None \<Rightarrow> (None, a)
      | Some i \<Rightarrow> (Some i, a\<lparr>ah_slotInUse := (ah_slotInUse a)[i := 1], ah_frames := (ah_frames a)[i := frame]\<rparr>))"

definition ReleaseFrame :: "nat \<Rightarrow> ('h, 'x, 'p) ESPNowAsyncProtocolHandler \<Rightarrow> ('h, 'x, 'p) ESPNowAsyncProtocolHandler" where
  "ReleaseFrame i a =
     (if ah_frames a = [] then a
      else if i \<ge> length (ah_frames a) then a
      else a\<lparr>ah_slotInUse := (ah_slotInUse a)[i := 0]\<rparr>)"

text \<open>The frame given to the handler, if there is one, and the released pool.\<close>

definition ProcessFrame ::
  "nat \<Rightarrow> ('h, 'x, 'p) ESPNowAsyncProtocolHandler \<Rightarrow> ('h \<times> ESPNowReceivedFrame) option \<times> ('h, 'x, 'p) ESPNowAsyncProtocolHandler" where
  "ProcessFrame i a =
     (map_option (\<lambda>h. (h, ah_frames a ! i)) (ah_handler a), ReleaseFrame i a)"


section \<open>Lifecycle\<close>

definition clear_pool :: "('h, 'x, 'p) ESPNowAsyncProtocolHandler \<Rightarrow> ('h, 'x, 'p) ESPNowAsyncProtocolHandler" where
  "clear_pool a = a\<lparr>ah_handler := None, ah_frames := [], ah_slotInUse := []\<rparr>"

definition Async_Shutdown ::
  "('x, 'p, 'w) executor_api \<Rightarrow> ('h, 'x, 'p) ESPNowAsyncProtocolHandler \<times> 'w \<Rightarrow> ('h, 'x, 'p) ESPNowAsyncProtocolHandler \<times> 'w" where
  "Async_Shutdown api = (\<lambda>(a, w).
     let executor = ah_executor a; a = a\<lparr>ah_initialized := False, ah_executor := None\<rparr>;
         (a, w) = (case executor of
            None \<Rightarrow> (a, w)
          | Some x \<Rightarrow> let (discarded, w) = ex_Stop api x w in (fold ReleaseFrame discarded a, w)) in
     (clear_pool a, w))"

definition size_max :: nat where "size_max = 4294967295"

definition task_configuration :: "'p AsyncConfiguration \<Rightarrow> 'p TaskConfiguration" where
  "task_configuration configuration =
     \<lparr>tc_Name = ac_Name configuration, tc_StackSize = ac_StackSize configuration, tc_Priority = ac_Priority configuration,
      tc_Core = ac_Core configuration, tc_QueueDepth = ac_QueueDepth configuration,
      tc_OverflowPolicy = ac_OverflowPolicy configuration\<rparr>"

definition Async_Initialize ::
  "('x, 'p, 'w) executor_api \<Rightarrow> 'h option \<Rightarrow> 'p AsyncConfiguration \<Rightarrow> ('h, 'x, 'p) ESPNowAsyncProtocolHandler \<times> 'w
     \<Rightarrow> bool \<times> ('h, 'x, 'p) ESPNowAsyncProtocolHandler \<times> 'w" where
  "Async_Initialize api handler configuration s =
     (let (a, w) = Async_Shutdown api s in
      if handler = None \<or> ac_StackSize configuration = 0 \<or> ac_QueueDepth configuration = 0 then (False, a, w)
      else if ac_QueueDepth configuration > size_max - 2 then (False, a, w)
      else
        let a = a\<lparr>ah_configuration := configuration\<rparr>; poolSize = ac_QueueDepth configuration + 2;
            (ok, w) = ex_Alloc api w in
        if \<not> ok then (False, clear_pool a, w)
        else
          let a = a\<lparr>ah_frames := replicate poolSize ReceivedFrame_default, ah_slotInUse := replicate poolSize 0,
                    ah_handler := handler\<rparr>;
              (executor, w) = ex_Initialize api (task_configuration configuration) w in
          case executor of
            None \<Rightarrow> (False, clear_pool a, w)
          | Some x \<Rightarrow>
              let (started, x, w) = ex_Start api x w in
              if \<not> started
              then let (discarded, w) = ex_Stop api x w in (False, clear_pool (fold ReleaseFrame discarded a), w)
              else (True, a\<lparr>ah_executor := Some x, ah_handoffRejected := 0, ah_initialized := True\<rparr>, w))"

definition Submit ::
  "('x, 'p, 'w) executor_api \<Rightarrow> ESPNowReceivedFrame \<Rightarrow> ('h, 'x, 'p) ESPNowAsyncProtocolHandler
     \<Rightarrow> bool \<times> ('h, 'x, 'p) ESPNowAsyncProtocolHandler" where
  "Submit api frame a =
     (case ah_executor a of
        None \<Rightarrow> (False, a)
      | Some x \<Rightarrow>
          if \<not> ah_initialized a then (False, a)
          else
            (case AcquireFrame frame a of
               (None, a) \<Rightarrow> (False, a\<lparr>ah_handoffRejected := ah_handoffRejected a + 1\<rparr>)
             | (Some item, a) \<Rightarrow>
                 let (accepted, discarded, x) = ex_Submit api item x;
                     a = fold ReleaseFrame discarded (a\<lparr>ah_executor := Some x\<rparr>) in
                 if \<not> accepted
                 then (False, (ReleaseFrame item a)\<lparr>ah_handoffRejected := ah_handoffRejected a + 1\<rparr>)
                 else (True, a)))"

text \<open>The executor's task: taking an item, then processing it.\<close>

definition async_take ::
  "('x, 'p, 'w) executor_api \<Rightarrow> ('h, 'x, 'p) ESPNowAsyncProtocolHandler \<Rightarrow> (nat \<times> ('h, 'x, 'p) ESPNowAsyncProtocolHandler) option" where
  "async_take api a =
     (case ah_executor a of
        None \<Rightarrow> None
      | Some x \<Rightarrow> map_option (\<lambda>(i, x). (i, a\<lparr>ah_executor := Some x\<rparr>)) (ex_Take api x))"

lemma executor_submit:
  assumes con: "executor_contract api depth queued" and "ex_Submit api i x = (True, discarded, x')"
  obtains kept where "queued x = discarded @ kept" "queued x' = kept @ [i]"
proof -
  have "case ex_Submit api i x of
      (True, discarded, x') \<Rightarrow> (\<exists>kept. queued x = discarded @ kept \<and> queued x' = kept @ [i])
    | (False, discarded, x') \<Rightarrow> discarded = [] \<and> queued x' = queued x"
    by (rule con [unfolded executor_contract_def, THEN conjunct2, THEN conjunct1, THEN spec, THEN spec])
  then show thesis using assms(2) that by auto
qed

end
