(* ===== verification/Async_Props.thy ===== *)
theory Async_Props
  imports Async_Handler "HOL-Library.Sublist"
begin

text \<open>
  The frame pool of the asynchronous handler refines a queue of frames: what the task will hand to the
  protocol handler is the queue of accepted frames, in order, less what the executor chose to discard, and
  the pool never runs out of slots.
\<close>

definition slots_used :: "nat list \<Rightarrow> ('h, 'x, 'p) ESPNowAsyncProtocolHandler \<Rightarrow> bool" where
  "slots_used is' a \<longleftrightarrow>
     length (ah_slotInUse a) = length (ah_frames a) \<and> distinct is' \<and> set is' \<subseteq> {..<length (ah_frames a)}
     \<and> (\<forall>i < length (ah_frames a). ah_slotInUse a ! i \<noteq> 0 \<longleftrightarrow> i \<in> set is')"

lemma slots_used_find:
  assumes "slots_used is' a" "length is' < length (ah_frames a)"
  obtains i where "find_index (\<lambda>s. s = 0) (take (length (ah_frames a)) (ah_slotInUse a)) = Some i"
    "i < length (ah_frames a)" "i \<notin> set is'"
proof -
  have len: "length (ah_slotInUse a) = length (ah_frames a)" using assms(1) by (simp add: slots_used_def)
  have "\<exists>i < length (ah_frames a). i \<notin> set is'"
  proof (rule ccontr)
    assume "\<not> ?thesis"
    then have "{..<length (ah_frames a)} \<subseteq> set is'" by auto
    then have "length (ah_frames a) \<le> card (set is')" by (metis List.finite_set card_lessThan card_mono)
    then show False using card_length [of is'] assms(2) by linarith
  qed
  then have "find_index (\<lambda>s. s = 0) (ah_slotInUse a) \<noteq> None"
    using assms(1) len by (auto simp: find_index_None slots_used_def)
  then obtain i where i: "find_index (\<lambda>s. s = 0) (ah_slotInUse a) = Some i" by auto
  then show thesis using that [of i] find_index_Some [OF i] assms(1) len by (auto simp: slots_used_def)
qed

lemma slots_used_release:
  assumes "slots_used (xs @ i # ys) a"
  shows "slots_used (xs @ ys) (ReleaseFrame i a)"
  using assms by (auto simp: slots_used_def ReleaseFrame_def nth_list_update)

lemma ReleaseFrame_fields [simp]:
  "ah_frames (ReleaseFrame i a) = ah_frames a" "ah_executor (ReleaseFrame i a) = ah_executor a"
  "ah_initialized (ReleaseFrame i a) = ah_initialized a" "ah_handler (ReleaseFrame i a) = ah_handler a"
  "ah_handoffRejected (ReleaseFrame i a) = ah_handoffRejected a"
  by (simp_all add: ReleaseFrame_def)

lemma fold_ReleaseFrame [simp]:
  "ah_frames (fold ReleaseFrame ds a) = ah_frames a" "ah_executor (fold ReleaseFrame ds a) = ah_executor a"
  "ah_initialized (fold ReleaseFrame ds a) = ah_initialized a" "ah_handler (fold ReleaseFrame ds a) = ah_handler a"
  "ah_handoffRejected (fold ReleaseFrame ds a) = ah_handoffRejected a"
  by (induction ds arbitrary: a) simp_all

lemma slots_used_discard: "slots_used (xs @ ds @ ys) a \<Longrightarrow> slots_used (xs @ ys) (fold ReleaseFrame ds a)"
proof (induction ds arbitrary: a)
  case (Cons d ds)
  then show ?case using slots_used_release [of xs d "ds @ ys" a] by simp
qed simp

lemma slots_used_fields:
  "slots_used is' (a\<lparr>ah_executor := e\<rparr>) = slots_used is' a" "slots_used is' (a\<lparr>ah_handoffRejected := n\<rparr>) = slots_used is' a"
  by (simp_all add: slots_used_def)

lemma slots_used_perm: "slots_used xs a \<Longrightarrow> set ys = set xs \<Longrightarrow> distinct ys \<Longrightarrow> slots_used ys a"
  by (simp add: slots_used_def)

definition pool_ok ::
  "nat \<Rightarrow> ('x \<Rightarrow> nat list) \<Rightarrow> nat option \<Rightarrow> ('h, 'x, 'p) ESPNowAsyncProtocolHandler \<Rightarrow> bool" where
  "pool_ok depth queued running a \<longleftrightarrow>
     ah_initialized a \<and> length (ah_frames a) = depth + 2
     \<and> (\<exists>x. ah_executor a = Some x \<and> slots_used ((case running of None \<Rightarrow> [] | Some i \<Rightarrow> [i]) @ queued x) a)"

text \<open>The frames waiting for the task, oldest first.\<close>

definition waiting :: "('x \<Rightarrow> nat list) \<Rightarrow> ('h, 'x, 'p) ESPNowAsyncProtocolHandler \<Rightarrow> ESPNowReceivedFrame list" where
  "waiting queued a = map ((!) (ah_frames a)) (queued (the (ah_executor a)))"

lemma Async_Initialize_pool:
  assumes "Async_Initialize api handler configuration s = (True, a, w)" "\<And>x. ah_executor a = Some x \<Longrightarrow> queued x = []"
  shows "pool_ok (ac_QueueDepth configuration) queued None a" "waiting queued a = []" "ah_handler a = handler"
proof -
  obtain b v where b: "Async_Shutdown api s = (b, v)" by fastforce
  have "\<exists>x. ah_executor a = Some x \<and> ah_frames a = replicate (ac_QueueDepth configuration + 2) ReceivedFrame_default
      \<and> ah_slotInUse a = replicate (ac_QueueDepth configuration + 2) 0 \<and> ah_handler a = handler \<and> ah_initialized a"
    using assms(1) unfolding Async_Initialize_def b Let_def
    by (auto simp: split_beta split: if_splits option.splits)
  then obtain x where "ah_executor a = Some x" "ah_frames a = replicate (ac_QueueDepth configuration + 2) ReceivedFrame_default"
    "ah_slotInUse a = replicate (ac_QueueDepth configuration + 2) 0" "ah_handler a = handler" "ah_initialized a" by blast
  then show "pool_ok (ac_QueueDepth configuration) queued None a" "waiting queued a = []" "ah_handler a = handler"
    using assms(2) by (simp_all add: pool_ok_def slots_used_def waiting_def del: replicate_add add_2_eq_Suc' replicate_Suc)
qed

lemma Submit_pool:
  assumes con: "executor_contract api depth queued" and ok: "pool_ok depth queued running a" and r: "Submit api frame a = (accepted, a')"
  shows "pool_ok depth queued running a'"
    "case running of None \<Rightarrow> True | Some i \<Rightarrow> ah_frames a' ! i = ah_frames a ! i"
    "if accepted then (\<exists>dropped kept. waiting queued a = dropped @ kept \<and> waiting queued a' = kept @ [frame])
     else waiting queued a' = waiting queued a \<and> ah_handoffRejected a' = ah_handoffRejected a + 1"
    "\<exists>item x. ah_executor a = Some x \<and> accepted = fst (ex_Submit api item x)
      \<and> (accepted \<longrightarrow> length (waiting queued a') + length (fst (snd (ex_Submit api item x))) = Suc (length (waiting queued a)))"
    "ah_handler a' = ah_handler a"
proof -
  let ?run = "case running of None \<Rightarrow> [] | Some i \<Rightarrow> [i]"
  obtain x where x: "ah_executor a = Some x" "slots_used (?run @ queued x) a" and init: "ah_initialized a" "length (ah_frames a) = depth + 2"
    using ok by (auto simp: pool_ok_def)
  have "length (queued x) \<le> depth" using con by (simp add: executor_contract_def)
  then have "length (?run @ queued x) < length (ah_frames a)" using init(2) by (cases running) auto
  from slots_used_find [OF x(2) this] obtain k where k:
    "find_index (\<lambda>s. s = 0) (take (length (ah_frames a)) (ah_slotInUse a)) = Some k" "k < length (ah_frames a)" "k \<notin> set (?run @ queued x)"
    by blast
  let ?b = "a\<lparr>ah_slotInUse := (ah_slotInUse a)[k := 1], ah_frames := (ah_frames a)[k := frame]\<rparr>"
  have acq: "AcquireFrame frame a = (Some k, ?b)" by (simp add: AcquireFrame_def k(1))
  have used: "slots_used (k # ?run @ queued x) ?b" using x(2) k(2,3) by (auto simp: slots_used_def nth_list_update)
  have keep: "ah_frames ?b ! j = ah_frames a ! j" if "j \<in> set (?run @ queued x)" for j
  proof -
    have "j \<noteq> k" using that k(3) by blast
    then show ?thesis by simp
  qed
  obtain ok' discarded x' where sub: "ex_Submit api k x = (ok', discarded, x')" by (cases rule: prod_cases3)
  have con': "if ok' then (\<exists>kept. queued x = discarded @ kept \<and> queued x' = kept @ [k]) else discarded = [] \<and> queued x' = queued x"
  proof -
    have "case ex_Submit api k x of
        (True, discarded, x') \<Rightarrow> (\<exists>kept. queued x = discarded @ kept \<and> queued x' = kept @ [k])
      | (False, discarded, x') \<Rightarrow> discarded = [] \<and> queued x' = queued x"
      by (rule con [unfolded executor_contract_def, THEN conjunct2, THEN conjunct1, THEN spec, THEN spec])
    then show ?thesis by (cases ok') (simp_all add: sub)
  qed
  define c where "c = fold ReleaseFrame discarded (?b\<lparr>ah_executor := Some x'\<rparr>)"
  have res: "accepted = ok'" "a' = (if ok' then c else (ReleaseFrame k c)\<lparr>ah_handoffRejected := ah_handoffRejected a + 1\<rparr>)"
    using r init(1) by (cases ok'; auto simp: Submit_def x(1) acq sub Let_def c_def)+
  have c: "ah_frames c = (ah_frames a)[k := frame]" "ah_executor c = Some x'" "ah_initialized c" "ah_handler c = ah_handler a"
    using init(1) by (simp_all add: c_def)
  have fields: "ah_frames a' = (ah_frames a)[k := frame]" "ah_executor a' = Some x'" "ah_initialized a'"
    using c by (simp_all add: res(2))
  show "ah_handler a' = ah_handler a" using c(4) by (simp add: res(2))
  show "\<exists>item x. ah_executor a = Some x \<and> accepted = fst (ex_Submit api item x)
      \<and> (accepted \<longrightarrow> length (waiting queued a') + length (fst (snd (ex_Submit api item x))) = Suc (length (waiting queued a)))"
    using x(1) sub res(1) con' fields(2) by (intro exI [of _ k] exI [of _ x]) (auto simp: waiting_def)
  show "case running of None \<Rightarrow> True | Some i \<Rightarrow> ah_frames a' ! i = ah_frames a ! i"
    using keep fields(1) by (auto split: option.split)
  have "slots_used (?run @ queued x') a'
    \<and> (if accepted then (\<exists>dropped kept. waiting queued a = dropped @ kept \<and> waiting queued a' = kept @ [frame])
       else waiting queued a' = waiting queued a \<and> ah_handoffRejected a' = ah_handoffRejected a + 1)"
  proof (cases ok')
    case True
    then obtain kept where kept: "queued x = discarded @ kept" "queued x' = kept @ [k]" using con' by auto
    have "slots_used ((k # ?run) @ discarded @ kept) (?b\<lparr>ah_executor := Some x'\<rparr>)" using used kept(1) by (simp add: slots_used_fields)
    then have "slots_used (k # ?run @ kept) c" using slots_used_discard [of "k # ?run" discarded kept] unfolding c_def by simp
    then have "slots_used (?run @ queued x') c" by (rule slots_used_perm) (use k(3) kept used in \<open>auto simp: slots_used_def\<close>)
    moreover have "map ((!) (ah_frames a')) kept = map ((!) (ah_frames a)) kept"
      using keep kept(1) fields(1) by auto
    ultimately show ?thesis
      using True kept fields k(2) res by (auto simp: waiting_def x(1))
  next
    case False
    then have d: "discarded = []" "queued x' = queued x" using con' by auto
    have "slots_used ([] @ k # ?run @ queued x) c" using used d by (simp add: c_def slots_used_fields)
    then have "slots_used (?run @ queued x) (ReleaseFrame k c)" using slots_used_release [of "[]" k "?run @ queued x" c] by simp
    moreover have "map ((!) (ah_frames a')) (queued x) = map ((!) (ah_frames a)) (queued x)"
      using keep fields(1) by auto
    ultimately show ?thesis
      using False d fields res by (simp add: waiting_def x(1) slots_used_fields)
  qed
  then show "if accepted then (\<exists>dropped kept. waiting queued a = dropped @ kept \<and> waiting queued a' = kept @ [frame])
     else waiting queued a' = waiting queued a \<and> ah_handoffRejected a' = ah_handoffRejected a + 1"
    and "pool_ok depth queued running a'"
    using fields init(2) by (auto simp: pool_ok_def)
qed

lemma take_pool:
  assumes con: "executor_contract api depth queued" and ok: "pool_ok depth queued None a"
  shows "case async_take api a of
      None \<Rightarrow> waiting queued a = []
    | Some (i, a') \<Rightarrow> pool_ok depth queued (Some i) a' \<and> ah_handler a' = ah_handler a
        \<and> waiting queued a = ah_frames a' ! i # waiting queued a'"
proof -
  obtain x where x: "ah_executor a = Some x" "slots_used (queued x) a" and init: "ah_initialized a" "length (ah_frames a) = depth + 2"
    using ok by (auto simp: pool_ok_def)
  have tk: "case queued x of [] \<Rightarrow> ex_Take api x = None | i # rest \<Rightarrow> (\<exists>x'. ex_Take api x = Some (i, x') \<and> queued x' = rest)"
    by (rule con [unfolded executor_contract_def, THEN conjunct2, THEN conjunct2, THEN spec])
  show ?thesis
  proof (cases "queued x")
    case Nil
    then show ?thesis using tk by (simp add: async_take_def x(1) waiting_def)
  next
    case (Cons i rest)
    then obtain x' where "ex_Take api x = Some (i, x')" "queued x' = rest" using tk by auto
    then show ?thesis using Cons x(2) init by (simp add: async_take_def x(1) waiting_def pool_ok_def slots_used_def)
  qed
qed

lemma process_pool:
  assumes ok: "pool_ok depth queued (Some i) a" and r: "ProcessFrame i a = (call, a')"
  shows "pool_ok depth queued None a' \<and> call = map_option (\<lambda>h. (h, ah_frames a ! i)) (ah_handler a)
    \<and> waiting queued a' = waiting queued a \<and> ah_handler a' = ah_handler a"
proof -
  obtain x where x: "ah_executor a = Some x" "slots_used ([] @ i # queued x) a" and init: "ah_initialized a" "length (ah_frames a) = depth + 2"
    using ok by (auto simp: pool_ok_def)
  have "slots_used (queued x) (ReleaseFrame i a)" using slots_used_release [OF x(2)] by simp
  then show ?thesis using r x(1) init by (auto simp: ProcessFrame_def pool_ok_def waiting_def)
qed


section \<open>Runs\<close>

text \<open>
  A run of the handler after it was initialized: \<open>running\<close> is the slot the task works on, \<open>accepted\<close> and
  \<open>handled\<close> are the frames submitted successfully and those given to the protocol handler so far.
\<close>

inductive async_run ::
  "('x, 'p, 'w) executor_api \<Rightarrow> ('h, 'x, 'p) ESPNowAsyncProtocolHandler \<Rightarrow> nat option \<Rightarrow> ('h, 'x, 'p) ESPNowAsyncProtocolHandler
     \<Rightarrow> ESPNowReceivedFrame list \<Rightarrow> ESPNowReceivedFrame list \<Rightarrow> bool"
  for api a0 where
  start: "async_run api a0 None a0 [] []"
| submit: "async_run api a0 running a accepted handled \<Longrightarrow> Submit api frame a = (ok, a')
    \<Longrightarrow> async_run api a0 running a' (if ok then accepted @ [frame] else accepted) handled"
| take: "async_run api a0 None a accepted handled \<Longrightarrow> async_take api a = Some (i, a')
    \<Longrightarrow> async_run api a0 (Some i) a' accepted handled"
| process: "async_run api a0 (Some i) a accepted handled \<Longrightarrow> ProcessFrame i a = (call, a')
    \<Longrightarrow> async_run api a0 None a' accepted (handled @ (case call of None \<Rightarrow> [] | Some (h, f) \<Rightarrow> [f]))"

definition in_progress :: "nat option \<Rightarrow> ('h, 'x, 'p) ESPNowAsyncProtocolHandler \<Rightarrow> ESPNowReceivedFrame list" where
  "in_progress running a = (case running of None \<Rightarrow> [] | Some i \<Rightarrow> [ah_frames a ! i])"

lemma async_run_queue:
  assumes run: "async_run api a0 running a accepted handled" and con: "executor_contract api depth queued"
    and start: "pool_ok depth queued None a0" "waiting queued a0 = []" "ah_handler a0 \<noteq> None"
  shows "pool_ok depth queued running a \<and> ah_handler a \<noteq> None
    \<and> subseq (handled @ in_progress running a @ waiting queued a) accepted
    \<and> ((\<forall>i x. fst (snd (ex_Submit api i x)) = []) \<longrightarrow> handled @ in_progress running a @ waiting queued a = accepted)"
  using run
proof (induction rule: async_run.induct)
  case start
  then show ?case using assms(3-5) by (simp add: in_progress_def)
next
  case (submit running a accepted handled frame ok a')
  note s = Submit_pool [OF con conjunct1 [OF submit.IH] submit.hyps(2)]
  have same: "in_progress running a' = in_progress running a" using s(2) by (auto simp: in_progress_def split: option.splits)
  show ?case
  proof (cases ok)
    case True
    then obtain dropped kept where d: "waiting queued a = dropped @ kept" "waiting queued a' = kept @ [frame]" using s(3) by auto
    have "subseq (handled @ in_progress running a @ kept) (handled @ in_progress running a @ waiting queued a)"
      unfolding d(1) by (simp add: subseq_append' subseq_drop_many)
    then have "subseq (handled @ in_progress running a @ kept) accepted" using submit.IH subseq_order.trans by blast
    then have "subseq ((handled @ in_progress running a @ kept) @ [frame]) (accepted @ [frame])" by (rule list_emb_append_mono) simp
    moreover have "dropped = []" if none: "\<forall>i x. fst (snd (ex_Submit api i x)) = []"
    proof -
      have "length (waiting queued a') = Suc (length (waiting queued a))" using s(4) none True by auto
      then show ?thesis using d by simp
    qed
    ultimately show ?thesis using True s(1,5) same d submit.IH by auto
  next
    case False
    then show ?thesis using s same submit.IH by auto
  qed
next
  case (take a accepted handled i a')
  then show ?case using take_pool [OF con conjunct1 [OF take.IH]] by (simp add: in_progress_def)
next
  case (process i a accepted handled call a')
  then show ?case using process_pool [OF conjunct1 [OF process.IH] process.hyps(2)] by (auto simp: in_progress_def)
qed

text \<open>
  C30. The asynchronous handler is a queue between the receive callback and the protocol handler. In every
  interleaving of submissions with the task, the frames given to the handler, the one in progress and those
  waiting form a subsequence of the accepted ones, in order; with an executor that discards nothing they are
  exactly the accepted ones. A submission to an initialized handler always finds a free slot, so it is
  refused only when the executor refuses the item.
\<close>

theorem async_handoff_is_queue:
  assumes init: "Async_Initialize api (Some h) configuration s = (True, a0, w)"
    and con: "executor_contract api (ac_QueueDepth configuration) queued" and empty: "queued (the (ah_executor a0)) = []"
    and run: "async_run api a0 running a accepted handled"
  shows "subseq (handled @ in_progress running a @ waiting queued a) accepted
    \<and> ((\<forall>i x. fst (snd (ex_Submit api i x)) = []) \<longrightarrow> handled @ in_progress running a @ waiting queued a = accepted)
    \<and> (\<exists>item x. ah_executor a = Some x \<and> fst (Submit api frame a) = fst (ex_Submit api item x))"
proof -
  have e: "queued x = []" if "ah_executor a0 = Some x" for x using empty that by simp
  have p: "pool_ok (ac_QueueDepth configuration) queued None a0" "waiting queued a0 = []" "ah_handler a0 = Some h"
    using Async_Initialize_pool [OF init, of queued] e by simp_all
  have "ah_handler a0 \<noteq> None" using p(3) by simp
  note q = async_run_queue [OF run con p(1,2) this]
  obtain ok a' where sub: "Submit api frame a = (ok, a')" by fastforce
  show ?thesis using q Submit_pool(4) [OF con conjunct1 [OF q] sub] sub by auto
qed

text \<open>An executor with a queue of eight items that refuses the ninth.\<close>

definition demo_executor :: "(nat list, unit, unit) executor_api" where
  "demo_executor =
     \<lparr>ex_Alloc = (\<lambda>w. (True, w)), ex_Initialize = (\<lambda>c w. (Some [], w)), ex_Start = (\<lambda>x w. (True, x, w)),
      ex_Stop = (\<lambda>x w. ([], w)),
      ex_Submit = (\<lambda>i x. if length x < 8 then (True, [], x @ [i]) else (False, [], x)),
      ex_Take = (\<lambda>x. case x of [] \<Rightarrow> None | i # rest \<Rightarrow> Some (i, take 7 rest))\<rparr>"

lemma demo_executor_contract: "executor_contract demo_executor 8 (take 8)"
  unfolding executor_contract_def
proof (intro conjI allI)
  fix x :: "nat list"
  show "case take 8 x of [] \<Rightarrow> ex_Take demo_executor x = None
    | i # rest \<Rightarrow> \<exists>x'. ex_Take demo_executor x = Some (i, x') \<and> take 8 x' = rest"
    by (cases x) (simp_all add: demo_executor_def)
qed (simp_all add: demo_executor_def)

definition demo_async :: "(unit, nat list, unit) ESPNowAsyncProtocolHandler" where
  "demo_async = fst (snd (Async_Initialize demo_executor (Some ()) (AsyncConfiguration_default ()) (AsyncProtocolHandler_new (), ())))"

theorem async_handoff_is_queue_witness:
  "waiting (take 8) (snd (Submit demo_executor ReceivedFrame_default demo_async)) = [ReceivedFrame_default]"
proof -
  have init: "Async_Initialize demo_executor (Some ()) (AsyncConfiguration_default ()) (AsyncProtocolHandler_new (), ()) = (True, demo_async, ())"
    by (simp add: demo_async_def prod_eq_iff Async_Initialize_def Async_Shutdown_def AsyncProtocolHandler_new_def demo_executor_def
        AsyncConfiguration_default_def ESPRESSIO_ESPNOW_ASYNC_PROTOCOL_STACK_SIZE_def ESPRESSIO_ESPNOW_ASYNC_PROTOCOL_QUEUE_DEPTH_def
        size_max_def Let_def)
  have x: "ah_executor demo_async = Some []" "ah_initialized demo_async" "ah_frames demo_async = replicate 10 ReceivedFrame_default"
    "ah_slotInUse demo_async = replicate 10 0"
    by (simp_all add: demo_async_def Async_Initialize_def Async_Shutdown_def AsyncProtocolHandler_new_def demo_executor_def
        AsyncConfiguration_default_def ESPRESSIO_ESPNOW_ASYNC_PROTOCOL_STACK_SIZE_def ESPRESSIO_ESPNOW_ASYNC_PROTOCOL_QUEUE_DEPTH_def
        size_max_def Let_def)
  have con: "executor_contract demo_executor (ac_QueueDepth (AsyncConfiguration_default ())) (take 8)"
    using demo_executor_contract by (simp add: AsyncConfiguration_default_def ESPRESSIO_ESPNOW_ASYNC_PROTOCOL_QUEUE_DEPTH_def)
  have slot: "find_index (\<lambda>s. s = 0) (replicate 10 (0 :: byte)) = Some 0" by (simp add: numeral_eq_Suc)
  obtain a where sub: "Submit demo_executor ReceivedFrame_default demo_async = (True, a)"
    by (simp add: Submit_def x AcquireFrame_def slot demo_executor_def)
  have run: "async_run demo_executor demo_async None a [ReceivedFrame_default] []"
    using async_run.submit [OF async_run.start sub] by simp
  have none: "\<forall>i x. fst (snd (ex_Submit demo_executor i x)) = []" by (simp add: demo_executor_def)
  from async_handoff_is_queue [OF init con _ run] none sub x(1) show ?thesis by (simp add: in_progress_def)
qed

end
