(* ===== verification/Event_Transport.thy ===== *)
theory Event_Transport
  imports Async_Handler Transport
begin

text \<open>
  \<^verbatim>\<open>src/src/ESPressio_ESPNowEventTransport.hpp\<close>: Event packets over fragmented frames. The ESP-NOW transport is
  threaded next to the object's state; \<open>handler\<close> is the closure registered there. Incoming frames pass
  through an asynchronous handler, whose protocol handler is this object's \<^verbatim>\<open>HandleFrame\<close> (the value \<open>()\<close>);
  outgoing packets pass through a pool of work slots and a second executor, whose interface is \<open>outx\<close>.
  A packet of the Event library is its bytes and identifier; its validity test is the parameter \<open>valid\<close>,
  and \<open>alloc\<close> says whether an allocation of that many bytes succeeds. A call of the receiver is an element of
  the returned list. The state of the executors' platform is threaded as \<open>'w\<close>.
\<close>

section \<open>Wire format\<close>

definition ESPRESSIO_ESPNOW_EVENT_MAX_DESTINATIONS :: nat where "ESPRESSIO_ESPNOW_EVENT_MAX_DESTINATIONS = 16"
definition ESPRESSIO_ESPNOW_EVENT_MAX_REASSEMBLIES :: nat where "ESPRESSIO_ESPNOW_EVENT_MAX_REASSEMBLIES = 8"
definition ESPRESSIO_ESPNOW_EVENT_MAX_PACKET_SIZE :: nat where "ESPRESSIO_ESPNOW_EVENT_MAX_PACKET_SIZE = 16384"
definition ESPRESSIO_ESPNOW_EVENT_REASSEMBLY_TIMEOUT_MS :: nat where "ESPRESSIO_ESPNOW_EVENT_REASSEMBLY_TIMEOUT_MS = 5000"
definition ESPRESSIO_ESPNOW_EVENT_OUTBOUND_STACK_SIZE :: u32 where "ESPRESSIO_ESPNOW_EVENT_OUTBOUND_STACK_SIZE = 4096"
definition ESPRESSIO_ESPNOW_EVENT_OUTBOUND_QUEUE_DEPTH :: nat where "ESPRESSIO_ESPNOW_EVENT_OUTBOUND_QUEUE_DEPTH = 8"
definition ESPRESSIO_ESPNOW_EVENT_OUTBOUND_PRIORITY :: u32 where "ESPRESSIO_ESPNOW_EVENT_OUTBOUND_PRIORITY = 2"

definition EventMagic :: u32 where "EventMagic = 0x45564E57"
definition EventVersion :: byte where "EventVersion = 1"

record EventFragmentHeader =
  eh_Magic :: u32
  eh_Version :: byte
  eh_Reserved :: byte
  eh_FragmentIndex :: u16
  eh_FragmentCount :: u16
  eh_FragmentLength :: u16
  eh_TotalLength :: u32
  eh_MessageID :: u64

definition EventFragmentHeader_default :: EventFragmentHeader where
  "EventFragmentHeader_default =
     \<lparr>eh_Magic = EventMagic, eh_Version = EventVersion, eh_Reserved = 0, eh_FragmentIndex = 0, eh_FragmentCount = 0,
      eh_FragmentLength = 0, eh_TotalLength = 0, eh_MessageID = 0\<rparr>"

definition sizeof_EventFragmentHeader :: nat where "sizeof_EventFragmentHeader = 24"

definition event_header_write :: "EventFragmentHeader \<Rightarrow> byte list" where
  "event_header_write h =
     le_bytes 4 (eh_Magic h) @ [eh_Version h, eh_Reserved h] @ le_bytes 2 (eh_FragmentIndex h) @ le_bytes 2 (eh_FragmentCount h)
     @ le_bytes 2 (eh_FragmentLength h) @ le_bytes 4 (eh_TotalLength h) @ le_bytes 8 (eh_MessageID h)"

definition event_header_read :: "byte list \<Rightarrow> EventFragmentHeader" where
  "event_header_read bs =
     \<lparr>eh_Magic = le_word (take 4 bs), eh_Version = bs ! 4, eh_Reserved = bs ! 5, eh_FragmentIndex = le_word (take 2 (drop 6 bs)),
      eh_FragmentCount = le_word (take 2 (drop 8 bs)), eh_FragmentLength = le_word (take 2 (drop 10 bs)),
      eh_TotalLength = le_word (take 4 (drop 12 bs)), eh_MessageID = le_word (take 8 (drop 16 bs))\<rparr>"

definition EventMaximumProtocolPayload :: nat where "EventMaximumProtocolPayload = MaximumFrameSize - 8"
definition EventMaximumFragmentPayload :: nat where
  "EventMaximumFragmentPayload = EventMaximumProtocolPayload - sizeof_EventFragmentHeader"
definition EventMaximumFragments :: nat where
  "EventMaximumFragments =
     (ESPRESSIO_ESPNOW_EVENT_MAX_PACKET_SIZE + EventMaximumFragmentPayload - 1) div EventMaximumFragmentPayload"
definition EventReceiptBitmapBytes :: nat where "EventReceiptBitmapBytes = (EventMaximumFragments + 7) div 8"


section \<open>State\<close>

record EventTransportPacket =
  ep_Data :: "byte list"
  ep_MessageID :: u64

record EventReassembly =
  er_Source :: MacAddress
  er_MessageID :: u64
  er_TotalLength :: u32
  er_FragmentCount :: u16
  er_ReceivedCount :: u16
  er_LastReceiveMonotonicNanoseconds :: u64
  er_Data :: "byte list"
  er_ReceivedBits :: "byte list"

record 'p OutboundConfiguration =
  oc_Name :: string
  oc_StackSize :: u32
  oc_Priority :: u32
  oc_Core :: "32 word"
  oc_QueueDepth :: nat
  oc_OverflowPolicy :: 'p

definition OutboundConfiguration_default :: "'p \<Rightarrow> 'p OutboundConfiguration" where
  "OutboundConfiguration_default reject =
     \<lparr>oc_Name = ''espnowEventTx'', oc_StackSize = ESPRESSIO_ESPNOW_EVENT_OUTBOUND_STACK_SIZE,
      oc_Priority = ESPRESSIO_ESPNOW_EVENT_OUTBOUND_PRIORITY, oc_Core = - 1,
      oc_QueueDepth = ESPRESSIO_ESPNOW_EVENT_OUTBOUND_QUEUE_DEPTH, oc_OverflowPolicy = reject\<rparr>"

text \<open>An empty packet stands for the default-constructed one.\<close>

record OutboundWork =
  ow_Packet :: EventTransportPacket
  ow_Destinations :: "MacAddress list"
  ow_DestinationCount :: nat

definition Packet_default :: EventTransportPacket where "Packet_default = \<lparr>ep_Data = [], ep_MessageID = 0\<rparr>"

abbreviation zero_mac :: MacAddress where "zero_mac \<equiv> MacAddress 0 0 0 0 0 0"

definition OutboundWork_default :: OutboundWork where
  "OutboundWork_default =
     \<lparr>ow_Packet = Packet_default, ow_Destinations = replicate ESPRESSIO_ESPNOW_EVENT_MAX_DESTINATIONS zero_mac, ow_DestinationCount = 0\<rparr>"

record ('r, 'x, 'y, 'p) ESPNowEventTransport =
  et_transport :: bool
  et_receiver :: "'r option"
  et_destinations :: "MacAddress list"
  et_destinationCount :: nat
  et_reassemblies :: "EventReassembly list"
  et_asyncHandler :: "(unit, 'x, 'p) ESPNowAsyncProtocolHandler"
  et_outboundExecutor :: "'y option"
  et_outboundWorks :: "OutboundWork list"
  et_outboundSlots :: "byte list"
  et_outboundRejected :: u64
  et_initialized :: bool

definition EventTransport_new :: "'p \<Rightarrow> ('r, 'x, 'y, 'p) ESPNowEventTransport" where
  "EventTransport_new reject =
     \<lparr>et_transport = False, et_receiver = None,
      et_destinations = replicate ESPRESSIO_ESPNOW_EVENT_MAX_DESTINATIONS zero_mac, et_destinationCount = 0,
      et_reassemblies = [], et_asyncHandler = AsyncProtocolHandler_new reject, et_outboundExecutor = None,
      et_outboundWorks = [], et_outboundSlots = [], et_outboundRejected = 0, et_initialized = False\<rparr>"


section \<open>Sending\<close>

definition AcquireOutboundWork ::
  "EventTransportPacket \<Rightarrow> MacAddress list \<Rightarrow> nat \<Rightarrow> ('r, 'x, 'y, 'p) ESPNowEventTransport
     \<Rightarrow> nat option \<times> ('r, 'x, 'y, 'p) ESPNowEventTransport" where
  "AcquireOutboundWork packet destinations destinationCount s =
     (case find_index (\<lambda>b. b = 0) (take (length (et_outboundWorks s)) (et_outboundSlots s)) of
        None \<Rightarrow> (None, s)
      | Some i \<Rightarrow>
          let work = et_outboundWorks s ! i;
              work = work\<lparr>ow_Packet := packet, ow_DestinationCount := destinationCount,
                ow_Destinations := take destinationCount destinations @ drop destinationCount (ow_Destinations work)\<rparr> in
          (Some i, s\<lparr>et_outboundSlots := (et_outboundSlots s)[i := 1], et_outboundWorks := (et_outboundWorks s)[i := work]\<rparr>))"

definition ReleaseOutboundWork :: "nat \<Rightarrow> ('r, 'x, 'y, 'p) ESPNowEventTransport \<Rightarrow> ('r, 'x, 'y, 'p) ESPNowEventTransport" where
  "ReleaseOutboundWork i s =
     (if et_outboundWorks s = [] then s
      else if i \<ge> length (et_outboundWorks s) then s
      else s\<lparr>et_outboundWorks := (et_outboundWorks s)[i := (et_outboundWorks s ! i)\<lparr>ow_Packet := Packet_default, ow_DestinationCount := 0\<rparr>],
             et_outboundSlots := (et_outboundSlots s)[i := 0]\<rparr>)"

fun event_send_loop ::
  "('q, 'v) native_api \<Rightarrow> MacAddress \<Rightarrow> EventTransportPacket \<Rightarrow> nat \<Rightarrow> nat list
     \<Rightarrow> ('h, 'm, 'o, 'q, 'v) ESPNowTransport \<Rightarrow> bool \<times> ('h, 'm, 'o, 'q, 'v) ESPNowTransport" where
  "event_send_loop api destination packet fragmentCount [] t = (True, t)"
| "event_send_loop api destination packet fragmentCount (index # rest) t =
     (let offset = index * EventMaximumFragmentPayload;
          fragmentLength = min (length (ep_Data packet) - offset) EventMaximumFragmentPayload;
          header = EventFragmentHeader_default\<lparr>eh_FragmentIndex := of_nat index, eh_FragmentCount := of_nat fragmentCount,
            eh_FragmentLength := of_nat fragmentLength, eh_TotalLength := of_nat (length (ep_Data packet)),
            eh_MessageID := ep_MessageID packet\<rparr>;
          payload = event_header_write header @ take fragmentLength (drop offset (ep_Data packet));
          (sent, t) = Send api destination (protocol_id EventTransport) (Some payload)
             (sizeof_EventFragmentHeader + fragmentLength) t in
      if \<not> sent then (False, t) else event_send_loop api destination packet fragmentCount rest t)"

definition SendToDestination ::
  "('q, 'v) native_api \<Rightarrow> (EventTransportPacket \<Rightarrow> bool) \<Rightarrow> MacAddress \<Rightarrow> EventTransportPacket
     \<Rightarrow> ('h, 'm, 'o, 'q, 'v) ESPNowTransport \<Rightarrow> bool \<times> ('h, 'm, 'o, 'q, 'v) ESPNowTransport" where
  "SendToDestination api valid destination packet t =
     (if \<not> valid packet \<or> length (ep_Data packet) > ESPRESSIO_ESPNOW_EVENT_MAX_PACKET_SIZE then (False, t)
      else
        let fragmentCountSize = (length (ep_Data packet) + EventMaximumFragmentPayload - 1) div EventMaximumFragmentPayload in
        if fragmentCountSize = 0 \<or> fragmentCountSize > 65535 \<or> length (ep_Data packet) > 4294967295 then (False, t)
        else event_send_loop api destination packet fragmentCountSize [0..<fragmentCountSize] t)"

definition ProcessOutbound ::
  "('q, 'v) native_api \<Rightarrow> (EventTransportPacket \<Rightarrow> bool) \<Rightarrow> nat
     \<Rightarrow> ('r, 'x, 'y, 'p) ESPNowEventTransport \<times> ('h, 'm, 'o, 'q, 'v) ESPNowTransport
     \<Rightarrow> ('r, 'x, 'y, 'p) ESPNowEventTransport \<times> ('h, 'm, 'o, 'q, 'v) ESPNowTransport" where
  "ProcessOutbound api valid i = (\<lambda>(s, t).
     (ReleaseOutboundWork i s,
      if \<not> et_transport s then t
      else
        let work = et_outboundWorks s ! i in
        fold (\<lambda>destination t. snd (SendToDestination api valid destination (ow_Packet work) t))
          (take (ow_DestinationCount work) (ow_Destinations work)) t))"

definition Event_Send ::
  "('y, 'p, 'w) executor_api \<Rightarrow> (EventTransportPacket \<Rightarrow> bool) \<Rightarrow> EventTransportPacket
     \<Rightarrow> ('r, 'x, 'y, 'p) ESPNowEventTransport \<Rightarrow> bool \<times> ('r, 'x, 'y, 'p) ESPNowEventTransport" where
  "Event_Send outx valid packet s =
     (if \<not> et_initialized s \<or> \<not> valid packet then (False, s)
      else if \<not> et_transport s then (False, s)
      else if et_destinationCount s = 0 then (False, s)
      else
        case et_outboundExecutor s of
          None \<Rightarrow> (False, s)
        | Some y \<Rightarrow>
            (case AcquireOutboundWork packet (take (et_destinationCount s) (et_destinations s)) (et_destinationCount s) s of
               (None, s) \<Rightarrow> (False, s\<lparr>et_outboundRejected := et_outboundRejected s + 1\<rparr>)
             | (Some work, s) \<Rightarrow>
                 let (accepted, discarded, y) = ex_Submit outx work y;
                     s = fold ReleaseOutboundWork discarded (s\<lparr>et_outboundExecutor := Some y\<rparr>) in
                 if \<not> accepted
                 then (False, (ReleaseOutboundWork work s)\<lparr>et_outboundRejected := et_outboundRejected s + 1\<rparr>)
                 else (True, s)))"


section \<open>Receiving\<close>

definition event_expired :: "u64 \<Rightarrow> EventReassembly \<Rightarrow> bool" where
  "event_expired now r \<longleftrightarrow>
     now > er_LastReceiveMonotonicNanoseconds r
     \<and> now - er_LastReceiveMonotonicNanoseconds r > of_nat ESPRESSIO_ESPNOW_EVENT_REASSEMBLY_TIMEOUT_MS * 1000000"

definition event_key :: "EventReassembly \<Rightarrow> MacAddress \<times> u64" where
  "event_key r = (er_Source r, er_MessageID r)"

text \<open>The position of the first element with the smallest receive time, \<^verbatim>\<open>std::min_element\<close>.\<close>

fun oldest_index :: "EventReassembly list \<Rightarrow> nat option" where
  "oldest_index [] = None"
| "oldest_index (r # rs) =
     (case oldest_index rs of
        None \<Rightarrow> Some 0
      | Some i \<Rightarrow> if er_LastReceiveMonotonicNanoseconds (rs ! i) < er_LastReceiveMonotonicNanoseconds r then Some (Suc i) else Some 0)"

definition evict_oldest :: "EventReassembly list \<Rightarrow> EventReassembly list" where
  "evict_oldest items =
     (if length items \<ge> ESPRESSIO_ESPNOW_EVENT_MAX_REASSEMBLIES
      then (case oldest_index items of None \<Rightarrow> items | Some i \<Rightarrow> erase_at i items) else items)"

definition new_event_reassembly :: "MacAddress \<Rightarrow> EventFragmentHeader \<Rightarrow> u64 \<Rightarrow> EventReassembly" where
  "new_event_reassembly source header now =
     \<lparr>er_Source = source, er_MessageID = eh_MessageID header, er_TotalLength = eh_TotalLength header,
      er_FragmentCount = eh_FragmentCount header, er_ReceivedCount = 0, er_LastReceiveMonotonicNanoseconds = now,
      er_Data = replicate (unat (eh_TotalLength header)) 0, er_ReceivedBits = replicate EventReceiptBitmapBytes 0\<rparr>"

definition Event_IsFragmentReceived :: "EventReassembly \<Rightarrow> nat \<Rightarrow> bool" where
  "Event_IsFragmentReceived state index = bitmap_test (er_ReceivedBits state) index"

definition Event_MarkFragmentReceived :: "nat \<Rightarrow> EventReassembly \<Rightarrow> EventReassembly" where
  "Event_MarkFragmentReceived index state = state\<lparr>er_ReceivedBits := bitmap_set (er_ReceivedBits state) index\<rparr>"

definition store_event_fragment :: "EventFragmentHeader \<Rightarrow> byte list \<Rightarrow> nat \<Rightarrow> EventReassembly \<Rightarrow> EventReassembly" where
  "store_event_fragment header fragmentData offset r =
     (if \<not> Event_IsFragmentReceived r (unat (eh_FragmentIndex header))
      then let r = Event_MarkFragmentReceived (unat (eh_FragmentIndex header)) (r\<lparr>er_Data := blit offset fragmentData (er_Data r)\<rparr>) in
           r\<lparr>er_ReceivedCount := er_ReceivedCount r + 1\<rparr>
      else r)"

text \<open>The locked block of \<^verbatim>\<open>HandleFrame\<close> on the record at position \<open>i\<close>, and on the table.\<close>

definition update_event_reassembly ::
  "EventFragmentHeader \<Rightarrow> byte list \<Rightarrow> nat \<Rightarrow> u64 \<Rightarrow> nat \<Rightarrow> EventReassembly list \<Rightarrow> byte list option \<times> EventReassembly list" where
  "update_event_reassembly header fragmentData offset now i items =
     (let r = items ! i in
      if er_TotalLength r \<noteq> eh_TotalLength header \<or> er_FragmentCount r \<noteq> eh_FragmentCount header then (None, erase_at i items)
      else
        let r = store_event_fragment header fragmentData offset (r\<lparr>er_LastReceiveMonotonicNanoseconds := now\<rparr>) in
        if er_ReceivedCount r = er_FragmentCount r then (Some (er_Data r), erase_at i items)
        else (None, items[i := r]))"

definition event_reassemble ::
  "(nat \<Rightarrow> bool) \<Rightarrow> MacAddress \<Rightarrow> EventFragmentHeader \<Rightarrow> byte list \<Rightarrow> nat \<Rightarrow> u64 \<Rightarrow> EventReassembly list
     \<Rightarrow> byte list option \<times> EventReassembly list" where
  "event_reassemble alloc source header fragmentData offset now items =
     (let items = filter (\<lambda>r. \<not> event_expired now r) items in
      case find_index (\<lambda>r. event_key r = (source, eh_MessageID header)) items of
        Some i \<Rightarrow> update_event_reassembly header fragmentData offset now i items
      | None \<Rightarrow>
          let items = evict_oldest items in
          if \<not> alloc (unat (eh_TotalLength header)) then (None, items)
          else update_event_reassembly header fragmentData offset now (length items)
                 (items @ [new_event_reassembly source header now]))"

definition parse_event_frame :: "ESPNowReceivedFrame \<Rightarrow> (EventFragmentHeader \<times> byte list) option" where
  "parse_event_frame frame =
     (if unat (rf_PayloadLength frame) < sizeof_EventFragmentHeader then None
      else
        let header = event_header_read (rf_Payload frame) in
        if eh_Magic header \<noteq> EventMagic \<or> eh_Version header \<noteq> EventVersion \<or> eh_FragmentCount header = 0
           \<or> unat (eh_FragmentCount header) > EventMaximumFragments \<or> eh_FragmentIndex header \<ge> eh_FragmentCount header
           \<or> unat (eh_FragmentLength header) > EventMaximumFragmentPayload
           \<or> sizeof_EventFragmentHeader + unat (eh_FragmentLength header) > unat (rf_PayloadLength frame)
           \<or> eh_TotalLength header = 0 \<or> unat (eh_TotalLength header) > ESPRESSIO_ESPNOW_EVENT_MAX_PACKET_SIZE then None
        else if unat (eh_FragmentIndex header) * EventMaximumFragmentPayload + unat (eh_FragmentLength header)
                > unat (eh_TotalLength header) then None
        else Some (header, take (unat (eh_FragmentLength header)) (drop sizeof_EventFragmentHeader (rf_Payload frame))))"

definition Event_HandleFrame ::
  "(nat \<Rightarrow> bool) \<Rightarrow> ESPNowReceivedFrame \<Rightarrow> ('r, 'x, 'y, 'p) ESPNowEventTransport
     \<Rightarrow> ('r \<times> EventTransportPacket) list \<times> ('r, 'x, 'y, 'p) ESPNowEventTransport" where
  "Event_HandleFrame alloc frame s =
     (case parse_event_frame frame of
        None \<Rightarrow> ([], s)
      | Some (header, fragmentData) \<Rightarrow>
          let offset = unat (eh_FragmentIndex header) * EventMaximumFragmentPayload in
          if eh_FragmentCount header = 1 then
            if eh_FragmentIndex header \<noteq> 0 \<or> unat (eh_FragmentLength header) \<noteq> unat (eh_TotalLength header) then ([], s)
            else
              case et_receiver s of
                None \<Rightarrow> ([], s)
              | Some receiver \<Rightarrow>
                  if \<not> alloc (unat (eh_FragmentLength header)) then ([], s)
                  else ([(receiver, \<lparr>ep_Data = fragmentData, ep_MessageID = eh_MessageID header\<rparr>)], s)
          else
            let (completed, items) = event_reassemble alloc (rf_Source frame) header fragmentData offset
                   (rf_ReceiveMonotonicNanoseconds frame) (et_reassemblies s);
                s = s\<lparr>et_reassemblies := items\<rparr> in
            case (completed, et_receiver s) of
              (Some bytes, Some receiver) \<Rightarrow>
                (if bytes \<noteq> [] then [(receiver, \<lparr>ep_Data = bytes, ep_MessageID = eh_MessageID header\<rparr>)] else [], s)
            | _ \<Rightarrow> ([], s))"


section \<open>Lifecycle\<close>

definition clear_outbound :: "('r, 'x, 'y, 'p) ESPNowEventTransport \<Rightarrow> ('r, 'x, 'y, 'p) ESPNowEventTransport" where
  "clear_outbound s = s\<lparr>et_transport := False, et_outboundWorks := [], et_outboundSlots := []\<rparr>"

definition Event_Shutdown ::
  "('x, 'p, 'w) executor_api \<Rightarrow> ('y, 'p, 'w) executor_api
     \<Rightarrow> ('r, 'x, 'y, 'p) ESPNowEventTransport \<times> ('h, 'm, 'o, 'q, 'v) ESPNowTransport \<times> 'w
     \<Rightarrow> ('r, 'x, 'y, 'p) ESPNowEventTransport \<times> ('h, 'm, 'o, 'q, 'v) ESPNowTransport \<times> 'w" where
  "Event_Shutdown inx outx = (\<lambda>(s, t, w).
     let s = s\<lparr>et_initialized := False\<rparr>;
         t = (if et_transport s then UnregisterProtocolHandler (protocol_id EventTransport) t else t);
         executor = et_outboundExecutor s; s = s\<lparr>et_outboundExecutor := None\<rparr>;
         (s, w) = (case executor of
            None \<Rightarrow> (s, w)
          | Some y \<Rightarrow> let (discarded, w) = ex_Stop outx y w in (fold ReleaseOutboundWork discarded s, w));
         (a, w) = Async_Shutdown inx (et_asyncHandler s, w) in
     (s\<lparr>et_asyncHandler := a, et_receiver := None, et_destinationCount := 0, et_reassemblies := [], et_outboundWorks := [],
        et_outboundSlots := [], et_transport := False, et_destinations := map (\<lambda>_. zero_mac) (et_destinations s)\<rparr>, t, w))"

text \<open>The outbound executor: created, started, and stopped again when it does not start.\<close>

definition outbound_task :: "'p OutboundConfiguration \<Rightarrow> 'p TaskConfiguration" where
  "outbound_task c =
     \<lparr>tc_Name = oc_Name c, tc_StackSize = oc_StackSize c, tc_Priority = oc_Priority c, tc_Core = oc_Core c,
      tc_QueueDepth = oc_QueueDepth c, tc_OverflowPolicy = oc_OverflowPolicy c\<rparr>"

definition start_outbound ::
  "('y, 'p, 'w) executor_api \<Rightarrow> 'p OutboundConfiguration \<Rightarrow> 'w \<Rightarrow> 'y option \<times> 'w" where
  "start_outbound outx c w =
     (case ex_Initialize outx (outbound_task c) w of
        (None, w) \<Rightarrow> (None, w)
      | (Some y, w) \<Rightarrow>
          let (started, y, w) = ex_Start outx y w in
          if started then (Some y, w) else (None, snd (ex_Stop outx y w)))"

text \<open>Registration with the transport, the last step; the result \<^const>\<open>None\<close> is an exception of the transport.\<close>

definition register_event_handler ::
  "('x, 'p, 'w) executor_api \<Rightarrow> ('y, 'p, 'w) executor_api \<Rightarrow> ('q, 'v) native_api \<Rightarrow> 'h
     \<Rightarrow> ('r, 'x, 'y, 'p) ESPNowEventTransport \<times> ('h, 'm, 'o, 'q, 'v) ESPNowTransport \<times> 'w
     \<Rightarrow> bool option \<times> ('r, 'x, 'y, 'p) ESPNowEventTransport \<times> ('h, 'm, 'o, 'q, 'v) ESPNowTransport \<times> 'w" where
  "register_event_handler inx outx api handler = (\<lambda>(s, t, w).
     let (registered, t) = RegisterProtocolHandler api (protocol_id EventTransport) (Some handler) t in
     case registered of
       None \<Rightarrow> (None, s, t, w)
     | Some False \<Rightarrow> (Some False, Event_Shutdown inx outx (s, t, w))
     | Some True \<Rightarrow> (Some True, s\<lparr>et_outboundRejected := 0, et_initialized := True\<rparr>, t, w))"

definition InitializeImpl ::
  "('x, 'p, 'w) executor_api \<Rightarrow> ('y, 'p, 'w) executor_api \<Rightarrow> ('q, 'v) native_api \<Rightarrow> 'h \<Rightarrow> 'p AsyncConfiguration \<Rightarrow> 'p OutboundConfiguration
     \<Rightarrow> ('r, 'x, 'y, 'p) ESPNowEventTransport \<times> ('h, 'm, 'o, 'q, 'v) ESPNowTransport \<times> 'w
     \<Rightarrow> bool option \<times> ('r, 'x, 'y, 'p) ESPNowEventTransport \<times> ('h, 'm, 'o, 'q, 'v) ESPNowTransport \<times> 'w" where
  "InitializeImpl inx outx api handler asyncConfiguration outboundConfiguration = (\<lambda>(s, t, w).
     if et_initialized s then (Some True, s, t, w)
     else if \<not> t_initialized t \<or> oc_StackSize outboundConfiguration = 0 \<or> oc_QueueDepth outboundConfiguration = 0
             \<or> oc_QueueDepth outboundConfiguration > size_max - 2 then (Some False, s, t, w)
     else
       let s = s\<lparr>et_transport := True\<rparr>; poolSize = oc_QueueDepth outboundConfiguration + 2; (ok, w) = ex_Alloc outx w in
       if \<not> ok then (Some False, clear_outbound s, t, w)
       else
         let s = s\<lparr>et_outboundWorks := take poolSize (et_outboundWorks s)
                      @ replicate (poolSize - length (et_outboundWorks s)) OutboundWork_default,
                   et_outboundSlots := replicate poolSize 0\<rparr>;
             (started, a, w) = Async_Initialize inx (Some ()) (asyncConfiguration\<lparr>ac_Name := ''espnowEvent''\<rparr>)
                (et_asyncHandler s, w);
             s = s\<lparr>et_asyncHandler := a\<rparr> in
         if \<not> started then (Some False, clear_outbound s, t, w)
         else
           (case start_outbound outx outboundConfiguration w of
              (None, w) \<Rightarrow>
                let (a, w) = Async_Shutdown inx (et_asyncHandler s, w) in
                (Some False, clear_outbound (s\<lparr>et_asyncHandler := a\<rparr>), t, w)
            | (Some y, w) \<Rightarrow>
                register_event_handler inx outx api handler (s\<lparr>et_outboundExecutor := Some y\<rparr>, t, w)))"

definition SetReceiver :: "'r option \<Rightarrow> ('r, 'x, 'y, 'p) ESPNowEventTransport \<Rightarrow> ('r, 'x, 'y, 'p) ESPNowEventTransport" where
  "SetReceiver receiver s = s\<lparr>et_receiver := receiver\<rparr>"


section \<open>Destinations\<close>

definition AddDestination ::
  "MacAddress \<Rightarrow> ('r, 'x, 'y, 'p) ESPNowEventTransport \<Rightarrow> bool \<times> ('r, 'x, 'y, 'p) ESPNowEventTransport" where
  "AddDestination destination s =
     (if IsZero destination then (False, s)
      else if destination \<in> set (take (et_destinationCount s) (et_destinations s)) then (True, s)
      else if et_destinationCount s \<ge> length (et_destinations s) then (False, s)
      else (True, s\<lparr>et_destinations := (et_destinations s)[et_destinationCount s := destination],
                    et_destinationCount := et_destinationCount s + 1\<rparr>))"

text \<open>Moving the later entries down by one, entry after entry.\<close>

fun shift_down :: "nat list \<Rightarrow> MacAddress list \<Rightarrow> MacAddress list" where
  "shift_down [] ds = ds"
| "shift_down (j # js) ds = shift_down js (ds[j - 1 := ds ! j])"

definition RemoveDestination ::
  "MacAddress \<Rightarrow> ('r, 'x, 'y, 'p) ESPNowEventTransport \<Rightarrow> bool \<times> ('r, 'x, 'y, 'p) ESPNowEventTransport" where
  "RemoveDestination destination s =
     (case find_index (\<lambda>d. d = destination) (take (et_destinationCount s) (et_destinations s)) of
        None \<Rightarrow> (False, s)
      | Some i \<Rightarrow>
          let moved = shift_down [i + 1..<et_destinationCount s] (et_destinations s); n = et_destinationCount s - 1 in
          (True, s\<lparr>et_destinations := moved[n := zero_mac], et_destinationCount := n\<rparr>))"

definition ClearDestinations :: "('r, 'x, 'y, 'p) ESPNowEventTransport \<Rightarrow> ('r, 'x, 'y, 'p) ESPNowEventTransport" where
  "ClearDestinations s = s\<lparr>et_destinationCount := 0, et_destinations := map (\<lambda>_. zero_mac) (et_destinations s)\<rparr>"

definition GetDestinationCount :: "('r, 'x, 'y, 'p) ESPNowEventTransport \<Rightarrow> nat" where
  "GetDestinationCount s = et_destinationCount s"

end
