(* ===== verification/Event_Props.thy ===== *)
theory Event_Props
  imports Event_Transport Reassembly_Spec Async_Props
begin

text \<open>
  The Event transport: its reassembly table stays bounded whatever arrives, an event sent to a destination
  is delivered there once and unchanged whatever the order of its fragments, and an accepted packet goes to
  the destinations known when it was accepted.
\<close>

lemmas event_sizes =
  ESPRESSIO_ESPNOW_EVENT_MAX_PACKET_SIZE_def ESPRESSIO_ESPNOW_EVENT_MAX_REASSEMBLIES_def sizeof_EventFragmentHeader_def
  EventMaximumProtocolPayload_def EventMaximumFragmentPayload_def EventMaximumFragments_def EventReceiptBitmapBytes_def

lemma event_numbers:
  "EventMaximumFragmentPayload = 218" "EventMaximumFragments = 76" "EventReceiptBitmapBytes = 10"
  "sizeof_EventFragmentHeader = 24" "ESPRESSIO_ESPNOW_EVENT_MAX_PACKET_SIZE = 16384"
  by (simp_all add: event_sizes)


section \<open>Wire format\<close>

definition event_valid :: "EventFragmentHeader \<Rightarrow> byte list \<Rightarrow> bool" where
  "event_valid h d \<longleftrightarrow>
     eh_Magic h = EventMagic \<and> eh_Version h = EventVersion \<and> unat (eh_FragmentCount h) \<le> 76
     \<and> eh_FragmentIndex h < eh_FragmentCount h \<and> unat (eh_FragmentLength h) = length d \<and> length d \<le> 218
     \<and> eh_TotalLength h \<noteq> 0 \<and> unat (eh_TotalLength h) \<le> 16384
     \<and> unat (eh_FragmentIndex h) * 218 + length d \<le> unat (eh_TotalLength h)"

lemma length_event_header_write [simp]: "length (event_header_write h) = 24"
  by (simp add: event_header_write_def)

lemma event_header_read_write [simp]: "event_header_read (event_header_write h @ rest) = h"
proof -
  have "drop 8 (event_header_write h @ rest) = le_bytes 2 (eh_FragmentCount h) @ le_bytes 2 (eh_FragmentLength h)
      @ le_bytes 4 (eh_TotalLength h) @ le_bytes 8 (eh_MessageID h) @ rest"
    "drop 10 (event_header_write h @ rest) = le_bytes 2 (eh_FragmentLength h) @ le_bytes 4 (eh_TotalLength h) @ le_bytes 8 (eh_MessageID h) @ rest"
    "drop 12 (event_header_write h @ rest) = le_bytes 4 (eh_TotalLength h) @ le_bytes 8 (eh_MessageID h) @ rest"
    "drop 16 (event_header_write h @ rest) = le_bytes 8 (eh_MessageID h) @ rest"
    by (simp_all add: event_header_write_def)
  then show ?thesis by (simp add: event_header_read_def) (simp add: event_header_write_def nth_append)
qed

text \<open>A frame whose payload is \<open>bs\<close>.\<close>

definition payload_frame :: "MacAddress \<Rightarrow> u64 \<Rightarrow> byte list \<Rightarrow> ESPNowReceivedFrame" where
  "payload_frame source now bs = ReceivedFrame_default\<lparr>rf_Source := source, rf_ReceiveMonotonicNanoseconds := now,
     rf_PayloadLength := of_nat (length bs), rf_Payload := bs\<rparr>"

lemma payload_frame_fields [simp]:
  "rf_Source (payload_frame source now bs) = source" "rf_ReceiveMonotonicNanoseconds (payload_frame source now bs) = now"
  by (simp_all add: payload_frame_def)

lemma parse_event_frame_write:
  assumes v: "event_valid h d"
  shows "parse_event_frame (payload_frame source now (event_header_write h @ d)) = Some (h, d)"
proof -
  have len: "unat (of_nat (length (event_header_write h @ d)) :: u16) = 24 + length d"
    using v by (simp add: event_valid_def del: of_nat_add of_nat_numeral)
  have "eh_FragmentCount h \<noteq> 0" "\<not> eh_FragmentCount h \<le> eh_FragmentIndex h" using v by (auto simp: event_valid_def)
  then show ?thesis
    using v len by (simp add: parse_event_frame_def payload_frame_def event_numbers event_valid_def del: of_nat_add)
qed

lemma parse_event_frame_valid:
  assumes p: "parse_event_frame f = Some (h, d)" and len: "unat (rf_PayloadLength f) \<le> length (rf_Payload f)"
  shows "event_valid h d"
  using p len unfolding parse_event_frame_def Let_def
  by (auto simp: event_numbers event_valid_def not_le split: if_splits)

interpretation event_wire: wire_codec "\<lambda>h d. event_header_write h @ d"
  "\<lambda>bs. parse_event_frame (payload_frame source now bs)" event_valid for source now
proof
  fix h :: EventFragmentHeader and d :: "byte list"
  assume "event_valid h d"
  then show "parse_event_frame (payload_frame source now (event_header_write h @ d)) = Some (h, d)" by (rule parse_event_frame_write)
next
  fix bs :: "byte list" and h d
  assume p: "parse_event_frame (payload_frame source now bs) = Some (h, d)"
  have "unat (of_nat (length bs) :: u16) \<le> length bs" by (simp add: unat_of_nat)
  then show "event_valid h d" by (intro parse_event_frame_valid [OF p]) (simp add: payload_frame_def)
qed


section \<open>The reassembly table stays bounded\<close>

definition event_receipts :: "EventReassembly \<Rightarrow> nat set" where
  "event_receipts r = receipts (unat (er_FragmentCount r)) (er_ReceivedBits r)"

definition event_record_ok :: "EventReassembly \<Rightarrow> bool" where
  "event_record_ok r \<longleftrightarrow>
     length (er_Data r) = unat (er_TotalLength r) \<and> unat (er_TotalLength r) \<le> 16384 \<and> unat (er_FragmentCount r) \<le> 76
     \<and> length (er_ReceivedBits r) = 10 \<and> unat (er_ReceivedCount r) = card (event_receipts r)"

definition event_table_ok :: "EventReassembly list \<Rightarrow> bool" where
  "event_table_ok items \<longleftrightarrow> length items \<le> 8 \<and> distinct (map event_key items) \<and> list_all event_record_ok items"

lemma store_event_fragment_fields [simp]:
  "er_Source (store_event_fragment h d off r) = er_Source r" "er_MessageID (store_event_fragment h d off r) = er_MessageID r"
  "er_TotalLength (store_event_fragment h d off r) = er_TotalLength r"
  "er_FragmentCount (store_event_fragment h d off r) = er_FragmentCount r"
  "er_LastReceiveMonotonicNanoseconds (store_event_fragment h d off r) = er_LastReceiveMonotonicNanoseconds r"
  "event_key (store_event_fragment h d off r) = event_key r"
  by (simp_all add: store_event_fragment_def Event_MarkFragmentReceived_def event_key_def Let_def)

lemma store_event_fragment_ok:
  assumes ok: "event_record_ok r" and idx: "unat (eh_FragmentIndex h) < unat (er_FragmentCount r)"
    and fits: "off + length d \<le> unat (er_TotalLength r)"
  shows "event_record_ok (store_event_fragment h d off r)"
    "event_receipts (store_event_fragment h d off r) = insert (unat (eh_FragmentIndex h)) (event_receipts r)"
proof -
  let ?i = "unat (eh_FragmentIndex h)"
  have byte: "?i div 8 < length (er_ReceivedBits r)" using ok idx
    by (auto simp: event_record_ok_def div_less_iff_less_mult)
  have seen: "?i \<in> event_receipts r" if "Event_IsFragmentReceived r ?i"
    using that idx by (simp add: event_receipts_def receipts_def Event_IsFragmentReceived_def)
  show set: "event_receipts (store_event_fragment h d off r) = insert ?i (event_receipts r)"
    using receipts_set [OF idx byte] seen
    by (auto simp: store_event_fragment_def event_receipts_def Event_MarkFragmentReceived_def Let_def)
  have new: "?i \<notin> event_receipts r" if "\<not> Event_IsFragmentReceived r ?i"
    using that by (simp add: event_receipts_def receipts_def Event_IsFragmentReceived_def)
  have count: "unat (er_ReceivedCount r + 1) = Suc (card (event_receipts r))" if "\<not> Event_IsFragmentReceived r ?i"
    using receipts_count [of "er_ReceivedCount r" "er_FragmentCount r" "er_ReceivedBits r" ?i] ok idx that
    by (simp add: event_record_ok_def event_receipts_def Event_IsFragmentReceived_def)
  have fin: "finite (event_receipts r)" by (simp add: event_receipts_def)
  show "event_record_ok (store_event_fragment h d off r)"
  proof (cases "Event_IsFragmentReceived r ?i")
    case False
    have "card (event_receipts (store_event_fragment h d off r)) = Suc (card (event_receipts r))"
      unfolding set using new [OF False] fin by simp
    then show ?thesis
      using ok fits count [OF False] False
      by (simp add: event_record_ok_def length_blit) (simp add: store_event_fragment_def Event_MarkFragmentReceived_def Let_def length_blit)
  qed (use ok in \<open>simp add: store_event_fragment_def\<close>)
qed

lemma event_table_update:
  assumes "event_table_ok items" "i < length items" "event_record_ok r" "event_key r = event_key (items ! i)"
  shows "event_table_ok (items[i := r])"
proof -
  have "map event_key (items[i := r]) = map event_key items" using assms(2,4) by (metis list_update_id map_update)
  then show ?thesis using assms set_update_subset_insert [of items i r] by (auto simp: event_table_ok_def list_all_iff)
qed

lemma event_table_erase: "event_table_ok items \<Longrightarrow> i < length items \<Longrightarrow> event_table_ok (erase_at i items)"
  using distinct_erase_at(1) [of event_key items i] set_erase_at [of i items] by (auto simp: event_table_ok_def list_all_iff)

lemma touch_event [simp]:
  "event_record_ok (r\<lparr>er_LastReceiveMonotonicNanoseconds := now\<rparr>) = event_record_ok r"
  "event_receipts (r\<lparr>er_LastReceiveMonotonicNanoseconds := now\<rparr>) = event_receipts r"
  "event_key (r\<lparr>er_LastReceiveMonotonicNanoseconds := now\<rparr>) = event_key r"
  by (simp_all add: event_record_ok_def event_receipts_def event_key_def)

lemma update_event_ok:
  assumes ok: "event_table_ok items" and i: "i < length items" and v: "event_valid h d"
  shows "event_table_ok (snd (update_event_reassembly h d (unat (eh_FragmentIndex h) * 218) now i items))"
proof (cases "er_TotalLength (items ! i) = eh_TotalLength h \<and> er_FragmentCount (items ! i) = eh_FragmentCount h")
  case True
  let ?r = "store_event_fragment h d (unat (eh_FragmentIndex h) * 218) ((items ! i)\<lparr>er_LastReceiveMonotonicNanoseconds := now\<rparr>)"
  have "event_record_ok (items ! i)" using ok i by (simp add: event_table_ok_def list_all_length)
  then have "event_record_ok ?r"
    using v True by (intro store_event_fragment_ok(1)) (simp_all add: event_valid_def word_less_nat_alt)
  then show ?thesis
    using True event_table_update [OF ok i] event_table_erase [OF ok i] by (simp add: update_event_reassembly_def Let_def)
next
  case False
  then show ?thesis using event_table_erase [OF ok i] by (simp add: update_event_reassembly_def Let_def)
qed

lemma oldest_index_Some: "items \<noteq> [] \<Longrightarrow> \<exists>i < length items. oldest_index items = Some i"
proof (induction items)
  case (Cons r rs)
  then show ?case by (cases rs) (auto split: option.split)
qed simp

lemma evict_oldest_ok:
  assumes "event_table_ok items"
  shows "event_table_ok (evict_oldest items)" "length (evict_oldest items) < 8" "set (evict_oldest items) \<subseteq> set items"
proof -
  have "event_table_ok (evict_oldest items) \<and> length (evict_oldest items) < 8 \<and> set (evict_oldest items) \<subseteq> set items"
  proof (cases "8 \<le> length items")
    case True
    then have "items \<noteq> []" by auto
    then obtain i where i: "i < length items" "oldest_index items = Some i" using oldest_index_Some by blast
    then have "evict_oldest items = erase_at i items"
      using True by (simp add: evict_oldest_def ESPRESSIO_ESPNOW_EVENT_MAX_REASSEMBLIES_def)
    moreover have "length items \<le> 8" using assms by (simp add: event_table_ok_def)
    ultimately show ?thesis using event_table_erase [OF assms i(1)] set_erase_at [of i items] i(1) by simp
  next
    case False
    then show ?thesis using assms by (simp add: evict_oldest_def ESPRESSIO_ESPNOW_EVENT_MAX_REASSEMBLIES_def)
  qed
  then show "event_table_ok (evict_oldest items)" "length (evict_oldest items) < 8" "set (evict_oldest items) \<subseteq> set items" by simp_all
qed

lemma new_event_ok:
  assumes "event_valid h d"
  shows "event_record_ok (new_event_reassembly source h now)" "event_receipts (new_event_reassembly source h now) = {}"
    "event_key (new_event_reassembly source h now) = (source, eh_MessageID h)"
  using assms by (simp_all add: event_record_ok_def event_receipts_def new_event_reassembly_def event_numbers event_valid_def event_key_def)

lemma event_table_filter: "event_table_ok items \<Longrightarrow> event_table_ok (filter P items)"
  by (auto simp: event_table_ok_def list_all_iff distinct_map_filter intro: order_trans [OF length_filter_le])

lemma event_reassemble_ok:
  assumes ok: "event_table_ok items" and v: "event_valid h d"
  shows "event_table_ok (snd (event_reassemble alloc source h d (unat (eh_FragmentIndex h) * 218) now items))"
proof -
  let ?f = "filter (\<lambda>r. \<not> event_expired now r) items"
  note f = event_table_filter [OF ok, of "\<lambda>r. \<not> event_expired now r"]
  note e = evict_oldest_ok [OF f]
  have new: "event_table_ok (evict_oldest ?f @ [new_event_reassembly source h now])"
    if "find_index (\<lambda>r. event_key r = (source, eh_MessageID h)) ?f = None"
  proof -
    have "(source, eh_MessageID h) \<notin> event_key ` set ?f"
      using that unfolding find_index_None_set by auto
    then have "(source, eh_MessageID h) \<notin> event_key ` set (evict_oldest ?f)" using e(3) by auto
    then show ?thesis using e(1,2) new_event_ok [OF v, of source now] by (auto simp: event_table_ok_def)
  qed
  show ?thesis
    using update_event_ok [OF f _ v] update_event_ok [OF new _ v] e(1)
    by (auto simp: event_reassemble_def Let_def dest: find_index_Some split: option.split)
qed

lemma Event_HandleFrame_table:
  assumes "event_table_ok (et_reassemblies s)" and "unat (rf_PayloadLength f) \<le> length (rf_Payload f)"
  shows "event_table_ok (et_reassemblies (snd (Event_HandleFrame alloc f s)))"
proof (cases "parse_event_frame f")
  case (Some hd')
  obtain h d where hd: "hd' = (h, d)" by fastforce
  have v: "event_valid h d" using parse_event_frame_valid assms(2) Some hd by blast
  note r = event_reassemble_ok [OF assms(1) v, of alloc "rf_Source f" "rf_ReceiveMonotonicNanoseconds f"]
  show ?thesis
  proof (cases "eh_FragmentCount h = 1")
    case True
    then show ?thesis using assms(1) by (simp add: Event_HandleFrame_def Some hd Let_def split: option.split)
  next
    case False
    then show ?thesis using r by (simp add: Event_HandleFrame_def Some hd Let_def split_beta event_numbers split: option.split)
  qed
qed (use assms(1) in \<open>simp add: Event_HandleFrame_def\<close>)

text \<open>Handling frames one after another; the deliveries in order.\<close>

fun handle_events ::
  "(nat \<Rightarrow> bool) \<Rightarrow> ESPNowReceivedFrame list \<Rightarrow> ('r, 'x, 'y, 'p) ESPNowEventTransport
     \<Rightarrow> ('r \<times> EventTransportPacket) list \<times> ('r, 'x, 'y, 'p) ESPNowEventTransport" where
  "handle_events alloc [] s = ([], s)"
| "handle_events alloc (f # fs) s =
     (case Event_HandleFrame alloc f s of
        (es, s1) \<Rightarrow> (case handle_events alloc fs s1 of (es', s2) \<Rightarrow> (es @ es', s2)))"

lemma handle_events_table:
  assumes "event_table_ok (et_reassemblies s)" "list_all (\<lambda>f. unat (rf_PayloadLength f) \<le> length (rf_Payload f)) fs"
  shows "event_table_ok (et_reassemblies (snd (handle_events alloc fs s)))"
  using assms
proof (induction fs arbitrary: s)
  case (Cons f fs)
  then show ?case using Event_HandleFrame_table [of s f alloc] by (simp add: split_beta)
qed simp

text \<open>A stored packet is incomplete: the fragment that completes it removes it.\<close>

definition event_incomplete :: "EventReassembly \<Rightarrow> bool" where
  "event_incomplete r \<longleftrightarrow> er_ReceivedCount r \<noteq> er_FragmentCount r"

lemma update_event_incomplete:
  "list_all event_incomplete items \<Longrightarrow> i < length items \<Longrightarrow>
     list_all event_incomplete (snd (update_event_reassembly h d off now i items))"
  using set_erase_at [of i items]
    set_update_subset_insert [of items i "store_event_fragment h d off ((items ! i)\<lparr>er_LastReceiveMonotonicNanoseconds := now\<rparr>)"]
  by (auto simp: update_event_reassembly_def Let_def list_all_iff event_incomplete_def)

lemma event_reassemble_incomplete:
  assumes inc: "list_all event_incomplete items" and ok: "event_table_ok items" and v: "event_valid h d"
  shows "list_all event_incomplete (snd (event_reassemble alloc source h d off now items))"
proof -
  let ?f = "filter (\<lambda>r. \<not> event_expired now r) items"
  have f: "list_all event_incomplete ?f" using inc by (simp add: list_all_iff)
  moreover have "set (evict_oldest ?f) \<subseteq> set ?f" by (rule evict_oldest_ok(3) [OF event_table_filter [OF ok]])
  ultimately have e: "list_all event_incomplete (evict_oldest ?f)" unfolding list_all_iff by blast
  have "eh_FragmentCount h \<noteq> 0" using v by (auto simp: event_valid_def)
  then have "list_all event_incomplete (evict_oldest ?f @ [new_event_reassembly source h now])"
    using e by (simp add: event_incomplete_def new_event_reassembly_def)
  then show ?thesis
    using e update_event_incomplete [OF f]
      update_event_incomplete [of "evict_oldest ?f @ [new_event_reassembly source h now]" "length (evict_oldest ?f)"]
    by (auto simp: event_reassemble_def Let_def dest: find_index_Some split: option.split)
qed

lemma Event_HandleFrame_incomplete:
  assumes "list_all event_incomplete (et_reassemblies s)" "event_table_ok (et_reassemblies s)" "unat (rf_PayloadLength f) \<le> length (rf_Payload f)"
  shows "list_all event_incomplete (et_reassemblies (snd (Event_HandleFrame alloc f s)))"
proof (cases "parse_event_frame f")
  case (Some hd')
  obtain h d where hd: "hd' = (h, d)" by fastforce
  have v: "event_valid h d" using parse_event_frame_valid assms(3) Some hd by blast
  show ?thesis
    using event_reassemble_incomplete [OF assms(1,2) v] assms(1)
    by (simp add: Event_HandleFrame_def Some hd Let_def split_beta split: option.split)
qed (use assms(1) in \<open>simp add: Event_HandleFrame_def\<close>)

lemma handle_events_incomplete:
  assumes "list_all event_incomplete (et_reassemblies s)" "event_table_ok (et_reassemblies s)"
    "list_all (\<lambda>f. unat (rf_PayloadLength f) \<le> length (rf_Payload f)) fs"
  shows "list_all event_incomplete (et_reassemblies (snd (handle_events alloc fs s)))"
  using assms
proof (induction fs arbitrary: s)
  case (Cons f fs)
  then show ?case using Event_HandleFrame_table [of s f alloc] Event_HandleFrame_incomplete [of s f alloc] by (simp add: split_beta)
qed simp

text \<open>
  C28. Whatever frames arrive, well-formed or not, the Event transport keeps at most eight partial packets, no
  two with the same source and identifier; their buffers and bitmaps take at most 8 times 16394 bytes. Every buffer has the
  announced size, at most 16384 bytes, every bitmap has 10 bytes, and every receipt counter is the number of different fragments
  received and stays below the fragment count: a complete packet is never kept.
\<close>

theorem event_reassembly_bounded:
  assumes "list_all (\<lambda>f. unat (rf_PayloadLength f) \<le> length (rf_Payload f)) fs"
  shows "let items = et_reassemblies (snd (handle_events alloc fs (EventTransport_new reject :: ('r, 'x, 'y, 'p) ESPNowEventTransport))) in
     length items \<le> ESPRESSIO_ESPNOW_EVENT_MAX_REASSEMBLIES \<and> distinct (map event_key items)
     \<and> (\<Sum>r \<leftarrow> items. length (er_Data r) + length (er_ReceivedBits r))
         \<le> ESPRESSIO_ESPNOW_EVENT_MAX_REASSEMBLIES * (ESPRESSIO_ESPNOW_EVENT_MAX_PACKET_SIZE + EventReceiptBitmapBytes)
     \<and> list_all (\<lambda>r. length (er_Data r) = unat (er_TotalLength r) \<and> unat (er_TotalLength r) \<le> ESPRESSIO_ESPNOW_EVENT_MAX_PACKET_SIZE
         \<and> length (er_ReceivedBits r) = EventReceiptBitmapBytes
         \<and> unat (er_ReceivedCount r) = card {i. i < unat (er_FragmentCount r) \<and> Event_IsFragmentReceived r i}
         \<and> er_ReceivedCount r < er_FragmentCount r) items"
proof -
  let ?s = "EventTransport_new reject :: ('r, 'x, 'y, 'p) ESPNowEventTransport"
  let ?items = "et_reassemblies (snd (handle_events alloc fs ?s))"
  have "event_table_ok (et_reassemblies ?s)" "list_all event_incomplete (et_reassemblies ?s)"
    by (simp_all add: EventTransport_new_def event_table_ok_def)
  then have ok: "event_table_ok ?items" and inc: "list_all event_incomplete ?items"
    using handle_events_table handle_events_incomplete assms by blast+
  have each: "length (er_Data r) = unat (er_TotalLength r) \<and> unat (er_TotalLength r) \<le> 16384 \<and> length (er_ReceivedBits r) = 10
      \<and> unat (er_ReceivedCount r) = card {i. i < unat (er_FragmentCount r) \<and> Event_IsFragmentReceived r i}
      \<and> er_ReceivedCount r < er_FragmentCount r" if "r \<in> set ?items" for r
  proof -
    have r: "event_record_ok r" "er_ReceivedCount r \<noteq> er_FragmentCount r"
      using ok inc that by (auto simp: event_table_ok_def list_all_iff event_incomplete_def)
    have "card (event_receipts r) \<le> unat (er_FragmentCount r)"
      using card_mono [OF _ receipts_subset [of "unat (er_FragmentCount r)" "er_ReceivedBits r"]] by (simp add: event_receipts_def)
    then have "er_ReceivedCount r \<le> er_FragmentCount r" using r(1) by (simp add: event_record_ok_def word_le_nat_alt)
    moreover have "event_receipts r = {i. i < unat (er_FragmentCount r) \<and> Event_IsFragmentReceived r i}"
      by (auto simp: event_receipts_def receipts_def Event_IsFragmentReceived_def)
    ultimately show ?thesis using r by (auto simp: event_record_ok_def)
  qed
  have "(\<Sum>r \<leftarrow> ?items. length (er_Data r) + length (er_ReceivedBits r)) \<le> (\<Sum>r \<leftarrow> ?items. 16394)"
    using each by (intro sum_list_mono) auto
  also have "\<dots> \<le> 8 * 16394" using ok by (simp add: sum_list_triv event_table_ok_def)
  finally show ?thesis
    using ok each unfolding Let_def by (simp add: event_table_ok_def event_sizes list_all_iff)
qed


section \<open>Delivery in any order\<close>

definition event_count :: "byte list \<Rightarrow> nat" where
  "event_count payload = ceil_div (length payload) 218"

definition event_header :: "u64 \<Rightarrow> byte list \<Rightarrow> nat \<Rightarrow> EventFragmentHeader" where
  "event_header messageID payload i =
     EventFragmentHeader_default\<lparr>eh_FragmentIndex := of_nat i, eh_FragmentCount := of_nat (event_count payload),
       eh_FragmentLength := of_nat (length (chunk 218 payload i)), eh_TotalLength := of_nat (length payload), eh_MessageID := messageID\<rparr>"

definition packet_ok :: "byte list \<Rightarrow> bool" where
  "packet_ok payload \<longleftrightarrow> payload \<noteq> [] \<and> length payload \<le> 16384"

lemma event_count_bounds:
  assumes "packet_ok payload"
  shows "0 < event_count payload" "event_count payload \<le> 76"
proof -
  show "0 < event_count payload" using assms by (simp add: event_count_def packet_ok_def ceil_div_pos)
  have "length payload + 217 \<le> 16601" using assms by (simp add: packet_ok_def)
  then have "(length payload + 217) div 218 \<le> 16601 div 218" by (rule div_le_mono)
  then show "event_count payload \<le> 76" by (simp add: event_count_def ceil_div_def)
qed

lemma event_chunk_range:
  assumes "i < event_count payload"
  shows "i * 218 < length payload" "i * 218 + length (chunk 218 payload i) \<le> length payload"
proof -
  show r: "i * 218 < length payload" using assms by (simp add: event_count_def less_ceil_div_iff)
  then show "i * 218 + length (chunk 218 payload i) \<le> length payload" by (auto simp: length_chunk)
qed

lemma event_header_words:
  assumes p: "packet_ok payload" and i: "i < event_count payload"
  shows "unat (eh_FragmentIndex (event_header messageID payload i)) = i"
    "unat (eh_FragmentCount (event_header messageID payload i)) = event_count payload"
    "unat (eh_TotalLength (event_header messageID payload i)) = length payload"
    "unat (eh_FragmentLength (event_header messageID payload i)) = length (chunk 218 payload i)"
    "eh_MessageID (event_header messageID payload i) = messageID"
    "event_valid (event_header messageID payload i) (chunk 218 payload i)"
proof -
  note c = event_count_bounds [OF p]
  have cl: "length (chunk 218 payload i) \<le> 218" by (simp add: length_chunk)
  show w: "unat (eh_FragmentIndex (event_header messageID payload i)) = i"
    "unat (eh_FragmentCount (event_header messageID payload i)) = event_count payload"
    "unat (eh_TotalLength (event_header messageID payload i)) = length payload"
    "unat (eh_FragmentLength (event_header messageID payload i)) = length (chunk 218 payload i)"
    "eh_MessageID (event_header messageID payload i) = messageID"
    using c cl i p by (simp_all add: event_header_def packet_ok_def)
  note r = event_chunk_range(1) [OF i] and q = event_chunk_range(2) [OF i]
  have "eh_TotalLength (event_header messageID payload i) \<noteq> 0" using w(3) r by (metis less_nat_zero_code unat_0)
  moreover have "eh_Magic (event_header messageID payload i) = EventMagic" "eh_Version (event_header messageID payload i) = EventVersion"
    by (simp_all add: event_header_def EventFragmentHeader_default_def)
  ultimately show "event_valid (event_header messageID payload i) (chunk 218 payload i)"
    unfolding event_valid_def w word_less_nat_alt using c cl i q p by (simp add: packet_ok_def)
qed

definition event_record_good :: "byte list \<Rightarrow> EventReassembly \<Rightarrow> bool" where
  "event_record_good payload r \<longleftrightarrow>
     event_record_ok r \<and> unat (er_TotalLength r) = length payload \<and> unat (er_FragmentCount r) = event_count payload
     \<and> holds_chunks 218 payload (event_receipts r) (er_Data r)"

lemma event_record_good_store:
  assumes p: "packet_ok payload" and i: "i < event_count payload" and g: "event_record_good payload r"
  shows "event_record_good payload (store_event_fragment (event_header messageID payload i) (chunk 218 payload i) (i * 218) r)"
    "event_receipts (store_event_fragment (event_header messageID payload i) (chunk 218 payload i) (i * 218) r) = insert i (event_receipts r)"
proof -
  let ?h = "event_header messageID payload i" and ?d = "chunk 218 payload i"
  note w = event_header_words [OF p i, of messageID]
  have idx: "unat (eh_FragmentIndex ?h) < unat (er_FragmentCount r)" using w(1) g i by (simp add: event_record_good_def)
  have fits: "i * 218 + length ?d \<le> unat (er_TotalLength r)" using event_chunk_range(2) [OF i] g by (simp add: event_record_good_def)
  note s = store_event_fragment_ok [OF _ idx fits]
  show set: "event_receipts (store_event_fragment ?h ?d (i * 218) r) = insert i (event_receipts r)"
    using s(2) g w(1) by (simp add: event_record_good_def)
  have "holds_chunks 218 payload (insert i (event_receipts r)) (er_Data (store_event_fragment ?h ?d (i * 218) r))"
  proof (cases "Event_IsFragmentReceived r i")
    case True
    then have "i \<in> event_receipts r"
      using g i by (simp add: event_receipts_def receipts_def Event_IsFragmentReceived_def event_record_good_def)
    then show ?thesis using True g w(1) by (simp add: store_event_fragment_def insert_absorb event_record_good_def)
  next
    case False
    then have "er_Data (store_event_fragment ?h ?d (i * 218) r) = blit (i * 218) ?d (er_Data r)"
      using w(1) by (simp add: store_event_fragment_def Event_MarkFragmentReceived_def Let_def)
    then show ?thesis using holds_chunks_blit [OF _ _ event_chunk_range(1) [OF i]] g by (simp add: event_record_good_def)
  qed
  then show "event_record_good payload (store_event_fragment ?h ?d (i * 218) r)"
    unfolding event_record_good_def set using g s(1) by (simp add: event_record_good_def)
qed

lemma event_record_complete:
  assumes g: "event_record_good payload r"
  shows "er_ReceivedCount r = er_FragmentCount r \<longleftrightarrow> event_receipts r = {..<event_count payload}"
    "event_receipts r = {..<event_count payload} \<Longrightarrow> er_Data r = payload"
proof -
  have "er_ReceivedCount r = er_FragmentCount r \<longleftrightarrow> card (event_receipts r) = event_count payload"
    using g unfolding event_record_good_def event_record_ok_def by (metis unsigned_word_eqI)
  then show "er_ReceivedCount r = er_FragmentCount r \<longleftrightarrow> event_receipts r = {..<event_count payload}"
    using receipts_complete [of "unat (er_FragmentCount r)" "er_ReceivedBits r"] g by (simp add: event_receipts_def event_record_good_def)
  assume "event_receipts r = {..<event_count payload}"
  then show "er_Data r = payload" using holds_chunks_full [of 218 payload "er_Data r"] g by (simp add: event_record_good_def event_count_def)
qed

section \<open>One packet among others\<close>

text \<open>
  The state seen by one packet: the table, the time of its last fragment and the times to come. Consecutive
  times are less than the reassembly timeout apart, as seen by the expiry test.
\<close>

definition in_time :: "u64 \<Rightarrow> u64 \<Rightarrow> bool" where
  "in_time before now \<longleftrightarrow> \<not> (now > before \<and> now - before > of_nat ESPRESSIO_ESPNOW_EVENT_REASSEMBLY_TIMEOUT_MS * 1000000)"

type_synonym event_view = "EventReassembly list \<times> u64 \<times> (nat \<Rightarrow> u64)"

definition event_accept :: "MacAddress \<Rightarrow> u64 \<Rightarrow> byte list \<Rightarrow> event_view \<Rightarrow> nat \<Rightarrow> byte list option \<times> event_view" where
  "event_accept source messageID payload v i =
     (let (items, before, clock) = v;
          (completed, items) = event_reassemble (\<lambda>n. True) source (event_header messageID payload i) (chunk 218 payload i) (i * 218) (clock 0) items in
      (completed, items, clock 0, \<lambda>k. clock (Suc k)))"

definition event_seen :: "MacAddress \<Rightarrow> u64 \<Rightarrow> EventReassembly list \<Rightarrow> nat set" where
  "event_seen source messageID items =
     (case List.find (\<lambda>r. event_key r = (source, messageID)) items of None \<Rightarrow> {} | Some r \<Rightarrow> event_receipts r)"

definition event_items_invar :: "MacAddress \<Rightarrow> u64 \<Rightarrow> byte list \<Rightarrow> EventReassembly list \<Rightarrow> u64 \<Rightarrow> bool" where
  "event_items_invar source messageID payload items before \<longleftrightarrow>
     event_table_ok items
     \<and> (\<forall>r \<in> set items. event_key r = (source, messageID) \<longrightarrow>
          event_record_good payload r \<and> er_LastReceiveMonotonicNanoseconds r = before \<and> event_receipts r \<subset> {..<event_count payload})"

definition event_invar :: "MacAddress \<Rightarrow> u64 \<Rightarrow> byte list \<Rightarrow> event_view \<Rightarrow> bool" where
  "event_invar source messageID payload = (\<lambda>(items, before, clock).
     packet_ok payload \<and> event_items_invar source messageID payload items before
     \<and> in_time before (clock 0) \<and> (\<forall>k. in_time (clock k) (clock (Suc k))))"

lemma find_key_unique:
  assumes "distinct (map f xs)" "x \<in> set xs"
  shows "List.find (\<lambda>y. f y = f x) xs = Some x"
  using assms by (induction xs) (auto simp: image_iff)

lemma find_index_find: "find_index P xs = Some i \<Longrightarrow> List.find P xs = Some (xs ! i)"
  by (induction xs arbitrary: i) (auto split: if_splits)

lemma find_index_None_find: "find_index P xs = None \<longleftrightarrow> List.find P xs = None"
  by (auto simp: find_index_None_set find_None_iff)

text \<open>The fragment on the record it finds or creates, at position \<open>k\<close>.\<close>

lemma update_event_packet:
  assumes p: "packet_ok payload" and i: "i < event_count payload" and ok: "event_table_ok items"
    and k: "k < length items" and g: "event_record_good payload (items ! k)" and key: "event_key (items ! k) = (source, messageID)"
  shows "if insert i (event_receipts (items ! k)) = {..<event_count payload}
    then fst (update_event_reassembly (event_header messageID payload i) (chunk 218 payload i) (i * 218) now k items) = Some payload
      \<and> (source, messageID) \<notin> event_key ` set (snd (update_event_reassembly (event_header messageID payload i) (chunk 218 payload i) (i * 218) now k items))
    else \<exists>r. update_event_reassembly (event_header messageID payload i) (chunk 218 payload i) (i * 218) now k items = (None, items[k := r])
      \<and> event_record_good payload r \<and> event_receipts r = insert i (event_receipts (items ! k))
      \<and> er_LastReceiveMonotonicNanoseconds r = now \<and> event_key r = (source, messageID)"
proof -
  let ?h = "event_header messageID payload i" and ?d = "chunk 218 payload i"
  let ?t = "(items ! k)\<lparr>er_LastReceiveMonotonicNanoseconds := now\<rparr>"
  let ?r = "store_event_fragment ?h ?d (i * 218) ?t"
  note w = event_header_words [OF p i, of messageID]
  have gt: "event_record_good payload ?t" using g by (simp add: event_record_good_def)
  note s = event_record_good_store [OF p i gt, of messageID]
  have set: "event_receipts ?r = insert i (event_receipts (items ! k))" using s(2) by simp
  have same: "er_TotalLength (items ! k) = eh_TotalLength ?h" "er_FragmentCount (items ! k) = eh_FragmentCount ?h"
    using g w(2,3) unfolding event_record_good_def by (metis unsigned_word_eqI)+
  have step: "update_event_reassembly ?h ?d (i * 218) now k items =
      (if er_ReceivedCount ?r = er_FragmentCount ?r then (Some (er_Data ?r), erase_at k items) else (None, items[k := ?r]))"
    using same by (simp add: update_event_reassembly_def Let_def)
  note c = event_record_complete [OF s(1), unfolded set]
  have gone: "(source, messageID) \<notin> event_key ` set (erase_at k items)"
    using distinct_erase_at(2) [of event_key items k] ok k key by (simp add: event_table_ok_def)
  show ?thesis
  proof (cases "insert i (event_receipts (items ! k)) = {..<event_count payload}")
    case True
    then have "er_ReceivedCount ?r = er_FragmentCount ?r" "er_Data ?r = payload" using c by blast+
    then show ?thesis unfolding if_P [OF True] step using gone by simp
  next
    case False
    then have "er_ReceivedCount ?r \<noteq> er_FragmentCount ?r" using c(1) by blast
    then show ?thesis unfolding if_not_P [OF False] step using s(1) set key by auto
  qed
qed

lemma event_items_replace:
  assumes ok: "event_table_ok items" and k: "k < length items" and key: "event_key r = event_key (items ! k)" "event_key (items ! k) = (source, messageID)"
    and g: "event_record_good payload r" "event_receipts r \<subset> {..<event_count payload}" "er_LastReceiveMonotonicNanoseconds r = now"
  shows "event_items_invar source messageID payload (items[k := r]) now" "event_seen source messageID (items[k := r]) = event_receipts r"
proof -
  have t: "event_table_ok (items[k := r])"
    using event_table_update [OF ok k _ key(1)] g(1) by (simp add: event_record_good_def)
  have uniq: "x = r" if "x \<in> set (items[k := r])" "event_key x = (source, messageID)" for x
    using t that key k find_key_unique [of event_key "items[k := r]" x] find_key_unique [of event_key "items[k := r]" r]
    by (simp add: event_table_ok_def set_update_memI)
  show "event_items_invar source messageID payload (items[k := r]) now" using t uniq g by (auto simp: event_items_invar_def)
  show "event_seen source messageID (items[k := r]) = event_receipts r"
    using t find_key_unique [of event_key "items[k := r]" r] key k by (simp add: event_seen_def event_table_ok_def set_update_memI)
qed

lemma event_reassemble_packet:
  assumes p: "packet_ok payload" and inv: "event_items_invar source messageID payload items before" and time: "in_time before now"
    and i: "i < event_count payload"
  shows "if insert i (event_seen source messageID items) = {..<event_count payload}
    then fst (event_reassemble (\<lambda>n. True) source (event_header messageID payload i) (chunk 218 payload i) (i * 218) now items) = Some payload
      \<and> (source, messageID) \<notin> event_key ` set (snd (event_reassemble (\<lambda>n. True) source (event_header messageID payload i) (chunk 218 payload i) (i * 218) now items))
    else \<exists>items'. event_reassemble (\<lambda>n. True) source (event_header messageID payload i) (chunk 218 payload i) (i * 218) now items = (None, items')
      \<and> event_items_invar source messageID payload items' now
      \<and> event_seen source messageID items' = insert i (event_seen source messageID items)"
proof -
  let ?h = "event_header messageID payload i" and ?d = "chunk 218 payload i"
  let ?f = "filter (\<lambda>r. \<not> event_expired now r) items" and ?P = "\<lambda>r. event_key r = (source, messageID)"
  note w = event_header_words [OF p i, of messageID]
  have ok: "event_table_ok items" using inv by (simp add: event_items_invar_def)
  note fok = event_table_filter [OF ok, of "\<lambda>r. \<not> event_expired now r"]
  have stay: "\<not> event_expired now r" if "r \<in> set items" "?P r" for r
    using inv that time by (simp add: event_items_invar_def event_expired_def in_time_def)
  have "\<exists>items1 k. event_table_ok items1 \<and> k < length items1 \<and> event_record_good payload (items1 ! k) \<and> event_key (items1 ! k) = (source, messageID)
      \<and> event_receipts (items1 ! k) = event_seen source messageID items
      \<and> event_reassemble (\<lambda>n. True) source ?h ?d (i * 218) now items = update_event_reassembly ?h ?d (i * 218) now k items1"
  proof (cases "find_index ?P ?f")
    case (Some k)
    note k = find_index_Some [OF Some]
    have mem: "?f ! k \<in> set items" using nth_mem [of k ?f] k by (meson filter_is_subset subsetD)
    have "event_seen source messageID items = event_receipts (?f ! k)"
      using find_key_unique [of event_key items "?f ! k"] mem k ok by (simp add: event_seen_def event_table_ok_def)
    then show ?thesis
      using Some k mem inv fok w(5) by (intro exI [of _ ?f] exI [of _ k]) (auto simp: event_reassemble_def Let_def event_items_invar_def)
  next
    case None
    then have "\<not> (\<exists>r \<in> set items. ?P r)" using stay by (auto simp: find_index_None_set)
    then have seen: "event_seen source messageID items = {}" by (auto simp: event_seen_def find_None_iff split: option.split dest: find_Some_iff [THEN iffD1])
    let ?new = "new_event_reassembly source ?h now" and ?e = "evict_oldest ?f"
    note e = evict_oldest_ok [OF fok] and n = new_event_ok [OF w(6), of source now]
    have "(source, messageID) \<notin> event_key ` set ?e" using None e(3) by (auto simp: find_index_None_set)
    then have t: "event_table_ok (?e @ [?new])" using e(1,2) n w(5) by (auto simp: event_table_ok_def)
    have "event_record_good payload ?new"
      using n w by (simp add: event_record_good_def holds_chunks_def) (simp add: new_event_reassembly_def)
    then show ?thesis
      using None t n seen w(5) by (intro exI [of _ "?e @ [?new]"] exI [of _ "length ?e"]) (simp add: event_reassemble_def Let_def)
  qed
  then obtain items1 k where s: "event_table_ok items1" "k < length items1" "event_record_good payload (items1 ! k)" "event_key (items1 ! k) = (source, messageID)"
    "event_receipts (items1 ! k) = event_seen source messageID items"
    "event_reassemble (\<lambda>n. True) source ?h ?d (i * 218) now items = update_event_reassembly ?h ?d (i * 218) now k items1" by blast
  note u = update_event_packet [OF p i s(1-4), of now, unfolded s(5)]
  show ?thesis
  proof (cases "insert i (event_seen source messageID items) = {..<event_count payload}")
    case True
    then show ?thesis using u s(6) by simp
  next
    case False
    obtain r where r: "update_event_reassembly ?h ?d (i * 218) now k items1 = (None, items1[k := r])" "event_record_good payload r"
      "event_receipts r = insert i (event_seen source messageID items)" "er_LastReceiveMonotonicNanoseconds r = now" "event_key r = (source, messageID)"
      using u unfolding if_not_P [OF False] by blast
    have "event_receipts r \<subseteq> {..<event_count payload}"
      using r(2) receipts_subset [of "unat (er_FragmentCount r)"] by (simp add: event_receipts_def event_record_good_def)
    then have "event_receipts r \<subset> {..<event_count payload}" using False r(3) by blast
    from event_items_replace [OF s(1,2) _ s(4) r(2) this r(4)] r(3,5) s(4,6) r(1) show ?thesis
      unfolding if_not_P [OF False] by simp
  qed
qed

interpretation event_reassembly: fragment_reassembly
  "event_accept source messageID payload" "\<lambda>v. event_seen source messageID (fst v)" "event_count payload" payload
  "event_invar source messageID payload"
  for source messageID payload
proof
  fix v assume inv: "event_invar source messageID payload v"
  obtain items before clock where v: "v = (items, before, clock)" by (cases rule: prod_cases3)
  have p: "packet_ok payload" and it: "event_items_invar source messageID payload items before" using inv v by (simp_all add: event_invar_def)
  have "{} \<subset> {..<event_count payload}" using event_count_bounds(1) [OF p] by auto
  then show "event_seen source messageID (fst v) \<subset> {..<event_count payload}"
    using it v by (auto simp: event_seen_def event_items_invar_def split: option.split dest!: find_Some_iff [THEN iffD1])
next
  fix v i assume inv: "event_invar source messageID payload v" and i: "i < event_count payload"
    and ne: "insert i (event_seen source messageID (fst v)) \<noteq> {..<event_count payload}"
  obtain items before clock where v: "v = (items, before, clock)" by (cases rule: prod_cases3)
  have p: "packet_ok payload" "event_items_invar source messageID payload items before" "in_time before (clock 0)"
    "\<forall>k. in_time (clock k) (clock (Suc k))" using inv v by (simp_all add: event_invar_def)
  have ne': "insert i (event_seen source messageID items) \<noteq> {..<event_count payload}" using ne v by simp
  obtain items' where "event_reassemble (\<lambda>n. True) source (event_header messageID payload i) (chunk 218 payload i) (i * 218) (clock 0) items = (None, items')"
    "event_items_invar source messageID payload items' (clock 0)" "event_seen source messageID items' = insert i (event_seen source messageID items)"
    using event_reassemble_packet [OF p(1-3) i] unfolding if_not_P [OF ne'] by blast
  then show "fst (event_accept source messageID payload v i) = None
      \<and> event_invar source messageID payload (snd (event_accept source messageID payload v i))
      \<and> event_seen source messageID (fst (snd (event_accept source messageID payload v i))) = insert i (event_seen source messageID (fst v))"
    using p(1,4) v by (simp add: event_accept_def event_invar_def)
next
  fix v i assume inv: "event_invar source messageID payload v" and i: "i < event_count payload"
    and full: "insert i (event_seen source messageID (fst v)) = {..<event_count payload}"
  obtain items before clock where v: "v = (items, before, clock)" by (cases rule: prod_cases3)
  have p: "packet_ok payload" "event_items_invar source messageID payload items before" "in_time before (clock 0)"
    using inv v by (simp_all add: event_invar_def)
  have full': "insert i (event_seen source messageID items) = {..<event_count payload}" using full v by simp
  show "fst (event_accept source messageID payload v i) = Some payload"
    using event_reassemble_packet [OF p i] unfolding if_P [OF full'] by (simp add: event_accept_def v split_beta)
qed


section \<open>From sender to receiver\<close>

text \<open>The frames the sender hands to the ESP-NOW transport, in order until one is refused.\<close>

definition event_bytes :: "EventTransportPacket \<Rightarrow> nat \<Rightarrow> byte list" where
  "event_bytes packet i = event_header_write (event_header (ep_MessageID packet) (ep_Data packet) i) @ chunk 218 (ep_Data packet) i"

fun send_event_frames ::
  "('q, 'v) native_api \<Rightarrow> MacAddress \<Rightarrow> byte list list \<Rightarrow> ('h, 'm, 'o, 'q, 'v) ESPNowTransport
     \<Rightarrow> bool \<times> ('h, 'm, 'o, 'q, 'v) ESPNowTransport" where
  "send_event_frames api destination [] t = (True, t)"
| "send_event_frames api destination (f # fs) t =
     (case Send api destination (protocol_id EventTransport) (Some f) (length f) t of
        (sent, t) \<Rightarrow> if sent then send_event_frames api destination fs t else (False, t))"

lemma event_send_loop_eq:
  "event_send_loop api destination packet (event_count (ep_Data packet)) is' t =
     send_event_frames api destination (map (event_bytes packet) is') t"
proof (induction is' arbitrary: t)
  case (Cons i rest)
  have len: "min (length (ep_Data packet) - i * 218) 218 = length (chunk 218 (ep_Data packet) i)" by (simp add: length_chunk)
  have "take (length (chunk 218 (ep_Data packet) i)) (drop (i * 218) (ep_Data packet)) = chunk 218 (ep_Data packet) i"
    by (simp add: chunk_def min_def)
  then have bytes: "event_header_write (EventFragmentHeader_default\<lparr>eh_FragmentIndex := of_nat i, eh_FragmentCount := of_nat (event_count (ep_Data packet)),
        eh_FragmentLength := of_nat (length (chunk 218 (ep_Data packet) i)), eh_TotalLength := of_nat (length (ep_Data packet)),
        eh_MessageID := ep_MessageID packet\<rparr>) @ take (length (chunk 218 (ep_Data packet) i)) (drop (i * 218) (ep_Data packet)) = event_bytes packet i"
    by (simp add: event_bytes_def event_header_def)
  have l: "24 + length (chunk 218 (ep_Data packet) i) = length (event_bytes packet i)" by (simp add: event_bytes_def)
  show ?case
    unfolding event_send_loop.simps Let_def event_numbers len bytes l using Cons.IH by (simp add: split_beta)
qed simp

lemma SendToDestination_eq:
  assumes "valid packet" "packet_ok (ep_Data packet)"
  shows "SendToDestination api valid destination packet t =
    send_event_frames api destination (map (event_bytes packet) [0..<event_count (ep_Data packet)]) t"
proof -
  have c: "(length (ep_Data packet) + 218 - 1) div 218 = event_count (ep_Data packet)" by (simp add: event_count_def ceil_div_def)
  show ?thesis
    using assms event_count_bounds [OF assms(2)] event_send_loop_eq [of api destination packet]
    unfolding SendToDestination_def Let_def event_numbers c by (simp add: packet_ok_def)
qed

text \<open>A received frame with fragment \<open>i\<close> of a packet.\<close>

definition carries_event :: "MacAddress \<Rightarrow> EventTransportPacket \<Rightarrow> nat \<Rightarrow> ESPNowReceivedFrame \<Rightarrow> bool" where
  "carries_event source packet i f \<longleftrightarrow>
     rf_Source f = source \<and> frame_data f = event_bytes packet i \<and> unat (rf_PayloadLength f) \<le> length (rf_Payload f)"

lemma carries_event_parse:
  assumes c: "carries_event source packet i f" and p: "packet_ok (ep_Data packet)" and i: "i < event_count (ep_Data packet)"
  shows "parse_event_frame f = Some (event_header (ep_MessageID packet) (ep_Data packet) i, chunk 218 (ep_Data packet) i)"
proof -
  let ?h = "event_header (ep_MessageID packet) (ep_Data packet) i" and ?d = "chunk 218 (ep_Data packet) i"
  note w = event_header_words [OF p i, of "ep_MessageID packet"]
  have len: "unat (rf_PayloadLength f) = 24 + length ?d"
  proof -
    have "unat (rf_PayloadLength f) \<le> length (rf_Payload f)" using c by (simp add: carries_event_def)
    then have "length (frame_data f) = unat (rf_PayloadLength f)" by (simp add: frame_data_def)
    then show ?thesis using c by (simp add: carries_event_def event_bytes_def)
  qed
  obtain rest where pay: "rf_Payload f = event_header_write ?h @ ?d @ rest"
    using c by (metis append.assoc append_take_drop_id carries_event_def event_bytes_def frame_data_def)
  have "eh_FragmentCount ?h \<noteq> 0" "\<not> eh_FragmentCount ?h \<le> eh_FragmentIndex ?h" using w(6) by (auto simp: event_valid_def)
  then show ?thesis
    using w(6) len unfolding parse_event_frame_def Let_def pay by (simp add: event_numbers event_valid_def)
qed

lemma handle_event_fragment:
  assumes c: "carries_event source packet i f" and p: "packet_ok (ep_Data packet)" and i: "i < event_count (ep_Data packet)"
    and many: "event_count (ep_Data packet) \<noteq> 1"
  shows "Event_HandleFrame alloc f s =
    (case event_reassemble alloc source (event_header (ep_MessageID packet) (ep_Data packet) i) (chunk 218 (ep_Data packet) i) (i * 218)
        (rf_ReceiveMonotonicNanoseconds f) (et_reassemblies s) of
      (completed, items) \<Rightarrow>
        (case (completed, et_receiver s) of
           (Some bytes, Some receiver) \<Rightarrow>
             (if bytes \<noteq> [] then [(receiver, \<lparr>ep_Data = bytes, ep_MessageID = ep_MessageID packet\<rparr>)] else [], s\<lparr>et_reassemblies := items\<rparr>)
         | _ \<Rightarrow> ([], s\<lparr>et_reassemblies := items\<rparr>)))"
proof -
  note w = event_header_words [OF p i, of "ep_MessageID packet"]
  have "eh_FragmentCount (event_header (ep_MessageID packet) (ep_Data packet) i) \<noteq> 1" using w(2) many by (metis unat_1)
  moreover have "rf_Source f = source" using c by (simp add: carries_event_def)
  ultimately show ?thesis
    unfolding Event_HandleFrame_def carries_event_parse [OF c p i] option.case prod.case Let_def w(1,5) event_numbers
    by (simp add: split_beta split: option.split)
qed

lemma handle_events_partial:
  assumes p: "packet_ok (ep_Data packet)" and many: "event_count (ep_Data packet) \<noteq> 1"
    and "list_all2 (carries_event source packet) js fs" "set js \<subseteq> {..<event_count (ep_Data packet)}"
    and "event_items_invar source (ep_MessageID packet) (ep_Data packet) (et_reassemblies s) before"
    and "successively in_time (before # map rf_ReceiveMonotonicNanoseconds fs)"
    and "event_seen source (ep_MessageID packet) (et_reassemblies s) \<union> set js \<noteq> {..<event_count (ep_Data packet)}"
  shows "\<exists>items. handle_events (\<lambda>n. True) fs s = ([], s\<lparr>et_reassemblies := items\<rparr>)
    \<and> event_items_invar source (ep_MessageID packet) (ep_Data packet) items (last (before # map rf_ReceiveMonotonicNanoseconds fs))
    \<and> event_seen source (ep_MessageID packet) items = event_seen source (ep_MessageID packet) (et_reassemblies s) \<union> set js"
  using assms(3-7)
proof (induction js fs arbitrary: s before rule: list_all2_induct)
  case Nil
  then show ?case by (intro exI [of _ "et_reassemblies s"]) simp
next
  case (Cons j js f fs)
  let ?seen = "event_seen source (ep_MessageID packet)" and ?now = "rf_ReceiveMonotonicNanoseconds f"
  have j: "j < event_count (ep_Data packet)" using Cons.prems(1) by simp
  have t: "in_time before ?now" using Cons.prems(3) by (simp add: successively_Cons)
  have ne: "insert j (?seen (et_reassemblies s)) \<noteq> {..<event_count (ep_Data packet)}" using Cons.prems(1,4) by auto
  obtain items where re: "event_reassemble (\<lambda>n. True) source (event_header (ep_MessageID packet) (ep_Data packet) j) (chunk 218 (ep_Data packet) j)
      (j * 218) ?now (et_reassemblies s) = (None, items)"
    "event_items_invar source (ep_MessageID packet) (ep_Data packet) items ?now" "?seen items = insert j (?seen (et_reassemblies s))"
    using event_reassemble_packet [OF p Cons.prems(2) t j] unfolding if_not_P [OF ne] by blast
  let ?s = "s\<lparr>et_reassemblies := items\<rparr>"
  have h: "Event_HandleFrame (\<lambda>n. True) f s = ([], ?s)"
    using handle_event_fragment [OF Cons.hyps(1) p j many, of "\<lambda>n. True" s] re(1) by simp
  have "\<exists>items'. handle_events (\<lambda>n. True) fs ?s = ([], ?s\<lparr>et_reassemblies := items'\<rparr>)
    \<and> event_items_invar source (ep_MessageID packet) (ep_Data packet) items' (last (?now # map rf_ReceiveMonotonicNanoseconds fs))
    \<and> ?seen items' = ?seen (et_reassemblies ?s) \<union> set js"
    by (rule Cons.IH) (use Cons.prems re in \<open>auto simp: successively_Cons\<close>)
  then show ?case using h re(3) by auto
qed

lemma handle_events_append:
  "handle_events alloc (fs @ gs) s =
     (case handle_events alloc fs s of (es, s1) \<Rightarrow> case handle_events alloc gs s1 of (es', s2) \<Rightarrow> (es @ es', s2))"
  by (induction fs arbitrary: s) (auto split: prod.split)

lemma event_single:
  assumes c: "carries_event source packet 0 f" and p: "packet_ok (ep_Data packet)" and one: "event_count (ep_Data packet) = 1"
    and r: "et_receiver s = Some r"
  shows "fst (Event_HandleFrame (\<lambda>n. True) f s) = [(r, packet)]"
proof -
  have "length (ep_Data packet) \<le> 218" using ceil_div_mult_ge [of 218 "length (ep_Data packet)"] one by (simp add: event_count_def)
  then have all: "chunk 218 (ep_Data packet) 0 = ep_Data packet" by (simp add: chunk_def)
  have i: "0 < event_count (ep_Data packet)" using one by simp
  note w = event_header_words [OF p i, of "ep_MessageID packet"]
  have c1: "eh_FragmentCount (event_header (ep_MessageID packet) (ep_Data packet) 0) = 1"
    "eh_FragmentIndex (event_header (ep_MessageID packet) (ep_Data packet) 0) = 0"
    using w(1,2) one by (metis unat_1 unsigned_word_eqI, metis unat_0 unsigned_word_eqI)
  show ?thesis
    unfolding Event_HandleFrame_def carries_event_parse [OF c p i] option.case prod.case Let_def
    using c1 w(3,4,5) r all by simp
qed

text \<open>
  C27. An event is delivered once and unchanged. Sending a packet to a destination is sending its fragments in
  order until one is refused. A transport with a receiver that holds nothing of the packet and gets these
  fragments, in any order and possibly repeatedly, never more than the reassembly timeout apart, delivers
  nothing until the last missing one arrives and then exactly the packet; other packets in the table do not
  matter.
\<close>

theorem event_packet_delivered:
  assumes p: "packet_ok (ep_Data packet)" and ok: "valid packet"
    and recv: "et_receiver s = Some r" and table: "event_table_ok (et_reassemblies s)"
    and idle: "(source, ep_MessageID packet) \<notin> event_key ` set (et_reassemblies s)"
    and fs: "list_all2 (carries_event source packet) js fs" and f: "carries_event source packet i f"
    and js: "set js \<subset> {..<event_count (ep_Data packet)}" "insert i (set js) = {..<event_count (ep_Data packet)}"
    and times: "successively in_time (map rf_ReceiveMonotonicNanoseconds (fs @ [f]))"
  shows "SendToDestination api valid destination packet t =
      send_event_frames api destination (map (event_bytes packet) [0..<event_count (ep_Data packet)]) t
    \<and> fst (handle_events (\<lambda>n. True) fs s) = [] \<and> fst (handle_events (\<lambda>n. True) (fs @ [f]) s) = [(r, packet)]"
proof -
  let ?n = "event_count (ep_Data packet)"
  have i: "i < ?n" and sub: "set js \<subseteq> {..<?n}" "set js \<noteq> {..<?n}"
    using js insertI1 [of i "set js"] by (auto simp: psubset_eq)
  have "fst (handle_events (\<lambda>n. True) fs s) = [] \<and> fst (handle_events (\<lambda>n. True) (fs @ [f]) s) = [(r, packet)]"
  proof (cases "?n = 1")
    case True
    have "{..<1} = {0 :: nat}" by auto
    then have "set js \<subseteq> {0}" "set js \<noteq> {0}" using sub True by simp_all
    then have "js = []" "i = 0" using i True subset_singletonD by fastforce+
    then show ?thesis using fs event_single [OF _ p True recv] f by (simp add: split_beta)
  next
    case False
    define before where "before = hd (map rf_ReceiveMonotonicNanoseconds (fs @ [f]))"
    have "successively in_time ((before # map rf_ReceiveMonotonicNanoseconds fs) @ [rf_ReceiveMonotonicNanoseconds f])"
      using times by (cases fs) (simp_all add: successively_Cons before_def in_time_def)
    then have st: "successively in_time (before # map rf_ReceiveMonotonicNanoseconds fs)"
      "in_time (last (before # map rf_ReceiveMonotonicNanoseconds fs)) (rf_ReceiveMonotonicNanoseconds f)"
      unfolding successively_append_iff by simp_all
    have inv: "event_items_invar source (ep_MessageID packet) (ep_Data packet) (et_reassemblies s) before"
      and seen: "event_seen source (ep_MessageID packet) (et_reassemblies s) = {}"
    proof -
      have none: "event_key x \<noteq> (source, ep_MessageID packet)" if "x \<in> set (et_reassemblies s)" for x
        using idle that by (metis image_eqI)
      then have "List.find (\<lambda>x. event_key x = (source, ep_MessageID packet)) (et_reassemblies s) = None"
        unfolding find_None_iff by blast
      then show "event_items_invar source (ep_MessageID packet) (ep_Data packet) (et_reassemblies s) before"
        "event_seen source (ep_MessageID packet) (et_reassemblies s) = {}"
        using table none by (simp_all add: event_items_invar_def event_seen_def)
    qed
    obtain items where h: "handle_events (\<lambda>n. True) fs s = ([], s\<lparr>et_reassemblies := items\<rparr>)"
      "event_items_invar source (ep_MessageID packet) (ep_Data packet) items (last (before # map rf_ReceiveMonotonicNanoseconds fs))"
      "event_seen source (ep_MessageID packet) items = set js"
      using handle_events_partial [OF p False fs sub(1) inv st(1)] sub(2) seen by auto
    have full: "insert i (event_seen source (ep_MessageID packet) items) = {..<?n}" using h(3) js(2) by simp
    have "fst (event_reassemble (\<lambda>n. True) source (event_header (ep_MessageID packet) (ep_Data packet) i) (chunk 218 (ep_Data packet) i)
        (i * 218) (rf_ReceiveMonotonicNanoseconds f) items) = Some (ep_Data packet)"
      using event_reassemble_packet [OF p h(2) st(2) i] unfolding if_P [OF full] by blast
    then have "fst (Event_HandleFrame (\<lambda>n. True) f (s\<lparr>et_reassemblies := items\<rparr>)) = [(r, packet)]"
      using handle_event_fragment [OF f p i False, of "\<lambda>n. True" "s\<lparr>et_reassemblies := items\<rparr>"] recv p
      by (simp add: split_beta packet_ok_def)
    then show ?thesis using h(1) by (simp add: handle_events_append split_beta)
  qed
  then show ?thesis using SendToDestination_eq [of valid packet, OF ok p] by blast
qed

definition demo_packet :: EventTransportPacket where
  "demo_packet = \<lparr>ep_Data = replicate 300 5, ep_MessageID = 9\<rparr>"

definition demo_events :: "(unit, unit, unit, unit) ESPNowEventTransport" where
  "demo_events = (EventTransport_new ())\<lparr>et_receiver := Some ()\<rparr>"

abbreviation demo_source :: MacAddress where
  "demo_source \<equiv> MacAddress 2 0 0 0 0 1"

abbreviation demo_event_frame :: "u64 \<Rightarrow> nat \<Rightarrow> ESPNowReceivedFrame" where
  "demo_event_frame now i \<equiv> payload_frame demo_source now (event_bytes demo_packet i)"

lemma demo_packet_ok: "event_count (ep_Data demo_packet) = 2" "packet_ok (ep_Data demo_packet)"
  by (simp_all add: demo_packet_def event_count_def ceil_div_def packet_ok_def)

lemma demo_carries: "carries_event demo_source demo_packet i (demo_event_frame now i)"
proof -
  have "length (event_bytes demo_packet i) \<le> 65535" by (simp add: event_bytes_def length_chunk)
  then show ?thesis by (simp add: carries_event_def payload_frame_def frame_data_def)
qed

theorem event_packet_delivered_witness:
  "fst (handle_events (\<lambda>n. True) ([demo_event_frame 7 1, demo_event_frame 8 1] @ [demo_event_frame 9 0]) demo_events) = [((), demo_packet)]"
proof -
  have two: "{..<2} = {0, 1 :: nat}" by auto
  have js: "set [1, 1] \<subset> {..<event_count (ep_Data demo_packet)}" "insert 0 (set [1, 1]) = {..<event_count (ep_Data demo_packet)}"
    unfolding demo_packet_ok two by (simp_all add: psubset_eq)
  have s: "et_receiver demo_events = Some ()" "event_table_ok (et_reassemblies demo_events)"
    "(demo_source, ep_MessageID demo_packet) \<notin> event_key ` set (et_reassemblies demo_events)"
    by (simp_all add: demo_events_def EventTransport_new_def event_table_ok_def)
  have fs: "list_all2 (carries_event demo_source demo_packet) [1, 1] [demo_event_frame 7 1, demo_event_frame 8 1]"
    using demo_carries by simp
  have t: "successively in_time (map rf_ReceiveMonotonicNanoseconds ([demo_event_frame 7 1, demo_event_frame 8 1] @ [demo_event_frame 9 0]))"
    by (simp add: in_time_def ESPRESSIO_ESPNOW_EVENT_REASSEMBLY_TIMEOUT_MS_def)
  show ?thesis
    using event_packet_delivered [OF demo_packet_ok(2) _ s fs demo_carries js t, of "\<lambda>p. True", THEN conjunct2, THEN conjunct2] by blast
qed

text \<open>One of the two fragments arrived: the table holds a record, and it is incomplete.\<close>

theorem event_reassembly_bounded_witness:
  "let items = et_reassemblies (snd (handle_events (\<lambda>n. True) [demo_event_frame 7 1] (EventTransport_new () :: (unit, unit, unit, unit) ESPNowEventTransport))) in
     items \<noteq> [] \<and> list_all (\<lambda>r. er_ReceivedCount r < er_FragmentCount r) items"
proof -
  let ?s = "EventTransport_new () :: (unit, unit, unit, unit) ESPNowEventTransport"
  have carries: "list_all2 (carries_event demo_source demo_packet) [1] [demo_event_frame 7 1]" using demo_carries by simp
  then have long: "list_all (\<lambda>f. unat (rf_PayloadLength f) \<le> length (rf_Payload f)) [demo_event_frame 7 1]" by (simp add: carries_event_def)
  have two: "{..<2} = {0, 1 :: nat}" by auto
  have r: "et_reassemblies ?s = []" by (simp add: EventTransport_new_def)
  have empty: "event_items_invar demo_source (ep_MessageID demo_packet) (ep_Data demo_packet) (et_reassemblies ?s) 7"
    "event_seen demo_source (ep_MessageID demo_packet) (et_reassemblies ?s) = {}"
    by (simp_all add: r event_items_invar_def event_seen_def event_table_ok_def)
  have one: "set [1] \<subseteq> {..<event_count (ep_Data demo_packet)}" "event_count (ep_Data demo_packet) \<noteq> 1"
    "event_seen demo_source (ep_MessageID demo_packet) (et_reassemblies ?s) \<union> set [1] \<noteq> {..<event_count (ep_Data demo_packet)}"
    unfolding demo_packet_ok two empty by simp_all
  have "successively in_time (7 # map rf_ReceiveMonotonicNanoseconds [demo_event_frame 7 1])" by (simp add: in_time_def)
  from handle_events_partial [OF demo_packet_ok(2) one(2) carries one(1) empty(1) this one(3)]
  obtain items where items: "handle_events (\<lambda>n. True) [demo_event_frame 7 1] ?s = ([], ?s\<lparr>et_reassemblies := items\<rparr>)"
    and seen: "event_seen demo_source (ep_MessageID demo_packet) items = {1}"
    unfolding empty(2) by (elim exE conjE) simp
  have table: "et_reassemblies (snd (handle_events (\<lambda>n. True) [demo_event_frame 7 1] ?s)) = items" unfolding items by simp
  have "items \<noteq> []" using seen by (cases items) (simp_all add: event_seen_def)
  moreover have "list_all (\<lambda>r. er_ReceivedCount r < er_FragmentCount r) items"
    using event_reassembly_bounded [where 'r = unit and 'x = unit and 'y = unit, OF long, of "\<lambda>n. True" "()", unfolded Let_def table] by (simp add: list_all_iff)
  ultimately show ?thesis unfolding Let_def table by blast
qed


section \<open>Outbound packets\<close>

definition destinations :: "('r, 'x, 'y, 'p) ESPNowEventTransport \<Rightarrow> MacAddress list" where
  "destinations s = take (et_destinationCount s) (et_destinations s)"

definition destinations_ok :: "('r, 'x, 'y, 'p) ESPNowEventTransport \<Rightarrow> bool" where
  "destinations_ok s \<longleftrightarrow> length (et_destinations s) = 16 \<and> et_destinationCount s \<le> 16 \<and> distinct (destinations s)"

lemma shift_down_eq:
  assumes "i < j" "j \<le> n" "n \<le> length ds"
  shows "shift_down [j..<n] ds = take (j - 1) ds @ take (n - j) (drop j ds) @ drop (n - 1) ds"
  using assms
proof (induction "n - j" arbitrary: j ds i)
  case 0
  then have "j = n" by simp
  then show ?case by simp
next
  case (Suc k)
  let ?ds = "ds[j - 1 := ds ! j]"
  have j: "j < n" using Suc.hyps(2) by simp
  have "shift_down [j..<n] ds = shift_down [Suc j..<n] ?ds" using j by (simp add: upt_conv_Cons)
  also have "\<dots> = take j ?ds @ take (n - Suc j) (drop (Suc j) ?ds) @ drop (n - 1) ?ds"
    using Suc.hyps(1) [of "Suc j" j ?ds] Suc.hyps(2) Suc.prems j by simp
  also have "take j ?ds = take (j - 1) ds @ [ds ! j]"
    using Suc.prems j by (cases j) (simp_all add: take_Suc_conv_app_nth)
  also have "drop (n - 1) ?ds = drop (n - 1) ds" using j Suc.prems by simp
  also have "take (n - Suc j) (drop (Suc j) ?ds) = take (n - Suc j) (drop (Suc j) ds)" using j Suc.prems by simp
  also have "(take (j - 1) ds @ [ds ! j]) @ take (n - Suc j) (drop (Suc j) ds) @ drop (n - 1) ds
      = take (j - 1) ds @ take (n - j) (drop j ds) @ drop (n - 1) ds"
    using j Suc.prems Suc.hyps(2) by (simp add: Cons_nth_drop_Suc [symmetric] Suc_diff_Suc [symmetric])
  finally show ?case .
qed

lemma AddDestination_spec:
  assumes "destinations_ok s"
  shows "destinations_ok (snd (AddDestination d s))"
    "destinations (snd (AddDestination d s)) =
       (if IsZero d \<or> d \<in> set (destinations s) \<or> length (destinations s) = 16 then destinations s else destinations s @ [d])"
proof -
  let ?n = "et_destinationCount s"
  have len: "length (et_destinations s) = 16" "?n \<le> 16" "distinct (destinations s)" "length (destinations s) = ?n"
    using assms by (simp_all add: destinations_ok_def destinations_def)
  have "take (Suc ?n) ((et_destinations s)[?n := d]) = destinations s @ [d]" if "?n < 16"
    using that len(1) by (simp add: take_Suc_conv_app_nth destinations_def)
  then show "destinations_ok (snd (AddDestination d s))"
    "destinations (snd (AddDestination d s)) =
       (if IsZero d \<or> d \<in> set (destinations s) \<or> length (destinations s) = 16 then destinations s else destinations s @ [d])"
    using len by (auto simp: AddDestination_def destinations_ok_def destinations_def)
qed

lemma find_index_remove1: "find_index (\<lambda>x. x = d) xs = Some i \<Longrightarrow> remove1 d xs = erase_at i xs"
  by (induction xs arbitrary: i) (auto simp: erase_at_def split: if_splits)

lemma RemoveDestination_spec:
  assumes ok: "destinations_ok s"
  shows "fst (RemoveDestination d s) \<longleftrightarrow> d \<in> set (destinations s)" "destinations_ok (snd (RemoveDestination d s))"
    "destinations (snd (RemoveDestination d s)) = remove1 d (destinations s)"
proof -
  let ?n = "et_destinationCount s" and ?ds = "et_destinations s"
  have len: "length ?ds = 16" "?n \<le> 16" "distinct (destinations s)" using ok by (simp_all add: destinations_ok_def)
  have "(fst (RemoveDestination d s) \<longleftrightarrow> d \<in> set (destinations s)) \<and> destinations_ok (snd (RemoveDestination d s))
    \<and> destinations (snd (RemoveDestination d s)) = remove1 d (destinations s)"
  proof (cases "find_index (\<lambda>x. x = d) (destinations s)")
    case None
    then have "d \<notin> set (destinations s)" by (simp add: find_index_None_set)
    then show ?thesis using None ok by (simp add: RemoveDestination_def destinations_def [symmetric] remove1_idem)
  next
    case (Some i)
    note i = find_index_Some [OF Some]
    have il: "i < ?n" "d = destinations s ! i" using i len by (simp_all add: destinations_def)
    let ?m = "shift_down [i + 1..<?n] ?ds"
    have m: "?m = take i ?ds @ take (?n - Suc i) (drop (Suc i) ?ds) @ drop (?n - 1) ?ds"
      using shift_down_eq [of i "i + 1" ?n ?ds] il len by simp
    have e: "take (?n - 1) (?m[?n - 1 := zero_mac]) = erase_at i (destinations s)"
    proof -
      have "take (?n - 1) (?m[?n - 1 := zero_mac]) = take (?n - 1) ?m" by simp
      also have "\<dots> = take i ?ds @ take (?n - Suc i) (drop (Suc i) ?ds)" unfolding m using il len by simp
      also have "\<dots> = erase_at i (destinations s)" using il by (simp add: erase_at_def destinations_def drop_take)
      finally show ?thesis .
    qed
    have r: "RemoveDestination d s = (True, s\<lparr>et_destinations := ?m[?n - 1 := zero_mac], et_destinationCount := ?n - 1\<rparr>)"
      using Some by (simp add: RemoveDestination_def destinations_def [symmetric] Let_def)
    have mem: "d \<in> set (destinations s)" using i by auto
    have lm: "length ?m = 16" unfolding m using il len by simp
    show ?thesis
      using e mem lm len find_index_remove1 [OF Some] distinct_remove1 [OF len(3), of d]
      by (simp add: r destinations_ok_def) (simp add: destinations_def)
  qed
  then show "fst (RemoveDestination d s) \<longleftrightarrow> d \<in> set (destinations s)" "destinations_ok (snd (RemoveDestination d s))"
    "destinations (snd (RemoveDestination d s)) = remove1 d (destinations s)" by blast+
qed

text \<open>The slots in use are those queued at the executor and the one its task works on.\<close>

definition outbound_ok :: "('y \<Rightarrow> nat list) \<Rightarrow> nat list \<Rightarrow> ('r, 'x, 'y, 'p) ESPNowEventTransport \<Rightarrow> bool" where
  "outbound_ok queued running s \<longleftrightarrow>
     (\<exists>y. et_outboundExecutor s = Some y \<and> distinct (running @ queued y) \<and> set (running @ queued y) \<subseteq> {..<length (et_outboundWorks s)}
      \<and> (\<forall>i < length (et_outboundWorks s). et_outboundSlots s ! i \<noteq> 0 \<longleftrightarrow> i \<in> set (running @ queued y)))
     \<and> length (et_outboundSlots s) = length (et_outboundWorks s)
     \<and> list_all (\<lambda>w. length (ow_Destinations w) = 16) (et_outboundWorks s)"

lemma ReleaseOutboundWork_fields [simp]:
  "et_outboundExecutor (ReleaseOutboundWork i s) = et_outboundExecutor s" "et_transport (ReleaseOutboundWork i s) = et_transport s"
  "length (et_outboundWorks (ReleaseOutboundWork i s)) = length (et_outboundWorks s)"
  "length (et_outboundSlots (ReleaseOutboundWork i s)) = length (et_outboundSlots s)"
  by (simp_all add: ReleaseOutboundWork_def)

lemma fold_ReleaseOutboundWork:
  "et_outboundExecutor (fold ReleaseOutboundWork ds s) = et_outboundExecutor s"
  "et_transport (fold ReleaseOutboundWork ds s) = et_transport s"
  "length (et_outboundWorks (fold ReleaseOutboundWork ds s)) = length (et_outboundWorks s)"
  "length (et_outboundSlots (fold ReleaseOutboundWork ds s)) = length (et_outboundSlots s)"
  "i \<notin> set ds \<Longrightarrow> et_outboundWorks (fold ReleaseOutboundWork ds s) ! i = et_outboundWorks s ! i"
  "i < length (et_outboundWorks s) \<Longrightarrow> i < length (et_outboundSlots s) \<Longrightarrow>
     et_outboundSlots (fold ReleaseOutboundWork ds s) ! i = (if i \<in> set ds then 0 else et_outboundSlots s ! i)"
  by (induction ds arbitrary: s) (auto simp: ReleaseOutboundWork_def nth_list_update)

lemma fold_ReleaseOutboundWork_destinations:
  "list_all (\<lambda>w. length (ow_Destinations w) = 16) (et_outboundWorks s) \<Longrightarrow>
   list_all (\<lambda>w. length (ow_Destinations w) = 16) (et_outboundWorks (fold ReleaseOutboundWork ds s))"
  by (induction ds arbitrary: s) (auto simp: ReleaseOutboundWork_def list_all_length nth_list_update)

text \<open>What the executor holds or works on. An accepted packet joins it, apart from everything else in flight.\<close>

definition in_flight :: "('y \<Rightarrow> nat list) \<Rightarrow> nat list \<Rightarrow> ('r, 'x, 'y, 'p) ESPNowEventTransport \<Rightarrow> nat list" where
  "in_flight queued running s = running @ (case et_outboundExecutor s of None \<Rightarrow> [] | Some y \<Rightarrow> queued y)"

definition slot_holds :: "nat \<Rightarrow> EventTransportPacket \<Rightarrow> MacAddress list \<Rightarrow> ('r, 'x, 'y, 'p) ESPNowEventTransport \<Rightarrow> bool" where
  "slot_holds k packet ds s \<longleftrightarrow> ow_Packet (et_outboundWorks s ! k) = packet
     \<and> take (ow_DestinationCount (et_outboundWorks s ! k)) (ow_Destinations (et_outboundWorks s ! k)) = ds"

lemma slot_holds_cong: "et_outboundWorks s' ! k = et_outboundWorks s ! k \<Longrightarrow> slot_holds k packet ds s' = slot_holds k packet ds s"
  by (simp add: slot_holds_def)

lemma outbound_ok_in_flight: "outbound_ok queued running s \<Longrightarrow> k \<in> set (in_flight queued running s) \<Longrightarrow> k < length (et_outboundWorks s)"
  by (auto simp: outbound_ok_def in_flight_def)

lemma AcquireOutboundWork_slot:
  assumes acq: "AcquireOutboundWork packet (take (et_destinationCount s) (et_destinations s)) (et_destinationCount s) s = (Some k, s1)"
    and ok: "outbound_ok queued running s" and dest: "destinations_ok s"
  shows "k < length (et_outboundWorks s)" "k \<notin> set (in_flight queued running s)" "slot_holds k packet (destinations s) s1"
    "\<exists>work. length (ow_Destinations work) = 16
       \<and> s1 = s\<lparr>et_outboundSlots := (et_outboundSlots s)[k := 1], et_outboundWorks := (et_outboundWorks s)[k := work]\<rparr>"
proof -
  let ?n = "et_destinationCount s"
  have len: "length (et_outboundSlots s) = length (et_outboundWorks s)" "list_all (\<lambda>w. length (ow_Destinations w) = 16) (et_outboundWorks s)"
    using ok by (auto simp: outbound_ok_def)
  have find: "find_index (\<lambda>b. b = 0) (et_outboundSlots s) = Some k"
    using acq len(1) by (auto simp: AcquireOutboundWork_def Let_def split: option.splits)
  note fk = find_index_Some [OF find]
  show k: "k < length (et_outboundWorks s)" using fk len(1) by simp
  then show "k \<notin> set (in_flight queued running s)" using ok fk by (auto simp: outbound_ok_def in_flight_def)
  define work where "work = (et_outboundWorks s ! k)\<lparr>ow_Packet := packet, ow_DestinationCount := ?n,
     ow_Destinations := take ?n (take ?n (et_destinations s)) @ drop ?n (ow_Destinations (et_outboundWorks s ! k))\<rparr>"
  have s1: "s1 = s\<lparr>et_outboundSlots := (et_outboundSlots s)[k := 1], et_outboundWorks := (et_outboundWorks s)[k := work]\<rparr>"
    using acq find len(1) by (simp add: AcquireOutboundWork_def Let_def work_def)
  have "length (ow_Destinations work) = 16" using len(2) k dest by (simp add: work_def list_all_length destinations_ok_def)
  with s1 show "\<exists>work. length (ow_Destinations work) = 16
       \<and> s1 = s\<lparr>et_outboundSlots := (et_outboundSlots s)[k := 1], et_outboundWorks := (et_outboundWorks s)[k := work]\<rparr>" by blast
  show "slot_holds k packet (destinations s) s1"
    using k dest by (simp add: slot_holds_def s1 work_def destinations_def destinations_ok_def)
qed

lemma executor_refused:
  assumes con: "executor_contract api depth queued" and "ex_Submit api i x = (False, discarded, x')"
  shows "discarded = [] \<and> queued x' = queued x"
proof -
  have "case ex_Submit api i x of
      (True, discarded, x') \<Rightarrow> (\<exists>kept. queued x = discarded @ kept \<and> queued x' = kept @ [i])
    | (False, discarded, x') \<Rightarrow> discarded = [] \<and> queued x' = queued x"
    by (rule con [unfolded executor_contract_def, THEN conjunct2, THEN conjunct1, THEN spec, THEN spec])
  then show ?thesis using assms(2) by simp
qed

lemma executor_taken:
  assumes con: "executor_contract api depth queued" and "ex_Take api x = Some (i, x')"
  shows "queued x = i # queued x'"
proof -
  have "case queued x of [] \<Rightarrow> ex_Take api x = None | i # rest \<Rightarrow> (\<exists>x'. ex_Take api x = Some (i, x') \<and> queued x' = rest)"
    by (rule con [unfolded executor_contract_def, THEN conjunct2, THEN conjunct2, THEN spec])
  then show ?thesis using assms(2) by (cases "queued x") auto
qed

text \<open>Submitting the acquired slot \<open>k\<close>: it is queued and the discarded ones are freed, or it is refused and freed itself.\<close>

lemma submit_slot:
  assumes ok: "outbound_ok queued running s" and exec: "et_outboundExecutor s = Some y"
    and k: "k < length (et_outboundWorks s)" "k \<notin> set (in_flight queued running s)" "length (ow_Destinations work) = 16"
    and s1: "s1 = s\<lparr>et_outboundSlots := (et_outboundSlots s)[k := 1], et_outboundWorks := (et_outboundWorks s)[k := work]\<rparr>"
    and con: "executor_contract outx depth queued" and sub: "ex_Submit outx k y = (accepted, discarded, y')"
    and s2: "s2 = fold ReleaseOutboundWork discarded (s1\<lparr>et_outboundExecutor := Some y'\<rparr>)"
  shows "if accepted
    then outbound_ok queued running s2 \<and> k \<in> set (queued y') \<and> last (queued y') = k \<and> et_outboundWorks s2 ! k = work
      \<and> (\<forall>i \<in> set (in_flight queued running s) \<inter> set (in_flight queued running s2). et_outboundWorks s2 ! i = et_outboundWorks s ! i)
    else outbound_ok queued running (ReleaseOutboundWork k s2) \<and> queued y' = queued y
      \<and> (\<forall>i \<in> set (in_flight queued running s). et_outboundWorks (ReleaseOutboundWork k s2) ! i = et_outboundWorks s ! i)"
proof -
  have o: "distinct (running @ queued y)" "set (running @ queued y) \<subseteq> {..<length (et_outboundWorks s)}"
    "\<forall>i < length (et_outboundWorks s). et_outboundSlots s ! i \<noteq> 0 \<longleftrightarrow> i \<in> set (running @ queued y)"
    "length (et_outboundSlots s) = length (et_outboundWorks s)" "list_all (\<lambda>w. length (ow_Destinations w) = 16) (et_outboundWorks s)"
    using ok exec by (auto simp: outbound_ok_def)
  have kn: "k \<notin> set (running @ queued y)" using k(2) exec by (simp add: in_flight_def)
  let ?s = "s1\<lparr>et_outboundExecutor := Some y'\<rparr>"
  note fr = fold_ReleaseOutboundWork [where ds = discarded and s = ?s, folded s2]
  have "list_all (\<lambda>w. length (ow_Destinations w) = 16) (et_outboundWorks ?s)"
    using o(5) k by (auto simp: s1 list_all_length nth_list_update)
  then have dl: "list_all (\<lambda>w. length (ow_Destinations w) = 16) (et_outboundWorks s2)" unfolding s2 by (rule fold_ReleaseOutboundWork_destinations)
  show ?thesis
  proof (cases accepted)
    case True
    have "ex_Submit outx k y = (True, discarded, y')" using sub True by simp
    then obtain kept where kept: "queued y = discarded @ kept" "queued y' = kept @ [k]" by (rule executor_submit [OF con])
    have nk: "k \<notin> set discarded" using kn kept(1) by simp
    have slots: "et_outboundSlots s2 ! i \<noteq> 0 \<longleftrightarrow> i \<in> set (running @ queued y')" if "i < length (et_outboundWorks s)" for i
      using fr(6) [of i] that o k(1) kept kn by (auto simp: s1 nth_list_update)
    have "outbound_ok queued running s2"
      unfolding outbound_ok_def using slots dl fr(1,3,4) o k(1) kn kept by (auto simp: s1)
    moreover have "et_outboundWorks s2 ! i = et_outboundWorks s ! i"
      if "i \<in> set (running @ queued y)" "i \<in> set (running @ queued y')" for i
    proof -
      have "i \<noteq> k" "i \<notin> set discarded" using that kn o(1) kept by auto
      then show ?thesis using fr(5) [of i] by (simp add: s1)
    qed
    moreover have "et_outboundWorks s2 ! k = work" using fr(5) [OF nk] k(1) by (simp add: s1)
    ultimately show ?thesis using True kept(2) fr(1) exec by (simp add: in_flight_def)
  next
    case False
    have "discarded = [] \<and> queued y' = queued y"
      using executor_refused [OF con] sub False by simp
    then have d: "s2 = ?s" "queued y' = queued y" using s2 by simp_all
    then show ?thesis
      using False o k kn exec dl unfolding outbound_ok_def in_flight_def ReleaseOutboundWork_def
      by (auto simp: s1 nth_list_update list_all_length)
  qed
qed

lemma fold_ReleaseOutboundWork_list [simp]:
  "et_destinations (ReleaseOutboundWork i s) = et_destinations s" "et_destinationCount (ReleaseOutboundWork i s) = et_destinationCount s"
  "et_destinations (fold ReleaseOutboundWork items s) = et_destinations s"
  "et_destinationCount (fold ReleaseOutboundWork items s) = et_destinationCount s"
proof -
  show one: "et_destinations (ReleaseOutboundWork i s) = et_destinations s" "et_destinationCount (ReleaseOutboundWork i s) = et_destinationCount s"
    for i and s :: "('a, 'b, 'c, 'd) ESPNowEventTransport" by (simp_all add: ReleaseOutboundWork_def)
  show "et_destinations (fold ReleaseOutboundWork items s) = et_destinations s"
    "et_destinationCount (fold ReleaseOutboundWork items s) = et_destinationCount s"
    by (induction items arbitrary: s) (simp_all add: one)
qed

lemma outbound_rejected [simp]:
  "outbound_ok queued running (s\<lparr>et_outboundRejected := n\<rparr>) = outbound_ok queued running s"
  "in_flight queued running (s\<lparr>et_outboundRejected := n\<rparr>) = in_flight queued running s"
  by (simp_all add: outbound_ok_def in_flight_def)

text \<open>What a call of \<^verbatim>\<open>Send\<close> keeps, accepted or not.\<close>

lemma Event_Send_keeps:
  assumes con: "executor_contract outx depth queued" and ok: "outbound_ok queued running s" and dest: "destinations_ok s"
    and r: "Event_Send outx valid packet s = (sent, s')"
  shows "outbound_ok queued running s'" "et_destinations s' = et_destinations s" "et_destinationCount s' = et_destinationCount s"
    "et_transport s' = et_transport s"
    "\<forall>i \<in> set (in_flight queued running s) \<inter> set (in_flight queued running s'). et_outboundWorks s' ! i = et_outboundWorks s ! i"
    "sent \<Longrightarrow> et_transport s \<and> (\<exists>y'. et_outboundExecutor s' = Some y' \<and> last (queued y') \<in> set (queued y')
       \<and> slot_holds (last (queued y')) packet (destinations s) s')"
proof -
  let ?A = "AcquireOutboundWork packet (take (et_destinationCount s) (et_destinations s)) (et_destinationCount s) s"
  let ?goal = "outbound_ok queued running s' \<and> et_destinations s' = et_destinations s \<and> et_destinationCount s' = et_destinationCount s
    \<and> et_transport s' = et_transport s
    \<and> (\<forall>i \<in> set (in_flight queued running s) \<inter> set (in_flight queued running s'). et_outboundWorks s' ! i = et_outboundWorks s ! i)
    \<and> (sent \<longrightarrow> et_transport s \<and> (\<exists>y'. et_outboundExecutor s' = Some y' \<and> last (queued y') \<in> set (queued y')
       \<and> slot_holds (last (queued y')) packet (destinations s) s'))"
  obtain y where y: "et_outboundExecutor s = Some y" using ok by (auto simp: outbound_ok_def)
  have ?goal
  proof (cases "et_initialized s \<and> valid packet \<and> et_transport s \<and> et_destinationCount s \<noteq> 0")
    case False
    then have "Event_Send outx valid packet s = (False, s)" by (auto simp: Event_Send_def)
    then show ?thesis using r ok by simp
  next
    case live: True
    show ?thesis
    proof (cases "fst ?A")
      case None
      then have "?A = (None, s)" by (auto simp: AcquireOutboundWork_def Let_def split: option.splits)
      then have "Event_Send outx valid packet s = (False, s\<lparr>et_outboundRejected := et_outboundRejected s + 1\<rparr>)"
        using live y by (simp add: Event_Send_def)
      then show ?thesis using r ok by auto
    next
      case (Some k)
      then obtain s1 where acq: "?A = (Some k, s1)" by (cases ?A) simp
      obtain accepted discarded y' where sub: "ex_Submit outx k y = (accepted, discarded, y')" by (cases rule: prod_cases3)
      define s2 where "s2 = fold ReleaseOutboundWork discarded (s1\<lparr>et_outboundExecutor := Some y'\<rparr>)"
      note slot = AcquireOutboundWork_slot [OF acq ok dest]
      from slot(4) obtain work where work: "length (ow_Destinations work) = 16"
        "s1 = s\<lparr>et_outboundSlots := (et_outboundSlots s)[k := 1], et_outboundWorks := (et_outboundWorks s)[k := work]\<rparr>" by blast
      have res: "sent = accepted" "s' = (if accepted then s2 else (ReleaseOutboundWork k s2)\<lparr>et_outboundRejected := et_outboundRejected s2 + 1\<rparr>)"
        using r live y acq sub by (auto simp: Event_Send_def Let_def s2_def split: if_splits)
      have w: "et_outboundWorks s1 ! k = work" using slot(1) by (simp add: work(2))
      have other: "et_outboundExecutor s2 = Some y'" "et_transport s2 = et_transport s" "et_destinations s2 = et_destinations s"
        "et_destinationCount s2 = et_destinationCount s"
        by (simp_all add: s2_def fold_ReleaseOutboundWork work(2))
      show ?thesis
        using submit_slot [OF ok y slot(1,2) work con sub s2_def] slot(3) slot_holds_cong [of s2 k s1] other live w
        by (cases accepted) (auto simp: res in_flight_def y)
    qed
  qed
  then show "outbound_ok queued running s'" "et_destinations s' = et_destinations s" "et_destinationCount s' = et_destinationCount s"
    "et_transport s' = et_transport s"
    "\<forall>i \<in> set (in_flight queued running s) \<inter> set (in_flight queued running s'). et_outboundWorks s' ! i = et_outboundWorks s ! i"
    "sent \<Longrightarrow> et_transport s \<and> (\<exists>y'. et_outboundExecutor s' = Some y' \<and> last (queued y') \<in> set (queued y')
       \<and> slot_holds (last (queued y')) packet (destinations s) s')"
    by blast+
qed

subsection \<open>What may happen before the task gets to it\<close>

text \<open>
  The steps of a running transport with the ESP-NOW transport beneath it: the application changes the destination list or the
  receiver or sends another packet, a frame is handled, the task takes the next slot or processes the one it took, and
  the ESP-NOW transport changes on its own.
\<close>

inductive outbound_step ::
  "('y, 'p, 'w) executor_api \<Rightarrow> ('q, 'v) native_api \<Rightarrow> (EventTransportPacket \<Rightarrow> bool)
     \<Rightarrow> nat list \<times> ('r, 'x, 'y, 'p) ESPNowEventTransport \<times> ('h, 'm, 'o, 'q, 'v) ESPNowTransport
     \<Rightarrow> nat list \<times> ('r, 'x, 'y, 'p) ESPNowEventTransport \<times> ('h, 'm, 'o, 'q, 'v) ESPNowTransport \<Rightarrow> bool"
  for outx api valid where
  add: "outbound_step outx api valid (running, s, t) (running, snd (AddDestination d s), t)"
| remove: "outbound_step outx api valid (running, s, t) (running, snd (RemoveDestination d s), t)"
| clear: "outbound_step outx api valid (running, s, t) (running, ClearDestinations s, t)"
| receiver: "outbound_step outx api valid (running, s, t) (running, SetReceiver r s, t)"
| frame: "outbound_step outx api valid (running, s, t) (running, snd (Event_HandleFrame alloc f s), t)"
| send: "outbound_step outx api valid (running, s, t) (running, snd (Event_Send outx valid packet s), t)"
| taken: "et_outboundExecutor s = Some y \<Longrightarrow> ex_Take outx y = Some (i, y') \<Longrightarrow>
    outbound_step outx api valid ([], s, t) ([i], s\<lparr>et_outboundExecutor := Some y'\<rparr>, t)"
| processed: "ProcessOutbound api valid i (s, t) = (s', t') \<Longrightarrow> outbound_step outx api valid ([i], s, t) ([], s', t')"
| radio: "outbound_step outx api valid (running, s, t) (running, s, t')"

text \<open>Any number of steps in which slot \<open>k\<close> stays queued or taken; it leaves when it is processed or discarded.\<close>

inductive outbound_later ::
  "('y, 'p, 'w) executor_api \<Rightarrow> ('q, 'v) native_api \<Rightarrow> (EventTransportPacket \<Rightarrow> bool) \<Rightarrow> ('y \<Rightarrow> nat list) \<Rightarrow> nat
     \<Rightarrow> nat list \<times> ('r, 'x, 'y, 'p) ESPNowEventTransport \<times> ('h, 'm, 'o, 'q, 'v) ESPNowTransport
     \<Rightarrow> nat list \<times> ('r, 'x, 'y, 'p) ESPNowEventTransport \<times> ('h, 'm, 'o, 'q, 'v) ESPNowTransport \<Rightarrow> bool"
  for outx api valid queued k c where
  here: "outbound_later outx api valid queued k c c"
| step: "outbound_later outx api valid queued k c c' \<Longrightarrow> outbound_step outx api valid c' (running, s, t) \<Longrightarrow>
    k \<in> set (in_flight queued running s) \<Longrightarrow> outbound_later outx api valid queued k c (running, s, t)"

definition slot_kept ::
  "('y \<Rightarrow> nat list) \<Rightarrow> nat \<Rightarrow> EventTransportPacket \<Rightarrow> MacAddress list \<Rightarrow> nat list \<Rightarrow> ('r, 'x, 'y, 'p) ESPNowEventTransport \<Rightarrow> bool" where
  "slot_kept queued k packet ds running s \<longleftrightarrow> outbound_ok queued running s \<and> destinations_ok s \<and> et_transport s
     \<and> k \<in> set (in_flight queued running s) \<and> slot_holds k packet ds s"

lemma slot_kept_cong:
  assumes "et_outboundExecutor s' = et_outboundExecutor s" "et_outboundWorks s' = et_outboundWorks s" "et_outboundSlots s' = et_outboundSlots s"
    "et_transport s' = et_transport s" "destinations_ok s'" "slot_kept queued k packet ds running s"
  shows "slot_kept queued k packet ds running s'"
  using assms by (simp add: slot_kept_def outbound_ok_def in_flight_def slot_holds_def)

lemma Event_HandleFrame_outbound:
  "et_outboundExecutor (snd (Event_HandleFrame alloc f s)) = et_outboundExecutor s"
  "et_outboundWorks (snd (Event_HandleFrame alloc f s)) = et_outboundWorks s"
  "et_outboundSlots (snd (Event_HandleFrame alloc f s)) = et_outboundSlots s"
  "et_transport (snd (Event_HandleFrame alloc f s)) = et_transport s"
  "destinations_ok (snd (Event_HandleFrame alloc f s)) = destinations_ok s"
  by (auto simp: Event_HandleFrame_def split_beta Let_def destinations_ok_def destinations_def split: option.split)

lemma outbound_step_kept:
  assumes con: "executor_contract outx depth queued" and st: "outbound_step outx api valid (running, s, t) (running', s', t')"
    and k: "slot_kept queued k packet ds running s" "k \<in> set (in_flight queued running' s')"
  shows "slot_kept queued k packet ds running' s'"
  using st
proof cases
  case (add d)
  have "destinations_ok s'" using AddDestination_spec(1) [of s d] k(1) by (simp add: add slot_kept_def)
  then show ?thesis using k(1) unfolding add by (rule_tac slot_kept_cong [where s = s]) (simp_all add: AddDestination_def)
next
  case (remove d)
  have "destinations_ok s'" using RemoveDestination_spec(2) [of s d] k(1) by (simp add: remove slot_kept_def)
  then show ?thesis using k(1) unfolding remove
    by (rule_tac slot_kept_cong [where s = s]) (simp_all add: RemoveDestination_def Let_def split: option.split)
next
  case clear
  then show ?thesis using k(1)
    by (rule_tac slot_kept_cong [where s = s]) (auto simp: ClearDestinations_def destinations_ok_def destinations_def slot_kept_def)
next
  case (receiver r)
  then show ?thesis using k(1)
    by (rule_tac slot_kept_cong [where s = s]) (auto simp: SetReceiver_def destinations_ok_def destinations_def slot_kept_def)
next
  case (frame alloc f)
  then show ?thesis using k(1)
    by (rule_tac slot_kept_cong [where s = s]) (simp_all add: Event_HandleFrame_outbound, simp add: slot_kept_def)
next
  case (send packet')
  obtain sent where r: "Event_Send outx valid packet' s = (sent, s')" using send by (metis prod.collapse)
  have o: "outbound_ok queued running s" "destinations_ok s" using k(1) by (simp_all add: slot_kept_def)
  note e = Event_Send_keeps [OF con o r]
  have "et_outboundWorks s' ! k = et_outboundWorks s ! k" using e(5) k send by (auto simp: slot_kept_def)
  then show ?thesis
    using e(1-4) k slot_holds_cong [of s' k s] send by (simp add: slot_kept_def destinations_ok_def destinations_def)
next
  case (taken y i y')
  have q: "queued y = i # queued y'" using executor_taken [OF con] taken by simp
  have e: "et_outboundExecutor s = Some y" "running = []" "running' = [i]" "s' = s\<lparr>et_outboundExecutor := Some y'\<rparr>" using taken by simp_all
  show ?thesis
    using k(1) unfolding slot_kept_def outbound_ok_def in_flight_def slot_holds_def destinations_ok_def destinations_def e
    by (simp add: e(1) q)
next
  case (processed i)
  have s': "s' = ReleaseOutboundWork i s" using processed by (simp add: ProcessOutbound_def)
  have i: "i < length (et_outboundWorks s)" "k \<noteq> i"
    using k processed by (auto simp: slot_kept_def outbound_ok_def in_flight_def s')
  then show ?thesis
    using k processed(1,2) unfolding s'
    by (auto simp: slot_kept_def outbound_ok_def in_flight_def slot_holds_def destinations_ok_def destinations_def
        ReleaseOutboundWork_def list_all_length nth_list_update)
next
  case radio
  then show ?thesis using k by simp
qed

lemma outbound_later_kept:
  assumes con: "executor_contract outx depth queued" and later: "outbound_later outx api valid queued k (running, s, t) c"
    and k: "slot_kept queued k packet ds running s"
  shows "slot_kept queued k packet ds (fst c) (fst (snd c))"
  using later
proof (induction rule: outbound_later.induct)
  case (step c' running' s' t')
  then show ?case using outbound_step_kept [OF con _ step.IH step.hyps(3)] by (cases c') simp
qed (use k in simp)

text \<open>
  C29. A packet accepted for sending goes to the destinations known at that moment, in their order, whatever
  happens before the task gets to it. Accepting it appends a slot to the executor's queue and keeps
  every other packet's slot apart. Then destinations may be added, removed or cleared, other packets be
  sent or processed, frames handled and the radio change; as long as the slot is neither processed nor discarded by the
  executor, processing it sends the fragments of that packet to each of the destinations of the moment of acceptance and frees the slot.
\<close>

theorem event_outbound_snapshot:
  assumes con: "executor_contract outx depth queued" and ok: "outbound_ok queued running s" and dest: "destinations_ok s"
    and sent: "Event_Send outx valid packet s = (True, s')"
    and slot: "et_outboundExecutor s' = Some y'" "k = last (queued y')"
    and later: "outbound_later outx api valid queued k (running, s', t) (running2, s2, t2)"
  shows "k \<in> set (queued y') \<and> outbound_ok queued running s' \<and> outbound_ok queued running2 s2
    \<and> snd (ProcessOutbound api valid k (s2, t2)) = fold (\<lambda>d t. snd (SendToDestination api valid d packet t)) (destinations s) t2
    \<and> et_outboundSlots (fst (ProcessOutbound api valid k (s2, t2))) ! k = 0"
proof -
  note e = Event_Send_keeps [OF con ok dest sent]
  have k: "et_transport s" "k \<in> set (queued y')" "slot_holds k packet (destinations s) s'" using e(6) slot by auto
  have "destinations_ok s'" using e(2,3) dest by (simp add: destinations_ok_def destinations_def)
  then have "slot_kept queued k packet (destinations s) running s'" using e(1,4) k slot(1) by (simp add: slot_kept_def in_flight_def)
  from outbound_later_kept [OF con later this]
  have kept: "outbound_ok queued running2 s2" "et_transport s2" "slot_holds k packet (destinations s) s2" "k < length (et_outboundWorks s2)"
    by (auto simp: slot_kept_def intro: outbound_ok_in_flight)
  have "length (et_outboundSlots s2) = length (et_outboundWorks s2)" using kept(1) by (auto simp: outbound_ok_def)
  then have "et_outboundSlots (fst (ProcessOutbound api valid k (s2, t2))) ! k = 0"
    using kept(4) by (auto simp: ProcessOutbound_def ReleaseOutboundWork_def)
  moreover have "snd (ProcessOutbound api valid k (s2, t2)) = fold (\<lambda>d t. snd (SendToDestination api valid d packet t)) (destinations s) t2"
    using kept(2,3) by (simp add: ProcessOutbound_def slot_holds_def Let_def)
  ultimately show ?thesis using k(2) e(1) kept(1) by blast
qed

text \<open>A transport with two work slots, one destination and an empty queue.\<close>

definition demo_sender :: "(unit, unit, nat list, unit) ESPNowEventTransport" where
  "demo_sender = (EventTransport_new ())\<lparr>et_initialized := True, et_transport := True, et_outboundExecutor := Some [],
     et_destinations := MacAddress 2 0 0 0 0 1 # replicate 15 zero_mac, et_destinationCount := 1,
     et_outboundWorks := replicate 2 OutboundWork_default, et_outboundSlots := [0, 0]\<rparr>"

text \<open>The destination is removed and another one added before the task processes the packet.\<close>

theorem event_outbound_snapshot_witness:
  "\<forall>api (t :: (unit, unit, unit, unit, unit) ESPNowTransport).
     (let s1 = snd (Event_Send demo_executor (\<lambda>p. True) demo_packet demo_sender);
          s2 = snd (AddDestination (MacAddress 2 0 0 0 0 7) (snd (RemoveDestination demo_source s1)))
      in destinations s2 = [MacAddress 2 0 0 0 0 7]
         \<and> snd (ProcessOutbound api (\<lambda>p. True) 0 (s2, t)) = snd (SendToDestination api (\<lambda>p. True) demo_source demo_packet t))"
proof (intro allI)
  fix api and t :: "(unit, unit, unit, unit, unit) ESPNowTransport"
  have two: "replicate 2 OutboundWork_default = [OutboundWork_default, OutboundWork_default]" by (simp add: numeral_eq_Suc)
  have ok: "outbound_ok (take 8) [] demo_sender"
    unfolding outbound_ok_def demo_sender_def two by (auto simp: less_Suc_eq OutboundWork_default_def ESPRESSIO_ESPNOW_EVENT_MAX_DESTINATIONS_def)
  have dest: "destinations_ok demo_sender" "destinations demo_sender = [demo_source]"
    by (simp_all add: demo_sender_def destinations_ok_def destinations_def)
  obtain s' where sent: "Event_Send demo_executor (\<lambda>p. True) demo_packet demo_sender = (True, s')" "et_outboundExecutor s' = Some [0]"
    by (simp add: Event_Send_def demo_sender_def EventTransport_new_def two AcquireOutboundWork_def demo_executor_def)
  have d': "destinations_ok s'" "destinations s' = [demo_source]"
    using Event_Send_keeps(2,3) [OF demo_executor_contract ok dest(1) sent(1)] dest by (simp_all add: destinations_ok_def destinations_def)
  let ?s1 = "snd (RemoveDestination demo_source s')"
  let ?s2 = "snd (AddDestination (MacAddress 2 0 0 0 0 7) ?s1)"
  note r = RemoveDestination_spec(2,3) [OF d'(1), of demo_source]
  have later: "destinations ?s2 = [MacAddress 2 0 0 0 0 7]"
    using AddDestination_spec(2) [OF r(1)] r(2) d'(2) by (simp add: IsZero_def)
  have ex: "et_outboundExecutor ?s1 = Some [0]" "et_outboundExecutor ?s2 = Some [0]"
    using sent(2) by (simp_all add: RemoveDestination_def AddDestination_def Let_def split: option.split)
  have "outbound_later demo_executor api (\<lambda>p. True) (take 8) 0 ([], s', t) ([], ?s1, t)"
    by (rule outbound_later.step [OF outbound_later.here outbound_step.remove]) (simp add: in_flight_def ex)
  then have "outbound_later demo_executor api (\<lambda>p. True) (take 8) 0 ([], s', t) ([], ?s2, t)"
    by (rule outbound_later.step [OF _ outbound_step.add]) (simp add: in_flight_def ex)
  from event_outbound_snapshot [OF demo_executor_contract ok dest(1) sent _ this] later dest(2)
  show "let s1 = snd (Event_Send demo_executor (\<lambda>p. True) demo_packet demo_sender);
          s2 = snd (AddDestination (MacAddress 2 0 0 0 0 7) (snd (RemoveDestination demo_source s1)))
      in destinations s2 = [MacAddress 2 0 0 0 0 7]
         \<and> snd (ProcessOutbound api (\<lambda>p. True) 0 (s2, t)) = snd (SendToDestination api (\<lambda>p. True) demo_source demo_packet t)"
    by (simp add: Let_def sent(1))
qed

end
