(* ===== verification/Clock_Synchronizer.thy ===== *)
theory Clock_Synchronizer
  imports Transport
begin

text \<open>
  \<^verbatim>\<open>src/src/ESPressio_ESPNowClockSynchronizer.hpp\<close>: the four-timestamp exchange of a client with a
  reference. The transport is threaded next to the object's state, and so is the synchronization target
  of the Timing library (the System Clock), a parameter with two operations: reading its time and taking a
  sample. An adjustment mode is a value of that library. The constructor replaces null pointers by the
  singletons, so transport and target always exist. \<open>handler\<close> is the closure over \<^verbatim>\<open>ProcessFrame\<close> that is registered
  with the transport. A public method is one step.
\<close>

section \<open>The Timing library\<close>

record ClockSynchronizationSample =
  sm_LocalRequestTransmitTime :: u64
  sm_RemoteRequestReceiveTime :: u64
  sm_RemoteResponseTransmitTime :: u64
  sm_LocalResponseReceiveTime :: u64

record ('a, 'g) clock_target =
  ct_Timestamp :: "'g \<Rightarrow> u64 \<times> 'g"
  ct_Submit :: "ClockSynchronizationSample \<Rightarrow> 'a \<Rightarrow> 'g \<Rightarrow> 'g"


section \<open>Messages\<close>

definition MessageType_Request :: byte where "MessageType_Request = 1"
definition MessageType_Response :: byte where "MessageType_Response = 2"

record MessageHeader =
  mh_Type :: byte
  mh_Version :: byte
  mh_Reserved :: u16
  mh_Sequence :: u32

definition MessageHeader_default :: MessageHeader where
  "MessageHeader_default = \<lparr>mh_Type = 0, mh_Version = 1, mh_Reserved = 0, mh_Sequence = 0\<rparr>"

record RequestMessage =
  rq_Header :: MessageHeader
  rq_T1 :: u64

record ResponseMessage =
  rs_Header :: MessageHeader
  rs_T1 :: u64
  rs_T2 :: u64
  rs_T3 :: u64

definition sizeof_MessageHeader :: nat where "sizeof_MessageHeader = 8"
definition sizeof_RequestMessage :: nat where "sizeof_RequestMessage = 16"
definition sizeof_ResponseMessage :: nat where "sizeof_ResponseMessage = 32"

lemmas clock_sizes [simp] = sizeof_MessageHeader_def sizeof_RequestMessage_def sizeof_ResponseMessage_def

definition message_header_write :: "MessageHeader \<Rightarrow> byte list" where
  "message_header_write h = [mh_Type h, mh_Version h] @ le_bytes 2 (mh_Reserved h) @ le_bytes 4 (mh_Sequence h)"

definition message_header_read :: "byte list \<Rightarrow> MessageHeader" where
  "message_header_read bs =
     \<lparr>mh_Type = bs ! 0, mh_Version = bs ! 1, mh_Reserved = le_word (take 2 (drop 2 bs)),
      mh_Sequence = le_word (take 4 (drop 4 bs))\<rparr>"

definition request_write :: "RequestMessage \<Rightarrow> byte list" where
  "request_write m = message_header_write (rq_Header m) @ le_bytes 8 (rq_T1 m)"

definition request_read :: "byte list \<Rightarrow> RequestMessage" where
  "request_read bs = \<lparr>rq_Header = message_header_read bs, rq_T1 = le_word (take 8 (drop 8 bs))\<rparr>"

definition response_write :: "ResponseMessage \<Rightarrow> byte list" where
  "response_write m =
     message_header_write (rs_Header m) @ le_bytes 8 (rs_T1 m) @ le_bytes 8 (rs_T2 m) @ le_bytes 8 (rs_T3 m)"

definition response_read :: "byte list \<Rightarrow> ResponseMessage" where
  "response_read bs =
     \<lparr>rs_Header = message_header_read bs, rs_T1 = le_word (take 8 (drop 8 bs)), rs_T2 = le_word (take 8 (drop 16 bs)),
      rs_T3 = le_word (take 8 (drop 24 bs))\<rparr>"


section \<open>State\<close>

record 'a ESPNowClockSynchronizationConfig =
  kc_Mode :: ESPNowClockSynchronizationMode
  kc_ReferencePeer :: MacAddress
  kc_SynchronizationIntervalMilliseconds :: u32
  kc_AdjustmentMode :: 'a

definition ClockSynchronizationConfig_default :: "'a \<Rightarrow> 'a ESPNowClockSynchronizationConfig" where
  "ClockSynchronizationConfig_default slewOnly =
     \<lparr>kc_Mode = Disabled, kc_ReferencePeer = MacAddress 0 0 0 0 0 0, kc_SynchronizationIntervalMilliseconds = 1000,
      kc_AdjustmentMode = slewOnly\<rparr>"

record 'a ESPNowClockSynchronizer =
  ks_config :: "'a ESPNowClockSynchronizationConfig"
  ks_nextSequence :: u32
  ks_pendingSequence :: u32
  ks_lastRequestMonotonicNanoseconds :: u64
  ks_initialized :: bool

definition ClockSynchronizer_new :: "'a \<Rightarrow> 'a ESPNowClockSynchronizer" where
  "ClockSynchronizer_new slewOnly =
     \<lparr>ks_config = ClockSynchronizationConfig_default slewOnly, ks_nextSequence = 1, ks_pendingSequence = 0,
      ks_lastRequestMonotonicNanoseconds = 0, ks_initialized = False\<rparr>"

definition IsClientMode :: "'a ESPNowClockSynchronizer \<Rightarrow> bool" where
  "IsClientMode s \<longleftrightarrow> kc_Mode (ks_config s) = Client \<or> kc_Mode (ks_config s) = ClientAndReference"

definition IsReferenceMode :: "'a ESPNowClockSynchronizer \<Rightarrow> bool" where
  "IsReferenceMode s \<longleftrightarrow> kc_Mode (ks_config s) = Reference \<or> kc_Mode (ks_config s) = ClientAndReference"


section \<open>Peers and timestamps\<close>

definition EnsurePeerExists ::
  "('q, 'w) native_api \<Rightarrow> MacAddress \<Rightarrow> ('h, 'm, 'o, 'q, 'w) ESPNowTransport \<Rightarrow> bool \<times> ('h, 'm, 'o, 'q, 'w) ESPNowTransport" where
  "EnsurePeerExists api address t =
     (if IsZero address then (False, t)
      else if na_is_peer_exist api address (t_native t) then (True, t)
      else AddPeer api (PeerConfig_default\<lparr>pc_Address := address\<rparr>) t)"

definition RecoverSystemTimestamp ::
  "('q, 'w) native_api \<Rightarrow> ('a, 'g) clock_target \<Rightarrow> u64 \<Rightarrow> ('h, 'm, 'o, 'q, 'w) ESPNowTransport \<Rightarrow> 'g
     \<Rightarrow> u64 \<times> ('h, 'm, 'o, 'q, 'w) ESPNowTransport \<times> 'g" where
  "RecoverSystemTimestamp api target receiveMonotonicTimestamp t g =
     (let (nowMonotonic, t) = GetMonotonicTimestampNanoseconds api t;
          (nowSystem, g) = ct_Timestamp target g;
          recovered = (if nowMonotonic \<le> receiveMonotonicTimestamp then nowSystem
            else let elapsed = nowMonotonic - receiveMonotonicTimestamp in
                 if nowSystem \<ge> elapsed then nowSystem - elapsed else 0) in
      (recovered, t, g))"


section \<open>Receiving\<close>

definition ProcessRequest ::
  "('q, 'w) native_api \<Rightarrow> ('a, 'g) clock_target \<Rightarrow> ESPNowReceivedFrame
     \<Rightarrow> 'a ESPNowClockSynchronizer \<times> ('h, 'm, 'o, 'q, 'w) ESPNowTransport \<times> 'g
     \<Rightarrow> 'a ESPNowClockSynchronizer \<times> ('h, 'm, 'o, 'q, 'w) ESPNowTransport \<times> 'g" where
  "ProcessRequest api target frame = (\<lambda>(s, t, g).
     if \<not> IsReferenceMode s \<or> unat (rf_PayloadLength frame) \<noteq> sizeof_RequestMessage then (s, t, g)
     else
       let request = request_read (rf_Payload frame);
           (t2, t, g) = RecoverSystemTimestamp api target (rf_ReceiveMonotonicNanoseconds frame) t g;
           header = MessageHeader_default\<lparr>mh_Type := MessageType_Response, mh_Version := 1,
             mh_Sequence := mh_Sequence (rq_Header request)\<rparr>;
           (ok, t) = EnsurePeerExists api (rf_Source frame) t in
       if \<not> ok then (s, t, g)
       else
         let (t3, g) = ct_Timestamp target g;
             response = \<lparr>rs_Header = header, rs_T1 = rq_T1 request, rs_T2 = t2, rs_T3 = t3\<rparr>;
             (_, t) = Send api (rf_Source frame) (protocol_id ClockSynchronization)
                (Some (response_write response)) sizeof_ResponseMessage t in
         (s, t, g))"

definition ProcessResponse ::
  "('q, 'w) native_api \<Rightarrow> ('a, 'g) clock_target \<Rightarrow> ESPNowReceivedFrame
     \<Rightarrow> 'a ESPNowClockSynchronizer \<times> ('h, 'm, 'o, 'q, 'w) ESPNowTransport \<times> 'g
     \<Rightarrow> 'a ESPNowClockSynchronizer \<times> ('h, 'm, 'o, 'q, 'w) ESPNowTransport \<times> 'g" where
  "ProcessResponse api target frame = (\<lambda>(s, t, g).
     if \<not> IsClientMode s \<or> unat (rf_PayloadLength frame) \<noteq> sizeof_ResponseMessage then (s, t, g)
     else if \<not> IsZero (kc_ReferencePeer (ks_config s)) \<and> rf_Source frame \<noteq> kc_ReferencePeer (ks_config s) then (s, t, g)
     else
       let response = response_read (rf_Payload frame); pendingSequence = ks_pendingSequence s in
       if pendingSequence = 0 \<or> mh_Sequence (rs_Header response) \<noteq> pendingSequence then (s, t, g)
       else
         let s = s\<lparr>ks_pendingSequence := 0\<rparr>;
             (t4, t, g) = RecoverSystemTimestamp api target (rf_ReceiveMonotonicNanoseconds frame) t g;
             sample = \<lparr>sm_LocalRequestTransmitTime = rs_T1 response, sm_RemoteRequestReceiveTime = rs_T2 response,
               sm_RemoteResponseTransmitTime = rs_T3 response, sm_LocalResponseReceiveTime = t4\<rparr> in
         (s, t, ct_Submit target sample (kc_AdjustmentMode (ks_config s)) g))"

definition Clock_ProcessFrame ::
  "('q, 'w) native_api \<Rightarrow> ('a, 'g) clock_target \<Rightarrow> ESPNowReceivedFrame
     \<Rightarrow> 'a ESPNowClockSynchronizer \<times> ('h, 'm, 'o, 'q, 'w) ESPNowTransport \<times> 'g
     \<Rightarrow> 'a ESPNowClockSynchronizer \<times> ('h, 'm, 'o, 'q, 'w) ESPNowTransport \<times> 'g" where
  "Clock_ProcessFrame api target frame st =
     (if unat (rf_PayloadLength frame) < sizeof_MessageHeader then st
      else
        let header = message_header_read (rf_Payload frame) in
        if mh_Version header \<noteq> 1 then st
        else if mh_Type header = MessageType_Request then ProcessRequest api target frame st
        else if mh_Type header = MessageType_Response then ProcessResponse api target frame st
        else st)"


section \<open>Lifecycle\<close>

text \<open>The result \<^const>\<open>None\<close> of \<^verbatim>\<open>Initialize\<close> is an exception of the registration leaving the method.\<close>

definition Clock_Initialize ::
  "('q, 'w) native_api \<Rightarrow> 'h \<Rightarrow> 'a ESPNowClockSynchronizationConfig
     \<Rightarrow> 'a ESPNowClockSynchronizer \<times> ('h, 'm, 'o, 'q, 'w) ESPNowTransport
     \<Rightarrow> bool option \<times> 'a ESPNowClockSynchronizer \<times> ('h, 'm, 'o, 'q, 'w) ESPNowTransport" where
  "Clock_Initialize api handler config = (\<lambda>(s, t).
     if \<not> t_initialized t then (Some False, s, t)
     else
       let s = s\<lparr>ks_config := config\<rparr>;
           (ok, t) = (if IsClientMode s \<and> \<not> IsZero (kc_ReferencePeer (ks_config s))
                      then EnsurePeerExists api (kc_ReferencePeer (ks_config s)) t else (True, t)) in
       if \<not> ok then (Some False, s, t)
       else
         let (registered, t) = RegisterProtocolHandler api (protocol_id ClockSynchronization) (Some handler) t in
         case registered of
           None \<Rightarrow> (None, s, t)
         | Some False \<Rightarrow> (Some False, s, t)
         | Some True \<Rightarrow>
             (Some True, s\<lparr>ks_lastRequestMonotonicNanoseconds := 0, ks_pendingSequence := 0, ks_initialized := True\<rparr>, t))"

definition Clock_Shutdown ::
  "'a ESPNowClockSynchronizer \<times> ('h, 'm, 'o, 'q, 'w) ESPNowTransport
     \<Rightarrow> 'a ESPNowClockSynchronizer \<times> ('h, 'm, 'o, 'q, 'w) ESPNowTransport" where
  "Clock_Shutdown = (\<lambda>(s, t).
     if \<not> ks_initialized s then (s, t)
     else (s\<lparr>ks_initialized := False, ks_pendingSequence := 0\<rparr>, UnregisterProtocolHandler (protocol_id ClockSynchronization) t))"


section \<open>Requests\<close>

definition RequestSynchronization ::
  "('q, 'w) native_api \<Rightarrow> ('a, 'g) clock_target
     \<Rightarrow> 'a ESPNowClockSynchronizer \<times> ('h, 'm, 'o, 'q, 'w) ESPNowTransport \<times> 'g
     \<Rightarrow> bool \<times> 'a ESPNowClockSynchronizer \<times> ('h, 'm, 'o, 'q, 'w) ESPNowTransport \<times> 'g" where
  "RequestSynchronization api target = (\<lambda>(s, t, g).
     if \<not> ks_initialized s \<or> \<not> IsClientMode s \<or> IsZero (kc_ReferencePeer (ks_config s)) then (False, s, t, g)
     else
       let header = MessageHeader_default\<lparr>mh_Type := MessageType_Request, mh_Version := 1, mh_Sequence := ks_nextSequence s\<rparr>;
           s = s\<lparr>ks_nextSequence := ks_nextSequence s + 1\<rparr>;
           (t1, g) = ct_Timestamp target g;
           request = \<lparr>rq_Header = header, rq_T1 = t1\<rparr>;
           s = s\<lparr>ks_pendingSequence := mh_Sequence header\<rparr>;
           (now, t) = GetMonotonicTimestampNanoseconds api t;
           s = s\<lparr>ks_lastRequestMonotonicNanoseconds := now\<rparr>;
           (sent, t) = Send api (kc_ReferencePeer (ks_config s)) (protocol_id ClockSynchronization)
              (Some (request_write request)) sizeof_RequestMessage t;
           s = (if \<not> sent then s\<lparr>ks_pendingSequence := 0\<rparr> else s) in
       (sent, s, t, g))"

definition Clock_Update ::
  "('q, 'w) native_api \<Rightarrow> ('a, 'g) clock_target
     \<Rightarrow> 'a ESPNowClockSynchronizer \<times> ('h, 'm, 'o, 'q, 'w) ESPNowTransport \<times> 'g
     \<Rightarrow> 'a ESPNowClockSynchronizer \<times> ('h, 'm, 'o, 'q, 'w) ESPNowTransport \<times> 'g" where
  "Clock_Update api target = (\<lambda>(s, t, g).
     if \<not> ks_initialized s \<or> \<not> IsClientMode s \<or> kc_SynchronizationIntervalMilliseconds (ks_config s) = 0 then (s, t, g)
     else
       let (now, t) = GetMonotonicTimestampNanoseconds api t;
           interval = ucast (kc_SynchronizationIntervalMilliseconds (ks_config s)) * 1000000 in
       if ks_lastRequestMonotonicNanoseconds s = 0 \<or> now - ks_lastRequestMonotonicNanoseconds s \<ge> interval
       then snd (RequestSynchronization api target (s, t, g))
       else (s, t, g))"

end
