(* ===== verification/Clock_Props.thy ===== *)
theory Clock_Props
  imports Clock_Synchronizer Transport_Theorems "HOL-Library.Sublist"
begin

text \<open>
  The clock synchronizer: an exchange between a client and a reference yields the sample with the four
  timestamps that were taken, no request yields more than one sample whatever arrives, and attempts are rate
  limited. The wire contract of the two messages is an interpretation of \<open>wire_codec\<close>.
\<close>

section \<open>Wire format\<close>

lemma length_message_header_write [simp]: "length (message_header_write h) = 8"
  by (simp add: message_header_write_def)

lemma length_request_write [simp]: "length (request_write m) = 16"
  by (simp add: request_write_def)

lemma length_response_write [simp]: "length (response_write m) = 32"
  by (simp add: response_write_def)

lemma message_header_read_write [simp]: "message_header_read (message_header_write h @ rest) = h"
proof -
  have "drop 4 (message_header_write h @ rest) = le_bytes 4 (mh_Sequence h) @ rest"
    by (simp add: message_header_write_def)
  then show ?thesis by (simp add: message_header_read_def) (simp add: message_header_write_def)
qed

lemma request_read_write [simp]: "request_read (request_write m @ rest) = m"
  by (simp add: request_read_def request_write_def)

lemma response_read_write [simp]: "response_read (response_write m @ rest) = m"
proof -
  have "drop 16 (response_write m @ rest) = le_bytes 8 (rs_T2 m) @ le_bytes 8 (rs_T3 m) @ rest"
    "drop 24 (response_write m @ rest) = le_bytes 8 (rs_T3 m) @ rest"
    by (simp_all add: response_write_def)
  then show ?thesis by (simp add: response_read_def) (simp add: response_write_def)
qed

lemma message_type_of_write [simp]:
  "message_header_read (request_write m @ rest) = rq_Header m"
  "message_header_read (response_write r @ rest) = rs_Header r"
  by (simp_all add: request_write_def response_write_def)

text \<open>
  Both messages as frames of a header and their timestamps: what the handlers accept, decided by length and
  read back field by field.
\<close>

definition clock_decode :: "nat \<Rightarrow> byte list \<Rightarrow> (MessageHeader \<times> byte list) option" where
  "clock_decode n bs = (if length bs = n then Some (message_header_read bs, drop sizeof_MessageHeader bs) else None)"

interpretation request_wire: wire_codec "\<lambda>h d. message_header_write h @ d" "clock_decode sizeof_RequestMessage"
  "\<lambda>h d. length d = sizeof_RequestMessage - sizeof_MessageHeader"
  by unfold_locales (auto simp: clock_decode_def split: if_splits)

interpretation response_wire: wire_codec "\<lambda>h d. message_header_write h @ d" "clock_decode sizeof_ResponseMessage"
  "\<lambda>h d. length d = sizeof_ResponseMessage - sizeof_MessageHeader"
  by unfold_locales (auto simp: clock_decode_def split: if_splits)


section \<open>Recovered timestamps\<close>

text \<open>
  \<open>recovered m n r\<close>: the clock value at monotonic time \<open>r\<close>, computed from the readings \<open>m\<close> of the monotonic and \<open>n\<close> of
  the system clock.
\<close>

definition recovered :: "u64 \<Rightarrow> u64 \<Rightarrow> u64 \<Rightarrow> u64" where
  "recovered m n r = (if m \<le> r then n else if n \<ge> m - r then n - (m - r) else 0)"

lemma RecoverSystemTimestamp_eq:
  "RecoverSystemTimestamp api target r t g =
     (recovered (fst (na_now api (t_native t))) (fst (ct_Timestamp target g)) r,
      t\<lparr>t_native := snd (na_now api (t_native t))\<rparr>, snd (ct_Timestamp target g))"
  by (simp add: RecoverSystemTimestamp_def GetMonotonicTimestampNanoseconds_def native_eq recovered_def Let_def split_beta)

lemma recovered_le: "recovered m n r \<le> n"
  by (auto simp: recovered_def not_le intro: word_sub_le)

text \<open>Clocks that advanced by the same amount since the reception give the clock's value at the reception.\<close>

lemma recovered_exact:
  assumes "unat r + d < 2 ^ 64" "unat c + d < 2 ^ 64"
  shows "recovered (r + of_nat d) (c + of_nat d) r = c"
proof -
  have d: "unat (of_nat d :: u64) = d" using assms(1) by (simp add: unat_of_nat take_bit_nat_eq_self)
  have r: "unat (r + of_nat d) = unat r + d" and c: "unat (c + of_nat d) = unat c + d"
    using assms d by (simp_all add: unat_word_ariths take_bit_nat_eq_self)
  show ?thesis using r c d by (auto simp: recovered_def word_le_nat_alt)
qed


section \<open>One exchange\<close>

text \<open>
  A log of what the radio accepted, kept by the platform: a successful \<^verbatim>\<open>esp_now_send\<close> appends the packet, the other
  calls made here leave it alone.
\<close>

definition radio_log :: "('q, 'w) native_api \<Rightarrow> ('w \<Rightarrow> (MacAddress \<times> byte list) list) \<Rightarrow> bool" where
  "radio_log api log \<longleftrightarrow>
     (\<forall>d bs w. log (snd (na_send api d bs w)) = log w @ (if fst (na_send api d bs w) = ESP_OK then [(d, bs)] else [])) \<and>
     (\<forall>n w. log (na_notify api n w) = log w) \<and> (\<forall>w. log (snd (na_now api w)) = log w) \<and>
     (\<forall>p w. log (snd (na_add_peer api p w)) = log w) \<and> (\<forall>p w. log (snd (na_mod_peer api p w)) = log w)"

lemma radio_log_simps:
  assumes "radio_log api log"
  shows "log (snd (na_send api d bs w)) = log w @ (if fst (na_send api d bs w) = ESP_OK then [(d, bs)] else [])"
    "log (na_notify api n w) = log w" "log (snd (na_now api w)) = log w"
    "log (snd (na_add_peer api p w)) = log w" "log (snd (na_mod_peer api p w)) = log w"
  using assms by (simp_all add: radio_log_def)

lemma Send_log:
  assumes "radio_log api log" "Send api d protocol payload n t = (ok, t')"
  shows "log (t_native t') = log (t_native t) @ (if ok then [(d, build_frame protocol payload n)] else [])"
  using assms(2) radio_log_simps [OF assms(1)]
  by (auto simp: Send_def SendDetailed_def finish_send_def native_eq notify_def Let_def SendResult_default_def split: if_splits)

lemma AddPeer_log:
  assumes "radio_log api log"
  shows "log (t_native (snd (AddPeer api config t))) = log (t_native t)"
  using radio_log_simps [OF assms]
  by (auto simp: AddPeer_def StoreManagedPeer_def ProgramPeerNativeLocked_def ForgetManagedPeer_def native_eq notify_def Let_def
      split: option.splits if_splits prod.splits)

lemma EnsurePeerExists_log:
  assumes "radio_log api log"
  shows "log (t_native (snd (EnsurePeerExists api a t))) = log (t_native t)"
  by (simp add: EnsurePeerExists_def AddPeer_log [OF assms])

text \<open>The frame a listening transport makes of a packet.\<close>

definition carried :: "MacAddress \<Rightarrow> MacAddress \<times> byte list \<Rightarrow> u64 \<Rightarrow> ESPNowReceivedFrame" where
  "carried source packet now =
     (case parse_frame (snd packet) (int (length (snd packet))) of
        None \<Rightarrow> ReceivedFrame_default
      | Some (h, payload) \<Rightarrow> received_frame (mac_bytes source) now h payload)"

lemma carried_build_frame:
  assumes "length payload \<le> 242"
  shows "rf_Source (carried source (d, build_frame protocol (Some payload) (length payload)) now) = source"
    "rf_ReceiveMonotonicNanoseconds (carried source (d, build_frame protocol (Some payload) (length payload)) now) = now"
    "unat (rf_PayloadLength (carried source (d, build_frame protocol (Some payload) (length payload)) now)) = length payload"
    "rf_Payload (carried source (d, build_frame protocol (Some payload) (length payload)) now) = payload @ replicate (250 - length payload) 0"
proof -
  have len: "length payload \<le> MaximumFrameSize - sizeof_WireHeader" "unat (of_nat (length payload) :: u16) = length payload"
    using assms by (simp_all add: sizeof_WireHeader_def)
  then have "(of_nat (length payload) :: u16) \<noteq> 0 \<or> payload = []" by (metis length_0_conv unsigned_0)
  then show "rf_Source (carried source (d, build_frame protocol (Some payload) (length payload)) now) = source"
    "rf_ReceiveMonotonicNanoseconds (carried source (d, build_frame protocol (Some payload) (length payload)) now) = now"
    "unat (rf_PayloadLength (carried source (d, build_frame protocol (Some payload) (length payload)) now)) = length payload"
    "rf_Payload (carried source (d, build_frame protocol (Some payload) (length payload)) now) = payload @ replicate (250 - length payload) 0"
    using len(2) by (auto simp: carried_def parse_build_frame [OF len(1)] received_frame_def MacAddress_new_def blit_def)
qed

definition request_message :: "u32 \<Rightarrow> u64 \<Rightarrow> RequestMessage" where
  "request_message n t1 = \<lparr>rq_Header = MessageHeader_default\<lparr>mh_Type := MessageType_Request, mh_Sequence := n\<rparr>, rq_T1 = t1\<rparr>"

definition response_message :: "u32 \<Rightarrow> u64 \<Rightarrow> u64 \<Rightarrow> u64 \<Rightarrow> ResponseMessage" where
  "response_message n t1 t2 t3 =
     \<lparr>rs_Header = MessageHeader_default\<lparr>mh_Type := MessageType_Response, mh_Sequence := n\<rparr>, rs_T1 = t1, rs_T2 = t2, rs_T3 = t3\<rparr>"

lemmas message_defs = request_message_def response_message_def MessageHeader_default_def MessageType_Request_def MessageType_Response_def

lemma RequestSynchronization_sent:
  assumes log: "radio_log api log" and req: "RequestSynchronization api target (s, t, g) = (ok, s', t', g')"
    and live: "ks_initialized s" "IsClientMode s" "\<not> IsZero (kc_ReferencePeer (ks_config s))"
  shows "log (t_native t') = log (t_native t) @ (if ok then [(kc_ReferencePeer (ks_config s),
        build_frame 1 (Some (request_write (request_message (ks_nextSequence s) (fst (ct_Timestamp target g))))) 16)] else [])"
    "s' = s\<lparr>ks_nextSequence := ks_nextSequence s + 1, ks_pendingSequence := (if ok then ks_nextSequence s else 0),
       ks_lastRequestMonotonicNanoseconds := fst (na_now api (t_native t))\<rparr>"
    "g' = snd (ct_Timestamp target g)"
proof -
  let ?r = "request_message (ks_nextSequence s) (fst (ct_Timestamp target g))"
  have eq: "(\<lparr>rq_Header = MessageHeader_default\<lparr>mh_Type := MessageType_Request, mh_Version := 1, mh_Sequence := ks_nextSequence s\<rparr>,
      rq_T1 = fst (ct_Timestamp target g)\<rparr>) = ?r" by (simp add: message_defs)
  let ?t = "t\<lparr>t_native := snd (na_now api (t_native t))\<rparr>"
  obtain sent u where send: "Send api (kc_ReferencePeer (ks_config s)) 1 (Some (request_write ?r)) 16 ?t = (sent, u)" by fastforce
  have all: "sent = ok" "u = t'" "s' = s\<lparr>ks_nextSequence := ks_nextSequence s + 1, ks_pendingSequence := (if ok then ks_nextSequence s else 0),
       ks_lastRequestMonotonicNanoseconds := fst (na_now api (t_native t))\<rparr>" "g' = snd (ct_Timestamp target g)"
    using req live send
    by (auto simp: RequestSynchronization_def GetMonotonicTimestampNanoseconds_def native_eq Let_def split_beta eq [simplified]
        MessageHeader_default_def request_message_def split: if_splits)
  show "log (t_native t') = log (t_native t) @ (if ok then [(kc_ReferencePeer (ks_config s), build_frame 1 (Some (request_write ?r)) 16)] else [])"
    using Send_log [OF log send] radio_log_simps(3) [OF log] all(1,2) by simp
  show "s' = s\<lparr>ks_nextSequence := ks_nextSequence s + 1, ks_pendingSequence := (if ok then ks_nextSequence s else 0),
       ks_lastRequestMonotonicNanoseconds := fst (na_now api (t_native t))\<rparr>" "g' = snd (ct_Timestamp target g)" by (fact all)+
qed

lemma reference_answers:
  assumes log: "radio_log api log" and mode: "IsReferenceMode r"
    and f: "unat (rf_PayloadLength f) = 16" "rf_Payload f = request_write (request_message n t1) @ rest"
    and run: "Clock_ProcessFrame api target f (r, u, x) = (r', u', x')" and sent: "log (t_native u') \<noteq> log (t_native u)"
  shows "r' = r" "log (t_native u') = log (t_native u) @ [(rf_Source f, build_frame 1 (Some (response_write (response_message n t1
      (recovered (fst (na_now api (t_native u))) (fst (ct_Timestamp target x)) (rf_ReceiveMonotonicNanoseconds f))
      (fst (ct_Timestamp target (snd (ct_Timestamp target x))))))) 32)]"
proof -
  let ?t2 = "recovered (fst (na_now api (t_native u))) (fst (ct_Timestamp target x)) (rf_ReceiveMonotonicNanoseconds f)"
  let ?t3 = "fst (ct_Timestamp target (snd (ct_Timestamp target x)))"
  let ?m = "response_message n t1 ?t2 ?t3"
  have m: "\<lparr>rs_Header = MessageHeader_default\<lparr>mh_Type := MessageType_Response, mh_Version := 1, mh_Sequence := n\<rparr>,
      rs_T1 = t1, rs_T2 = ?t2, rs_T3 = ?t3\<rparr> = ?m" by (simp add: message_defs)
  have rd: "request_read (rf_Payload f) = request_message n t1" "mh_Version (message_header_read (rf_Payload f)) = 1"
    "mh_Type (message_header_read (rf_Payload f)) = MessageType_Request" "mh_Sequence (rq_Header (request_message n t1)) = n"
    "rq_T1 (request_message n t1) = t1"
    unfolding f(2) by (simp_all add: message_defs)
  obtain ok v where peer: "EnsurePeerExists api (rf_Source f) (u\<lparr>t_native := snd (na_now api (t_native u))\<rparr>) = (ok, v)" by fastforce
  obtain sd w where send: "Send api (rf_Source f) 1 (Some (response_write ?m)) 32 v = (sd, w)" by fastforce
  have "(r', u', x') = (if ok then (r, w, snd (ct_Timestamp target (snd (ct_Timestamp target x)))) else (r, v, snd (ct_Timestamp target x)))"
    using run mode f(1) peer send rd m
    by (simp add: Clock_ProcessFrame_def ProcessRequest_def RecoverSystemTimestamp_eq Let_def split_beta split: if_splits)
  moreover have "log (t_native v) = log (t_native u)"
    using EnsurePeerExists_log [OF log, of "rf_Source f" "u\<lparr>t_native := snd (na_now api (t_native u))\<rparr>"] radio_log_simps(3) [OF log] peer by simp
  ultimately show "r' = r" "log (t_native u') = log (t_native u) @ [(rf_Source f, build_frame 1 (Some (response_write ?m)) 32)]"
    using Send_log [OF log send] sent by (auto split: if_splits)
qed

lemma client_accepts:
  assumes "IsClientMode s" "rf_Source f = kc_ReferencePeer (ks_config s)" "ks_pendingSequence s = n" "n \<noteq> 0"
    and "unat (rf_PayloadLength f) = 32" "rf_Payload f = response_write (response_message n t1 t2 t3) @ rest"
  shows "Clock_ProcessFrame api target f (s, t, g) = (s\<lparr>ks_pendingSequence := 0\<rparr>, t\<lparr>t_native := snd (na_now api (t_native t))\<rparr>,
      ct_Submit target \<lparr>sm_LocalRequestTransmitTime = t1, sm_RemoteRequestReceiveTime = t2, sm_RemoteResponseTransmitTime = t3,
          sm_LocalResponseReceiveTime = recovered (fst (na_now api (t_native t))) (fst (ct_Timestamp target g)) (rf_ReceiveMonotonicNanoseconds f)\<rparr>
        (kc_AdjustmentMode (ks_config s)) (snd (ct_Timestamp target g)))"
  using assms
  by (simp add: Clock_ProcessFrame_def ProcessResponse_def RecoverSystemTimestamp_eq Let_def split_beta message_defs)

text \<open>A response whose number is not the outstanding one, or any response while none is outstanding, is ignored.\<close>

lemma client_ignores:
  assumes "unat (rf_PayloadLength f) = 32" "rf_Payload f = response_write (response_message n t1 t2 t3) @ rest"
    and "ks_pendingSequence s = 0 \<or> ks_pendingSequence s \<noteq> n"
  shows "Clock_ProcessFrame api target f (s, t, g) = (s, t, g)"
  using assms by (auto simp: Clock_ProcessFrame_def ProcessResponse_def Let_def message_defs)

text \<open>
  C31. A synchronization exchange between two nodes gives the sample of its four timestamps. When the request
  was accepted by the client's radio and the reference's radio accepted an answer to that packet, then the frame
  of that answer makes the client submit exactly one sample: \<open>T1\<close> is the client's clock when the request was made,
  \<open>T2\<close> the reference's clock recovered for the reception of the request, \<open>T3\<close> its clock when the answer was made,
  \<open>T4\<close> the client's clock recovered for the reception of the answer. Receiving the answer again changes nothing.
  The state of the transports and clocks may change in between; the request number must not have wrapped to zero.
\<close>

theorem clock_exchange:
  fixes t t1 :: "('h, 'm, 'o, 'q, 'w) ESPNowTransport"
  assumes log: "radio_log api log" and log': "radio_log api' log'"
    and req: "RequestSynchronization api target (s, t, g) = (True, s1, t1, g1)" and n: "ks_nextSequence s \<noteq> 0"
    and mode: "IsReferenceMode r"
    and run: "Clock_ProcessFrame api' target' (carried client (last (log (t_native t1))) now2) (r, u, x) = (r', u', x')"
    and sent: "log' (t_native u') \<noteq> log' (t_native u)"
  shows "\<exists>T1 T2 T3. T1 = fst (ct_Timestamp target g)
    \<and> T2 = recovered (fst (na_now api' (t_native u))) (fst (ct_Timestamp target' x)) now2
    \<and> T3 = fst (ct_Timestamp target' (snd (ct_Timestamp target' x)))
    \<and> fst (last (log (t_native t1))) = kc_ReferencePeer (ks_config s) \<and> fst (last (log' (t_native u'))) = client
    \<and> (\<forall>(t2 :: ('h, 'm, 'o, 'q, 'w) ESPNowTransport) g2 now4. let answer = carried (kc_ReferencePeer (ks_config s)) (last (log' (t_native u'))) now4;
          T4 = recovered (fst (na_now api (t_native t2))) (fst (ct_Timestamp target g2)) now4;
          (s3, t3, g3) = Clock_ProcessFrame api target answer (s1, t2, g2) in
        g3 = ct_Submit target \<lparr>sm_LocalRequestTransmitTime = T1, sm_RemoteRequestReceiveTime = T2, sm_RemoteResponseTransmitTime = T3,
               sm_LocalResponseReceiveTime = T4\<rparr> (kc_AdjustmentMode (ks_config s)) (snd (ct_Timestamp target g2))
        \<and> s3 = s1\<lparr>ks_pendingSequence := 0\<rparr>
        \<and> (\<forall>(t4 :: ('h, 'm, 'o, 'q, 'w) ESPNowTransport) g4. Clock_ProcessFrame api target answer (s3, t4, g4) = (s3, t4, g4)))"
proof -
  let ?ref = "kc_ReferencePeer (ks_config s)" and ?n = "ks_nextSequence s" and ?T1 = "fst (ct_Timestamp target g)"
  let ?T2 = "recovered (fst (na_now api' (t_native u))) (fst (ct_Timestamp target' x)) now2"
  let ?T3 = "fst (ct_Timestamp target' (snd (ct_Timestamp target' x)))"
  have live: "ks_initialized s" "IsClientMode s" "\<not> IsZero ?ref"
    using req by (auto simp: RequestSynchronization_def split: if_splits)
  note rs = RequestSynchronization_sent [OF log req live]
  have last1: "last (log (t_native t1)) = (?ref, build_frame 1 (Some (request_write (request_message ?n ?T1))) (length (request_write (request_message ?n ?T1))))"
    using rs(1) by simp
  have s1: "IsClientMode s1" "ks_pendingSequence s1 = ?n" "ks_config s1 = ks_config s"
    using rs(2) live(2) by (simp_all add: IsClientMode_def)
  note f1 = carried_build_frame [of "request_write (request_message ?n ?T1)" client ?ref 1 now2, folded last1, simplified]
  note an = reference_answers [OF log' mode f1(3,4) run sent, unfolded f1(1,2)]
  have last2: "last (log' (t_native u')) = (client, build_frame 1 (Some (response_write (response_message ?n ?T1 ?T2 ?T3)))
      (length (response_write (response_message ?n ?T1 ?T2 ?T3))))"
    using an(2) by simp
  note f2 = carried_build_frame [of "response_write (response_message ?n ?T1 ?T2 ?T3)" ?ref client 1, folded last2, simplified]
  have acc: "Clock_ProcessFrame api target (carried ?ref (last (log' (t_native u'))) now4) (s1, t2, g2) =
      (s1\<lparr>ks_pendingSequence := 0\<rparr>, t2\<lparr>t_native := snd (na_now api (t_native t2))\<rparr>,
       ct_Submit target \<lparr>sm_LocalRequestTransmitTime = ?T1, sm_RemoteRequestReceiveTime = ?T2, sm_RemoteResponseTransmitTime = ?T3,
          sm_LocalResponseReceiveTime = recovered (fst (na_now api (t_native t2))) (fst (ct_Timestamp target g2)) now4\<rparr>
        (kc_AdjustmentMode (ks_config s)) (snd (ct_Timestamp target g2)))" for t2 g2 now4
    using client_accepts [OF s1(1) _ s1(2) n f2(3,4), of now4 api target t2 g2] f2(1,2) s1(3) by simp
  have ign: "Clock_ProcessFrame api target (carried ?ref (last (log' (t_native u'))) now4) (s1\<lparr>ks_pendingSequence := 0\<rparr>, t4, g4) =
      (s1\<lparr>ks_pendingSequence := 0\<rparr>, t4, g4)" for now4 t4 g4
    by (rule client_ignores [OF f2(3,4)]) simp
  have to: "fst (last (log (t_native t1))) = ?ref" "fst (last (log' (t_native u'))) = client" by (simp_all add: last1 last2)
  show ?thesis
    by (rule exI [of _ ?T1], rule exI [of _ ?T2], rule exI [of _ ?T3]) (simp add: acc ign to Let_def)
qed

text \<open>A clock that counts its readings and logs the samples, and two nodes on the simulated platform.\<close>

definition demo_clock :: "(unit, u64 \<times> ClockSynchronizationSample list) clock_target" where
  "demo_clock = \<lparr>ct_Timestamp = (\<lambda>(c, samples). (c, (c + 1, samples))), ct_Submit = (\<lambda>sample mode (c, samples). (c, samples @ [sample]))\<rparr>"

definition demo_clock_node :: "ESPNowClockSynchronizationMode \<Rightarrow> unit ESPNowClockSynchronizer" where
  "demo_clock_node mode = (ClockSynchronizer_new ())\<lparr>ks_initialized := True,
     ks_config := (ClockSynchronizationConfig_default ())\<lparr>kc_Mode := mode, kc_ReferencePeer := demo_mac\<rparr>\<rparr>"

definition demo_request where
  "demo_request = RequestSynchronization (sim_api 2) demo_clock (demo_clock_node Client, demo_transport, (100, []))"

definition demo_answer where
  "demo_answer = Clock_ProcessFrame (sim_api 2) demo_clock
     (carried (MacAddress 2 0 0 0 0 7) (last (sim_sent (t_native (fst (snd (snd demo_request)))))) 5)
     (demo_clock_node Reference, demo_transport, (1000, []))"

lemma sim_radio_log: "radio_log (sim_api cap) sim_sent"
  by (simp add: radio_log_def sim_api_def)

theorem clock_exchange_witness:
  "snd (snd (snd (Clock_ProcessFrame (sim_api 2) demo_clock
      (carried demo_mac (last (sim_sent (t_native (fst (snd demo_answer))))) 50) (fst (snd demo_request), demo_transport, (200, [])))))
   = [\<lparr>sm_LocalRequestTransmitTime = 100, sm_RemoteRequestReceiveTime = 1000, sm_RemoteResponseTransmitTime = 1001,
       sm_LocalResponseReceiveTime = 200\<rparr>]"
proof -
  have req: "RequestSynchronization (sim_api 2) demo_clock (demo_clock_node Client, demo_transport, (100, [])) =
      (True, fst (snd demo_request), fst (snd (snd demo_request)), snd (snd (snd demo_request)))" by code_simp
  have ans: "Clock_ProcessFrame (sim_api 2) demo_clock
     (carried (MacAddress 2 0 0 0 0 7) (last (sim_sent (t_native (fst (snd (snd demo_request)))))) 5)
     (demo_clock_node Reference, demo_transport, (1000, [])) = (fst demo_answer, fst (snd demo_answer), snd (snd demo_answer))"
    by (simp add: demo_answer_def)
  have side: "ks_nextSequence (demo_clock_node Client) \<noteq> 0" "IsReferenceMode (demo_clock_node Reference)"
    "sim_sent (t_native (fst (snd demo_answer))) \<noteq> sim_sent (t_native demo_transport)" by code_simp+
  have now: "fst (na_now (sim_api 2) (t_native demo_transport)) \<le> 5" by code_simp
  have r: "recovered (fst (na_now (sim_api 2) (t_native demo_transport))) c r = c" if "5 \<le> r" for c r
    using order_trans [OF now that] by (simp add: recovered_def)
  from clock_exchange [OF sim_radio_log sim_radio_log req side(1,2) ans side(3)]
  obtain T1 T2 T3 where t: "T1 = 100" "T2 = 1000" "T3 = 1001" and
    all: "\<forall>(t2 :: (nat, nat, nat, CallbackFrame list, sim) ESPNowTransport) g2 now4. let answer = carried demo_mac (last (sim_sent (t_native (fst (snd demo_answer))))) now4;
          T4 = recovered (fst (na_now (sim_api 2) (t_native t2))) (fst (ct_Timestamp demo_clock g2)) now4;
          (s3, t3, g3) = Clock_ProcessFrame (sim_api 2) demo_clock answer (fst (snd demo_request), t2, g2) in
        g3 = ct_Submit demo_clock \<lparr>sm_LocalRequestTransmitTime = T1, sm_RemoteRequestReceiveTime = T2, sm_RemoteResponseTransmitTime = T3,
               sm_LocalResponseReceiveTime = T4\<rparr> () (snd (ct_Timestamp demo_clock g2))
        \<and> s3 = (fst (snd demo_request))\<lparr>ks_pendingSequence := 0\<rparr>
        \<and> (\<forall>(t4 :: (nat, nat, nat, CallbackFrame list, sim) ESPNowTransport) g4. Clock_ProcessFrame (sim_api 2) demo_clock answer (s3, t4, g4) = (s3, t4, g4))"
    by (auto simp: demo_clock_node_def demo_clock_def r)
  have "snd (snd (Clock_ProcessFrame (sim_api 2) demo_clock (carried demo_mac (last (sim_sent (t_native (fst (snd demo_answer))))) 50)
      (fst (snd demo_request), demo_transport, (200, []))))
    = ct_Submit demo_clock \<lparr>sm_LocalRequestTransmitTime = 100, sm_RemoteRequestReceiveTime = 1000, sm_RemoteResponseTransmitTime = 1001,
       sm_LocalResponseReceiveTime = 200\<rparr> () (201, [])"
    using all [THEN spec, of demo_transport, THEN spec, of "(200, [])", THEN spec, of 50]
    by (simp add: Let_def split_beta t demo_clock_def r)
  then show ?thesis by (simp add: demo_clock_def)
qed


section \<open>Every request is answered at most once\<close>

text \<open>A log of the samples the target was given, kept by the target.\<close>

definition sample_log :: "('a, 'g) clock_target \<Rightarrow> ('g \<Rightarrow> ClockSynchronizationSample list) \<Rightarrow> bool" where
  "sample_log target submitted \<longleftrightarrow>
     (\<forall>g. submitted (snd (ct_Timestamp target g)) = submitted g)
     \<and> (\<forall>x m g. submitted (ct_Submit target x m g) = submitted g @ [x])"

text \<open>
  Runs of one synchronizer: \<open>issued\<close> are the numbers of the requests its radio accepted, \<open>answered\<close> the numbers
  carried by the responses that led to a sample. Between two calls the transport and the target may change in
  any way.
\<close>

inductive clock_run ::
  "('q, 'w) native_api \<Rightarrow> ('a, 'g) clock_target \<Rightarrow> ('g \<Rightarrow> ClockSynchronizationSample list)
     \<Rightarrow> 'a ESPNowClockSynchronizer \<Rightarrow> ('h, 'm, 'o, 'q, 'w) ESPNowTransport \<Rightarrow> 'g \<Rightarrow> u32 list \<Rightarrow> u32 list \<Rightarrow> bool"
  for api target submitted where
  start: "clock_run api target submitted (ClockSynchronizer_new mode) t g [] []"
| environment: "clock_run api target submitted s t g issued answered \<Longrightarrow> clock_run api target submitted s t' g' issued answered"
| initialize: "clock_run api target submitted s t g issued answered \<Longrightarrow> Clock_Initialize api handler config (s, t) = (ok, s', t')
    \<Longrightarrow> clock_run api target submitted s' t' g issued answered"
| shutdown: "clock_run api target submitted s t g issued answered \<Longrightarrow> Clock_Shutdown (s, t) = (s', t')
    \<Longrightarrow> clock_run api target submitted s' t' g issued answered"
| request: "clock_run api target submitted s t g issued answered \<Longrightarrow> RequestSynchronization api target (s, t, g) = (sent, s', t', g')
    \<Longrightarrow> clock_run api target submitted s' t' g' (issued @ (if sent then [ks_nextSequence s] else [])) answered"
| update: "clock_run api target submitted s t g issued answered \<Longrightarrow> Clock_Update api target (s, t, g) = (s', t', g')
    \<Longrightarrow> clock_run api target submitted s' t' g'
          (issued @ (if ks_nextSequence s' \<noteq> ks_nextSequence s \<and> ks_pendingSequence s' = ks_nextSequence s then [ks_nextSequence s] else [])) answered"
| frame: "clock_run api target submitted s t g issued answered \<Longrightarrow> Clock_ProcessFrame api target f (s, t, g) = (s', t', g')
    \<Longrightarrow> clock_run api target submitted s' t' g' issued
          (answered @ (if submitted g' = submitted g then [] else [mh_Sequence (message_header_read (rf_Payload f))]))"

text \<open>What one call does to the request numbers.\<close>

lemma RequestSynchronization_numbers:
  assumes "RequestSynchronization api target (s, t, g) = (sent, s', t', g')"
  shows "s' = s \<and> \<not> sent \<or> ks_nextSequence s' = ks_nextSequence s + 1 \<and> ks_pendingSequence s' = (if sent then ks_nextSequence s else 0)"
  using assms by (auto simp: RequestSynchronization_def GetMonotonicTimestampNanoseconds_def native_eq MessageHeader_default_def Let_def
      split: if_splits prod.splits)

definition request_due :: "u64 \<Rightarrow> 'a ESPNowClockSynchronizer \<Rightarrow> bool" where
  "request_due now s \<longleftrightarrow>
     ks_lastRequestMonotonicNanoseconds s = 0
     \<or> ucast (kc_SynchronizationIntervalMilliseconds (ks_config s)) * 1000000 \<le> now - ks_lastRequestMonotonicNanoseconds s"

lemma Clock_Update_eq:
  "Clock_Update api target (s, t, g) =
     (if \<not> ks_initialized s \<or> \<not> IsClientMode s \<or> kc_SynchronizationIntervalMilliseconds (ks_config s) = 0 then (s, t, g)
      else let t' = t\<lparr>t_native := snd (na_now api (t_native t))\<rparr> in
        if request_due (fst (na_now api (t_native t))) s then snd (RequestSynchronization api target (s, t', g)) else (s, t', g))"
  by (simp add: Clock_Update_def GetMonotonicTimestampNanoseconds_def native_eq request_due_def Let_def)

lemma Clock_Update_numbers:
  assumes "Clock_Update api target (s, t, g) = (s', t', g')"
  shows "s' = s \<or> ks_nextSequence s' = ks_nextSequence s + 1 \<and> (ks_pendingSequence s' = ks_nextSequence s \<or> ks_pendingSequence s' = 0)"
proof -
  let ?t = "t\<lparr>t_native := snd (na_now api (t_native t))\<rparr>"
  obtain sent s2 t2 g2 where r: "RequestSynchronization api target (s, ?t, g) = (sent, s2, t2, g2)" by (rule prod_cases4)
  have "s' = s \<or> s' = s2" using assms r by (auto simp: Clock_Update_eq Let_def split: if_splits)
  then show ?thesis using RequestSynchronization_numbers [OF r] by (auto split: if_splits)
qed

lemma ProcessRequest_frame:
  assumes log: "sample_log target submitted"
  shows "fst (ProcessRequest api target f (s, t, g)) = s" "submitted (snd (snd (ProcessRequest api target f (s, t, g)))) = submitted g"
  using log by (auto simp: ProcessRequest_def RecoverSystemTimestamp_eq sample_log_def Let_def split_beta)

lemma Clock_ProcessFrame_numbers:
  assumes log: "sample_log target submitted" and run: "Clock_ProcessFrame api target f (s, t, g) = (s', t', g')"
  shows "s' = s \<and> submitted g' = submitted g
    \<or> ks_pendingSequence s \<noteq> 0 \<and> mh_Sequence (message_header_read (rf_Payload f)) = ks_pendingSequence s \<and> s' = s\<lparr>ks_pendingSequence := 0\<rparr>
      \<and> submitted g' \<noteq> submitted g \<and> (IsZero (kc_ReferencePeer (ks_config s)) \<or> rf_Source f = kc_ReferencePeer (ks_config s))"
proof -
  let ?r = "ProcessResponse api target f (s, t, g)"
  have "fst ?r = s \<and> submitted (snd (snd ?r)) = submitted g
    \<or> ks_pendingSequence s \<noteq> 0 \<and> mh_Sequence (message_header_read (rf_Payload f)) = ks_pendingSequence s \<and> fst ?r = s\<lparr>ks_pendingSequence := 0\<rparr>
      \<and> submitted (snd (snd ?r)) \<noteq> submitted g \<and> (IsZero (kc_ReferencePeer (ks_config s)) \<or> rf_Source f = kc_ReferencePeer (ks_config s))"
    using log by (simp add: ProcessResponse_def RecoverSystemTimestamp_eq response_read_def sample_log_def Let_def)
  then show ?thesis
    using run ProcessRequest_frame [OF log, of api f s t g] by (auto simp: Clock_ProcessFrame_def Let_def split: if_splits)
qed

lemma ClockInitialize_numbers:
  assumes "Clock_Initialize api handler config (s, t) = (ok, s', t')"
  shows "ks_nextSequence s' = ks_nextSequence s" "ks_pendingSequence s' = ks_pendingSequence s \<or> ks_pendingSequence s' = 0"
  using assms by (auto simp: Clock_Initialize_def Let_def split: if_splits prod.splits option.splits bool.splits)

lemma subseq_front: "subseq (xs @ ys) zs \<Longrightarrow> subseq xs zs"
  by (meson prefixI prefix_imp_subseq subseq_order.trans)

definition numbered :: "'a ESPNowClockSynchronizer \<Rightarrow> u32 list \<Rightarrow> u32 list \<Rightarrow> bool" where
  "numbered s issued answered \<longleftrightarrow>
     subseq (answered @ (if ks_pendingSequence s = 0 then [] else [ks_pendingSequence s])) issued
     \<and> (\<exists>k. subseq issued (map of_nat [1..<Suc k]) \<and> ks_nextSequence s = of_nat (Suc k))"

lemma numbered_keep:
  assumes "numbered s issued answered" "ks_nextSequence s' = ks_nextSequence s"
    and "ks_pendingSequence s' = ks_pendingSequence s \<or> ks_pendingSequence s' = 0"
  shows "numbered s' issued answered"
  using assms by (auto simp: numbered_def dest: subseq_front split: if_splits)

lemma numbered_attempt:
  assumes "numbered s issued answered" "ks_nextSequence s' = ks_nextSequence s + 1" "ks_pendingSequence s' = (if sent then ks_nextSequence s else 0)"
  shows "numbered s' (issued @ (if sent then [ks_nextSequence s] else [])) answered"
proof -
  obtain k where k: "subseq issued (map of_nat [1..<Suc k])" "ks_nextSequence s = of_nat (Suc k)"
    using assms(1) by (auto simp: numbered_def)
  have a: "subseq answered issued" using assms(1) subseq_front by (auto simp: numbered_def)
  have "map of_nat [1..<Suc (Suc k)] = map of_nat [1..<Suc k] @ [ks_nextSequence s]" by (simp add: k(2))
  then have "subseq (issued @ (if sent then [ks_nextSequence s] else [])) (map of_nat [1..<Suc (Suc k)])"
    using k(1) by (simp only:) (rule list_emb_append_mono, simp_all)
  moreover have "subseq (answered @ (if ks_pendingSequence s' = 0 then [] else [ks_pendingSequence s'])) (issued @ (if sent then [ks_nextSequence s] else []))"
    using a assms(3) by (auto intro: list_emb_append_mono)
  moreover have "ks_nextSequence s' = of_nat (Suc (Suc k))" using assms(2) k(2) by simp
  ultimately show ?thesis unfolding numbered_def by blast
qed

lemma clock_run_numbered:
  assumes log: "sample_log target submitted"
  shows "clock_run api target submitted s t g issued answered \<Longrightarrow> numbered s issued answered"
proof (induction rule: clock_run.induct)
  case (start mode t g)
  then show ?case by (auto simp: numbered_def ClockSynchronizer_new_def intro: exI [of _ 0])
next
  case (environment s t g issued answered t' g')
  then show ?case by simp
next
  case (initialize s t g issued answered handler config ok s' t')
  then show ?case using ClockInitialize_numbers [OF initialize.hyps(2)] by (blast intro: numbered_keep)
next
  case (shutdown s t g issued answered s' t')
  then show ?case by (auto simp: Clock_Shutdown_def intro: numbered_keep split: if_splits)
next
  case (request s t g issued answered sent s' t' g')
  then show ?case
    using RequestSynchronization_numbers [OF request.hyps(2)] numbered_attempt [of s issued answered s' sent] by auto
next
  case (update s t g issued answered s' t' g')
  have "ks_nextSequence s + 1 \<noteq> ks_nextSequence s" by simp
  then show ?case
    using Clock_Update_numbers [OF update.hyps(2)] update.IH numbered_attempt [of s issued answered s' "ks_pendingSequence s' = ks_nextSequence s"]
    by auto
next
  case (frame s t g issued answered f s' t' g')
  then show ?case using Clock_ProcessFrame_numbers [OF log frame.hyps(2)] by (auto simp: numbered_def simp del: upt_Suc)
qed

text \<open>
  C32. Over any run of a synchronizer, with requests, periodic updates, arbitrary frames in any order, restarts and
  shutdowns, and whatever happens to the transport and the clock in between: the samples come from responses whose
  numbers are numbers of its own accepted requests, each used at most once and in the order of the requests, and
  the request still outstanding is later than all of them. The request numbers are those from one upwards, so
  within \<open>2 ^ 32 - 1\<close> requests they are distinct.
\<close>

theorem requests_answered_at_most_once:
  assumes "sample_log target submitted" "clock_run api target submitted s t g issued answered"
  shows "subseq (answered @ (if ks_pendingSequence s = 0 then [] else [ks_pendingSequence s])) issued
    \<and> (\<exists>k. subseq issued (map of_nat [1..<Suc k]) \<and> ks_nextSequence s = of_nat (Suc k))"
  using clock_run_numbered [OF assms] unfolding numbered_def .

lemma demo_sample_log: "sample_log demo_clock snd"
  by (simp add: sample_log_def demo_clock_def split_beta)

definition demo_response :: ESPNowReceivedFrame where
  "demo_response = ReceivedFrame_default\<lparr>rf_Source := demo_mac, rf_PayloadLength := 32, rf_ReceiveMonotonicNanoseconds := 90,
     rf_Payload := response_write (response_message 1 100 5 6) @ replicate 218 0\<rparr>"

definition demo_clock_config :: "unit ESPNowClockSynchronizationConfig" where
  "demo_clock_config = (ClockSynchronizationConfig_default ())\<lparr>kc_Mode := Client, kc_ReferencePeer := demo_mac\<rparr>"

definition demo_opened where
  "demo_opened = Clock_Initialize (sim_api 2) 7 demo_clock_config (ClockSynchronizer_new (), demo_transport)"

definition demo_asked where
  "demo_asked = RequestSynchronization (sim_api 2) demo_clock (fst (snd demo_opened), snd (snd demo_opened), (100, []))"

definition demo_done where
  "demo_done = Clock_ProcessFrame (sim_api 2) demo_clock demo_response (snd demo_asked)"

theorem requests_answered_at_most_once_witness:
  "subseq ([1] @ (if ks_pendingSequence (fst demo_done) = 0 then [] else [ks_pendingSequence (fst demo_done)])) [1]
    \<and> (\<exists>k. subseq [1 :: u32] (map of_nat [1..<Suc k]) \<and> ks_nextSequence (fst demo_done) = of_nat (Suc k))"
proof (rule requests_answered_at_most_once [OF demo_sample_log])
  have nums: "ks_nextSequence (fst (snd demo_opened)) = 1" "fst demo_asked = True"
    "(snd (snd (snd demo_done)) = snd (snd (snd (snd demo_asked)))) = False" "mh_Sequence (message_header_read (rf_Payload demo_response)) = 1"
    by code_simp+
  have started: "clock_run (sim_api 2) demo_clock snd (ClockSynchronizer_new ()) demo_transport (100, []) [] []"
    by (rule clock_run.start)
  have opened: "clock_run (sim_api 2) demo_clock snd (fst (snd demo_opened)) (snd (snd demo_opened)) (100, []) [] []"
    by (rule clock_run.initialize [OF started, of 7 demo_clock_config "fst demo_opened"]) (simp add: demo_opened_def)
  have asked: "clock_run (sim_api 2) demo_clock snd (fst (snd demo_asked)) (fst (snd (snd demo_asked))) (snd (snd (snd demo_asked))) [1] []"
    using clock_run.request [OF opened, of "fst demo_asked" "fst (snd demo_asked)" "fst (snd (snd demo_asked))" "snd (snd (snd demo_asked))"] nums
    by (simp add: demo_asked_def)
  show "clock_run (sim_api 2) demo_clock snd (fst demo_done) (fst (snd demo_done)) (snd (snd demo_done)) [1] [1]"
    using clock_run.frame [OF asked, of demo_response "fst demo_done" "fst (snd demo_done)" "snd (snd demo_done)"] nums
    by (simp add: demo_done_def)
qed


section \<open>The attempt rate\<close>

text \<open>
  After an attempt to synchronize, whether the radio accepted the request or not, periodic updates only read the
  monotonic clock until the configured interval has passed since that attempt; the first update from then on
  makes the next attempt. The monotonic clock must not have read zero at the attempt, the value that stands
  for no attempt.
\<close>

theorem attempts_rate_limited:
  assumes live: "ks_initialized s" "IsClientMode s" "\<not> IsZero (kc_ReferencePeer (ks_config s))"
    and interval: "kc_SynchronizationIntervalMilliseconds (ks_config s) = ms" "ms \<noteq> 0" and at: "fst (na_now api (t_native t)) = m" "m \<noteq> 0"
    and req: "RequestSynchronization api target (s, t, g) = (accepted, s1, t1, g1)"
    and upd: "t3 = t2\<lparr>t_native := snd (na_now api (t_native t2))\<rparr>"
  shows "Clock_Update api target (s1, t2, g2) =
    (if unat (fst (na_now api (t_native t2)) - m) < unat ms * 1000000 then (s1, t3, g2)
     else snd (RequestSynchronization api target (s1, t3, g2)))"
proof -
  have s1: "ks_initialized s1" "ks_config s1 = ks_config s" "ks_lastRequestMonotonicNanoseconds s1 = m"
    using req live at by (auto simp: RequestSynchronization_def GetMonotonicTimestampNanoseconds_def native_eq Let_def split_beta)
  have "unat ms * 1000000 < 2 ^ 64"
  proof -
    have "unat ms < 2 ^ 32" using unsigned_less [of ms] by simp
    then show ?thesis by simp
  qed
  then have i: "unat (ucast ms * 1000000 :: u64) = unat ms * 1000000"
    by (simp add: unat_word_ariths unsigned_ucast_eq take_bit_nat_eq_self)
  have "IsClientMode s1" using live(2) s1(2) by (simp add: IsClientMode_def)
  then show ?thesis
    using s1 interval at(2) i upd by (simp add: Clock_Update_eq request_due_def word_le_nat_alt Let_def not_less)
qed

theorem attempts_rate_limited_witness:
  "Clock_Update (sim_api 2) demo_clock (fst (snd demo_request), demo_transport, (7, []))
    = (fst (snd demo_request), demo_transport\<lparr>t_native := snd (na_now (sim_api 2) (t_native demo_transport))\<rparr>, (7, []))"
proof -
  have live: "ks_initialized (demo_clock_node Client)" "IsClientMode (demo_clock_node Client)"
    "\<not> IsZero (kc_ReferencePeer (ks_config (demo_clock_node Client)))"
    "kc_SynchronizationIntervalMilliseconds (ks_config (demo_clock_node Client)) = 1000" by code_simp+
  have now: "fst (na_now (sim_api 2) (t_native demo_transport)) \<noteq> 0" by code_simp
  show ?thesis
    using attempts_rate_limited [OF live(1-3) live(4) _ refl now, of "demo_clock" "(100, [])" "fst demo_request" "fst (snd demo_request)"
        "fst (snd (snd demo_request))" "snd (snd (snd demo_request))" _ demo_transport "(7, [])"]
    by (simp add: demo_request_def)
qed

end
