(* ===== verification/WiFi_Coordinator.thy ===== *)
theory WiFi_Coordinator
  imports Transport
begin

text \<open>
  \<^verbatim>\<open>src/src/ESPressio_ESPNowWiFiCoordinator.hpp\<close>: the observer that follows the WiFi manager's radio and keeps
  the transport's binding in step. The transport is threaded next to the object's state. The WiFi library is a
  parameter: the radio states it reports are values, registration may fail, and \<open>'v\<close> is its state.
\<close>

section \<open>The WiFi library\<close>

datatype WiFiRadioMode = RadioOff | RadioStation | RadioAccessPoint | RadioAccessPointStation

record WiFiRadioState =
  wr_Mode :: WiFiRadioMode
  wr_Channel :: byte
  wr_StationInterfaceActive :: bool
  wr_AccessPointInterfaceActive :: bool
  wr_Scanning :: bool

record 'v wifi_api =
  wa_RegisterRadioObserver :: "'v \<Rightarrow> bool \<times> 'v"
  wa_ReleaseRadioObserver :: "'v \<Rightarrow> 'v"
  wa_RadioState :: "'v \<Rightarrow> WiFiRadioState"


section \<open>State\<close>

record ESPNowWiFiCoordinator =
  wc_observerHandle :: bool
  wc_lastRadioMode :: WiFiRadioMode
  wc_lastPreferredInterface :: ESPNowWiFiInterface
  wc_lastChannel :: byte
  wc_haveSnapshot :: bool
  wc_scanSuspended :: bool
  wc_nativeStateInvalidated :: bool
  wc_transitionSuspendedNativeState :: bool

definition WiFiCoordinator_new :: ESPNowWiFiCoordinator where
  "WiFiCoordinator_new =
     \<lparr>wc_observerHandle = False, wc_lastRadioMode = RadioOff, wc_lastPreferredInterface = Auto, wc_lastChannel = 0,
      wc_haveSnapshot = False, wc_scanSuspended = False, wc_nativeStateInvalidated = False,
      wc_transitionSuspendedNativeState = False\<rparr>"

definition ResolvePreferredInterface :: "WiFiRadioState \<Rightarrow> ESPNowWiFiInterface" where
  "ResolvePreferredInterface state =
     (case wr_Mode state of
        RadioAccessPoint \<Rightarrow> AccessPoint
      | RadioStation \<Rightarrow> Station
      | RadioAccessPointStation \<Rightarrow>
          if wr_StationInterfaceActive state then Station
          else if wr_AccessPointInterfaceActive state then AccessPoint
          else Auto
      | RadioOff \<Rightarrow> Auto)"


section \<open>Following the radio\<close>

definition ApplyState ::
  "('q, 'w) native_api \<Rightarrow> WiFiRadioState \<Rightarrow> bool \<Rightarrow> ESPNowWiFiCoordinator \<times> ('h, 'm, 'o, 'q, 'w) ESPNowTransport
     \<Rightarrow> bool \<times> ESPNowWiFiCoordinator \<times> ('h, 'm, 'o, 'q, 'w) ESPNowTransport" where
  "ApplyState api state forceNativeReinitialization = (\<lambda>(c, t).
     if \<not> t_initialized t then (False, c, t)
     else if wr_Mode state = RadioOff then
       let c = c\<lparr>wc_nativeStateInvalidated := True, wc_scanSuspended := False\<rparr>;
           (_, t) = SetRadioAvailable False t in
       (True, c\<lparr>wc_lastRadioMode := wr_Mode state, wc_lastPreferredInterface := Auto, wc_lastChannel := 0,
                wc_haveSnapshot := True\<rparr>, t)
     else if wr_Scanning state then
       let (_, t) = SetRadioAvailable False t in (True, c\<lparr>wc_scanSuspended := True\<rparr>, t)
     else
       let preferred = ResolvePreferredInterface state;
           interfaceChanged = (wc_haveSnapshot c \<and> preferred \<noteq> wc_lastPreferredInterface c);
           channelChanged = (wc_haveSnapshot c \<and> wr_Channel state \<noteq> wc_lastChannel c);
           radioModeChanged = (wc_haveSnapshot c \<and> wr_Mode state \<noteq> wc_lastRadioMode c);
           binding = \<lparr>rb_PreferredInterface = preferred, rb_Channel = wr_Channel state, rb_Available = \<not> wc_scanSuspended c\<rparr>;
           rebuildRequired = (forceNativeReinitialization \<or> wc_nativeStateInvalidated c);
           (success, t) = ApplyRadioBinding api binding rebuildRequired t;
           (success, t) = (if \<not> success \<and> \<not> rebuildRequired \<and> (interfaceChanged \<or> channelChanged \<or> radioModeChanged)
             then ApplyRadioBinding api binding True t else (success, t));
           c = (if success then c\<lparr>wc_nativeStateInvalidated := False\<rparr> else c) in
       (success, c\<lparr>wc_lastRadioMode := wr_Mode state, wc_lastPreferredInterface := preferred, wc_lastChannel := wr_Channel state,
                   wc_haveSnapshot := True, wc_scanSuspended := False\<rparr>, t))"

definition OnWiFiRadioTransitionBeginning ::
  "('q, 'w) native_api \<Rightarrow> ESPNowWiFiCoordinator \<times> ('h, 'm, 'o, 'q, 'w) ESPNowTransport
     \<Rightarrow> ESPNowWiFiCoordinator \<times> ('h, 'm, 'o, 'q, 'w) ESPNowTransport" where
  "OnWiFiRadioTransitionBeginning api = (\<lambda>(c, t).
     if t_initialized t
     then (c\<lparr>wc_nativeStateInvalidated := True, wc_transitionSuspendedNativeState := True\<rparr>,
           snd (SuspendNativeForRadioTransition api t))
     else (c, t))"

definition OnWiFiRadioTransitionCompleted ::
  "('q, 'w) native_api \<Rightarrow> WiFiRadioState \<Rightarrow> ESPNowWiFiCoordinator \<times> ('h, 'm, 'o, 'q, 'w) ESPNowTransport
     \<Rightarrow> ESPNowWiFiCoordinator \<times> ('h, 'm, 'o, 'q, 'w) ESPNowTransport" where
  "OnWiFiRadioTransitionCompleted api after = (\<lambda>(c, t).
     let rebuild = (wc_transitionSuspendedNativeState c \<or> wc_nativeStateInvalidated c);
         c = c\<lparr>wc_transitionSuspendedNativeState := False\<rparr> in
     snd (ApplyState api after rebuild (c, t)))"

definition OnWiFiRadioStateChanged ::
  "('q, 'w) native_api \<Rightarrow> WiFiRadioState \<Rightarrow> ESPNowWiFiCoordinator \<times> ('h, 'm, 'o, 'q, 'w) ESPNowTransport
     \<Rightarrow> ESPNowWiFiCoordinator \<times> ('h, 'm, 'o, 'q, 'w) ESPNowTransport" where
  "OnWiFiRadioStateChanged api after = (\<lambda>(c, t).
     if wr_Scanning after then (c\<lparr>wc_scanSuspended := True\<rparr>, snd (SetRadioAvailable False t))
     else if wc_transitionSuspendedNativeState c then (c, t)
     else snd (ApplyState api after False (c, t)))"

definition OnWiFiRadioScanBeginning ::
  "ESPNowWiFiCoordinator \<times> ('h, 'm, 'o, 'q, 'w) ESPNowTransport \<Rightarrow> ESPNowWiFiCoordinator \<times> ('h, 'm, 'o, 'q, 'w) ESPNowTransport" where
  "OnWiFiRadioScanBeginning = (\<lambda>(c, t). (c\<lparr>wc_scanSuspended := True\<rparr>, snd (SetRadioAvailable False t)))"

definition OnWiFiRadioScanCompleted ::
  "('q, 'w) native_api \<Rightarrow> WiFiRadioState \<Rightarrow> ESPNowWiFiCoordinator \<times> ('h, 'm, 'o, 'q, 'w) ESPNowTransport
     \<Rightarrow> ESPNowWiFiCoordinator \<times> ('h, 'm, 'o, 'q, 'w) ESPNowTransport" where
  "OnWiFiRadioScanCompleted api after = (\<lambda>(c, t).
     let c = c\<lparr>wc_scanSuspended := False\<rparr> in
     if wc_transitionSuspendedNativeState c then (c, t) else snd (ApplyState api after False (c, t)))"


section \<open>Lifecycle\<close>

definition Coordinator_Initialize ::
  "('q, 'w) native_api \<Rightarrow> 'v wifi_api \<Rightarrow> ESPNowWiFiCoordinator \<times> ('h, 'm, 'o, 'q, 'w) ESPNowTransport \<times> 'v
     \<Rightarrow> bool \<times> ESPNowWiFiCoordinator \<times> ('h, 'm, 'o, 'q, 'w) ESPNowTransport \<times> 'v" where
  "Coordinator_Initialize api wifi = (\<lambda>(c, t, v).
     if wc_observerHandle c then (let (ok, c, t) = ApplyState api (wa_RadioState wifi v) False (c, t) in (ok, c, t, v))
     else if \<not> t_initialized t then (False, c, t, v)
     else
       let (handle, v) = wa_RegisterRadioObserver wifi v; c = c\<lparr>wc_observerHandle := handle\<rparr> in
       if \<not> handle then (False, c, t, v)
       else (let (ok, c, t) = ApplyState api (wa_RadioState wifi v) False (c, t) in (ok, c, t, v)))"

definition Coordinator_Shutdown :: "'v wifi_api \<Rightarrow> ESPNowWiFiCoordinator \<times> 'v \<Rightarrow> ESPNowWiFiCoordinator \<times> 'v" where
  "Coordinator_Shutdown wifi = (\<lambda>(c, v).
     (c\<lparr>wc_observerHandle := False, wc_haveSnapshot := False, wc_scanSuspended := False, wc_nativeStateInvalidated := False,
        wc_transitionSuspendedNativeState := False\<rparr>, if wc_observerHandle c then wa_ReleaseRadioObserver wifi v else v))"

definition RefreshBinding ::
  "('q, 'w) native_api \<Rightarrow> 'v wifi_api \<Rightarrow> bool \<Rightarrow> ESPNowWiFiCoordinator \<times> ('h, 'm, 'o, 'q, 'w) ESPNowTransport \<times> 'v
     \<Rightarrow> bool \<times> ESPNowWiFiCoordinator \<times> ('h, 'm, 'o, 'q, 'w) ESPNowTransport \<times> 'v" where
  "RefreshBinding api wifi forceNativeReinitialization = (\<lambda>(c, t, v).
     let (ok, c, t) = ApplyState api (wa_RadioState wifi v) forceNativeReinitialization (c, t) in (ok, c, t, v))"

end
