(* ===== verification/WiFi_Props.thy ===== *)
theory WiFi_Props
  imports WiFi_Coordinator Transport_Theorems
begin

text \<open>
  The WiFi coordinator: from the beginning of a radio transition to its completion the native ESP-NOW state is
  down and nothing is sent, whatever else the WiFi manager reports; the completion restores it on the
  interface and channel of the new radio state, or leaves it marked for the next attempt.
\<close>

section \<open>What happens during a transition\<close>

text \<open>The notifications a WiFi manager may give between the two ends of a transition.\<close>

datatype radio_event = RadioChanged WiFiRadioState | ScanBegins | ScanEnds WiFiRadioState

fun radio_event_step ::
  "('q, 'w) native_api \<Rightarrow> radio_event \<Rightarrow> ESPNowWiFiCoordinator \<times> ('h, 'm, 'o, 'q, 'w) ESPNowTransport
     \<Rightarrow> ESPNowWiFiCoordinator \<times> ('h, 'm, 'o, 'q, 'w) ESPNowTransport" where
  "radio_event_step api (RadioChanged after) = OnWiFiRadioStateChanged api after"
| "radio_event_step api ScanBegins = OnWiFiRadioScanBeginning"
| "radio_event_step api (ScanEnds after) = OnWiFiRadioScanCompleted api after"

text \<open>Whether these notifications leave a scan open.\<close>

fun scan_open :: "bool \<Rightarrow> radio_event list \<Rightarrow> bool" where
  "scan_open b [] = b"
| "scan_open b (RadioChanged after # es) = scan_open (b \<or> wr_Scanning after) es"
| "scan_open b (ScanBegins # es) = scan_open True es"
| "scan_open b (ScanEnds after # es) = scan_open False es"

lemma event_in_transition:
  assumes "wc_transitionSuspendedNativeState c" "\<not> rb_Available (t_radioBinding t)"
  shows "radio_event_step api e (c, t) = (c\<lparr>wc_scanSuspended := scan_open (wc_scanSuspended c) [e]\<rparr>, t)"
  using assms by (cases e)
    (auto simp: OnWiFiRadioStateChanged_def OnWiFiRadioScanBeginning_def OnWiFiRadioScanCompleted_def SetRadioAvailable_def Let_def)

lemma scan_open_Cons: "scan_open b (e # es) = scan_open (scan_open b [e]) es"
  by (cases e) simp_all

lemma events_in_transition:
  assumes "wc_transitionSuspendedNativeState c" "\<not> rb_Available (t_radioBinding t)"
  shows "fold (radio_event_step api) es (c, t) = (c\<lparr>wc_scanSuspended := scan_open (wc_scanSuspended c) es\<rparr>, t)"
  using assms
proof (induction es arbitrary: c)
  case (Cons e es)
  then show ?case by (simp add: event_in_transition scan_open_Cons [of "wc_scanSuspended c" e es] del: scan_open.simps(2-4))
qed simp

lemma TransitionBeginning_suspends:
  assumes "t_initialized t" "OnWiFiRadioTransitionBeginning api (c, t) = (c0, t0)"
  shows "c0 = c\<lparr>wc_nativeStateInvalidated := True, wc_transitionSuspendedNativeState := True\<rparr>" "t_initialized t0" "t_nativeSuspended t0"
    "\<not> rb_Available (t_radioBinding t0)" "t_managedPeers t0 = t_managedPeers t"
  using assms
  by (auto simp: OnWiFiRadioTransitionBeginning_def SuspendNativeForRadioTransition_def SetRadioAvailable_def native_eq Let_def)

lemma ApplyRadioBinding_success:
  assumes "ApplyRadioBinding api binding reinit t = (True, t')"
  shows "t_radioBinding t' = binding" "\<not> t_nativeSuspended t'" "t_managedPeers t' = t_managedPeers t"
proof -
  obtain t1 t2 where r: "ReconcileManagedPeersLocked api t2 = (True, t1)" "t' = t1\<lparr>t_radioBinding := binding\<rparr>"
    "t_managedPeers t2 = t_managedPeers t" using assms by (rule ApplyRadioBinding_reconciles)
  obtain w where "t1 = t2\<lparr>t_native := w\<rparr>" using ReconcileManagedPeersLocked_frame [OF r(1)] by blast
  moreover have "\<not> t_nativeSuspended t2" using r(1) by (auto simp: ReconcileManagedPeersLocked_def split: if_splits)
  ultimately show "t_radioBinding t' = binding" "\<not> t_nativeSuspended t'" "t_managedPeers t' = t_managedPeers t"
    using r by simp_all
qed

definition binding_for :: "WiFiRadioState \<Rightarrow> bool \<Rightarrow> ESPNowRadioBinding" where
  "binding_for after available =
     \<lparr>rb_PreferredInterface = ResolvePreferredInterface after, rb_Channel = wr_Channel after, rb_Available = available\<rparr>"

lemma ApplyState_invalidated:
  assumes "t_initialized t" "wc_nativeStateInvalidated c" "ApplyState api after force (c, t) = (ok, c', t')"
  shows "if wr_Mode after = RadioOff \<or> wr_Scanning after
    then wc_nativeStateInvalidated c' \<and> t' = t\<lparr>t_radioBinding := (t_radioBinding t)\<lparr>rb_Available := False\<rparr>\<rparr>
    else ApplyRadioBinding api (binding_for after (\<not> wc_scanSuspended c)) True t = (ok, t') \<and> wc_nativeStateInvalidated c' = (\<not> ok)"
  using assms
  by (auto simp: ApplyState_def SetRadioAvailable_def binding_for_def Let_def split: if_splits prod.splits)

text \<open>
  C37. A WiFi radio transition seen by the coordinator. Between its beginning and its completion the native state
  stays down and every send is refused, whatever radio states and scans are reported. If the completed state has the
  radio off or scanning, it stays down and remains marked for a rebuild. Otherwise the native state is rebuilt:
  on success the binding names the interface and the channel of the new state, it is available unless a scan is
  still open, and the driver holds every managed peer as configured, on the interface of the binding where the peer
  names none; on failure the radio is unavailable and the rebuild stays due.
\<close>

theorem radio_transition:
  assumes contract: "peer_table_contract api tbl" and ok: "transport_ok t" and init: "t_initialized t"
    and begins: "OnWiFiRadioTransitionBeginning api (c, t) = (c0, t0)"
    and during: "fold (radio_event_step api) es (c0, t0) = (c1, t1)"
    and completed: "OnWiFiRadioTransitionCompleted api after (c1, t1) = (c2, t2)"
    and available: "available \<longleftrightarrow> \<not> scan_open (wc_scanSuspended c) es"
  shows "t_nativeSuspended t1 \<and> \<not> sr_Success (fst (SendDetailed api destination protocol payload n t1))
    \<and> (if wr_Mode after = RadioOff \<or> wr_Scanning after
       then t_nativeSuspended t2 \<and> \<not> rb_Available (t_radioBinding t2) \<and> wc_nativeStateInvalidated c2
       else if wc_nativeStateInvalidated c2 then \<not> rb_Available (t_radioBinding t2)
       else \<not> t_nativeSuspended t2 \<and> t_radioBinding t2 = binding_for after available
         \<and> (ResolvePreferredInterface after \<noteq> Auto \<longrightarrow>
            (\<forall>a ch i enc key. managed_map (t_managedPeers t) a = Some (ch, i, enc, key) \<longrightarrow>
               programmed (ch, i, enc, key)
                 (ExplicitInterface (if i = Auto then ResolvePreferredInterface after else i)) (tbl (t_native t2) a))))"
proof -
  note b = TransitionBeginning_suspends [OF init begins]
  have "wc_transitionSuspendedNativeState c0" using b(1) by simp
  from events_in_transition [OF this b(4), of api es]
  have one: "c1 = c0\<lparr>wc_scanSuspended := scan_open (wc_scanSuspended c) es\<rparr>" "t1 = t0" using during b(1) by simp_all
  have refused: "\<not> sr_Success (fst (SendDetailed api destination protocol payload n t1))"
    using b(2-4) by (simp add: one(2) SendDetailed_def SendResult_default_def)
  have tok: "transport_ok t0"
    using SuspendNativeForRadioTransition_ok [OF ok, of api] begins init by (auto simp: OnWiFiRadioTransitionBeginning_def)
  let ?c = "c1\<lparr>wc_transitionSuspendedNativeState := False\<rparr>"
  obtain r where "ApplyState api after True (?c, t0) = (r, c2, t2)"
    using completed one b(1) by (cases "ApplyState api after True (?c, t0)") (simp add: OnWiFiRadioTransitionCompleted_def Let_def)
  note st = this
  have inval: "wc_nativeStateInvalidated ?c" and open_scan: "(\<not> wc_scanSuspended ?c) = available"
    using b(1) one available by simp_all
  note app = ApplyState_invalidated [OF b(2) inval st, unfolded open_scan]
  show ?thesis
  proof (cases "wr_Mode after = RadioOff \<or> wr_Scanning after")
    case True
    then show ?thesis using app b one refused by simp
  next
    case False
    then have ap: "ApplyRadioBinding api (binding_for after available) True t0 = (r, t2)" "wc_nativeStateInvalidated c2 = (\<not> r)"
      using app by simp_all
    show ?thesis
    proof (cases r)
      case True
      with ap have s: "ApplyRadioBinding api (binding_for after available) True t0 = (True, t2)" by simp
      have pref: "rb_PreferredInterface (binding_for after available) = ResolvePreferredInterface after" by (simp add: binding_for_def)
      have prog: "\<forall>a ch i enc key. managed_map (t_managedPeers t) a = Some (ch, i, enc, key) \<longrightarrow>
          programmed (ch, i, enc, key) (ExplicitInterface (if i = Auto then ResolvePreferredInterface after else i)) (tbl (t_native t2) a)"
        if "ResolvePreferredInterface after \<noteq> Auto"
        using ApplyRadioBinding_programs(4) [OF contract tok _ s] that unfolding pref b(5) by blast
      have suspended: "t_nativeSuspended t1" using b(3) one(2) by simp
      have valid: "\<not> wc_nativeStateInvalidated c2" using ap(2) True by simp
      show ?thesis
        unfolding if_not_P [OF False] if_not_P [OF valid]
        using ApplyRadioBinding_success(1,2) [OF s] prog refused suspended by blast
    next
      case no: False
      then show ?thesis using ApplyRadioBinding_failed [of api _ True t0 t2] ap b one refused False by auto
    qed
  qed
qed

text \<open>A transition to access point and station on channel 11, with a scan begun and ended in between.\<close>

definition demo_radio :: WiFiRadioState where
  "demo_radio = \<lparr>wr_Mode = RadioAccessPointStation, wr_Channel = 11, wr_StationInterfaceActive = True,
     wr_AccessPointInterfaceActive = True, wr_Scanning = False\<rparr>"

definition demo_begun where
  "demo_begun = OnWiFiRadioTransitionBeginning (sim_api 2) (WiFiCoordinator_new, demo_with_peer)"

definition demo_between where
  "demo_between = fold (radio_event_step (sim_api 2)) [ScanBegins, RadioChanged demo_radio, ScanEnds demo_radio] demo_begun"

definition demo_completed where
  "demo_completed = OnWiFiRadioTransitionCompleted (sim_api 2) demo_radio demo_between"

theorem radio_transition_witness:
  "\<not> sr_Success (fst (SendDetailed (sim_api 2) demo_mac 3 None 0 (snd demo_between)))
   \<and> t_radioBinding (snd demo_completed) = \<lparr>rb_PreferredInterface = Station, rb_Channel = 11, rb_Available = True\<rparr>
   \<and> programmed (6, Auto, False, replicate 16 0) WIFI_IF_STA (map_of (sim_peers (t_native (snd demo_completed))) demo_mac)"
proof -
  have init: "t_initialized demo_with_peer" by code_simp
  have steps: "OnWiFiRadioTransitionBeginning (sim_api 2) (WiFiCoordinator_new, demo_with_peer) = (fst demo_begun, snd demo_begun)"
    "fold (radio_event_step (sim_api 2)) [ScanBegins, RadioChanged demo_radio, ScanEnds demo_radio] (fst demo_begun, snd demo_begun)
      = (fst demo_between, snd demo_between)"
    "OnWiFiRadioTransitionCompleted (sim_api 2) demo_radio (fst demo_between, snd demo_between) = (fst demo_completed, snd demo_completed)"
    by (simp_all add: demo_begun_def demo_between_def demo_completed_def)
  have scan: "True \<longleftrightarrow> \<not> scan_open (wc_scanSuspended WiFiCoordinator_new) [ScanBegins, RadioChanged demo_radio, ScanEnds demo_radio]"
    by code_simp
  have mode: "\<not> (wr_Mode demo_radio = RadioOff \<or> wr_Scanning demo_radio)" by (simp add: demo_radio_def)
  have valid: "\<not> wc_nativeStateInvalidated (fst demo_completed)" by code_simp
  have station: "ResolvePreferredInterface demo_radio = Station" by (simp add: demo_radio_def ResolvePreferredInterface_def)
  note all = radio_transition [OF sim_peer_table_contract demo_with_peer_ok init steps scan, of demo_mac 3 None 0,
      unfolded if_not_P [OF mode] if_not_P [OF valid] station]
  have prog: "\<forall>a ch i enc key. managed_map (t_managedPeers demo_with_peer) a = Some (ch, i, enc, key) \<longrightarrow>
      programmed (ch, i, enc, key) (ExplicitInterface (if i = Auto then Station else i)) (map_of (sim_peers (t_native (snd demo_completed))) a)"
    using all by blast
  have r: "\<not> sr_Success (fst (SendDetailed (sim_api 2) demo_mac 3 None 0 (snd demo_between)))"
    "t_radioBinding (snd demo_completed) = binding_for demo_radio True"
    "programmed (6, Auto, False, replicate 16 0) (ExplicitInterface Station) (map_of (sim_peers (t_native (snd demo_completed))) demo_mac)"
    using all prog [rule_format, OF demo_with_peer_managed] by simp_all
  have "binding_for demo_radio True = \<lparr>rb_PreferredInterface = Station, rb_Channel = 11, rb_Available = True\<rparr>"
    by (simp add: binding_for_def station) (simp add: demo_radio_def)
  with r show ?thesis by (simp add: ExplicitInterface_def)
qed

end
