(* ===== verification/State_Transport.thy ===== *)
theory State_Transport
  imports Transport
begin

text \<open>
  \<^verbatim>\<open>src/src/ESPressio_ESPNowStateTransport.hpp\<close>: published states and subscriptions over ESP-NOW frames, with
  acknowledgement and retry. The State library is the parameter \<open>state_api\<close>: its publisher, remote states,
  subscriber and subscription registries are one state \<open>'u\<close>, its wire protocol is a pair of encoders and
  decoders. A state definition of the contract is its type identifier; identifiers, epochs and revisions are
  natural numbers; \<open>'d\<close> are device identifiers and \<open>'v\<close> the values. A method holds the recursive lock or only
  threads the tables through and is one step. The transport is threaded next to the object's state.
\<close>

section \<open>The State library\<close>

record 'd StateUpdateHeader =
  uh_Origin :: 'd
  uh_TypeId :: nat
  uh_Epoch :: nat
  uh_Revision :: nat

record ('d, 'v) StateUpdate =
  su_Header :: "'d StateUpdateHeader"
  su_Value :: 'v

datatype StateMessageType =
  UpdateMessage | AcknowledgementMessage | SubscribeMessage | UnsubscribeMessage | SubscribeAcknowledgement
  | UnsubscribeAcknowledgement | ResynchronizeMessage | DisconnectMessage | OtherMessage

record 'd ControlMessage =
  cm_Type :: StateMessageType
  cm_Device :: 'd
  cm_TypeId :: nat

datatype RemoteAvailability = RemoteConnected | RemoteStale | RemoteConnectionLost | RemoteDisconnected

datatype SubscriptionScope = AnyDevice | SpecificDevice

text \<open>
  \<open>sa_None\<close> is the default device identifier. \<open>sa_Read\<close> gives epoch and revision of a remote state that has a value. \<open>sa_SubscribedTypes\<close>, \<open>sa_Subscribers\<close> and
  \<open>sa_Subscriptions\<close> are what the \<^verbatim>\<open>ForEach\<close> methods visit, in order. \<open>sa_HasSubscriber\<close> asks the registry of
  remote subscribers, \<open>sa_IsSubscribed\<close> that of the own subscriptions.
\<close>

record ('d, 'v, 'u) state_api =
  sa_None :: 'd
  sa_Definitions :: "nat list"
  sa_FromMacAddress :: "MacAddress \<Rightarrow> 'd"
  sa_TryGetMacAddress :: "'d \<Rightarrow> byte list option"
  sa_IsZero :: "'d \<Rightarrow> bool"
  sa_Origin :: "'u \<Rightarrow> 'd"
  sa_Snapshot :: "nat \<Rightarrow> 'u \<Rightarrow> ('d, 'v) StateUpdate option"
  sa_EncodeUpdate :: "nat \<Rightarrow> ('d, 'v) StateUpdate \<Rightarrow> nat \<Rightarrow> byte list option"
  sa_EncodeControl :: "'d ControlMessage \<Rightarrow> byte list option"
  sa_EncodeAcknowledgement :: "'d StateUpdateHeader \<Rightarrow> byte list option"
  sa_GetMessageType :: "byte list \<Rightarrow> StateMessageType option"
  sa_DecodeUpdate :: "byte list \<Rightarrow> ('d StateUpdateHeader \<times> byte list) option"
  sa_DecodeAcknowledgement :: "byte list \<Rightarrow> 'd StateUpdateHeader option"
  sa_DecodeControl :: "byte list \<Rightarrow> 'd ControlMessage option"
  sa_DecodeValue :: "nat \<Rightarrow> byte list \<Rightarrow> 'v option"
  sa_Read :: "nat \<Rightarrow> 'd \<Rightarrow> 'u \<Rightarrow> (nat \<times> nat) option"
  sa_Apply :: "nat \<Rightarrow> 'd \<Rightarrow> nat \<Rightarrow> nat \<Rightarrow> 'v \<Rightarrow> 'u \<Rightarrow> bool \<times> 'u"
  sa_SetAvailability :: "'d \<Rightarrow> RemoteAvailability \<Rightarrow> 'u \<Rightarrow> bool \<times> 'u"
  sa_Subscribe :: "'d \<Rightarrow> nat \<Rightarrow> 'u \<Rightarrow> 'u"
  sa_Unsubscribe :: "'d \<Rightarrow> nat \<Rightarrow> 'u \<Rightarrow> 'u"
  sa_Remove :: "'d \<Rightarrow> 'u \<Rightarrow> 'u"
  sa_HasSubscriber :: "'d \<Rightarrow> nat \<Rightarrow> 'u \<Rightarrow> bool"
  sa_SubscribedTypes :: "'d \<Rightarrow> 'u \<Rightarrow> nat list"
  sa_HasSubscribers :: "nat \<Rightarrow> 'u \<Rightarrow> bool"
  sa_Subscribers :: "nat \<Rightarrow> 'u \<Rightarrow> 'd list"
  sa_IsSubscribed :: "'d \<Rightarrow> nat \<Rightarrow> 'u \<Rightarrow> bool"
  sa_Subscriptions :: "'u \<Rightarrow> (SubscriptionScope \<times> 'd \<times> nat) list"
  sa_RegisterPublisherObserver :: "'u \<Rightarrow> bool \<times> 'u"
  sa_RegisterSubscriptionObserver :: "'u \<Rightarrow> bool \<times> 'u"
  sa_ReleaseObservers :: "'u \<Rightarrow> 'u"


section \<open>State\<close>

definition ESPRESSIO_ESPNOW_STATE_RETRY_INTERVAL_MS :: u64 where "ESPRESSIO_ESPNOW_STATE_RETRY_INTERVAL_MS = 100"
definition StateMaximumPayloadBytes :: nat where "StateMaximumPayloadBytes = MaximumFrameSize - 8"

record 'd PeerEntry =
  pe_Used :: bool
  pe_Address :: MacAddress
  pe_Device :: 'd

record 'd PendingRecord =
  pd_Used :: bool
  pd_Destination :: 'd
  pd_TypeId :: nat
  pd_Epoch :: nat
  pd_Revision :: nat
  pd_LastSendMilliseconds :: u64

record 'd PendingSubscriptionRecord =
  ps_Used :: bool
  ps_Destination :: 'd
  ps_TypeId :: nat
  ps_DesiredSubscribed :: bool
  ps_LastSendMilliseconds :: u64

record 'd ESPNowStateTransport =
  xs_peers :: "'d PeerEntry list"
  xs_pending :: "'d PendingRecord list"
  xs_pendingSubscriptions :: "'d PendingSubscriptionRecord list"
  xs_publisherHandle :: bool
  xs_subscriptionHandle :: bool
  xs_initialized :: bool

definition PeerEntry_default :: "'d \<Rightarrow> 'd PeerEntry" where
  "PeerEntry_default none = \<lparr>pe_Used = False, pe_Address = MacAddress 0 0 0 0 0 0, pe_Device = none\<rparr>"
definition PendingRecord_default :: "'d \<Rightarrow> 'd PendingRecord" where
  "PendingRecord_default none =
     \<lparr>pd_Used = False, pd_Destination = none, pd_TypeId = 0, pd_Epoch = 0, pd_Revision = 0, pd_LastSendMilliseconds = 0\<rparr>"
definition PendingSubscription_default :: "'d \<Rightarrow> 'd PendingSubscriptionRecord" where
  "PendingSubscription_default none =
     \<lparr>ps_Used = False, ps_Destination = none, ps_TypeId = 0, ps_DesiredSubscribed = False, ps_LastSendMilliseconds = 0\<rparr>"

definition StateTransport_new :: "'d ESPNowStateTransport" where
  "StateTransport_new =
     \<lparr>xs_peers = [], xs_pending = [], xs_pendingSubscriptions = [], xs_publisherHandle = False, xs_subscriptionHandle = False,
      xs_initialized = False\<rparr>"

text \<open>The object, the transport and the State library.\<close>

type_synonym ('d, 'h, 'm, 'o, 'q, 'w, 'u) state_node =
  "'d ESPNowStateTransport \<times> ('h, 'm, 'o, 'q, 'w) ESPNowTransport \<times> 'u"


section \<open>Tables\<close>

definition StateMaximumPending :: "('d, 'v, 'u) state_api \<Rightarrow> nat \<Rightarrow> nat" where
  "StateMaximumPending sa maximumPeers = maximumPeers * length (sa_Definitions sa)"

definition EnsureStorage ::
  "('q, 'w) native_api \<Rightarrow> ('d, 'v, 'u) state_api \<Rightarrow> nat \<Rightarrow> 'd ESPNowStateTransport \<times> ('h, 'm, 'o, 'q, 'w) ESPNowTransport
     \<Rightarrow> bool \<times> 'd ESPNowStateTransport \<times> ('h, 'm, 'o, 'q, 'w) ESPNowTransport" where
  "EnsureStorage api sa maximumPeers = (\<lambda>(s, t).
     let (ok, peers, w) = ensure_vector api maximumPeers (PeerEntry_default (sa_None sa)) (xs_peers s) (t_native t);
         s = s\<lparr>xs_peers := peers\<rparr>; t = t\<lparr>t_native := w\<rparr> in
     if \<not> ok then (False, s, t)
     else
       let (ok, pending, w) = ensure_vector api (StateMaximumPending sa maximumPeers) (PendingRecord_default (sa_None sa))
              (xs_pending s) (t_native t);
           s = s\<lparr>xs_pending := pending\<rparr>; t = t\<lparr>t_native := w\<rparr> in
       if \<not> ok then (False, s, t)
       else
         let (ok, subscriptions, w) = ensure_vector api (StateMaximumPending sa maximumPeers)
                (PendingSubscription_default (sa_None sa)) (xs_pendingSubscriptions s) (t_native t) in
         (ok, s\<lparr>xs_pendingSubscriptions := subscriptions\<rparr>, t\<lparr>t_native := w\<rparr>))"

definition MacFromDevice :: "('d, 'v, 'u) state_api \<Rightarrow> 'd \<Rightarrow> MacAddress option" where
  "MacFromDevice sa device = map_option mac_of_bytes (sa_TryGetMacAddress sa device)"

definition RememberPeer ::
  "('d, 'v, 'u) state_api \<Rightarrow> MacAddress \<Rightarrow> 'd ESPNowStateTransport \<Rightarrow> bool \<times> 'd ESPNowStateTransport" where
  "RememberPeer sa address s =
     (let device = sa_FromMacAddress sa address in
      case two_pass_upsert (\<lambda>p. pe_Used p \<and> pe_Device p = device) (\<lambda>p. \<not> pe_Used p) (\<lambda>p. p\<lparr>pe_Address := address\<rparr>)
             (\<lambda>p. p\<lparr>pe_Used := True, pe_Address := address, pe_Device := device\<rparr>) (xs_peers s) of
        None \<Rightarrow> (False, s)
      | Some peers \<Rightarrow> (True, s\<lparr>xs_peers := peers\<rparr>))"

text \<open>The position of the record for a destination and a type, created in the first free slot when asked to.\<close>

definition is_pending :: "'d \<Rightarrow> nat \<Rightarrow> 'd PendingRecord \<Rightarrow> bool" where
  "is_pending destination typeId r \<longleftrightarrow> pd_Used r \<and> pd_Destination r = destination \<and> pd_TypeId r = typeId"

definition PendingLocked :: "'d \<Rightarrow> nat \<Rightarrow> bool \<Rightarrow> 'd PendingRecord list \<Rightarrow> nat option \<times> 'd PendingRecord list" where
  "PendingLocked destination typeId create records =
     (case find_index (is_pending destination typeId) records of
        Some i \<Rightarrow> (Some i, records)
      | None \<Rightarrow>
          if \<not> create then (None, records)
          else
            (case find_index (\<lambda>r. \<not> pd_Used r) records of
               Some i \<Rightarrow> (Some i, records[i := (records ! i)\<lparr>pd_Used := True, pd_Destination := destination, pd_TypeId := typeId\<rparr>])
             | None \<Rightarrow> (None, records)))"

definition is_pending_subscription :: "'d \<Rightarrow> nat \<Rightarrow> 'd PendingSubscriptionRecord \<Rightarrow> bool" where
  "is_pending_subscription destination typeId r \<longleftrightarrow> ps_Used r \<and> ps_Destination r = destination \<and> ps_TypeId r = typeId"

definition PendingSubscriptionLocked ::
  "'d \<Rightarrow> nat \<Rightarrow> bool \<Rightarrow> 'd PendingSubscriptionRecord list \<Rightarrow> nat option \<times> 'd PendingSubscriptionRecord list" where
  "PendingSubscriptionLocked destination typeId create records =
     (case find_index (is_pending_subscription destination typeId) records of
        Some i \<Rightarrow> (Some i, records)
      | None \<Rightarrow>
          if \<not> create then (None, records)
          else
            (case find_index (\<lambda>r. \<not> ps_Used r) records of
               Some i \<Rightarrow> (Some i, records[i := (records ! i)\<lparr>ps_Used := True, ps_Destination := destination, ps_TypeId := typeId\<rparr>])
             | None \<Rightarrow> (None, records)))"

definition ClearPendingState ::
  "('d, 'v, 'u) state_api \<Rightarrow> 'd \<Rightarrow> nat \<Rightarrow> 'd ESPNowStateTransport \<Rightarrow> 'd ESPNowStateTransport" where
  "ClearPendingState sa device typeId s =
     (case PendingLocked device typeId False (xs_pending s) of
        (None, records) \<Rightarrow> s
      | (Some i, records) \<Rightarrow> s\<lparr>xs_pending := records[i := PendingRecord_default (sa_None sa)]\<rparr>)"

definition ClearPeerPending :: "('d, 'v, 'u) state_api \<Rightarrow> 'd \<Rightarrow> 'd ESPNowStateTransport \<Rightarrow> 'd ESPNowStateTransport" where
  "ClearPeerPending sa device s =
     s\<lparr>xs_pending := map (\<lambda>r. if pd_Used r \<and> pd_Destination r = device then PendingRecord_default (sa_None sa) else r) (xs_pending s),
       xs_pendingSubscriptions :=
         map (\<lambda>r. if ps_Used r \<and> ps_Destination r = device then PendingSubscription_default (sa_None sa) else r) (xs_pendingSubscriptions s)\<rparr>"


section \<open>Sending\<close>

definition SendRaw ::
  "('q, 'w) native_api \<Rightarrow> ('d, 'v, 'u) state_api \<Rightarrow> 'd \<Rightarrow> byte list \<Rightarrow> ('h, 'm, 'o, 'q, 'w) ESPNowTransport
     \<Rightarrow> bool \<times> ('h, 'm, 'o, 'q, 'w) ESPNowTransport" where
  "SendRaw api sa destination payload t =
     (case MacFromDevice sa destination of
        None \<Rightarrow> (False, t)
      | Some peer \<Rightarrow> Send api peer (protocol_id StateTransport) (Some payload) (length payload) t)"

definition SendControl ::
  "('q, 'w) native_api \<Rightarrow> ('d, 'v, 'u) state_api \<Rightarrow> 'd \<Rightarrow> StateMessageType \<Rightarrow> nat \<Rightarrow> 'u \<Rightarrow> ('h, 'm, 'o, 'q, 'w) ESPNowTransport
     \<Rightarrow> bool \<times> ('h, 'm, 'o, 'q, 'w) ESPNowTransport" where
  "SendControl api sa destination type typeId u t =
     (case sa_EncodeControl sa \<lparr>cm_Type = type, cm_Device = sa_Origin sa u, cm_TypeId = typeId\<rparr> of
        None \<Rightarrow> (False, t)
      | Some payload \<Rightarrow> SendRaw api sa destination payload t)"

definition SendAck ::
  "('q, 'w) native_api \<Rightarrow> ('d, 'v, 'u) state_api \<Rightarrow> 'd \<Rightarrow> 'd StateUpdateHeader \<Rightarrow> ('h, 'm, 'o, 'q, 'w) ESPNowTransport
     \<Rightarrow> bool \<times> ('h, 'm, 'o, 'q, 'w) ESPNowTransport" where
  "SendAck api sa destination header t =
     (case sa_EncodeAcknowledgement sa header of
        None \<Rightarrow> (False, t)
      | Some payload \<Rightarrow> SendRaw api sa destination payload t)"

definition SetSubscriptionIntent ::
  "('q, 'w) native_api \<Rightarrow> ('d, 'v, 'u) state_api \<Rightarrow> 'd \<Rightarrow> nat \<Rightarrow> bool \<Rightarrow> ('d, 'h, 'm, 'o, 'q, 'w, 'u) state_node
     \<Rightarrow> bool \<times> ('d, 'h, 'm, 'o, 'q, 'w, 'u) state_node" where
  "SetSubscriptionIntent api sa destination typeId subscribe = (\<lambda>(s, t, u).
     if sa_IsZero sa destination \<or> typeId = 0 then (False, s, t, u)
     else
       let (now, t) = GetMonotonicTimestampNanoseconds api t; nowMilliseconds = now div 1000000 in
       case PendingSubscriptionLocked destination typeId True (xs_pendingSubscriptions s) of
         (None, records) \<Rightarrow> (False, s, t, u)
       | (Some i, records) \<Rightarrow>
           let s = s\<lparr>xs_pendingSubscriptions := records[i := (records ! i)\<lparr>ps_DesiredSubscribed := subscribe,
                  ps_LastSendMilliseconds := nowMilliseconds\<rparr>]\<rparr>;
               (sent, t) = SendControl api sa destination (if subscribe then SubscribeMessage else UnsubscribeMessage) typeId u t in
           (sent, s, t, u))"

definition QueueUpdate ::
  "('q, 'w) native_api \<Rightarrow> ('d, 'v, 'u) state_api \<Rightarrow> nat \<Rightarrow> 'd \<Rightarrow> ('d, 'v) StateUpdate \<Rightarrow> ('d, 'h, 'm, 'o, 'q, 'w, 'u) state_node
     \<Rightarrow> bool \<times> ('d, 'h, 'm, 'o, 'q, 'w, 'u) state_node" where
  "QueueUpdate api sa typeId destination update = (\<lambda>(s, t, u).
     case sa_EncodeUpdate sa typeId update StateMaximumPayloadBytes of
       None \<Rightarrow> (False, s, t, u)
     | Some encoded \<Rightarrow>
         (case PendingLocked destination typeId True (xs_pending s) of
            (None, records) \<Rightarrow> (False, s, t, u)
          | (Some i, records) \<Rightarrow>
              let (now, t) = GetMonotonicTimestampNanoseconds api t;
                  s = s\<lparr>xs_pending := records[i := (records ! i)\<lparr>pd_Epoch := uh_Epoch (su_Header update),
                     pd_Revision := uh_Revision (su_Header update), pd_LastSendMilliseconds := now div 1000000\<rparr>]\<rparr>;
                  (sent, t) = SendRaw api sa destination encoded t in
              (sent, s, t, u)))"

definition QueueSnapshot ::
  "('q, 'w) native_api \<Rightarrow> ('d, 'v, 'u) state_api \<Rightarrow> nat \<Rightarrow> 'd \<Rightarrow> ('d, 'h, 'm, 'o, 'q, 'w, 'u) state_node
     \<Rightarrow> bool \<times> ('d, 'h, 'm, 'o, 'q, 'w, 'u) state_node" where
  "QueueSnapshot api sa typeId destination = (\<lambda>(s, t, u).
     case sa_Snapshot sa typeId u of
       None \<Rightarrow> (False, s, t, u)
     | Some update \<Rightarrow> QueueUpdate api sa typeId destination update (s, t, u))"

text \<open>The recursion over the definitions of the contract.\<close>

fun queue_by_type ::
  "('q, 'w) native_api \<Rightarrow> ('d, 'v, 'u) state_api \<Rightarrow> nat list \<Rightarrow> 'd \<Rightarrow> nat \<Rightarrow> ('d, 'h, 'm, 'o, 'q, 'w, 'u) state_node
     \<Rightarrow> bool \<times> ('d, 'h, 'm, 'o, 'q, 'w, 'u) state_node" where
  "queue_by_type api sa [] destination typeId st = (False, st)"
| "queue_by_type api sa (definition_id # rest) destination typeId st =
     (if typeId = definition_id then QueueSnapshot api sa definition_id destination st
      else queue_by_type api sa rest destination typeId st)"

definition QueueSnapshotByType ::
  "('q, 'w) native_api \<Rightarrow> ('d, 'v, 'u) state_api \<Rightarrow> 'd \<Rightarrow> nat \<Rightarrow> ('d, 'h, 'm, 'o, 'q, 'w, 'u) state_node
     \<Rightarrow> bool \<times> ('d, 'h, 'm, 'o, 'q, 'w, 'u) state_node" where
  "QueueSnapshotByType api sa = queue_by_type api sa (sa_Definitions sa)"


section \<open>Receiving\<close>

text \<open>The result is whether to acknowledge: the update was applied or is the one already held.\<close>

fun apply_by_type ::
  "('d, 'v, 'u) state_api \<Rightarrow> nat list \<Rightarrow> 'd StateUpdateHeader \<Rightarrow> byte list \<Rightarrow> 'u \<Rightarrow> bool \<times> 'u" where
  "apply_by_type sa [] header bytes u = (False, u)"
| "apply_by_type sa (definition_id # rest) header bytes u =
     (if uh_TypeId header = definition_id then
        case sa_DecodeValue sa definition_id bytes of
          None \<Rightarrow> (False, u)
        | Some received \<Rightarrow>
            let exactDuplicate = (sa_Read sa definition_id (uh_Origin header) u = Some (uh_Epoch header, uh_Revision header)) in
            if exactDuplicate then (True, u)
            else sa_Apply sa definition_id (uh_Origin header) (uh_Epoch header) (uh_Revision header) received u
      else apply_by_type sa rest header bytes u)"

definition ApplyIncoming :: "('d, 'v, 'u) state_api \<Rightarrow> 'd StateUpdateHeader \<Rightarrow> byte list \<Rightarrow> 'u \<Rightarrow> bool \<times> 'u" where
  "ApplyIncoming sa = apply_by_type sa (sa_Definitions sa)"

definition HandleUpdate ::
  "('q, 'w) native_api \<Rightarrow> ('d, 'v, 'u) state_api \<Rightarrow> ESPNowReceivedFrame \<Rightarrow> ('d, 'h, 'm, 'o, 'q, 'w, 'u) state_node
     \<Rightarrow> ('d, 'h, 'm, 'o, 'q, 'w, 'u) state_node" where
  "HandleUpdate api sa frame = (\<lambda>(s, t, u).
     case sa_DecodeUpdate sa (frame_data frame) of
       None \<Rightarrow> (s, t, u)
     | Some (header, bytes) \<Rightarrow>
         let source = sa_FromMacAddress sa (rf_Source frame) in
         if uh_Origin header \<noteq> source then (s, t, u)
         else if \<not> sa_IsSubscribed sa source (uh_TypeId header) u then (s, t, u)
         else
           let (_, s) = RememberPeer sa (rf_Source frame) s;
               (_, u) = sa_SetAvailability sa source RemoteConnected u;
               (applied, u) = ApplyIncoming sa header bytes u;
               t = (if applied then snd (SendAck api sa source header t) else t) in
           (s, t, u))"

definition HandleStateAcknowledgement ::
  "('d, 'v, 'u) state_api \<Rightarrow> ESPNowReceivedFrame \<Rightarrow> ('d, 'h, 'm, 'o, 'q, 'w, 'u) state_node \<Rightarrow> ('d, 'h, 'm, 'o, 'q, 'w, 'u) state_node" where
  "HandleStateAcknowledgement sa frame = (\<lambda>(s, t, u).
     case sa_DecodeAcknowledgement sa (frame_data frame) of
       None \<Rightarrow> (s, t, u)
     | Some ack \<Rightarrow>
         let source = sa_FromMacAddress sa (rf_Source frame); (_, s) = RememberPeer sa (rf_Source frame) s in
         (case PendingLocked source (uh_TypeId ack) False (xs_pending s) of
            (None, records) \<Rightarrow> (s, t, u)
          | (Some i, records) \<Rightarrow>
              if uh_Origin ack \<noteq> sa_Origin sa u \<or> uh_Epoch ack \<noteq> pd_Epoch (records ! i) \<or> uh_Revision ack < pd_Revision (records ! i)
              then (s, t, u)
              else (s\<lparr>xs_pending := records[i := PendingRecord_default (sa_None sa)]\<rparr>, t, u)))"

definition HandleSubscriptionAcknowledgement ::
  "('d, 'v, 'u) state_api \<Rightarrow> ESPNowReceivedFrame \<Rightarrow> 'd ControlMessage \<Rightarrow> 'd ESPNowStateTransport \<Rightarrow> 'd ESPNowStateTransport" where
  "HandleSubscriptionAcknowledgement sa frame control s =
     (let source = sa_FromMacAddress sa (rf_Source frame) in
      if cm_Device control \<noteq> source then s
      else
        let acknowledgedSubscribed = (cm_Type control = SubscribeAcknowledgement) in
        case PendingSubscriptionLocked source (cm_TypeId control) False (xs_pendingSubscriptions s) of
          (None, records) \<Rightarrow> s
        | (Some i, records) \<Rightarrow>
            if ps_DesiredSubscribed (records ! i) \<noteq> acknowledgedSubscribed then s
            else s\<lparr>xs_pendingSubscriptions := records[i := PendingSubscription_default (sa_None sa)]\<rparr>)"

text \<open>The switch over the control messages, after the sender was checked and remembered.\<close>

definition dispatch_control ::
  "('q, 'w) native_api \<Rightarrow> ('d, 'v, 'u) state_api \<Rightarrow> 'd \<Rightarrow> 'd ControlMessage \<Rightarrow> ('d, 'h, 'm, 'o, 'q, 'w, 'u) state_node
     \<Rightarrow> ('d, 'h, 'm, 'o, 'q, 'w, 'u) state_node" where
  "dispatch_control api sa source control = (\<lambda>(s, t, u).
     case cm_Type control of
       SubscribeMessage \<Rightarrow>
         let u = sa_Subscribe sa source (cm_TypeId control) u;
             (_, s, t, u) = QueueSnapshotByType api sa source (cm_TypeId control) (s, t, u);
             (_, t) = SendControl api sa source SubscribeAcknowledgement (cm_TypeId control) u t in
         (s, t, u)
     | UnsubscribeMessage \<Rightarrow>
         let u = sa_Unsubscribe sa source (cm_TypeId control) u;
             s = ClearPendingState sa source (cm_TypeId control) s;
             (_, t) = SendControl api sa source UnsubscribeAcknowledgement (cm_TypeId control) u t in
         (s, t, u)
     | ResynchronizeMessage \<Rightarrow>
         if cm_TypeId control \<noteq> 0 then
           if sa_HasSubscriber sa source (cm_TypeId control) u
           then snd (QueueSnapshotByType api sa source (cm_TypeId control) (s, t, u)) else (s, t, u)
         else fold (\<lambda>typeId st. snd (QueueSnapshotByType api sa source typeId st)) (sa_SubscribedTypes sa source u) (s, t, u)
     | DisconnectMessage \<Rightarrow>
         let u = sa_Remove sa source u; s = ClearPeerPending sa source s;
             (_, u) = sa_SetAvailability sa source RemoteDisconnected u in
         (s, t, u)
     | _ \<Rightarrow> (s, t, u))"

definition HandleControl ::
  "('q, 'w) native_api \<Rightarrow> ('d, 'v, 'u) state_api \<Rightarrow> ESPNowReceivedFrame \<Rightarrow> ('d, 'h, 'm, 'o, 'q, 'w, 'u) state_node
     \<Rightarrow> ('d, 'h, 'm, 'o, 'q, 'w, 'u) state_node" where
  "HandleControl api sa frame = (\<lambda>(s, t, u).
     case sa_DecodeControl sa (frame_data frame) of
       None \<Rightarrow> (s, t, u)
     | Some control \<Rightarrow>
         let source = sa_FromMacAddress sa (rf_Source frame) in
         if cm_Device control \<noteq> source then (s, t, u)
         else
           let (_, s) = RememberPeer sa (rf_Source frame) s in
           if cm_Type control = SubscribeAcknowledgement \<or> cm_Type control = UnsubscribeAcknowledgement
           then (HandleSubscriptionAcknowledgement sa frame control s, t, u)
           else dispatch_control api sa source control (s, t, u))"

definition State_HandleFrame ::
  "('q, 'w) native_api \<Rightarrow> ('d, 'v, 'u) state_api \<Rightarrow> ESPNowReceivedFrame \<Rightarrow> ('d, 'h, 'm, 'o, 'q, 'w, 'u) state_node
     \<Rightarrow> ('d, 'h, 'm, 'o, 'q, 'w, 'u) state_node" where
  "State_HandleFrame api sa frame st =
     (case sa_GetMessageType sa (frame_data frame) of
        None \<Rightarrow> st
      | Some type \<Rightarrow>
          if type = UpdateMessage then HandleUpdate api sa frame st
          else if type = AcknowledgementMessage then HandleStateAcknowledgement sa frame st
          else HandleControl api sa frame st)"


section \<open>Maintenance\<close>

text \<open>One record of each loop of \<^verbatim>\<open>Maintain\<close>, by position.\<close>

definition maintain_pending ::
  "('q, 'w) native_api \<Rightarrow> ('d, 'v, 'u) state_api \<Rightarrow> u64 \<Rightarrow> nat \<Rightarrow> ('d, 'h, 'm, 'o, 'q, 'w, 'u) state_node
     \<Rightarrow> ('d, 'h, 'm, 'o, 'q, 'w, 'u) state_node" where
  "maintain_pending api sa nowMilliseconds i = (\<lambda>(s, t, u).
     let pending = xs_pending s ! i in
     if \<not> pd_Used pending then (s, t, u)
     else if \<not> sa_HasSubscriber sa (pd_Destination pending) (pd_TypeId pending) u
     then (s\<lparr>xs_pending := (xs_pending s)[i := PendingRecord_default (sa_None sa)]\<rparr>, t, u)
     else if nowMilliseconds - pd_LastSendMilliseconds pending < ESPRESSIO_ESPNOW_STATE_RETRY_INTERVAL_MS then (s, t, u)
     else
       let (ok, s, t, u) = QueueSnapshotByType api sa (pd_Destination pending) (pd_TypeId pending) (s, t, u) in
       (if \<not> ok then s\<lparr>xs_pending := (xs_pending s)[i := PendingRecord_default (sa_None sa)]\<rparr> else s, t, u))"

definition maintain_subscription ::
  "('q, 'w) native_api \<Rightarrow> ('d, 'v, 'u) state_api \<Rightarrow> u64 \<Rightarrow> nat \<Rightarrow> ('d, 'h, 'm, 'o, 'q, 'w, 'u) state_node
     \<Rightarrow> ('d, 'h, 'm, 'o, 'q, 'w, 'u) state_node" where
  "maintain_subscription api sa nowMilliseconds i = (\<lambda>(s, t, u).
     let pending = xs_pendingSubscriptions s ! i in
     if \<not> ps_Used pending then (s, t, u)
     else if nowMilliseconds - ps_LastSendMilliseconds pending < ESPRESSIO_ESPNOW_STATE_RETRY_INTERVAL_MS then (s, t, u)
     else
       let s = s\<lparr>xs_pendingSubscriptions := (xs_pendingSubscriptions s)[i := pending\<lparr>ps_LastSendMilliseconds := nowMilliseconds\<rparr>]\<rparr>;
           (_, t) = SendControl api sa (ps_Destination pending)
              (if ps_DesiredSubscribed pending then SubscribeMessage else UnsubscribeMessage) (ps_TypeId pending) u t in
       (s, t, u))"

definition Maintain ::
  "('q, 'w) native_api \<Rightarrow> ('d, 'v, 'u) state_api \<Rightarrow> u64 \<Rightarrow> ('d, 'h, 'm, 'o, 'q, 'w, 'u) state_node
     \<Rightarrow> ('d, 'h, 'm, 'o, 'q, 'w, 'u) state_node" where
  "Maintain api sa nowMilliseconds st =
     (let st = fold (maintain_pending api sa nowMilliseconds) [0..<length (xs_pending (fst st))] st in
      fold (maintain_subscription api sa nowMilliseconds) [0..<length (xs_pendingSubscriptions (fst st))] st)"


section \<open>Lifecycle\<close>

text \<open>\<open>self\<close> is the owner of the maintenance handler, \<open>handler\<close> and \<open>maintenance\<close> are the registered closures.\<close>

definition State_Shutdown ::
  "('d, 'v, 'u) state_api \<Rightarrow> 'o \<Rightarrow> ('d, 'h, 'm, 'o, 'q, 'w, 'u) state_node \<Rightarrow> ('d, 'h, 'm, 'o, 'q, 'w, 'u) state_node" where
  "State_Shutdown sa self = (\<lambda>(s, t, u).
     (s\<lparr>xs_publisherHandle := False, xs_subscriptionHandle := False,
        xs_peers := map (\<lambda>_. PeerEntry_default (sa_None sa)) (xs_peers s),
        xs_pending := map (\<lambda>_. PendingRecord_default (sa_None sa)) (xs_pending s),
        xs_pendingSubscriptions := map (\<lambda>_. PendingSubscription_default (sa_None sa)) (xs_pendingSubscriptions s),
        xs_initialized := False\<rparr>,
      UnregisterProtocolHandler (protocol_id StateTransport) (UnregisterMaintenanceHandler (Some self) t), sa_ReleaseObservers sa u))"

definition register_observers ::
  "('d, 'v, 'u) state_api \<Rightarrow> 'o \<Rightarrow> ('d, 'h, 'm, 'o, 'q, 'w, 'u) state_node \<Rightarrow> bool \<times> ('d, 'h, 'm, 'o, 'q, 'w, 'u) state_node" where
  "register_observers sa self = (\<lambda>(s, t, u).
     let (publisher, u) = sa_RegisterPublisherObserver sa u; (subscription, u) = sa_RegisterSubscriptionObserver sa u;
         s = s\<lparr>xs_publisherHandle := publisher, xs_subscriptionHandle := subscription, xs_initialized := publisher \<and> subscription\<rparr>;
         (s, t, u) = (if \<not> xs_initialized s then State_Shutdown sa self (s, t, u) else (s, t, u)) in
     (xs_initialized s, s, t, u))"

definition State_Initialize ::
  "('q, 'w) native_api \<Rightarrow> ('d, 'v, 'u) state_api \<Rightarrow> nat \<Rightarrow> 'o \<Rightarrow> 'h \<Rightarrow> 'm \<Rightarrow> ('d, 'h, 'm, 'o, 'q, 'w, 'u) state_node
     \<Rightarrow> bool option \<times> ('d, 'h, 'm, 'o, 'q, 'w, 'u) state_node" where
  "State_Initialize api sa maximumPeers self handler maintenance = (\<lambda>(s, t, u).
     if xs_initialized s then (Some True, s, t, u)
     else if \<not> t_initialized t then (Some False, s, t, u)
     else
       let (ok, s, t) = EnsureStorage api sa maximumPeers (s, t) in
       if \<not> ok then (Some False, s, t, u)
       else
         let (registered, t) = RegisterProtocolHandler api (protocol_id StateTransport) (Some handler) t in
         if registered \<noteq> Some True then (registered, s, t, u)
         else
           let (registered, t) = RegisterMaintenanceHandler api (Some self) (Some maintenance) t in
           if registered = None then (None, s, t, u)
           else if registered = Some False
           then (Some False, s, UnregisterProtocolHandler (protocol_id StateTransport) t, u)
           else (let (ok, s, t, u) = register_observers sa self (s, t, u) in (Some ok, s, t, u)))"


section \<open>Peers and observers\<close>

definition PeerAvailable ::
  "('q, 'w) native_api \<Rightarrow> ('d, 'v, 'u) state_api \<Rightarrow> MacAddress \<Rightarrow> ('d, 'h, 'm, 'o, 'q, 'w, 'u) state_node
     \<Rightarrow> bool \<times> ('d, 'h, 'm, 'o, 'q, 'w, 'u) state_node" where
  "PeerAvailable api sa address = (\<lambda>(s, t, u).
     if \<not> xs_initialized s \<or> IsZero address then (False, s, t, u)
     else
       let (remembered, s) = RememberPeer sa address s in
       if \<not> remembered then (False, s, t, u)
       else
         let device = sa_FromMacAddress sa address; (_, u) = sa_SetAvailability sa device RemoteConnected u in
         (True, fold (\<lambda>(scope, dev, typeId) st.
             if scope = AnyDevice \<or> dev = device then snd (SetSubscriptionIntent api sa device typeId True st) else st)
           (sa_Subscriptions sa u) (s, t, u)))"

definition PeerStale :: "('d, 'v, 'u) state_api \<Rightarrow> MacAddress \<Rightarrow> 'u \<Rightarrow> bool \<times> 'u" where
  "PeerStale sa address = sa_SetAvailability sa (sa_FromMacAddress sa address) RemoteStale"

definition PeerLost ::
  "('d, 'v, 'u) state_api \<Rightarrow> MacAddress \<Rightarrow> 'd ESPNowStateTransport \<times> 'u \<Rightarrow> bool \<times> 'd ESPNowStateTransport \<times> 'u" where
  "PeerLost sa address = (\<lambda>(s, u).
     let device = sa_FromMacAddress sa address; s = ClearPeerPending sa device s; u = sa_Remove sa device u;
         (ok, u) = sa_SetAvailability sa device RemoteConnectionLost u in
     (ok, s, u))"

definition RequestResynchronization ::
  "('q, 'w) native_api \<Rightarrow> ('d, 'v, 'u) state_api \<Rightarrow> MacAddress \<Rightarrow> 'u \<Rightarrow> ('h, 'm, 'o, 'q, 'w) ESPNowTransport
     \<Rightarrow> bool \<times> ('h, 'm, 'o, 'q, 'w) ESPNowTransport" where
  "RequestResynchronization api sa address = SendControl api sa (sa_FromMacAddress sa address) ResynchronizeMessage 0"

definition DisconnectPeer ::
  "('q, 'w) native_api \<Rightarrow> ('d, 'v, 'u) state_api \<Rightarrow> MacAddress \<Rightarrow> ('d, 'h, 'm, 'o, 'q, 'w, 'u) state_node
     \<Rightarrow> bool \<times> ('d, 'h, 'm, 'o, 'q, 'w, 'u) state_node" where
  "DisconnectPeer api sa address = (\<lambda>(s, t, u).
     let device = sa_FromMacAddress sa address; (sent, t) = SendControl api sa device DisconnectMessage 0 u t;
         s = ClearPeerPending sa device s; u = sa_Remove sa device u;
         (_, u) = sa_SetAvailability sa device RemoteDisconnected u in
     (sent, s, t, u))"

definition OnTypedStatePublished ::
  "('q, 'w) native_api \<Rightarrow> ('d, 'v, 'u) state_api \<Rightarrow> nat \<Rightarrow> ('d, 'v) StateUpdate \<Rightarrow> ('d, 'h, 'm, 'o, 'q, 'w, 'u) state_node
     \<Rightarrow> ('d, 'h, 'm, 'o, 'q, 'w, 'u) state_node" where
  "OnTypedStatePublished api sa typeId update = (\<lambda>(s, t, u).
     if \<not> sa_HasSubscribers sa typeId u then (s, t, u)
     else fold (\<lambda>subscriber st. snd (QueueUpdate api sa typeId subscriber update st)) (sa_Subscribers sa typeId u) (s, t, u))"

definition PeerDeviceSnapshot :: "'d ESPNowStateTransport \<Rightarrow> 'd list" where
  "PeerDeviceSnapshot s = map pe_Device (filter pe_Used (xs_peers s))"

text \<open>\<^verbatim>\<open>OnStateSubscribed\<close> (\<open>subscribe\<close>) and \<^verbatim>\<open>OnStateUnsubscribed\<close>.\<close>

definition subscription_changed ::
  "('q, 'w) native_api \<Rightarrow> ('d, 'v, 'u) state_api \<Rightarrow> bool \<Rightarrow> nat \<Rightarrow> SubscriptionScope \<Rightarrow> 'd
     \<Rightarrow> ('d, 'h, 'm, 'o, 'q, 'w, 'u) state_node \<Rightarrow> ('d, 'h, 'm, 'o, 'q, 'w, 'u) state_node" where
  "subscription_changed api sa subscribe typeId scope device st =
     (if scope = SpecificDevice then snd (SetSubscriptionIntent api sa device typeId subscribe st)
      else fold (\<lambda>peer st. snd (SetSubscriptionIntent api sa peer typeId subscribe st)) (PeerDeviceSnapshot (fst st)) st)"

definition OnStateSubscribed where "OnStateSubscribed api sa = subscription_changed api sa True"
definition OnStateUnsubscribed where "OnStateUnsubscribed api sa = subscription_changed api sa False"

end
