(* ===== verification/State_Props.thy ===== *)
theory State_Props
  imports State_Transport Transport_Theorems
begin

text \<open>
  The State transport: its three tables are bounded maps from devices, or devices and types, and stay so; an
  update that waits for its acknowledgement is dropped only for a reason. The tables are interpretations of the
  slot table contract.
\<close>

section \<open>Tables\<close>

lemma find_index_update_first:
  "update_first P f rs = (case find_index P rs of None \<Rightarrow> rs | Some i \<Rightarrow> rs[i := f (rs ! i)])"
  by (induction rs) (auto split: option.splits)

lemma find_index_upsert:
  "(case find_index hit rs of Some i \<Rightarrow> Some (rs[i := upd (rs ! i)])
    | None \<Rightarrow> (case find_index free rs of Some i \<Rightarrow> Some (rs[i := mk (rs ! i)]) | None \<Rightarrow> None)) = two_pass_upsert hit free upd mk rs"
proof (cases "find_index hit rs")
  case None
  then have no: "\<not> (\<exists>r \<in> set rs. hit r)" by (simp add: find_index_None_set)
  then show ?thesis
    using None find_index_None_set [of free rs] by (auto simp: two_pass_upsert_def find_index_update_first split: option.splits)
next
  case (Some i)
  then have "\<exists>r \<in> set rs. hit r" using find_index_None_set [of hit rs] by auto
  with Some show ?thesis by (simp add: two_pass_upsert_def find_index_update_first)
qed

text \<open>Emptying one used slot, and all slots whose key satisfies a condition.\<close>

lemma slot_clear_at:
  assumes ok: "slots_ok used key rs" and i: "i < length rs" "used (rs ! i)" and blank: "\<not> used blank"
  shows "slots_ok used key (rs[i := blank])"
    and "slot_lookup used key val (rs[i := blank]) = (slot_lookup used key val rs)(key (rs ! i) := None)"
proof -
  have "\<not> (used (rs ! j) \<and> key (rs ! j) = key (rs ! i))" if "j < i" for j
  proof
    assume j: "used (rs ! j) \<and> key (rs ! j) = key (rs ! i)"
    have rs: "rs = take i rs @ rs ! i # drop (Suc i) rs" by (rule id_take_nth_drop [OF i(1)])
    have "rs ! j \<in> set (take i rs)" using that i(1) by (auto simp: in_set_conv_nth intro!: exI [of _ j])
    moreover have "key (rs ! i) \<notin> key ` set (filter used (take i rs))"
      using ok i(2) unfolding slots_ok_def by (subst (asm) rs) auto
    ultimately show False using j by (auto simp: image_iff)
  qed
  then have eq: "rs[i := blank] = update_first (\<lambda>r. used r \<and> key r = key (rs ! i)) (\<lambda>_. blank) rs"
    using i by (subst update_first_nth [of i]) auto
  show "slots_ok used key (rs[i := blank])"
    "slot_lookup used key val (rs[i := blank]) = (slot_lookup used key val rs)(key (rs ! i) := None)"
    unfolding eq by (rule slot_erase [OF ok, where f = "\<lambda>_. blank", OF blank])+
qed

lemma slot_clear_where:
  assumes "\<not> used blank"
  shows "slots_ok used key rs \<Longrightarrow> slots_ok used key (map (\<lambda>r. if used r \<and> Q (key r) then blank else r) rs)"
    and "slot_lookup used key val (map (\<lambda>r. if used r \<and> Q (key r) then blank else r) rs) k =
      (if Q k then None else slot_lookup used key val rs k)"
proof -
  have "set (map key (filter used (map (\<lambda>r. if used r \<and> Q (key r) then blank else r) rs))) \<subseteq> set (map key (filter used rs))" for rs
    using assms by (auto split: if_splits)
  then show "slots_ok used key rs \<Longrightarrow> slots_ok used key (map (\<lambda>r. if used r \<and> Q (key r) then blank else r) rs)"
    using assms unfolding slots_ok_def by (induction rs) (auto split: if_splits)
  show "slot_lookup used key val (map (\<lambda>r. if used r \<and> Q (key r) then blank else r) rs) k =
      (if Q k then None else slot_lookup used key val rs k)"
    using assms by (induction rs) auto
qed

definition pending_key :: "'d PendingRecord \<Rightarrow> 'd \<times> nat" where
  "pending_key r = (pd_Destination r, pd_TypeId r)"
definition pending_value :: "'d PendingRecord \<Rightarrow> nat \<times> nat \<times> u64" where
  "pending_value r = (pd_Epoch r, pd_Revision r, pd_LastSendMilliseconds r)"
definition subscription_key :: "'d PendingSubscriptionRecord \<Rightarrow> 'd \<times> nat" where
  "subscription_key r = (ps_Destination r, ps_TypeId r)"
definition subscription_value :: "'d PendingSubscriptionRecord \<Rightarrow> bool \<times> u64" where
  "subscription_value r = (ps_DesiredSubscribed r, ps_LastSendMilliseconds r)"

lemmas key_defs = pending_key_def pending_value_def subscription_key_def subscription_value_def

interpretation peer_slots: slot_vector pe_Used pe_Device pe_Address "\<lambda>k v r. r\<lparr>pe_Address := v\<rparr>"
  "\<lambda>k v r. r\<lparr>pe_Used := True, pe_Address := v, pe_Device := k\<rparr>" "PeerEntry_default none" for none :: 'd
  by unfold_locales (auto simp: PeerEntry_default_def)

interpretation pending_slots: slot_vector pd_Used pending_key pending_value
  "\<lambda>k v r. r\<lparr>pd_Epoch := fst v, pd_Revision := fst (snd v), pd_LastSendMilliseconds := snd (snd v)\<rparr>"
  "\<lambda>k v r. r\<lparr>pd_Used := True, pd_Destination := fst k, pd_TypeId := snd k, pd_Epoch := fst v, pd_Revision := fst (snd v),
     pd_LastSendMilliseconds := snd (snd v)\<rparr>" "PendingRecord_default none" for none :: 'd
  by unfold_locales (auto simp: PendingRecord_default_def key_defs)

interpretation subscription_slots: slot_vector ps_Used subscription_key subscription_value
  "\<lambda>k v r. r\<lparr>ps_DesiredSubscribed := fst v, ps_LastSendMilliseconds := snd v\<rparr>"
  "\<lambda>k v r. r\<lparr>ps_Used := True, ps_Destination := fst k, ps_TypeId := snd k, ps_DesiredSubscribed := fst v,
     ps_LastSendMilliseconds := snd v\<rparr>" "PendingSubscription_default none" for none :: 'd
  by unfold_locales (auto simp: PendingSubscription_default_def key_defs)

abbreviation "pending_map s \<equiv> slot_lookup pd_Used pending_key pending_value (xs_pending s)"
abbreviation "intent_map s \<equiv> slot_lookup ps_Used subscription_key subscription_value (xs_pendingSubscriptions s)"
abbreviation "known_peers s \<equiv> slot_lookup pe_Used pe_Device pe_Address (xs_peers s)"

lemma is_pending_key: "is_pending d ty r \<longleftrightarrow> pd_Used r \<and> pending_key r = (d, ty)"
  by (auto simp: is_pending_def pending_key_def)

lemma is_pending_subscription_key: "is_pending_subscription d ty r \<longleftrightarrow> ps_Used r \<and> subscription_key r = (d, ty)"
  by (auto simp: is_pending_subscription_def subscription_key_def)


section \<open>The invariant\<close>

text \<open>
  No table holds a key twice; the tables of an initialized transport have their configured sizes; a peer's device is that of its
  address, pending updates are of states of the contract and subscription intents name a device and a type.
\<close>

definition state_tables_ok :: "('d, 'v, 'u) state_api \<Rightarrow> nat \<Rightarrow> 'd ESPNowStateTransport \<Rightarrow> bool" where
  "state_tables_ok sa n s \<longleftrightarrow>
     slots_ok pe_Used pe_Device (xs_peers s) \<and> slots_ok pd_Used pending_key (xs_pending s)
     \<and> slots_ok ps_Used subscription_key (xs_pendingSubscriptions s)
     \<and> length (xs_peers s) \<le> n \<and> length (xs_pending s) \<le> StateMaximumPending sa n
     \<and> length (xs_pendingSubscriptions s) \<le> StateMaximumPending sa n
     \<and> (xs_initialized s \<longrightarrow> length (xs_peers s) = n \<and> length (xs_pending s) = StateMaximumPending sa n
         \<and> length (xs_pendingSubscriptions s) = StateMaximumPending sa n)
     \<and> (\<forall>d a. known_peers s d = Some a \<longrightarrow> sa_FromMacAddress sa a = d)
     \<and> (\<forall>d ty. pending_map s (d, ty) \<noteq> None \<longrightarrow> ty \<in> set (sa_Definitions sa))
     \<and> (\<forall>d ty. intent_map s (d, ty) \<noteq> None \<longrightarrow> ty \<noteq> 0 \<and> \<not> sa_IsZero sa d)"

text \<open>The three ways an operation enters something into a table: not at all, or as a put of the contract.\<close>

definition queued :: "('d, 'v, 'u) state_api \<Rightarrow> 'd \<Rightarrow> nat \<Rightarrow> 'd ESPNowStateTransport \<Rightarrow> 'd ESPNowStateTransport \<Rightarrow> bool" where
  "queued sa d ty s s' \<longleftrightarrow> s' = s \<or> ty \<in> set (sa_Definitions sa) \<and>
     (\<exists>v records. two_pass_upsert (\<lambda>r. pd_Used r \<and> pending_key r = (d, ty)) (\<lambda>r. \<not> pd_Used r)
         (\<lambda>r. r\<lparr>pd_Epoch := fst v, pd_Revision := fst (snd v), pd_LastSendMilliseconds := snd (snd v)\<rparr>)
         (\<lambda>r. r\<lparr>pd_Used := True, pd_Destination := fst (d, ty), pd_TypeId := snd (d, ty), pd_Epoch := fst v, pd_Revision := fst (snd v),
            pd_LastSendMilliseconds := snd (snd v)\<rparr>) (xs_pending s) = Some records
       \<and> s' = s\<lparr>xs_pending := records\<rparr>)"

definition intended :: "('d, 'v, 'u) state_api \<Rightarrow> 'd \<Rightarrow> nat \<Rightarrow> 'd ESPNowStateTransport \<Rightarrow> 'd ESPNowStateTransport \<Rightarrow> bool" where
  "intended sa d ty s s' \<longleftrightarrow> s' = s \<or> ty \<noteq> 0 \<and> \<not> sa_IsZero sa d \<and>
     (\<exists>v records. two_pass_upsert (\<lambda>r. ps_Used r \<and> subscription_key r = (d, ty)) (\<lambda>r. \<not> ps_Used r)
         (\<lambda>r. r\<lparr>ps_DesiredSubscribed := fst v, ps_LastSendMilliseconds := snd v\<rparr>)
         (\<lambda>r. r\<lparr>ps_Used := True, ps_Destination := fst (d, ty), ps_TypeId := snd (d, ty), ps_DesiredSubscribed := fst v,
            ps_LastSendMilliseconds := snd v\<rparr>) (xs_pendingSubscriptions s) = Some records
       \<and> s' = s\<lparr>xs_pendingSubscriptions := records\<rparr>)"

definition remembered :: "MacAddress \<Rightarrow> 'd \<Rightarrow> 'd ESPNowStateTransport \<Rightarrow> 'd ESPNowStateTransport \<Rightarrow> bool" where
  "remembered a d s s' \<longleftrightarrow> s' = s \<or>
     (\<exists>records. two_pass_upsert (\<lambda>r. pe_Used r \<and> pe_Device r = d) (\<lambda>r. \<not> pe_Used r) (\<lambda>r. r\<lparr>pe_Address := a\<rparr>)
         (\<lambda>r. r\<lparr>pe_Used := True, pe_Address := a, pe_Device := d\<rparr>) (xs_peers s) = Some records
       \<and> s' = s\<lparr>xs_peers := records\<rparr>)"

lemma queued_spec:
  assumes ok: "state_tables_ok sa n s" and q: "queued sa d ty s s'"
  shows "state_tables_ok sa n s'" "\<And>k. pending_map s k \<noteq> None \<Longrightarrow> pending_map s' k \<noteq> None"
    "\<And>k. k \<noteq> (d, ty) \<Longrightarrow> pending_map s' k = pending_map s k" "intent_map s' = intent_map s" "xs_peers s' = xs_peers s"
    "xs_initialized s' = xs_initialized s" "length (xs_pending s') = length (xs_pending s)"
proof -
  have "state_tables_ok sa n s' \<and> (\<forall>k. pending_map s k \<noteq> None \<longrightarrow> pending_map s' k \<noteq> None)
    \<and> (\<forall>k. k \<noteq> (d, ty) \<longrightarrow> pending_map s' k = pending_map s k) \<and> intent_map s' = intent_map s \<and> xs_peers s' = xs_peers s
    \<and> xs_initialized s' = xs_initialized s \<and> length (xs_pending s') = length (xs_pending s)"
  proof (cases "s' = s")
    case True
    then show ?thesis using ok by simp
  next
    case False
    then obtain v records where ty: "ty \<in> set (sa_Definitions sa)" and put: "two_pass_upsert (\<lambda>r. pd_Used r \<and> pending_key r = (d, ty)) (\<lambda>r. \<not> pd_Used r)
         (\<lambda>r. r\<lparr>pd_Epoch := fst v, pd_Revision := fst (snd v), pd_LastSendMilliseconds := snd (snd v)\<rparr>)
         (\<lambda>r. r\<lparr>pd_Used := True, pd_Destination := fst (d, ty), pd_TypeId := snd (d, ty), pd_Epoch := fst v, pd_Revision := fst (snd v),
            pd_LastSendMilliseconds := snd (snd v)\<rparr>) (xs_pending s) = Some records" and s': "s' = s\<lparr>xs_pending := records\<rparr>"
      using q unfolding queued_def by blast
    have "slots_ok pd_Used pending_key (xs_pending s)" using ok by (simp add: state_tables_ok_def)
    from pending_slots.put_Some [OF this put] ty ok show ?thesis
      unfolding s' by (cases v) (auto simp: state_tables_ok_def split: if_splits)
  qed
  then show "state_tables_ok sa n s'" "\<And>k. pending_map s k \<noteq> None \<Longrightarrow> pending_map s' k \<noteq> None"
    "\<And>k. k \<noteq> (d, ty) \<Longrightarrow> pending_map s' k = pending_map s k" "intent_map s' = intent_map s" "xs_peers s' = xs_peers s"
    "xs_initialized s' = xs_initialized s" "length (xs_pending s') = length (xs_pending s)" by blast+
qed

lemma intended_spec:
  assumes ok: "state_tables_ok sa n s" and q: "intended sa d ty s s'"
  shows "state_tables_ok sa n s'" "xs_pending s' = xs_pending s" "xs_initialized s' = xs_initialized s" "xs_peers s' = xs_peers s"
proof -
  have "state_tables_ok sa n s' \<and> xs_pending s' = xs_pending s \<and> xs_initialized s' = xs_initialized s \<and> xs_peers s' = xs_peers s"
  proof (cases "s' = s")
    case True
    then show ?thesis using ok by simp
  next
    case False
    then obtain v records where ty: "ty \<noteq> 0" "\<not> sa_IsZero sa d" and put: "two_pass_upsert (\<lambda>r. ps_Used r \<and> subscription_key r = (d, ty)) (\<lambda>r. \<not> ps_Used r)
         (\<lambda>r. r\<lparr>ps_DesiredSubscribed := fst v, ps_LastSendMilliseconds := snd v\<rparr>)
         (\<lambda>r. r\<lparr>ps_Used := True, ps_Destination := fst (d, ty), ps_TypeId := snd (d, ty), ps_DesiredSubscribed := fst v,
            ps_LastSendMilliseconds := snd v\<rparr>) (xs_pendingSubscriptions s) = Some records" and s': "s' = s\<lparr>xs_pendingSubscriptions := records\<rparr>"
      using q unfolding intended_def by blast
    have "slots_ok ps_Used subscription_key (xs_pendingSubscriptions s)" using ok by (simp add: state_tables_ok_def)
    from subscription_slots.put_Some [OF this put] ty ok show ?thesis
      unfolding s' by (cases v) (auto simp: state_tables_ok_def split: if_splits)
  qed
  then show "state_tables_ok sa n s'" "xs_pending s' = xs_pending s" "xs_initialized s' = xs_initialized s" "xs_peers s' = xs_peers s" by blast+
qed

lemma remembered_spec:
  assumes ok: "state_tables_ok sa n s" and q: "remembered a (sa_FromMacAddress sa a) s s'"
  shows "state_tables_ok sa n s'" "xs_pending s' = xs_pending s" "xs_pendingSubscriptions s' = xs_pendingSubscriptions s"
    "xs_initialized s' = xs_initialized s"
proof -
  have "state_tables_ok sa n s' \<and> xs_pending s' = xs_pending s \<and> xs_pendingSubscriptions s' = xs_pendingSubscriptions s
    \<and> xs_initialized s' = xs_initialized s"
  proof (cases "s' = s")
    case True
    then show ?thesis using ok by simp
  next
    case False
    let ?d = "sa_FromMacAddress sa a"
    from False obtain records where put: "two_pass_upsert (\<lambda>r. pe_Used r \<and> pe_Device r = ?d) (\<lambda>r. \<not> pe_Used r) (\<lambda>r. r\<lparr>pe_Address := a\<rparr>)
         (\<lambda>r. r\<lparr>pe_Used := True, pe_Address := a, pe_Device := ?d\<rparr>) (xs_peers s) = Some records" and s': "s' = s\<lparr>xs_peers := records\<rparr>"
      using q unfolding remembered_def by blast
    have "slots_ok pe_Used pe_Device (xs_peers s)" using ok by (simp add: state_tables_ok_def)
    from peer_slots.put_Some [OF this put] ok show ?thesis unfolding s' by (auto simp: state_tables_ok_def)
  qed
  then show "state_tables_ok sa n s'" "xs_pending s' = xs_pending s" "xs_pendingSubscriptions s' = xs_pendingSubscriptions s"
    "xs_initialized s' = xs_initialized s" by blast+
qed


section \<open>What each operation does to the tables\<close>

lemma RememberPeer_remembered: "remembered a (sa_FromMacAddress sa a) s (snd (RememberPeer sa a s))"
  unfolding RememberPeer_def remembered_def Let_def by (auto split: option.splits)

lemma QueueUpdate_queued:
  assumes "ty \<in> set (sa_Definitions sa)"
  shows "queued sa d ty s (fst (snd (QueueUpdate api sa ty d update (s, t, u))))"
    "snd (snd (snd (QueueUpdate api sa ty d update (s, t, u)))) = u"
proof -
  let ?now = "fst (na_now api (t_native t)) div 1000000"
  let ?v = "(uh_Epoch (su_Header update), uh_Revision (su_Header update), ?now)"
  note up = find_index_upsert [where hit = "\<lambda>r. pd_Used r \<and> pending_key r = (d, ty)" and rs = "xs_pending s"
      and upd = "\<lambda>r. r\<lparr>pd_Epoch := fst ?v, pd_Revision := fst (snd ?v), pd_LastSendMilliseconds := snd (snd ?v)\<rparr>" and free = "\<lambda>r. \<not> pd_Used r"
      and mk = "\<lambda>r. r\<lparr>pd_Used := True, pd_Destination := fst (d, ty), pd_TypeId := snd (d, ty), pd_Epoch := fst ?v, pd_Revision := fst (snd ?v),
            pd_LastSendMilliseconds := snd (snd ?v)\<rparr>"]
  have hit: "is_pending d ty = (\<lambda>r. pd_Used r \<and> pending_key r = (d, ty))" by (simp add: fun_eq_iff is_pending_key)
  show "snd (snd (snd (QueueUpdate api sa ty d update (s, t, u)))) = u"
    by (simp add: QueueUpdate_def PendingLocked_def native_eq GetMonotonicTimestampNanoseconds_def Let_def split_beta split: option.splits)
  have "fst (snd (QueueUpdate api sa ty d update (s, t, u))) = s \<or>
    (\<exists>records. two_pass_upsert (\<lambda>r. pd_Used r \<and> pending_key r = (d, ty)) (\<lambda>r. \<not> pd_Used r)
      (\<lambda>r. r\<lparr>pd_Epoch := fst ?v, pd_Revision := fst (snd ?v), pd_LastSendMilliseconds := snd (snd ?v)\<rparr>)
      (\<lambda>r. r\<lparr>pd_Used := True, pd_Destination := fst (d, ty), pd_TypeId := snd (d, ty), pd_Epoch := fst ?v, pd_Revision := fst (snd ?v),
            pd_LastSendMilliseconds := snd (snd ?v)\<rparr>) (xs_pending s) = Some records
     \<and> fst (snd (QueueUpdate api sa ty d update (s, t, u))) = s\<lparr>xs_pending := records\<rparr>)"
    unfolding up [symmetric]
    by (auto simp: QueueUpdate_def PendingLocked_def hit native_eq GetMonotonicTimestampNanoseconds_def Let_def split_beta
        dest!: find_index_Some split: option.splits)
  with assms show "queued sa d ty s (fst (snd (QueueUpdate api sa ty d update (s, t, u))))" unfolding queued_def by blast
qed

lemma QueueSnapshotByType_queued:
  "queued sa d ty s (fst (snd (QueueSnapshotByType api sa d ty (s, t, u))))"
  "snd (snd (snd (QueueSnapshotByType api sa d ty (s, t, u)))) = u"
proof -
  have "queued sa d ty s (fst (snd (queue_by_type api sa defs d ty (s, t, u)))) \<and> snd (snd (snd (queue_by_type api sa defs d ty (s, t, u)))) = u"
    if "set defs \<subseteq> set (sa_Definitions sa)" for defs
    using that
  proof (induction defs)
    case (Cons x defs)
    then show ?case using QueueUpdate_queued [where ty = x and sa = sa and d = d and s = s and api = api and t = t and u = u]
      by (auto simp: QueueSnapshot_def queued_def split: option.splits)
  qed (simp add: queued_def)
  then show "queued sa d ty s (fst (snd (QueueSnapshotByType api sa d ty (s, t, u))))"
    "snd (snd (snd (QueueSnapshotByType api sa d ty (s, t, u)))) = u" by (simp_all add: QueueSnapshotByType_def)
qed

lemma SetSubscriptionIntent_intended:
  "intended sa d ty s (fst (snd (SetSubscriptionIntent api sa d ty b (s, t, u))))"
  "snd (snd (snd (SetSubscriptionIntent api sa d ty b (s, t, u)))) = u"
proof -
  let ?v = "(b, fst (na_now api (t_native t)) div 1000000)"
  note up = find_index_upsert [where hit = "\<lambda>r. ps_Used r \<and> subscription_key r = (d, ty)" and rs = "xs_pendingSubscriptions s"
      and upd = "\<lambda>r. r\<lparr>ps_DesiredSubscribed := fst ?v, ps_LastSendMilliseconds := snd ?v\<rparr>" and free = "\<lambda>r. \<not> ps_Used r"
      and mk = "\<lambda>r. r\<lparr>ps_Used := True, ps_Destination := fst (d, ty), ps_TypeId := snd (d, ty), ps_DesiredSubscribed := fst ?v,
            ps_LastSendMilliseconds := snd ?v\<rparr>"]
  have hit: "is_pending_subscription d ty = (\<lambda>r. ps_Used r \<and> subscription_key r = (d, ty))"
    by (simp add: fun_eq_iff is_pending_subscription_key)
  show "snd (snd (snd (SetSubscriptionIntent api sa d ty b (s, t, u)))) = u"
    by (simp add: SetSubscriptionIntent_def PendingSubscriptionLocked_def native_eq GetMonotonicTimestampNanoseconds_def Let_def split_beta
        split: option.splits)
  have "fst (snd (SetSubscriptionIntent api sa d ty b (s, t, u))) = s \<or> ty \<noteq> 0 \<and> \<not> sa_IsZero sa d \<and>
    (\<exists>records. two_pass_upsert (\<lambda>r. ps_Used r \<and> subscription_key r = (d, ty)) (\<lambda>r. \<not> ps_Used r)
         (\<lambda>r. r\<lparr>ps_DesiredSubscribed := fst ?v, ps_LastSendMilliseconds := snd ?v\<rparr>)
         (\<lambda>r. r\<lparr>ps_Used := True, ps_Destination := fst (d, ty), ps_TypeId := snd (d, ty), ps_DesiredSubscribed := fst ?v,
            ps_LastSendMilliseconds := snd ?v\<rparr>) (xs_pendingSubscriptions s) = Some records
       \<and> fst (snd (SetSubscriptionIntent api sa d ty b (s, t, u))) = s\<lparr>xs_pendingSubscriptions := records\<rparr>)"
    unfolding up [symmetric]
    by (auto simp: SetSubscriptionIntent_def PendingSubscriptionLocked_def hit native_eq GetMonotonicTimestampNanoseconds_def Let_def split_beta
        dest!: find_index_Some split: option.splits)
  then show "intended sa d ty s (fst (snd (SetSubscriptionIntent api sa d ty b (s, t, u))))" unfolding intended_def by blast
qed


section \<open>Operations keep the invariant and drop a pending update only for a reason\<close>

text \<open>\<open>D\<close> describes the keys a step may drop.\<close>

definition changes ::
  "('d, 'v, 'u) state_api \<Rightarrow> nat \<Rightarrow> ('d \<times> nat \<Rightarrow> bool) \<Rightarrow> 'd ESPNowStateTransport \<Rightarrow> 'd ESPNowStateTransport \<Rightarrow> bool" where
  "changes sa n D s s' \<longleftrightarrow> (state_tables_ok sa n s \<longrightarrow>
     state_tables_ok sa n s' \<and> (\<forall>k. pending_map s k \<noteq> None \<longrightarrow> pending_map s' k = None \<longrightarrow> D k))"

lemma changes_refl [simp]: "changes sa n D s s"
  unfolding changes_def by blast

lemma changes_trans: "changes sa n D s s' \<Longrightarrow> changes sa n D s' s'' \<Longrightarrow> changes sa n D s s''"
  unfolding changes_def by blast

lemma changes_mono: "changes sa n D s s' \<Longrightarrow> (\<And>k. D k \<Longrightarrow> E k) \<Longrightarrow> changes sa n E s s'"
  unfolding changes_def by blast

lemma changes_fold:
  assumes "\<And>x st. x \<in> set xs \<Longrightarrow> changes sa n D (fst st) (fst (f x st)) \<and> snd (snd (f x st)) = snd (snd st)"
  shows "changes sa n D (fst st) (fst (fold f xs st)) \<and> snd (snd (fold f xs st)) = snd (snd st)"
  using assms
proof (induction xs arbitrary: st)
  case (Cons x xs)
  have "changes sa n D (fst st) (fst (f x st))" "snd (snd (f x st)) = snd (snd st)" using Cons.prems [of x st] by simp_all
  moreover have "changes sa n D (fst (f x st)) (fst (fold f xs (f x st))) \<and> snd (snd (fold f xs (f x st))) = snd (snd (f x st))"
    using Cons.prems by (intro Cons.IH) simp
  ultimately show ?case using changes_trans by (metis fold_simps(2))
qed simp

lemma queued_changes: "queued sa d ty s s' \<Longrightarrow> changes sa n D s s'"
  unfolding changes_def using queued_spec(1,2) by metis

lemma intended_changes: "intended sa d ty s s' \<Longrightarrow> changes sa n D s s'"
  unfolding changes_def using intended_spec(1,2) by metis

lemma remembered_changes: "remembered a (sa_FromMacAddress sa a) s s' \<Longrightarrow> changes sa n D s s'"
  unfolding changes_def using remembered_spec(1,2) by metis

lemmas RememberPeer_changes = remembered_changes [OF RememberPeer_remembered]
lemmas QueueSnapshotByType_changes = queued_changes [OF QueueSnapshotByType_queued(1)]
lemmas SetSubscriptionIntent_changes = intended_changes [OF SetSubscriptionIntent_intended(1)]

lemma clear_at_changes:
  assumes "i < length (xs_pending s)" "pd_Used (xs_pending s ! i)"
  shows "changes sa n (\<lambda>k. k = pending_key (xs_pending s ! i)) s (s\<lparr>xs_pending := (xs_pending s)[i := PendingRecord_default none]\<rparr>)"
proof -
  have blank: "\<not> pd_Used (PendingRecord_default none)" by (simp add: PendingRecord_default_def)
  show ?thesis unfolding changes_def
  proof
    assume ok: "state_tables_ok sa n s"
    have "slots_ok pd_Used pending_key (xs_pending s)" using ok by (simp add: state_tables_ok_def)
    note c = slot_clear_at(1) [OF this assms blank] slot_clear_at(2) [OF this assms blank, of pending_value]
    show "state_tables_ok sa n (s\<lparr>xs_pending := (xs_pending s)[i := PendingRecord_default none]\<rparr>) \<and>
      (\<forall>k. pending_map s k \<noteq> None \<longrightarrow> pending_map (s\<lparr>xs_pending := (xs_pending s)[i := PendingRecord_default none]\<rparr>) k = None \<longrightarrow>
        k = pending_key (xs_pending s ! i))"
      using ok c by (auto simp: state_tables_ok_def split: if_splits)
  qed
qed

lemma ClearPendingState_changes: "changes sa n (\<lambda>k. k = (d, ty)) s (ClearPendingState sa' d ty s)"
  using clear_at_changes [of _ s sa n "sa_None sa'"]
  by (auto simp: ClearPendingState_def PendingLocked_def is_pending_key split: option.splits dest!: find_index_Some) metis

lemma ClearPeerPending_changes: "changes sa n (\<lambda>k. fst k = d) s (ClearPeerPending sa' d s)"
proof -
  have blank: "\<not> pd_Used (PendingRecord_default none)" "\<not> ps_Used (PendingSubscription_default none)" for none :: 'a
    by (simp_all add: PendingRecord_default_def PendingSubscription_default_def)
  note p = slot_clear_where [where used = pd_Used and key = pending_key and Q = "\<lambda>k. fst k = d", OF blank(1) [of "sa_None sa'"]]
  note q = slot_clear_where [where used = ps_Used and key = subscription_key and Q = "\<lambda>k. fst k = d", OF blank(2) [of "sa_None sa'"]]
  have eq: "ClearPeerPending sa' d s = s\<lparr>
      xs_pending := map (\<lambda>r. if pd_Used r \<and> fst (pending_key r) = d then PendingRecord_default (sa_None sa') else r) (xs_pending s),
      xs_pendingSubscriptions := map (\<lambda>r. if ps_Used r \<and> fst (subscription_key r) = d then PendingSubscription_default (sa_None sa') else r)
        (xs_pendingSubscriptions s)\<rparr>"
    by (simp add: ClearPeerPending_def key_defs)
  show ?thesis unfolding changes_def eq
    by (auto simp: state_tables_ok_def p(2) q(2) intro: p(1) q(1) split: if_splits)
qed

lemma clear_intent_changes:
  assumes "i < length (xs_pendingSubscriptions s)" "ps_Used (xs_pendingSubscriptions s ! i)"
  shows "changes sa n D s (s\<lparr>xs_pendingSubscriptions := (xs_pendingSubscriptions s)[i := PendingSubscription_default none]\<rparr>)"
proof -
  have blank: "\<not> ps_Used (PendingSubscription_default none)" by (simp add: PendingSubscription_default_def)
  show ?thesis unfolding changes_def
  proof
    assume ok: "state_tables_ok sa n s"
    have "slots_ok ps_Used subscription_key (xs_pendingSubscriptions s)" using ok by (simp add: state_tables_ok_def)
    note c = slot_clear_at(1) [OF this assms blank] slot_clear_at(2) [OF this assms blank, of subscription_value]
    show "state_tables_ok sa n (s\<lparr>xs_pendingSubscriptions := (xs_pendingSubscriptions s)[i := PendingSubscription_default none]\<rparr>) \<and>
      (\<forall>k. pending_map s k \<noteq> None \<longrightarrow>
        pending_map (s\<lparr>xs_pendingSubscriptions := (xs_pendingSubscriptions s)[i := PendingSubscription_default none]\<rparr>) k = None \<longrightarrow> D k)"
      using ok c by (auto simp: state_tables_ok_def split: if_splits)
  qed
qed

lemma HandleSubscriptionAcknowledgement_changes: "changes sa n D s (HandleSubscriptionAcknowledgement sa' frame control s)"
  using clear_intent_changes [of _ s sa n D "sa_None sa'"]
  by (auto simp: HandleSubscriptionAcknowledgement_def PendingSubscriptionLocked_def is_pending_subscription_def Let_def
      split: option.splits dest!: find_index_Some)

lemma RememberPeer_pending [simp]: "xs_pending (snd (RememberPeer sa a s)) = xs_pending s"
  by (simp add: RememberPeer_def Let_def split: option.splits)

text \<open>When an acknowledgement is the one a pending update waits for.\<close>

definition acknowledges :: "('d, 'v, 'u) state_api \<Rightarrow> ESPNowReceivedFrame \<Rightarrow> 'u \<Rightarrow> 'd ESPNowStateTransport \<Rightarrow> 'd \<times> nat \<Rightarrow> bool" where
  "acknowledges sa frame u s k \<longleftrightarrow>
     fst k = sa_FromMacAddress sa (rf_Source frame) \<and>
     (\<exists>ack e r l. sa_DecodeAcknowledgement sa (frame_data frame) = Some ack \<and> uh_TypeId ack = snd k \<and> uh_Origin ack = sa_Origin sa u
        \<and> pending_map s k = Some (e, r, l) \<and> uh_Epoch ack = e \<and> r \<le> uh_Revision ack)"

lemma HandleStateAcknowledgement_changes:
  "changes sa n (acknowledges sa frame u s) s (fst (HandleStateAcknowledgement sa frame (s, t, u)))"
proof (cases "sa_DecodeAcknowledgement sa (frame_data frame)")
  case None
  then show ?thesis by (simp add: HandleStateAcknowledgement_def)
next
  case (Some ack)
  let ?source = "sa_FromMacAddress sa (rf_Source frame)" and ?s = "snd (RememberPeer sa (rf_Source frame) s)"
  have rem: "changes sa n D s ?s" for D by (rule RememberPeer_changes)
  show ?thesis
  proof (cases "find_index (is_pending ?source (uh_TypeId ack)) (xs_pending s)")
    case None
    then show ?thesis using Some rem by (simp add: HandleStateAcknowledgement_def PendingLocked_def split_beta Let_def)
  next
    case (Some i)
    note i = find_index_Some [OF this]
    let ?r = "xs_pending s ! i"
    have key: "pending_key ?r = (?source, uh_TypeId ack)" "pd_Used ?r" "i < length (xs_pending s)" using i by (simp_all add: is_pending_key)
    show ?thesis
    proof (cases "uh_Origin ack \<noteq> sa_Origin sa u \<or> uh_Epoch ack \<noteq> pd_Epoch ?r \<or> uh_Revision ack < pd_Revision ?r")
      case True
      then show ?thesis using Some \<open>sa_DecodeAcknowledgement sa (frame_data frame) = Some ack\<close> rem
        by (simp add: HandleStateAcknowledgement_def PendingLocked_def split_beta Let_def)
    next
      case False
      let ?t = "?s\<lparr>xs_pending := (xs_pending ?s)[i := PendingRecord_default (sa_None sa)]\<rparr>"
      have res: "fst (HandleStateAcknowledgement sa frame (s, t, u)) = ?t"
        using Some False \<open>sa_DecodeAcknowledgement sa (frame_data frame) = Some ack\<close>
        by (simp add: HandleStateAcknowledgement_def PendingLocked_def split_beta Let_def)
      have clear: "changes sa n (\<lambda>k. k = (?source, uh_TypeId ack)) ?s ?t" using clear_at_changes [of i ?s sa n] key by simp
      show ?thesis unfolding changes_def res
      proof (intro impI conjI allI)
        assume ok: "state_tables_ok sa n s"
        then show "state_tables_ok sa n ?t" using rem clear unfolding changes_def by blast
        fix k assume k: "pending_map s k \<noteq> None" "pending_map ?t k = None"
        then have "k = (?source, uh_TypeId ack)" using rem clear ok unfolding changes_def by (metis RememberPeer_pending)
        moreover have "pending_map s (?source, uh_TypeId ack) = Some (pending_value ?r)"
          using slot_lookup_used [of pd_Used pending_key "xs_pending s" ?r pending_value] ok key
          by (simp add: state_tables_ok_def)
        ultimately show "acknowledges sa frame u s k"
          using \<open>sa_DecodeAcknowledgement sa (frame_data frame) = Some ack\<close> False by (simp add: acknowledges_def pending_value_def)
      qed
    qed
  qed
qed

text \<open>When a control message ends the subscription a pending update is for.\<close>

definition ends_subscription :: "('d, 'v, 'u) state_api \<Rightarrow> ESPNowReceivedFrame \<Rightarrow> 'd \<times> nat \<Rightarrow> bool" where
  "ends_subscription sa frame k \<longleftrightarrow>
     fst k = sa_FromMacAddress sa (rf_Source frame) \<and>
     (\<exists>control. sa_DecodeControl sa (frame_data frame) = Some control \<and> cm_Device control = fst k
        \<and> (cm_Type control = UnsubscribeMessage \<and> cm_TypeId control = snd k \<or> cm_Type control = DisconnectMessage))"

lemma dispatch_control_changes:
  "changes sa n (\<lambda>k. fst k = source \<and> (cm_Type control = UnsubscribeMessage \<and> cm_TypeId control = snd k \<or> cm_Type control = DisconnectMessage))
     s (fst (dispatch_control api sa source control (s, t, u)))"
proof -
  let ?D = "\<lambda>k. fst k = source \<and> (cm_Type control = UnsubscribeMessage \<and> cm_TypeId control = snd k \<or> cm_Type control = DisconnectMessage)"
  have snap: "changes sa n ?D (fst st) (fst (snd (QueueSnapshotByType api sa source ty st))) \<and>
      snd (snd (snd (QueueSnapshotByType api sa source ty st))) = snd (snd st)" for ty st
    using QueueSnapshotByType_changes [of sa n ?D "fst st" api source ty "fst (snd st)" "snd (snd st)"]
      QueueSnapshotByType_queued(2) [of api sa source ty "fst st" "fst (snd st)" "snd (snd st)"] by simp
  show ?thesis
  proof (cases "cm_Type control")
    case SubscribeMessage
    then show ?thesis using snap [of "(s, t, sa_Subscribe sa source (cm_TypeId control) u)" "cm_TypeId control"]
      by (simp add: dispatch_control_def split_beta Let_def)
  next
    case UnsubscribeMessage
    then show ?thesis using changes_mono [OF ClearPendingState_changes [of sa n source "cm_TypeId control" s sa], of ?D]
      by (simp add: dispatch_control_def split_beta Let_def)
  next
    case ResynchronizeMessage
    have "changes sa n ?D s (fst (fold (\<lambda>ty st. snd (QueueSnapshotByType api sa source ty st)) (sa_SubscribedTypes sa source u) (s, t, u)))"
      using changes_fold [of "sa_SubscribedTypes sa source u" sa n ?D "\<lambda>ty st. snd (QueueSnapshotByType api sa source ty st)" "(s, t, u)", OF snap]
      by simp
    with ResynchronizeMessage show ?thesis
      using snap [of "(s, t, u)" "cm_TypeId control"] by (simp add: dispatch_control_def split_beta Let_def)
  next
    case DisconnectMessage
    then show ?thesis using changes_mono [OF ClearPeerPending_changes [of sa n source s sa], of ?D]
      by (simp add: dispatch_control_def split_beta Let_def)
  qed (simp_all add: dispatch_control_def)
qed

text \<open>When a frame completes a pending update: as its acknowledgement, or by ending its subscription.\<close>

definition frame_completes :: "('d, 'v, 'u) state_api \<Rightarrow> ESPNowReceivedFrame \<Rightarrow> 'u \<Rightarrow> 'd ESPNowStateTransport \<Rightarrow> 'd \<times> nat \<Rightarrow> bool" where
  "frame_completes sa frame u s k \<longleftrightarrow>
     (case sa_GetMessageType sa (frame_data frame) of
        None \<Rightarrow> False
      | Some type \<Rightarrow> if type = UpdateMessage then False
          else if type = AcknowledgementMessage then acknowledges sa frame u s k else ends_subscription sa frame k)"

lemma HandleUpdate_changes: "changes sa n D s (fst (HandleUpdate api sa frame (s, t, u)))"
  using RememberPeer_changes [of sa n D s "rf_Source frame"] by (auto simp: HandleUpdate_def split_beta Let_def split: option.splits)

lemma HandleControl_changes: "changes sa n (ends_subscription sa frame) s (fst (HandleControl api sa frame (s, t, u)))"
proof (cases "sa_DecodeControl sa (frame_data frame)")
  case None
  then show ?thesis by (simp add: HandleControl_def)
next
  case (Some control)
  let ?D = "ends_subscription sa frame"
  let ?source = "sa_FromMacAddress sa (rf_Source frame)" and ?s = "snd (RememberPeer sa (rf_Source frame) s)"
  have "changes sa n ?D ?s (fst (dispatch_control api sa ?source control (?s, t, u)))" if "cm_Device control = ?source"
    by (rule changes_mono [OF dispatch_control_changes]) (use Some that in \<open>auto simp: ends_subscription_def\<close>)
  moreover have "changes sa n ?D ?s (HandleSubscriptionAcknowledgement sa frame control ?s)"
    by (rule HandleSubscriptionAcknowledgement_changes)
  ultimately show ?thesis using Some changes_trans [OF RememberPeer_changes]
    by (auto simp: HandleControl_def split_beta Let_def)
qed

lemma State_HandleFrame_changes: "changes sa n (frame_completes sa frame u s) s (fst (State_HandleFrame api sa frame (s, t, u)))"
  by (cases "sa_GetMessageType sa (frame_data frame)")
    (auto simp: State_HandleFrame_def frame_completes_def
      intro: changes_mono [OF HandleUpdate_changes] changes_mono [OF HandleStateAcknowledgement_changes] changes_mono [OF HandleControl_changes])

lemma map_update_first: "(\<And>r. P r \<Longrightarrow> g (f r) = g r) \<Longrightarrow> map g (update_first P f rs) = map g rs"
  by (induction rs) auto

lemma queued_position:
  assumes q: "queued sa d ty s s'" and i: "i < length (xs_pending s)" "pd_Used (xs_pending s ! i)" "pending_key (xs_pending s ! i) = (d, ty)"
  shows "i < length (xs_pending s') \<and> pd_Used (xs_pending s' ! i) \<and> pending_key (xs_pending s' ! i) = (d, ty)"
proof (cases "s' = s")
  case True
  then show ?thesis using i by simp
next
  case False
  let ?g = "\<lambda>r. (pd_Used r, pending_key r)"
  have hit: "\<exists>r \<in> set (xs_pending s). pd_Used r \<and> pending_key r = (d, ty)" using i nth_mem by blast
  obtain upd where s': "s' = s\<lparr>xs_pending := update_first (\<lambda>r. pd_Used r \<and> pending_key r = (d, ty)) upd (xs_pending s)\<rparr>"
    and upd: "\<And>r. ?g (upd r) = ?g r"
    using q False hit unfolding queued_def two_pass_upsert_def by (auto simp: pending_key_def)
  have "map ?g (xs_pending s') = map ?g (xs_pending s)" unfolding s' by (simp add: map_update_first upd del: prod.inject)
  then show ?thesis using i s' nth_map [of i "xs_pending s'" ?g] nth_map [of i "xs_pending s" ?g] by simp
qed

lemma maintain_pending_changes:
  "changes sa n (\<lambda>_. True) s (fst (maintain_pending api sa now i (s, t, u)))" "snd (snd (maintain_pending api sa now i (s, t, u))) = u"
proof -
  let ?D = "\<lambda>_. True"
  let ?r = "xs_pending s ! i" and ?none = "PendingRecord_default (sa_None sa)"
  obtain ok s' t' where q: "QueueSnapshotByType api sa (pd_Destination ?r) (pd_TypeId ?r) (s, t, u) = (ok, s', t', u)"
    using QueueSnapshotByType_queued(2) [of api sa "pd_Destination ?r" "pd_TypeId ?r" s t u]
    by (cases "QueueSnapshotByType api sa (pd_Destination ?r) (pd_TypeId ?r) (s, t, u)") auto
  have qd: "queued sa (pd_Destination ?r) (pd_TypeId ?r) s s'"
    using QueueSnapshotByType_queued(1) [of sa "pd_Destination ?r" "pd_TypeId ?r" s api t u] q by simp
  have clear: "changes sa n ?D s1 (s1\<lparr>xs_pending := (xs_pending s1)[i := ?none]\<rparr>)"
    if "i < length (xs_pending s1) \<Longrightarrow> pd_Used (xs_pending s1 ! i)" for s1
    using clear_at_changes [of i s1 sa n "sa_None sa"] that
    by (cases "i < length (xs_pending s1)") (auto simp: not_less list_update_beyond elim!: changes_mono)
  have "pd_Used (xs_pending s' ! i)" if "pd_Used ?r" "i < length (xs_pending s')"
  proof -
    have "length (xs_pending s') = length (xs_pending s)" using qd by (auto simp: queued_def two_pass_upsert_def split: if_splits)
    then show ?thesis using queued_position [OF qd] that by (simp add: pending_key_def)
  qed
  then have "changes sa n ?D s (s'\<lparr>xs_pending := (xs_pending s')[i := ?none]\<rparr>)" if "pd_Used ?r"
    using that by (intro changes_trans [OF queued_changes [OF qd] clear]) blast
  then show "changes sa n ?D s (fst (maintain_pending api sa now i (s, t, u)))"
    using clear [of s] queued_changes [OF qd] q by (simp add: maintain_pending_def Let_def)
  show "snd (snd (maintain_pending api sa now i (s, t, u))) = u" using q by (simp add: maintain_pending_def Let_def)
qed

lemma maintain_subscription_changes:
  "changes sa n D s (fst (maintain_subscription api sa now i (s, t, u)))" "snd (snd (maintain_subscription api sa now i (s, t, u))) = u"
proof -
  let ?r = "xs_pendingSubscriptions s ! i"
  let ?s = "s\<lparr>xs_pendingSubscriptions := (xs_pendingSubscriptions s)[i := ?r\<lparr>ps_LastSendMilliseconds := now\<rparr>]\<rparr>"
  let ?g = "\<lambda>r. (ps_Used r, subscription_key r)"
  have "map ?g (xs_pendingSubscriptions ?s) = map ?g (xs_pendingSubscriptions s)"
    by (cases "i < length (xs_pendingSubscriptions s)") (simp_all add: map_update subscription_key_def list_update_same_conv not_less list_update_beyond)
  then have eq: "map ?g (xs_pendingSubscriptions ?s) = map ?g (xs_pendingSubscriptions s)" .
  have key: "slots_ok ps_Used subscription_key rs = distinct (map snd (filter fst (map ?g rs)))" for rs :: "'a PendingSubscriptionRecord list"
    by (simp add: slots_ok_def filter_map o_def)
  have none: "slot_lookup ps_Used subscription_key subscription_value rs k = None \<longleftrightarrow> (True, k) \<notin> set (map ?g rs)"
    for rs :: "'a PendingSubscriptionRecord list" and k by (auto simp: slot_lookup_None_iff)
  have same: "xs_pending ?s = xs_pending s" "xs_peers ?s = xs_peers s" "xs_initialized ?s = xs_initialized s"
    "length (xs_pendingSubscriptions ?s) = length (xs_pendingSubscriptions s)" by simp_all
  have "changes sa n D s ?s" unfolding changes_def state_tables_ok_def key none eq same by blast
  then show "changes sa n D s (fst (maintain_subscription api sa now i (s, t, u)))"
    by (simp add: maintain_subscription_def Let_def split_beta)
  show "snd (snd (maintain_subscription api sa now i (s, t, u))) = u" by (simp add: maintain_subscription_def Let_def split_beta)
qed

lemma Maintain_changes:
  fixes s :: "'d ESPNowStateTransport" and t :: "('h, 'm, 'o, 'q, 'w) ESPNowTransport" and u :: 'u
  shows "changes sa n (\<lambda>_. True) s (fst (Maintain api sa now (s, t, u)))
    \<and> snd (snd (Maintain api sa now (s, t, u))) = u"
proof -
  let ?D = "\<lambda>_. True"
  have first: "changes sa n ?D s (fst (fold (maintain_pending api sa now) js (s, t, u))) \<and> snd (snd (fold (maintain_pending api sa now) js (s, t, u))) = u"
    for js and s :: "'d ESPNowStateTransport" and t :: "('h, 'm, 'o, 'q, 'w) ESPNowTransport"
  proof (induction js arbitrary: s t)
    case (Cons i js)
    obtain s1 t1 where st: "maintain_pending api sa now i (s, t, u) = (s1, t1, u)"
      using maintain_pending_changes(2) [of api sa now i s t u] by (cases "maintain_pending api sa now i (s, t, u)") auto
    then have "changes sa n ?D s s1" using maintain_pending_changes(1) [of sa n s api now i t u] by simp
    with Cons.IH [of s1 t1] changes_trans [of sa n ?D s s1] st show ?case by simp
  qed simp
  have second: "changes sa n ?D (fst st) (fst (fold (maintain_subscription api sa now) js st)) \<and>
      snd (snd (fold (maintain_subscription api sa now) js st)) = snd (snd st)"
    for js and st :: "'d ESPNowStateTransport \<times> ('h, 'm, 'o, 'q, 'w) ESPNowTransport \<times> 'u"
  proof (rule changes_fold)
    fix i and st :: "'d ESPNowStateTransport \<times> ('h, 'm, 'o, 'q, 'w) ESPNowTransport \<times> 'u"
    show "changes sa n ?D (fst st) (fst (maintain_subscription api sa now i st)) \<and> snd (snd (maintain_subscription api sa now i st)) = snd (snd st)"
      using maintain_subscription_changes(1) [of sa n ?D "fst st" api now i "fst (snd st)" "snd (snd st)"]
        maintain_subscription_changes(2) [of api sa now i "fst st" "fst (snd st)" "snd (snd st)"] by simp
  qed
  let ?m = "fold (maintain_pending api sa now) [0..<length (xs_pending s)] (s, t, u)"
  show ?thesis
    using first [of s "[0..<length (xs_pending s)]" t] second [of ?m "[0..<length (xs_pendingSubscriptions (fst ?m))]"]
      changes_trans [of sa n ?D s "fst ?m"]
    by (simp add: Maintain_def Let_def)
qed

lemma SetSubscriptionIntent_fold:
  fixes st :: "('d, 'h, 'm, 'o, 'q, 'w, 'u) state_node"
  shows "changes sa n D (fst st) (fst (fold (\<lambda>x st. if Q x then snd (SetSubscriptionIntent api sa (dv x) (ty x) b st) else st) xs st))"
proof -
  have "changes sa n D (fst st) (fst (snd (SetSubscriptionIntent api sa d y b st))) \<and> snd (snd (snd (SetSubscriptionIntent api sa d y b st))) = snd (snd st)"
    for d y and st :: "('d, 'h, 'm, 'o, 'q, 'w, 'u) state_node"
    using SetSubscriptionIntent_changes [of sa n D "fst st" api d y b "fst (snd st)" "snd (snd st)"]
      SetSubscriptionIntent_intended(2) [of api sa d y b "fst st" "fst (snd st)" "snd (snd st)"] by simp
  then show ?thesis by (intro changes_fold [THEN conjunct1]) simp
qed

lemma subscription_changed_changes: "changes sa n D (fst st) (fst (subscription_changed api sa b ty scope d st))"
  using SetSubscriptionIntent_changes [of sa n D "fst st" api d ty b "fst (snd st)" "snd (snd st)"]
    SetSubscriptionIntent_fold [of sa n D st "\<lambda>x. True" api "\<lambda>x. x" "\<lambda>x. ty" b "PeerDeviceSnapshot (fst st)"]
  by (simp add: subscription_changed_def)

lemma PeerAvailable_changes: "changes sa n D s (fst (snd (PeerAvailable api sa a (s, t, u))))"
proof -
  have eq: "(\<lambda>(scope, dev, ty) st. if scope = AnyDevice \<or> dev = d then snd (SetSubscriptionIntent api sa d ty True st) else st) =
      (\<lambda>x st. if fst x = AnyDevice \<or> fst (snd x) = d then snd (SetSubscriptionIntent api sa d (snd (snd x)) True st) else st)" for d
    by (auto simp: fun_eq_iff)
  let ?s = "snd (RememberPeer sa a s)" and ?d = "sa_FromMacAddress sa a"
  have rem: "changes sa n D s ?s" by (rule RememberPeer_changes)
  have "changes sa n D s (fst (fold (\<lambda>x st. if fst x = AnyDevice \<or> fst (snd x) = ?d
      then snd (SetSubscriptionIntent api sa ?d (snd (snd x)) True st) else st) xs (?s, t, v)))" for xs v
    using changes_trans [OF rem SetSubscriptionIntent_fold [of sa n D "(?s, t, v)" "\<lambda>x. fst x = AnyDevice \<or> fst (snd x) = ?d" api "\<lambda>x. ?d"
        "\<lambda>x. snd (snd x)" True xs, simplified]] .
  then show ?thesis using rem by (simp add: PeerAvailable_def eq Let_def split_beta)
qed

lemma OnTypedStatePublished_changes:
  fixes st :: "('d, 'h, 'm, 'o, 'q, 'w, 'u) state_node"
  assumes "ty \<in> set (sa_Definitions sa)"
  shows "changes sa n D (fst st) (fst (OnTypedStatePublished api sa ty update st))"
proof -
  have "changes sa n D (fst st) (fst (snd (QueueUpdate api sa ty d update st))) \<and> snd (snd (snd (QueueUpdate api sa ty d update st))) = snd (snd st)"
    for d and st :: "('d, 'h, 'm, 'o, 'q, 'w, 'u) state_node"
    using queued_changes [OF QueueUpdate_queued(1) [OF assms, of d "fst st" api update "fst (snd st)" "snd (snd st)"]]
      QueueUpdate_queued(2) [OF assms, of api d update "fst st" "fst (snd st)" "snd (snd st)"] by simp
  from changes_fold [where xs = "sa_Subscribers sa ty (snd (snd st))" and st = st, OF this] show ?thesis
    by (simp add: OnTypedStatePublished_def split_beta)
qed

lemma slots_ok_blanks:
  "slots_ok pe_Used pe_Device (replicate m (PeerEntry_default none))" "slots_ok pd_Used pending_key (replicate m (PendingRecord_default none))"
  "slots_ok ps_Used subscription_key (replicate m (PendingSubscription_default none))"
  "slots_ok pe_Used pe_Device (map (\<lambda>_. PeerEntry_default none) xs)" "slots_ok pd_Used pending_key (map (\<lambda>_. PendingRecord_default none) ys)"
  "slots_ok ps_Used subscription_key (map (\<lambda>_. PendingSubscription_default none) zs)"
  by (simp_all add: slots_ok_def filter_map o_def PeerEntry_default_def PendingRecord_default_def PendingSubscription_default_def)

lemma lookup_blanks:
  "slot_lookup pd_Used pending_key pending_value (replicate m (PendingRecord_default none)) k = None"
  "slot_lookup ps_Used subscription_key subscription_value (replicate m (PendingSubscription_default none)) k = None"
  "slot_lookup pd_Used pending_key pending_value (map (\<lambda>_. PendingRecord_default none) ys) k = None"
  "slot_lookup ps_Used subscription_key subscription_value (map (\<lambda>_. PendingSubscription_default none) zs) k = None"
  "slot_lookup pe_Used pe_Device pe_Address (replicate m (PeerEntry_default none)) d = None"
  "slot_lookup pe_Used pe_Device pe_Address (map (\<lambda>_. PeerEntry_default none) xs) d = None"
  by (simp_all add: slot_lookup_None_iff PendingRecord_default_def PendingSubscription_default_def PeerEntry_default_def)

lemma State_Shutdown_tables: "state_tables_ok sa n s \<Longrightarrow> state_tables_ok sa n (fst (State_Shutdown sa' self (s, t, u)))"
  by (simp add: state_tables_ok_def State_Shutdown_def slots_ok_blanks lookup_blanks)

lemma ensure_vector_result:
  assumes "ensure_vector api n blank rs w = (ok, rs', w')"
  shows "rs' = rs \<or> rs' = replicate n blank" "ok \<Longrightarrow> length rs' = n"
  using assms by (auto simp: ensure_vector_def split: if_splits prod.splits)

lemma EnsureStorage_tables:
  assumes ok: "state_tables_ok sa n s" "\<not> xs_initialized s" and run: "EnsureStorage api sa n (s, t) = (r, s', t')"
  shows "state_tables_ok sa n s'" "\<not> xs_initialized s'"
    "r \<Longrightarrow> length (xs_peers s') = n \<and> length (xs_pending s') = StateMaximumPending sa n
      \<and> length (xs_pendingSubscriptions s') = StateMaximumPending sa n"
proof -
  obtain r1 ps w1 where v1: "ensure_vector api n (PeerEntry_default (sa_None sa)) (xs_peers s) (t_native t) = (r1, ps, w1)" by (rule prod_cases3)
  obtain r2 qs w2 where v2: "ensure_vector api (StateMaximumPending sa n) (PendingRecord_default (sa_None sa)) (xs_pending s) w1 = (r2, qs, w2)"
    by (rule prod_cases3)
  obtain r3 ss w3 where v3: "ensure_vector api (StateMaximumPending sa n) (PendingSubscription_default (sa_None sa)) (xs_pendingSubscriptions s) w2 = (r3, ss, w3)"
    by (rule prod_cases3)
  note e = ensure_vector_result [OF v1] ensure_vector_result [OF v2] ensure_vector_result [OF v3]
  have res: "(r, s') = (if \<not> r1 then (False, s\<lparr>xs_peers := ps\<rparr>) else if \<not> r2 then (False, s\<lparr>xs_peers := ps, xs_pending := qs\<rparr>)
      else (r3, s\<lparr>xs_peers := ps, xs_pending := qs, xs_pendingSubscriptions := ss\<rparr>))"
    using run v1 v2 v3 by (simp add: EnsureStorage_def Let_def split: if_splits)
  have tables: "slots_ok pe_Used pe_Device ps" "length ps \<le> n" "slots_ok pd_Used pending_key qs" "length qs \<le> StateMaximumPending sa n"
    "slots_ok ps_Used subscription_key ss" "length ss \<le> StateMaximumPending sa n"
    "\<forall>d a. slot_lookup pe_Used pe_Device pe_Address ps d = Some a \<longrightarrow> sa_FromMacAddress sa a = d"
    "\<forall>d ty. slot_lookup pd_Used pending_key pending_value qs (d, ty) \<noteq> None \<longrightarrow> ty \<in> set (sa_Definitions sa)"
    "\<forall>d ty. slot_lookup ps_Used subscription_key subscription_value ss (d, ty) \<noteq> None \<longrightarrow> ty \<noteq> 0 \<and> \<not> sa_IsZero sa d"
    using e(1,3,5) ok(1) unfolding state_tables_ok_def by (elim disjE conjE; simp add: slots_ok_blanks lookup_blanks)+
  show "state_tables_ok sa n s'" "\<not> xs_initialized s'"
    "r \<Longrightarrow> length (xs_peers s') = n \<and> length (xs_pending s') = StateMaximumPending sa n
      \<and> length (xs_pendingSubscriptions s') = StateMaximumPending sa n"
    using res tables ok e(2,4,6) unfolding state_tables_ok_def by (cases r1; cases r2; simp)+
qed

lemma register_observers_tables:
  assumes "state_tables_ok sa n s" "length (xs_peers s) = n" "length (xs_pending s) = StateMaximumPending sa n"
    "length (xs_pendingSubscriptions s) = StateMaximumPending sa n"
  shows "state_tables_ok sa n (fst (snd (register_observers sa self (s, t, u))))"
proof -
  have "state_tables_ok sa n (s\<lparr>xs_publisherHandle := p, xs_subscriptionHandle := q, xs_initialized := b\<rparr>)" for p q b
    using assms by (simp add: state_tables_ok_def)
  then show ?thesis by (simp add: register_observers_def State_Shutdown_tables Let_def split_beta)
qed

lemma State_Initialize_tables:
  assumes ok: "state_tables_ok sa n s" and run: "State_Initialize api sa n self handler maintenance (s, t, u) = (r, s', t', u')"
  shows "state_tables_ok sa n s'"
proof (cases "xs_initialized s \<or> \<not> t_initialized t")
  case True
  then have "s' = s" using run by (cases "xs_initialized s") (simp_all add: State_Initialize_def)
  then show ?thesis using ok by simp
next
  case False
  obtain e s1 t1 where ens: "EnsureStorage api sa n (s, t) = (e, s1, t1)" by (rule prod_cases3)
  have "\<not> xs_initialized s" using False by simp
  note tb = EnsureStorage_tables [OF ok this ens]
  obtain r1 t2 where r1: "RegisterProtocolHandler api (protocol_id StateTransport) (Some handler) t1 = (r1, t2)" by (rule prod.exhaust)
  obtain r2 t3 where r2: "RegisterMaintenanceHandler api (Some self) (Some maintenance) t2 = (r2, t3)" by (rule prod.exhaust)
  obtain r3 s4 t4 u4 where r3: "register_observers sa self (s1, t3, u) = (r3, s4, t4, u4)" by (rule prod_cases4)
  have "s' = s1 \<or> e \<and> s' = s4"
    using run False ens r1 r2 r3 by (simp add: State_Initialize_def Let_def split: if_splits)
  then show ?thesis using tb register_observers_tables [of sa n s1 self t3 u] r3 by auto
qed

text \<open>The runs of one State transport; between two calls the transport and the State library may change in any way.\<close>

inductive state_run ::
  "('q, 'w) native_api \<Rightarrow> ('d, 'v, 'u) state_api \<Rightarrow> nat \<Rightarrow> 'd ESPNowStateTransport \<Rightarrow> ('h, 'm, 'o, 'q, 'w) ESPNowTransport \<Rightarrow> 'u \<Rightarrow> bool"
  for api sa n where
  start: "state_run api sa n StateTransport_new t u"
| environment: "state_run api sa n s t u \<Longrightarrow> state_run api sa n s t' u'"
| initialize: "state_run api sa n s t u \<Longrightarrow> State_Initialize api sa n self handler maintenance (s, t, u) = (r, s', t', u') \<Longrightarrow> state_run api sa n s' t' u'"
| shutdown: "state_run api sa n s t u \<Longrightarrow> State_Shutdown sa self (s, t, u) = (s', t', u') \<Longrightarrow> state_run api sa n s' t' u'"
| frame: "state_run api sa n s t u \<Longrightarrow> State_HandleFrame api sa f (s, t, u) = (s', t', u') \<Longrightarrow> state_run api sa n s' t' u'"
| maintain: "state_run api sa n s t u \<Longrightarrow> Maintain api sa now (s, t, u) = (s', t', u') \<Longrightarrow> state_run api sa n s' t' u'"
| available: "state_run api sa n s t u \<Longrightarrow> PeerAvailable api sa a (s, t, u) = (b, s', t', u') \<Longrightarrow> state_run api sa n s' t' u'"
| lost: "state_run api sa n s t u \<Longrightarrow> PeerLost sa a (s, u) = (b, s', u') \<Longrightarrow> state_run api sa n s' t u'"
| disconnect: "state_run api sa n s t u \<Longrightarrow> DisconnectPeer api sa a (s, t, u) = (b, s', t', u') \<Longrightarrow> state_run api sa n s' t' u'"
| published: "state_run api sa n s t u \<Longrightarrow> ty \<in> set (sa_Definitions sa) \<Longrightarrow> OnTypedStatePublished api sa ty update (s, t, u) = (s', t', u')
    \<Longrightarrow> state_run api sa n s' t' u'"
| subscribed: "state_run api sa n s t u \<Longrightarrow> OnStateSubscribed api sa ty scope d (s, t, u) = (s', t', u') \<Longrightarrow> state_run api sa n s' t' u'"
| unsubscribed: "state_run api sa n s t u \<Longrightarrow> OnStateUnsubscribed api sa ty scope d (s, t, u) = (s', t', u') \<Longrightarrow> state_run api sa n s' t' u'"

lemma changes_tables: "changes sa n D s s' \<Longrightarrow> state_tables_ok sa n s \<Longrightarrow> state_tables_ok sa n s'"
  unfolding changes_def by blast

lemma state_run_tables: "state_run api sa n s t u \<Longrightarrow> state_tables_ok sa n s"
proof (induction rule: state_run.induct)
  case (start t u)
  then show ?case by (simp add: state_tables_ok_def StateTransport_new_def slots_ok_def)
next
  case (initialize s t u self handler maintenance r s' t' u')
  then show ?case by (blast intro: State_Initialize_tables)
next
  case (shutdown s t u self s' t' u')
  then show ?case using State_Shutdown_tables [of sa n s sa self t u] by simp
next
  case (frame s t u f s' t' u')
  then show ?case using changes_tables [OF State_HandleFrame_changes [of sa n f u s api t]] by simp
next
  case (maintain s t u now s' t' u')
  then show ?case using changes_tables [OF Maintain_changes [of sa n s api now t u, THEN conjunct1]] by simp
next
  case (available s t u a b s' t' u')
  then show ?case using changes_tables [OF PeerAvailable_changes [of sa n "\<lambda>k. False" s api a t u]] by simp
next
  case (lost s t u a b s' u')
  then show ?case using changes_tables [OF ClearPeerPending_changes [of sa n _ s sa]]
    by (auto simp: PeerLost_def Let_def split: prod.splits)
next
  case (disconnect s t u a b s' t' u')
  then show ?case using changes_tables [OF ClearPeerPending_changes [of sa n _ s sa]]
    by (auto simp: DisconnectPeer_def Let_def split: prod.splits)
next
  case (published s t u ty update s' t' u')
  then show ?case using changes_tables [OF OnTypedStatePublished_changes [OF published.hyps(2), of n "\<lambda>k. False" "(s, t, u)" api update]] by simp
next
  case (subscribed s t u ty scope d s' t' u')
  then show ?case using changes_tables [OF subscription_changed_changes [of sa n "\<lambda>k. False" "(s, t, u)" api True ty scope d]]
    by (simp add: OnStateSubscribed_def)
next
  case (unsubscribed s t u ty scope d s' t' u')
  then show ?case using changes_tables [OF subscription_changed_changes [of sa n "\<lambda>k. False" "(s, t, u)" api False ty scope d]]
    by (simp add: OnStateUnsubscribed_def)
qed


end
