(* ===== verification/State_Theorems.thy ===== *)
theory State_Theorems
  imports State_Props
begin

text \<open>
  What the State transport promises about an update that waits for its acknowledgement: which frames
  complete it, and what one pass of maintenance does to it.
\<close>

section \<open>Records by position\<close>

lemma slots_ok_positions:
  "slots_ok used key rs \<longleftrightarrow> (\<forall>i j. i < j \<and> j < length rs \<and> used (rs ! i) \<and> used (rs ! j) \<longrightarrow> key (rs ! i) \<noteq> key (rs ! j))"
proof (induction rs)
  case (Cons r rs)
  have "slots_ok used key (r # rs) \<longleftrightarrow> slots_ok used key rs \<and> (\<forall>j < length rs. used r \<and> used (rs ! j) \<longrightarrow> key r \<noteq> key (rs ! j))"
    by (auto simp: slots_ok_def in_set_conv_nth)
  also have "\<dots> \<longleftrightarrow> (\<forall>i j. i < j \<and> j < length (r # rs) \<and> used ((r # rs) ! i) \<and> used ((r # rs) ! j) \<longrightarrow> key ((r # rs) ! i) \<noteq> key ((r # rs) ! j))"
    (is "?l \<longleftrightarrow> (\<forall>i j. ?P i j)")
  proof
    assume l: ?l
    show "\<forall>i j. ?P i j"
    proof (intro allI)
      fix i j show "?P i j" using l Cons by (cases i; cases j) auto
    qed
  next
    assume r: "\<forall>i j. ?P i j"
    show ?l unfolding Cons
    proof (intro conjI allI)
      fix i j
      show "i < j \<and> j < length rs \<and> used (rs ! i) \<and> used (rs ! j) \<longrightarrow> key (rs ! i) \<noteq> key (rs ! j)"
        using r [rule_format, of "Suc i" "Suc j"] by simp
      show "j < length rs \<longrightarrow> used r \<and> used (rs ! j) \<longrightarrow> key r \<noteq> key (rs ! j)"
        using r [rule_format, of 0 "Suc j"] by simp
    qed
  qed
  finally show ?case .
qed (simp add: slots_ok_def)

lemma slot_lookup_nth:
  "slots_ok used key rs \<Longrightarrow> i < length rs \<Longrightarrow> used (rs ! i) \<Longrightarrow> slot_lookup used key val rs (key (rs ! i)) = Some (val (rs ! i))"
  by (rule slot_lookup_used) simp_all

text \<open>\<open>rs'\<close> has no record at a position where \<open>rs\<close> has none, and none with another key.\<close>

definition sub_slots :: "'d PendingRecord list \<Rightarrow> 'd PendingRecord list \<Rightarrow> bool" where
  "sub_slots rs rs' \<longleftrightarrow> length rs' = length rs \<and>
     (\<forall>j < length rs. pd_Used (rs' ! j) \<longrightarrow> pd_Used (rs ! j) \<and> pending_key (rs' ! j) = pending_key (rs ! j))"

lemma sub_slots_refl: "sub_slots rs rs"
  by (simp add: sub_slots_def)

lemma sub_slots_trans: "sub_slots rs rs' \<Longrightarrow> sub_slots rs' rs'' \<Longrightarrow> sub_slots rs rs''"
  by (auto simp: sub_slots_def)

lemma sub_slots_ok: "sub_slots rs rs' \<Longrightarrow> slots_ok pd_Used pending_key rs \<Longrightarrow> slots_ok pd_Used pending_key rs'"
  unfolding slots_ok_positions sub_slots_def by (metis order.strict_trans)

text \<open>The lookup of a key is decided by the position the key has in the larger table.\<close>

lemma sub_slots_lookup:
  assumes sub: "sub_slots rs rs'" and ok: "slots_ok pd_Used pending_key rs" and i: "i < length rs" "pd_Used (rs ! i)" "pending_key (rs ! i) = k"
  shows "slot_lookup pd_Used pending_key pending_value rs' k = (if pd_Used (rs' ! i) then Some (pending_value (rs' ! i)) else None)"
proof (cases "pd_Used (rs' ! i)")
  case True
  then have "pending_key (rs' ! i) = k" "i < length rs'" using sub i by (auto simp: sub_slots_def)
  then show ?thesis using slot_lookup_nth [where rs = rs' and i = i and val = pending_value, OF sub_slots_ok [OF sub ok]] True by auto
next
  case False
  have "\<not> (pd_Used (rs' ! j) \<and> pending_key (rs' ! j) = k)" if "j < length rs'" for j
  proof (cases "j = i")
    case True
    then show ?thesis using False by simp
  next
    case j: False
    then show ?thesis using sub ok i that unfolding slots_ok_positions sub_slots_def by (metis linorder_neqE_nat)
  qed
  then have "slot_lookup pd_Used pending_key pending_value rs' k = None"
    unfolding slot_lookup_None_iff by (metis in_set_conv_nth)
  then show ?thesis using False by simp
qed


section \<open>One pass of maintenance\<close>

definition retry_due :: "u64 \<Rightarrow> u64 \<Rightarrow> bool" where
  "retry_due now sent \<longleftrightarrow> ESPRESSIO_ESPNOW_STATE_RETRY_INTERVAL_MS \<le> now - sent"

text \<open>
  Sending the current snapshot of a state to a device: what the record then waits for, if the transport takes the frame,
  and the transport afterwards.
\<close>

definition resend_update ::
  "('q, 'w) native_api \<Rightarrow> ('d, 'v, 'u) state_api \<Rightarrow> 'u \<Rightarrow> 'd \<Rightarrow> nat \<Rightarrow> ('h, 'm, 'o, 'q, 'w) ESPNowTransport
     \<Rightarrow> (nat \<times> nat \<times> u64) option \<times> ('h, 'm, 'o, 'q, 'w) ESPNowTransport" where
  "resend_update api sa u d ty t =
     (case if ty \<in> set (sa_Definitions sa) then sa_Snapshot sa ty u else None of
        None \<Rightarrow> (None, t)
      | Some update \<Rightarrow>
          (case sa_EncodeUpdate sa ty update StateMaximumPayloadBytes of
             None \<Rightarrow> (None, t)
           | Some bytes \<Rightarrow>
               let (time, t) = GetMonotonicTimestampNanoseconds api t in
               case MacFromDevice sa d of
                 None \<Rightarrow> (None, t)
               | Some peer \<Rightarrow>
                   let (sent, t) = Send api peer (protocol_id StateTransport) (Some bytes) (length bytes) t in
                   (if sent then Some (uh_Epoch (su_Header update), uh_Revision (su_Header update), time div 1000000) else None, t)))"

text \<open>The turn of one waiting update: what it waits for afterwards, and the transport.\<close>

definition update_turn ::
  "('q, 'w) native_api \<Rightarrow> ('d, 'v, 'u) state_api \<Rightarrow> u64 \<Rightarrow> 'u \<Rightarrow> 'd PendingRecord \<Rightarrow> ('h, 'm, 'o, 'q, 'w) ESPNowTransport
     \<Rightarrow> (nat \<times> nat \<times> u64) option \<times> ('h, 'm, 'o, 'q, 'w) ESPNowTransport" where
  "update_turn api sa now u r t =
     (if \<not> pd_Used r \<or> \<not> sa_HasSubscriber sa (pd_Destination r) (pd_TypeId r) u then (None, t)
      else if \<not> retry_due now (pd_LastSendMilliseconds r) then (Some (pending_value r), t)
      else resend_update api sa u (pd_Destination r) (pd_TypeId r) t)"

text \<open>The turn of one subscription intent: the control message is sent again when it is due, whatever comes of it.\<close>

definition intent_turn ::
  "('q, 'w) native_api \<Rightarrow> ('d, 'v, 'u) state_api \<Rightarrow> u64 \<Rightarrow> 'u \<Rightarrow> 'd PendingSubscriptionRecord \<Rightarrow> ('h, 'm, 'o, 'q, 'w) ESPNowTransport
     \<Rightarrow> ('h, 'm, 'o, 'q, 'w) ESPNowTransport" where
  "intent_turn api sa now u r t =
     (if ps_Used r \<and> retry_due now (ps_LastSendMilliseconds r)
      then (case sa_EncodeControl sa \<lparr>cm_Type = (if ps_DesiredSubscribed r then SubscribeMessage else UnsubscribeMessage),
                cm_Device = sa_Origin sa u, cm_TypeId = ps_TypeId r\<rparr> of
              None \<Rightarrow> t
            | Some bytes \<Rightarrow>
                (case MacFromDevice sa (ps_Destination r) of
                   None \<Rightarrow> t
                 | Some peer \<Rightarrow> snd (Send api peer (protocol_id StateTransport) (Some bytes) (length bytes) t)))
      else t)"

abbreviation "update_turns api sa now u \<equiv> fold (\<lambda>r t. snd (update_turn api sa now u r t))"
abbreviation "intent_turns api sa now u \<equiv> fold (intent_turn api sa now u)"

subsection \<open>The waiting updates\<close>

lemma is_pending_at:
  assumes ok: "slots_ok pd_Used pending_key rs" and i: "i < length rs" "pd_Used (rs ! i)" "pending_key (rs ! i) = (d, ty)"
  shows "find_index (is_pending d ty) rs = Some i"
proof (cases "find_index (is_pending d ty) rs")
  case None
  then show ?thesis using i by (auto simp: find_index_None is_pending_key)
next
  case (Some j)
  note j = find_index_Some [OF Some]
  have "j = i" using ok i j unfolding slots_ok_positions is_pending_key by (metis linorder_neqE_nat)
  then show ?thesis using Some by simp
qed

lemma queue_by_type_eq:
  "queue_by_type api sa defs d ty st = (if ty \<in> set defs then QueueSnapshot api sa ty d st else (False, st))"
  by (induction defs) auto

text \<open>Queueing the snapshot for a record that exists changes that record and is sending it again.\<close>

lemma QueueSnapshotByType_at:
  assumes ok: "slots_ok pd_Used pending_key (xs_pending s)"
    and i: "i < length (xs_pending s)" "pd_Used (xs_pending s ! i)" "pending_key (xs_pending s ! i) = (d, ty)"
  obtains x where "QueueSnapshotByType api sa d ty (s, t, u) =
      (fst (resend_update api sa u d ty t) \<noteq> None, s\<lparr>xs_pending := (xs_pending s)[i := x]\<rparr>, snd (resend_update api sa u d ty t), u)"
    "pd_Used x" "pending_key x = (d, ty)" "fst (resend_update api sa u d ty t) \<noteq> None \<Longrightarrow> fst (resend_update api sa u d ty t) = Some (pending_value x)"
proof -
  let ?q = "QueueSnapshotByType api sa d ty (s, t, u)" and ?R = "resend_update api sa u d ty t"
  note eq = QueueSnapshotByType_def queue_by_type_eq QueueSnapshot_def QueueUpdate_def resend_update_def
  have same: "s = s\<lparr>xs_pending := (xs_pending s)[i := xs_pending s ! i]\<rparr>" by simp
  have "\<exists>x. ?q = (fst ?R \<noteq> None, s\<lparr>xs_pending := (xs_pending s)[i := x]\<rparr>, snd ?R, u) \<and> pd_Used x \<and> pending_key x = (d, ty)
    \<and> (fst ?R \<noteq> None \<longrightarrow> fst ?R = Some (pending_value x))"
  proof (cases "if ty \<in> set (sa_Definitions sa) then sa_Snapshot sa ty u else None")
    case None
    then have "?q = (False, s, t, u)" "?R = (None, t)" by (auto simp: eq split: if_splits)
    then show ?thesis using i by (intro exI [of _ "xs_pending s ! i"]) simp
  next
    case (Some update)
    then have ty: "ty \<in> set (sa_Definitions sa)" "sa_Snapshot sa ty u = Some update" by (simp_all split: if_splits)
    show ?thesis
    proof (cases "sa_EncodeUpdate sa ty update StateMaximumPayloadBytes")
      case None
      then have "?q = (False, s, t, u)" "?R = (None, t)" using ty by (simp_all add: eq)
      then show ?thesis using i by (intro exI [of _ "xs_pending s ! i"]) simp
    next
      case (Some bytes)
      let ?now = "fst (GetMonotonicTimestampNanoseconds api t) div 1000000"
      let ?x = "(xs_pending s ! i)\<lparr>pd_Epoch := uh_Epoch (su_Header update), pd_Revision := uh_Revision (su_Header update), pd_LastSendMilliseconds := ?now\<rparr>"
      have "PendingLocked d ty True (xs_pending s) = (Some i, xs_pending s)"
        using is_pending_at [OF ok i] by (simp add: PendingLocked_def)
      then show ?thesis
        using i Some ty
        by (intro exI [of _ ?x]) (simp add: eq SendRaw_def split_beta Let_def key_defs split: option.split)
    qed
  qed
  then show thesis using that by blast
qed

abbreviation "waits r \<equiv> (if pd_Used r then Some (pending_value r) else None)"

lemma maintain_pending_at:
  assumes ok: "slots_ok pd_Used pending_key (xs_pending s)" and i: "i < length (xs_pending s)"
  obtains r where "maintain_pending api sa now i (s, t, u) =
      (s\<lparr>xs_pending := (xs_pending s)[i := r]\<rparr>, snd (update_turn api sa now u (xs_pending s ! i) t), u)"
    "sub_slots (xs_pending s) ((xs_pending s)[i := r])" "waits r = fst (update_turn api sa now u (xs_pending s ! i) t)"
proof -
  let ?r = "xs_pending s ! i" and ?none = "PendingRecord_default (sa_None sa)"
  have none: "\<not> pd_Used ?none" by (simp add: PendingRecord_default_def)
  have sub: "sub_slots (xs_pending s) ((xs_pending s)[i := y])" if "pd_Used y \<Longrightarrow> pd_Used ?r \<and> pending_key y = pending_key ?r" for y
    using i that by (auto simp: sub_slots_def nth_list_update)
  have same: "s\<lparr>xs_pending := (xs_pending s)[i := ?r]\<rparr> = s" by simp
  show thesis
  proof (cases "pd_Used ?r \<and> sa_HasSubscriber sa (pd_Destination ?r) (pd_TypeId ?r) u")
    case False
    show thesis
    proof (cases "pd_Used ?r")
      case True
      then show thesis using that [of ?none] sub [of ?none] none False by (simp add: maintain_pending_def update_turn_def)
    next
      case False
      then show thesis using that [of ?r] sub [of ?r] same by (simp add: maintain_pending_def update_turn_def)
    qed
  next
    case used: True
    show thesis
    proof (cases "retry_due now (pd_LastSendMilliseconds ?r)")
      case False
      then show thesis using that [of ?r] sub [of ?r] same used by (simp add: maintain_pending_def update_turn_def retry_due_def not_le)
    next
      case due: True
      let ?R = "resend_update api sa u (pd_Destination ?r) (pd_TypeId ?r) t"
      have key: "pending_key ?r = (pd_Destination ?r, pd_TypeId ?r)" by (simp add: pending_key_def)
      obtain x where x: "QueueSnapshotByType api sa (pd_Destination ?r) (pd_TypeId ?r) (s, t, u) =
          (fst ?R \<noteq> None, s\<lparr>xs_pending := (xs_pending s)[i := x]\<rparr>, snd ?R, u)"
        "pd_Used x" "pending_key x = (pd_Destination ?r, pd_TypeId ?r)" "fst ?R \<noteq> None \<Longrightarrow> fst ?R = Some (pending_value x)"
        by (rule QueueSnapshotByType_at [OF ok i _ key, of api sa t u]) (use used in auto)
      let ?y = "if fst ?R = None then ?none else x"
      have "maintain_pending api sa now i (s, t, u) = (s\<lparr>xs_pending := (xs_pending s)[i := ?y]\<rparr>, snd ?R, u)"
        using used due x(1) by (simp add: maintain_pending_def retry_due_def not_le [symmetric] Let_def)
      moreover have "sub_slots (xs_pending s) ((xs_pending s)[i := ?y])" by (rule sub) (use used none x key in \<open>auto split: if_splits\<close>)
      moreover have "waits ?y = fst ?R" using none x(2,4) by (cases "fst ?R") auto
      ultimately show thesis using that [of ?y] used due by (simp add: update_turn_def)
    qed
  qed
qed

lemma maintain_pending_fold:
  assumes "slots_ok pd_Used pending_key (xs_pending s)" "k \<le> length (xs_pending s)"
  shows "\<exists>rs. fold (maintain_pending api sa now) [k..<length (xs_pending s)] (s, t, u)
      = (s\<lparr>xs_pending := rs\<rparr>, update_turns api sa now u (drop k (xs_pending s)) t, u)
    \<and> sub_slots (xs_pending s) rs \<and> (\<forall>j < k. rs ! j = xs_pending s ! j)
    \<and> (\<forall>j. k \<le> j \<and> j < length (xs_pending s) \<longrightarrow>
         waits (rs ! j) = fst (update_turn api sa now u (xs_pending s ! j) (update_turns api sa now u (drop k (take j (xs_pending s))) t)))"
  using assms
proof (induction "length (xs_pending s) - k" arbitrary: s t k)
  case 0
  then show ?case by (intro exI [of _ "xs_pending s"]) (auto simp: sub_slots_refl)
next
  case (Suc m)
  let ?ps = "xs_pending s"
  have k: "k < length ?ps" using Suc.hyps(2) by simp
  let ?t = "snd (update_turn api sa now u (?ps ! k) t)"
  obtain r where step: "maintain_pending api sa now k (s, t, u) = (s\<lparr>xs_pending := ?ps[k := r]\<rparr>, ?t, u)"
    and sub: "sub_slots ?ps (?ps[k := r])" and r: "waits r = fst (update_turn api sa now u (?ps ! k) t)"
    by (rule maintain_pending_at [OF Suc.prems(1) k])
  let ?s = "s\<lparr>xs_pending := ?ps[k := r]\<rparr>"
  have "slots_ok pd_Used pending_key (xs_pending ?s)" using sub_slots_ok [OF sub Suc.prems(1)] by simp
  from Suc.hyps(1) [OF _ this, of "Suc k" ?t] Suc.hyps(2) k have "\<exists>rs. fold (maintain_pending api sa now) [Suc k..<length ?ps] (?s, ?t, u)
      = (s\<lparr>xs_pending := rs\<rparr>, update_turns api sa now u (drop (Suc k) ?ps) ?t, u)
    \<and> sub_slots (?ps[k := r]) rs \<and> (\<forall>j < Suc k. rs ! j = ?ps[k := r] ! j)
    \<and> (\<forall>j. Suc k \<le> j \<and> j < length ?ps \<longrightarrow>
         waits (rs ! j) = fst (update_turn api sa now u (?ps ! j) (update_turns api sa now u (drop (Suc k) (take j (?ps[k := r]))) ?t)))"
    by simp
  then obtain rs where
    run: "fold (maintain_pending api sa now) [Suc k..<length ?ps] (?s, ?t, u)
      = (s\<lparr>xs_pending := rs\<rparr>, update_turns api sa now u (drop (Suc k) ?ps) ?t, u)"
    and rs: "sub_slots (?ps[k := r]) rs" "\<forall>j < Suc k. rs ! j = ?ps[k := r] ! j"
    and later: "\<forall>j. Suc k \<le> j \<and> j < length ?ps \<longrightarrow>
         waits (rs ! j) = fst (update_turn api sa now u (?ps ! j) (update_turns api sa now u (drop (Suc k) (take j (?ps[k := r]))) ?t))"
    by blast
  have cons: "drop k ?ps = ?ps ! k # drop (Suc k) ?ps" using k by (simp add: Cons_nth_drop_Suc)
  have head: "drop k (take j ?ps) = ?ps ! k # drop (Suc k) (take j ?ps)" if "k < j" for j
    using that k by (subst Cons_nth_drop_Suc [symmetric]) auto
  have tail: "drop (Suc k) (take j (?ps[k := r])) = drop (Suc k) (take j ?ps)" for j by (simp add: drop_take)
  have all: "waits (rs ! j) = fst (update_turn api sa now u (?ps ! j) (update_turns api sa now u (drop k (take j ?ps)) t))"
    if j: "k \<le> j" "j < length ?ps" for j
  proof (cases "j = k")
    case True
    then have "rs ! j = r" "drop k (take j ?ps) = []" using rs(2) k by simp_all
    then show ?thesis using r True by (simp only: fold_simps)
  next
    case False
    then have "k < j" using j by simp
    then show ?thesis using later j head [of j] tail [of j] by simp
  qed
  have "fold (maintain_pending api sa now) [k..<length ?ps] (s, t, u) = (s\<lparr>xs_pending := rs\<rparr>, update_turns api sa now u (drop k ?ps) t, u)"
    using step run k by (simp add: upt_conv_Cons cons)
  moreover have "\<forall>j < k. rs ! j = ?ps ! j" using rs(2) by (simp add: less_Suc_eq)
  ultimately show ?case using sub_slots_trans [OF sub rs(1)] all by (intro exI [of _ rs]) blast
qed

subsection \<open>The subscription intents\<close>

definition touch_intent :: "u64 \<Rightarrow> 'd PendingSubscriptionRecord \<Rightarrow> 'd PendingSubscriptionRecord" where
  "touch_intent now r = (if ps_Used r \<and> retry_due now (ps_LastSendMilliseconds r) then r\<lparr>ps_LastSendMilliseconds := now\<rparr> else r)"

lemma maintain_subscription_at:
  "maintain_subscription api sa now i (s, t, u) =
     (s\<lparr>xs_pendingSubscriptions := (xs_pendingSubscriptions s)[i := touch_intent now (xs_pendingSubscriptions s ! i)]\<rparr>,
      intent_turn api sa now u (xs_pendingSubscriptions s ! i) t, u)"
proof -
  have same: "s\<lparr>xs_pendingSubscriptions := (xs_pendingSubscriptions s)[i := xs_pendingSubscriptions s ! i]\<rparr> = s" by simp
  show ?thesis
    by (auto simp: maintain_subscription_def touch_intent_def intent_turn_def retry_due_def not_le same Let_def split_beta
        SendControl_def SendRaw_def split: option.split)
qed

lemma maintain_subscription_fold:
  "k \<le> length (xs_pendingSubscriptions s) \<Longrightarrow>
   fold (maintain_subscription api sa now) [k..<length (xs_pendingSubscriptions s)] (s, t, u) =
     (s\<lparr>xs_pendingSubscriptions := take k (xs_pendingSubscriptions s) @ map (touch_intent now) (drop k (xs_pendingSubscriptions s))\<rparr>,
      intent_turns api sa now u (drop k (xs_pendingSubscriptions s)) t, u)"
proof (induction "length (xs_pendingSubscriptions s) - k" arbitrary: s t k)
  case (Suc m)
  let ?ps = "xs_pendingSubscriptions s"
  have k: "k < length ?ps" using Suc.hyps(2) by simp
  let ?s = "s\<lparr>xs_pendingSubscriptions := ?ps[k := touch_intent now (?ps ! k)]\<rparr>"
  have "drop k ?ps = ?ps ! k # drop (Suc k) ?ps" using k by (simp add: Cons_nth_drop_Suc)
  then show ?case
    using Suc.hyps(1) [of ?s "Suc k" "intent_turn api sa now u (?ps ! k) t"] Suc.hyps(2) k
    by (simp add: upt_conv_Cons maintain_subscription_at take_Suc_conv_app_nth)
qed simp

lemma intent_map_touched:
  "slot_lookup ps_Used subscription_key subscription_value (map (touch_intent now) rs) k =
     map_option (\<lambda>(subscribed, sent). (subscribed, if retry_due now sent then now else sent))
       (slot_lookup ps_Used subscription_key subscription_value rs k)"
  by (induction rs) (auto simp: touch_intent_def key_defs)

subsection \<open>The whole pass\<close>

lemma maintenance_pass:
  assumes run: "state_run api sa n s t u" and pass: "Maintain api sa now (s, t, u) = (s', t', u')"
  shows "u' = u" "t' = intent_turns api sa now u (xs_pendingSubscriptions s) (update_turns api sa now u (xs_pending s) t)"
    "xs_peers s' = xs_peers s" "dom (pending_map s') \<subseteq> dom (pending_map s)"
    "intent_map s' k = map_option (\<lambda>(subscribed, sent). (subscribed, if retry_due now sent then now else sent)) (intent_map s k)"
    "i < length (xs_pending s) \<Longrightarrow> pd_Used (xs_pending s ! i) \<Longrightarrow> pending_map s' (pending_key (xs_pending s ! i)) =
       fst (update_turn api sa now u (xs_pending s ! i) (update_turns api sa now u (take i (xs_pending s)) t))"
proof -
  have ok: "slots_ok pd_Used pending_key (xs_pending s)" using state_run_tables [OF run] by (simp add: state_tables_ok_def)
  obtain rs where rs: "fold (maintain_pending api sa now) [0..<length (xs_pending s)] (s, t, u)
      = (s\<lparr>xs_pending := rs\<rparr>, update_turns api sa now u (xs_pending s) t, u)" "sub_slots (xs_pending s) rs"
    and each: "\<forall>j < length (xs_pending s). waits (rs ! j) =
       fst (update_turn api sa now u (xs_pending s ! j) (update_turns api sa now u (take j (xs_pending s)) t))"
    using maintain_pending_fold [OF ok, of 0 api sa now t u] by auto
  have all: "s' = s\<lparr>xs_pending := rs, xs_pendingSubscriptions := map (touch_intent now) (xs_pendingSubscriptions s)\<rparr>" "u' = u"
    "t' = intent_turns api sa now u (xs_pendingSubscriptions s) (update_turns api sa now u (xs_pending s) t)"
    using pass maintain_subscription_fold [of 0 "s\<lparr>xs_pending := rs\<rparr>" api sa now "update_turns api sa now u (xs_pending s) t" u]
    by (simp_all add: Maintain_def rs(1) Let_def)
  then show "u' = u" "t' = intent_turns api sa now u (xs_pendingSubscriptions s) (update_turns api sa now u (xs_pending s) t)"
    "xs_peers s' = xs_peers s"
    "intent_map s' k = map_option (\<lambda>(subscribed, sent). (subscribed, if retry_due now sent then now else sent)) (intent_map s k)"
    by (simp_all add: intent_map_touched)
  show "dom (pending_map s') \<subseteq> dom (pending_map s)"
    using rs(2) by (auto simp: all(1) dom_slot_lookup sub_slots_def in_set_conv_nth image_iff)
  show "pending_map s' (pending_key (xs_pending s ! i)) =
       fst (update_turn api sa now u (xs_pending s ! i) (update_turns api sa now u (take i (xs_pending s)) t))"
    if "i < length (xs_pending s)" "pd_Used (xs_pending s ! i)"
    using sub_slots_lookup [OF rs(2) ok that refl] each that(1) by (simp add: all(1))
qed

text \<open>
  C34. One pass of maintenance, with everything it sends. The waiting updates have their turns in order. One that nobody
  subscribes to any more is dropped, and one that was sent less than the retry interval ago is left alone, both
  without a frame. Otherwise the current snapshot of the state, encoded, is sent to the device, and the record then waits for
  the acknowledgement of that epoch and revision from the present time on; when there is no snapshot, encoding or address or the
  transport refuses the frame, the update is dropped. Then each subscription intent that is due sends its control message and is due again one
  interval later, whatever comes of it: none is given up. Nothing else is sent, and no record is affected by the turn of another.
\<close>

theorem maintenance_of_waiting_updates:
  assumes run: "state_run api sa n s t u" and pass: "Maintain api sa now (s, t, u) = (s', t', u')"
    and i: "i < length (xs_pending s)" "pd_Used (xs_pending s ! i)"
  shows "t' = intent_turns api sa now u (xs_pendingSubscriptions s) (update_turns api sa now u (xs_pending s) t)
    \<and> pending_map s' (pending_key (xs_pending s ! i))
      = fst (update_turn api sa now u (xs_pending s ! i) (update_turns api sa now u (take i (xs_pending s)) t))
    \<and> dom (pending_map s') \<subseteq> dom (pending_map s)
    \<and> intent_map s' = (\<lambda>k. map_option (\<lambda>(subscribed, sent). (subscribed, if retry_due now sent then now else sent)) (intent_map s k))
    \<and> xs_peers s' = xs_peers s \<and> u' = u"
  using maintenance_pass [OF run pass] i by (auto simp: fun_eq_iff)


section \<open>Frames that complete an update\<close>

lemma pending_found:
  assumes "slots_ok pd_Used pending_key rs" "slot_lookup pd_Used pending_key pending_value rs (d, ty) = Some v"
  obtains i where "find_index (is_pending d ty) rs = Some i" "i < length rs" "pd_Used (rs ! i)" "pending_key (rs ! i) = (d, ty)"
    "pending_value (rs ! i) = v"
proof -
  have "\<exists>r \<in> set rs. is_pending d ty r" using assms(2) slot_lookup_None_iff [of pd_Used pending_key pending_value rs "(d, ty)"]
    by (auto simp: is_pending_key)
  then obtain i where i: "find_index (is_pending d ty) rs = Some i" using find_index_None_set [of "is_pending d ty" rs] by auto
  from find_index_Some [OF i] have at: "i < length rs" "pd_Used (rs ! i)" "pending_key (rs ! i) = (d, ty)" by (simp_all add: is_pending_key)
  show ?thesis using that [OF i at] slot_lookup_nth [OF assms(1) at(1,2), of pending_value] assms(2) at(3) by simp
qed

lemma blank_pending: "\<not> pd_Used (PendingRecord_default none)"
  by (simp add: PendingRecord_default_def)

lemma ClearPendingState_cleared:
  assumes "slots_ok pd_Used pending_key (xs_pending s)"
  shows "pending_map (ClearPendingState sa d ty s) (d, ty) = None"
proof (cases "pending_map s (d, ty)")
  case None
  then have "find_index (is_pending d ty) (xs_pending s) = None"
    by (auto simp: find_index_None_set is_pending_key slot_lookup_None_iff)
  then show ?thesis using None by (simp add: ClearPendingState_def PendingLocked_def)
next
  case (Some v)
  from pending_found [OF assms Some] obtain i where i: "find_index (is_pending d ty) (xs_pending s) = Some i" "i < length (xs_pending s)"
    "pd_Used (xs_pending s ! i)" "pending_key (xs_pending s ! i) = (d, ty)" by blast
  show ?thesis using slot_clear_at(2) [OF assms i(2,3) blank_pending, of pending_value] i
    by (simp add: ClearPendingState_def PendingLocked_def)
qed

lemma ClearPeerPending_cleared: "pending_map (ClearPeerPending sa d s) (d, ty) = None"
  using slot_clear_where(2) [where used = pd_Used and key = pending_key and Q = "\<lambda>k. fst k = d", OF blank_pending [of "sa_None sa"],
      of pending_value "xs_pending s" "(d, ty)"]
  by (simp add: ClearPeerPending_def pending_key_def)

lemma HandleStateAcknowledgement_cleared:
  assumes ok: "slots_ok pd_Used pending_key (xs_pending s)" and ack: "acknowledges sa frame u s (d, ty)"
  shows "pending_map (fst (HandleStateAcknowledgement sa frame (s, t, u))) (d, ty) = None"
proof -
  obtain a e r l where a: "sa_DecodeAcknowledgement sa (frame_data frame) = Some a" "uh_TypeId a = ty" "uh_Origin a = sa_Origin sa u"
    "pending_map s (d, ty) = Some (e, r, l)" "uh_Epoch a = e" "r \<le> uh_Revision a" "d = sa_FromMacAddress sa (rf_Source frame)"
    using ack by (auto simp: acknowledges_def)
  from pending_found [OF ok a(4)] obtain i where i: "find_index (is_pending d ty) (xs_pending s) = Some i" "i < length (xs_pending s)"
    "pd_Used (xs_pending s ! i)" "pending_key (xs_pending s ! i) = (d, ty)" "pending_value (xs_pending s ! i) = (e, r, l)" by blast
  have "pd_Epoch (xs_pending s ! i) = e" "pd_Revision (xs_pending s ! i) = r" using i(5) by (simp_all add: pending_value_def)
  then have "xs_pending (fst (HandleStateAcknowledgement sa frame (s, t, u))) = (xs_pending s)[i := PendingRecord_default (sa_None sa)]"
    using a i(1) by (simp add: HandleStateAcknowledgement_def PendingLocked_def Let_def split_beta)
  then show ?thesis using slot_clear_at(2) [OF ok i(2,3) blank_pending, of pending_value] i(4) by simp
qed

lemma HandleControl_cleared:
  assumes ok: "slots_ok pd_Used pending_key (xs_pending s)" and ends: "ends_subscription sa frame (d, ty)"
  shows "pending_map (fst (HandleControl api sa frame (s, t, u))) (d, ty) = None"
proof -
  let ?s = "snd (RememberPeer sa (rf_Source frame) s)"
  obtain c where c: "sa_DecodeControl sa (frame_data frame) = Some c" "cm_Device c = d" "d = sa_FromMacAddress sa (rf_Source frame)"
    "cm_Type c = UnsubscribeMessage \<and> cm_TypeId c = ty \<or> cm_Type c = DisconnectMessage"
    using ends by (auto simp: ends_subscription_def)
  have "fst (HandleControl api sa frame (s, t, u)) = (if cm_Type c = DisconnectMessage then ClearPeerPending sa d ?s else ClearPendingState sa d ty ?s)"
    using c by (auto simp: HandleControl_def dispatch_control_def Let_def split_beta)
  then show ?thesis using ok by (simp add: ClearPeerPending_cleared ClearPendingState_cleared)
qed

text \<open>
  C33. When a frame completes an update that waits for its acknowledgement: exactly when it is an acknowledgement from the destination
  of the update, for its state, this origin and its epoch and of a revision at least as high, or a message by which the destination
  unsubscribes from the state or disconnects. Every other frame, however malformed, leaves the update waiting, so that it is sent again.
\<close>

theorem frame_completes_update:
  assumes run: "state_run api sa n s t u" and waiting: "pending_map s (d, ty) \<noteq> None"
  shows "pending_map (fst (State_HandleFrame api sa frame (s, t, u))) (d, ty) = None \<longleftrightarrow> frame_completes sa frame u s (d, ty)"
proof
  have ok: "state_tables_ok sa n s" by (rule state_run_tables [OF run])
  then have so: "slots_ok pd_Used pending_key (xs_pending s)" by (simp add: state_tables_ok_def)
  show "frame_completes sa frame u s (d, ty)" if "pending_map (fst (State_HandleFrame api sa frame (s, t, u))) (d, ty) = None"
    using State_HandleFrame_changes [of sa n frame u s api t] ok waiting that unfolding changes_def by blast
  show "pending_map (fst (State_HandleFrame api sa frame (s, t, u))) (d, ty) = None" if "frame_completes sa frame u s (d, ty)"
    using that HandleStateAcknowledgement_cleared [OF so] HandleControl_cleared [OF so]
    by (auto simp: frame_completes_def State_HandleFrame_def split: option.splits if_splits)
qed


section \<open>Maintenance while the radio is unavailable\<close>

text \<open>A transport that refuses every frame.\<close>

definition refusing :: "('h, 'm, 'o, 'q, 'w) ESPNowTransport \<Rightarrow> bool" where
  "refusing t \<longleftrightarrow> \<not> t_initialized t \<or> t_nativeSuspended t \<or> \<not> rb_Available (t_radioBinding t)"

lemma refusing_native: "refusing (snd (native f t)) = refusing t"
  by (simp add: native_eq refusing_def)

lemma Send_refused:
  assumes "refusing t"
  shows "fst (Send api d p pl k t) = False" "refusing (snd (Send api d p pl k t))"
  using assms
  by (auto simp: Send_def SendDetailed_def finish_send_def notify_def refusing_def SendResult_default_def split_beta Let_def)

lemma resend_update_refused:
  assumes "refusing t"
  shows "fst (resend_update api sa u d ty t) = None" "refusing (snd (resend_update api sa u d ty t))"
proof -
  have now: "refusing (snd (GetMonotonicTimestampNanoseconds api t))"
    using assms by (simp add: refusing_native GetMonotonicTimestampNanoseconds_def)
  then show "fst (resend_update api sa u d ty t) = None" "refusing (snd (resend_update api sa u d ty t))"
    using assms Send_refused [OF now] by (auto simp: resend_update_def Let_def split_beta split: option.split)
qed

lemma update_turns_refusing: "refusing t \<Longrightarrow> refusing (update_turns api sa now u rs t)"
  by (induction rs arbitrary: t) (simp_all add: update_turn_def resend_update_refused(2))

text \<open>
  C36. Updates are lost, not postponed, when their retry falls into a time in which the transport refuses frames, for instance while
  the radio changes its channel: one pass of maintenance drops every waiting update whose retry is due.
\<close>

theorem retry_dropped_while_unavailable:
  assumes run: "state_run api sa n s t u" and refusing: "refusing t" and waiting: "pending_map s (d, ty) = Some (epoch, revision, sent)"
    and due: "ESPRESSIO_ESPNOW_STATE_RETRY_INTERVAL_MS \<le> now - sent"
  shows "pending_map (fst (Maintain api sa now (s, t, u))) (d, ty) = None"
proof -
  have "slots_ok pd_Used pending_key (xs_pending s)" using state_run_tables [OF run] by (simp add: state_tables_ok_def)
  from pending_found [OF this waiting] obtain i where i: "i < length (xs_pending s)" "pd_Used (xs_pending s ! i)"
    "pending_key (xs_pending s ! i) = (d, ty)" "pending_value (xs_pending s ! i) = (epoch, revision, sent)" by blast
  have "refusing (update_turns api sa now u (take i (xs_pending s)) t)" by (rule update_turns_refusing [OF refusing])
  moreover have "retry_due now (pd_LastSendMilliseconds (xs_pending s ! i))" using i(4) due by (simp add: pending_value_def retry_due_def)
  ultimately have none: "fst (update_turn api sa now u (xs_pending s ! i) (update_turns api sa now u (take i (xs_pending s)) t)) = None"
    by (simp add: update_turn_def resend_update_refused(1))
  obtain s' t' u' where all: "Maintain api sa now (s, t, u) = (s', t', u')" by (rule prod_cases3)
  show ?thesis using maintenance_pass(6) [OF run all i(1,2)] none i(3) by (simp add: all)
qed



section \<open>A concrete run\<close>

text \<open>
  One state, type 7, published by \<open>demo_self\<close> with one subscriber at \<open>demo_mac\<close>. Messages are their type byte; an
  acknowledgement carries the revision.
\<close>

definition demo_self :: MacAddress where
  "demo_self = MacAddress 2 0 0 0 0 1"

definition demo_state_api :: "(MacAddress, unit, unit) state_api" where
  "demo_state_api =
     \<lparr>sa_None = MacAddress 0 0 0 0 0 0, sa_Definitions = [7], sa_FromMacAddress = \<lambda>a. a, sa_TryGetMacAddress = \<lambda>a. Some (mac_bytes a),
      sa_IsZero = IsZero, sa_Origin = \<lambda>u. demo_self,
      sa_Snapshot = \<lambda>ty u. Some \<lparr>su_Header = \<lparr>uh_Origin = demo_self, uh_TypeId = ty, uh_Epoch = 1, uh_Revision = 5\<rparr>, su_Value = ()\<rparr>,
      sa_EncodeUpdate = \<lambda>ty update n. Some [1], sa_EncodeControl = \<lambda>c. Some [3], sa_EncodeAcknowledgement = \<lambda>h. Some [2],
      sa_GetMessageType = \<lambda>b. (case b of [] \<Rightarrow> None | x # _ \<Rightarrow>
          Some (if x = 1 then UpdateMessage else if x = 2 then AcknowledgementMessage else OtherMessage)),
      sa_DecodeUpdate = \<lambda>b. None,
      sa_DecodeAcknowledgement = \<lambda>b. (case b of [_, r] \<Rightarrow> Some \<lparr>uh_Origin = demo_self, uh_TypeId = 7, uh_Epoch = 1, uh_Revision = unat r\<rparr>
          | _ \<Rightarrow> None),
      sa_DecodeControl = \<lambda>b. None, sa_DecodeValue = \<lambda>ty b. None, sa_Read = \<lambda>ty d u. None,
      sa_Apply = \<lambda>ty d e r v u. (False, u), sa_SetAvailability = \<lambda>d a u. (True, u), sa_Subscribe = \<lambda>d ty u. u,
      sa_Unsubscribe = \<lambda>d ty u. u, sa_Remove = \<lambda>d u. u, sa_HasSubscriber = \<lambda>d ty u. d = demo_mac,
      sa_SubscribedTypes = \<lambda>d u. [], sa_HasSubscribers = \<lambda>ty u. True, sa_Subscribers = \<lambda>ty u. [demo_mac],
      sa_IsSubscribed = \<lambda>d ty u. False, sa_Subscriptions = \<lambda>u. [], sa_RegisterPublisherObserver = \<lambda>u. (True, u),
      sa_RegisterSubscriptionObserver = \<lambda>u. (True, u), sa_ReleaseObservers = \<lambda>u. u\<rparr>"

definition demo_state_open where
  "demo_state_open = snd (State_Initialize (sim_api 2) demo_state_api 2 9 0 0 (StateTransport_new, demo_transport, ()))"

definition demo_state_waiting where
  "demo_state_waiting = OnTypedStatePublished (sim_api 2) demo_state_api 7
     \<lparr>su_Header = \<lparr>uh_Origin = demo_self, uh_TypeId = 7, uh_Epoch = 1, uh_Revision = 4\<rparr>, su_Value = ()\<rparr> demo_state_open"

definition demo_state_ack :: "byte \<Rightarrow> ESPNowReceivedFrame" where
  "demo_state_ack r = ReceivedFrame_default\<lparr>rf_Source := demo_mac, rf_Protocol := 5, rf_PayloadLength := 2, rf_Payload := [2, r]\<rparr>"

lemma demo_state_run: "state_run (sim_api 2) demo_state_api 2 (fst demo_state_waiting) (fst (snd demo_state_waiting)) ()"
proof -
  have "state_run (sim_api 2) demo_state_api 2 StateTransport_new demo_transport ()" by (rule state_run.start)
  obtain r s t u where e: "State_Initialize (sim_api 2) demo_state_api 2 9 0 0 (StateTransport_new, demo_transport, ()) = (r, s, t, u)"
    by (rule prod_cases4)
  from state_run.initialize [OF \<open>state_run (sim_api 2) demo_state_api 2 StateTransport_new demo_transport ()\<close> e] have "state_run (sim_api 2) demo_state_api 2 (fst demo_state_open) (fst (snd demo_state_open)) ()"
    by (simp add: demo_state_open_def e)
  moreover have "7 \<in> set (sa_Definitions demo_state_api)" by (simp add: demo_state_api_def)
  moreover have opened: "(fst demo_state_open, fst (snd demo_state_open), ()) = demo_state_open" by (simp add: prod_eq_iff)
  moreover obtain s' t' u' where w: "demo_state_waiting = (s', t', u')" by (rule prod_cases3)
  then have "OnTypedStatePublished (sim_api 2) demo_state_api 7
     \<lparr>su_Header = \<lparr>uh_Origin = demo_self, uh_TypeId = 7, uh_Epoch = 1, uh_Revision = 4\<rparr>, su_Value = ()\<rparr>
     (fst demo_state_open, fst (snd demo_state_open), ()) = (s', t', u')"
    unfolding demo_state_waiting_def opened .
  ultimately show ?thesis unfolding w using state_run.published by fastforce
qed

lemma demo_state_waits: "pending_map (fst demo_state_waiting) (demo_mac, 7) = Some (1, 4, 0)"
  by code_simp


theorem frame_completes_update_witness:
  "pending_map (fst (State_HandleFrame (sim_api 2) demo_state_api (demo_state_ack 4) (fst demo_state_waiting, fst (snd demo_state_waiting), ()))) (demo_mac, 7) = None
   \<and> pending_map (fst (State_HandleFrame (sim_api 2) demo_state_api (demo_state_ack 3) (fst demo_state_waiting, fst (snd demo_state_waiting), ()))) (demo_mac, 7) \<noteq> None"
proof -
  have data: "frame_data (demo_state_ack r) = [2, r]" "rf_Source (demo_state_ack r) = demo_mac" for r
    by (simp_all add: demo_state_ack_def frame_data_def)
  have "frame_completes demo_state_api (demo_state_ack 4) () (fst demo_state_waiting) (demo_mac, 7)"
    "\<not> frame_completes demo_state_api (demo_state_ack 3) () (fst demo_state_waiting) (demo_mac, 7)"
    using demo_state_waits by (simp_all add: frame_completes_def acknowledges_def data demo_state_api_def)
  moreover have "pending_map (fst demo_state_waiting) (demo_mac, 7) \<noteq> None" using demo_state_waits by simp
  ultimately show ?thesis using frame_completes_update [OF demo_state_run] by blast
qed

theorem retry_dropped_while_unavailable_witness:
  "pending_map (fst (Maintain (sim_api 2) demo_state_api 100 (fst demo_state_waiting, snd (SuspendNativeForRadioTransition (sim_api 2) demo_transport), ()))) (demo_mac, 7) = None"
proof (rule retry_dropped_while_unavailable [OF _ _ demo_state_waits])
  show "state_run (sim_api 2) demo_state_api 2 (fst demo_state_waiting) (snd (SuspendNativeForRadioTransition (sim_api 2) demo_transport)) ()"
    by (rule state_run.environment [OF demo_state_run])
  show "refusing (snd (SuspendNativeForRadioTransition (sim_api 2) demo_transport))" by code_simp
  show "ESPRESSIO_ESPNOW_STATE_RETRY_INTERVAL_MS \<le> 100 - 0" by (simp add: ESPRESSIO_ESPNOW_STATE_RETRY_INTERVAL_MS_def)
qed

text \<open>The frame is the snapshot with revision 5, and the record then waits for its acknowledgement.\<close>

theorem maintenance_of_waiting_updates_witness:
  "pending_map (fst (Maintain (sim_api 2) demo_state_api 100 (fst demo_state_waiting, demo_transport, ()))) (demo_mac, 7) = Some (1, 5, 0)
   \<and> fst (snd (Maintain (sim_api 2) demo_state_api 100 (fst demo_state_waiting, demo_transport, ())))
     = snd (Send (sim_api 2) demo_mac (protocol_id StateTransport) (Some [1]) 1 (snd (GetMonotonicTimestampNanoseconds (sim_api 2) demo_transport)))"
proof -
  obtain s t u where m: "Maintain (sim_api 2) demo_state_api 100 (fst demo_state_waiting, demo_transport, ()) = (s, t, u)" by (rule prod_cases3)
  let ?rs = "xs_pending (fst demo_state_waiting)"
  have at: "0 < length ?rs" "pd_Used (?rs ! 0)" "pending_key (?rs ! 0) = (demo_mac, 7)" by code_simp+
  note c = maintenance_of_waiting_updates [OF state_run.environment [OF demo_state_run] m at(1,2), unfolded at(3)]
  have "fst (update_turn (sim_api 2) demo_state_api 100 () (?rs ! 0) (update_turns (sim_api 2) demo_state_api 100 () (take 0 ?rs) demo_transport))
      = Some (1, 5, 0)" by code_simp
  moreover have "intent_turns (sim_api 2) demo_state_api 100 () (xs_pendingSubscriptions (fst demo_state_waiting))
      (update_turns (sim_api 2) demo_state_api 100 () ?rs demo_transport)
    = snd (Send (sim_api 2) demo_mac (protocol_id StateTransport) (Some [1]) 1 (snd (GetMonotonicTimestampNanoseconds (sim_api 2) demo_transport)))"
    by code_simp
  ultimately show ?thesis using c by (simp add: m)
qed

end
