(* ===== verification/Command_Transport.thy ===== *)
theory Command_Transport
  imports Command_Endpoint Async_Handler Transport
begin

text \<open>
  \<^verbatim>\<open>src/src/ESPressio_ESPNowCommandTransport.hpp\<close>: the Command endpoint on the ESP-NOW transport. It owns an
  endpoint and an asynchronous handler and is composed here from the definitions of both and of the transport.
  The endpoint's world is the pair of the transport and the application \<open>'a\<close>; the closures given to it are
  the fields of \<open>command_env\<close>. The Command library, with its response route registry and its event queue, is
  the parameter \<open>command_library\<close> over \<open>'a\<close>; the executor's world is \<open>'a\<close> as well. There is one transport, the one
  that is threaded; \<open>cx_transport\<close> is whether the pointer to it is set. Callbacks do not call back into this object.
\<close>

section \<open>The Command library\<close>

datatype CommandResponseExpectation = ExpectCompletion | OtherExpectation
datatype CommandResponseMode = SingleResponse | OtherResponseMode

text \<open>\<^verbatim>\<open>CommandRequestEnvelope\<close>: what the application's event carries, and \<^verbatim>\<open>CommandOriginAddress\<close>.\<close>

record CommandOriginAddress =
  oa_Bytes :: "byte list"
  oa_Length :: nat

record CommandRequestEnvelope =
  qe_RequestId :: u64
  qe_TransportRoute :: u32
  qe_Address :: CommandOriginAddress
  qe_ResponseExpectation :: CommandResponseExpectation
  qe_ResponseMode :: CommandResponseMode
  qe_ResponseTimeoutMilliseconds :: u32
  qe_Raw :: CommandString

text \<open>
  \<open>cl_Assign\<close> and \<open>cl_SetRaw\<close> store an address and a raw text in their bounded fields or refuse; \<open>cl_Queue\<close> queues the
  event for an inbound command; a route identifier of zero is a refused registration.
\<close>

record ('v, 'n, 'k, 'a) command_library =
  cl_values :: "('v, 'n) command_values"
  cl_Error :: "string \<Rightarrow> 32 word \<Rightarrow> CommandResult"
  cl_complete :: "'k \<Rightarrow> CommandResult \<Rightarrow> 'a \<Rightarrow> 'a"
  cl_policy :: "('v, 'n) ESPNowCommandInvocationContext \<Rightarrow> 'a \<Rightarrow> CommandResult \<times> 'a"
  cl_observe :: "('v, 'n) ESPNowCommandInvocationContext \<Rightarrow> CommandResult \<Rightarrow> 'a \<Rightarrow> 'a"
  cl_Invoke :: "('v, 'n) CommandInvocation \<Rightarrow> 'a \<Rightarrow> CommandResult \<times> 'a"
  cl_Assign :: "byte list \<Rightarrow> CommandOriginAddress option"
  cl_SetRaw :: "CommandString \<Rightarrow> CommandString option"
  cl_Queue :: "CommandRequestEnvelope \<Rightarrow> 'a \<Rightarrow> 'a"
  cl_MakeRoute :: "'a \<Rightarrow> bool \<times> 'a"
  cl_RegisterRoute :: "'a \<Rightarrow> u32 \<times> 'a"
  cl_UnregisterRoute :: "u32 \<Rightarrow> 'a \<Rightarrow> 'a"


section \<open>State\<close>

record 'p ESPNowCommandTransportConfig =
  cg_Endpoint :: ESPNowCommandEndpointConfig
  cg_AsyncHandler :: "'p AsyncConfiguration"
  cg_Protocol :: byte

definition CommandTransportConfig_default :: "'p \<Rightarrow> 'p ESPNowCommandTransportConfig" where
  "CommandTransportConfig_default reject =
     \<lparr>cg_Endpoint = CommandEndpointConfig_default,
      cg_AsyncHandler = (AsyncConfiguration_default reject)\<lparr>ac_Name := ''espnowCommand''\<rparr>,
      cg_Protocol = protocol_id CommandTransport\<rparr>"

text \<open>\<open>'r\<close> is the closure of the asynchronous handler, \<open>'x\<close> the executor.\<close>

record ('v, 'n, 'k, 'r, 'x, 'p) ESPNowCommandTransport =
  cx_transport :: bool
  cx_config :: "'p ESPNowCommandTransportConfig"
  cx_endpoint :: "('v, 'n, 'k) ESPNowCommandEndpoint"
  cx_asyncHandler :: "('r, 'x, 'p) ESPNowAsyncProtocolHandler"
  cx_responseRoute :: bool
  cx_responseRouteId :: u32
  cx_initialized :: bool

definition CommandTransport_new :: "'p \<Rightarrow> ('v, 'n, 'k, 'r, 'x, 'p) ESPNowCommandTransport" where
  "CommandTransport_new reject =
     \<lparr>cx_transport = False, cx_config = CommandTransportConfig_default reject, cx_endpoint = CommandEndpoint_new,
      cx_asyncHandler = AsyncProtocolHandler_new reject, cx_responseRoute = False, cx_responseRouteId = 0, cx_initialized = False\<rparr>"

text \<open>The object, the transport and the application.\<close>

type_synonym ('v, 'n, 'k, 'r, 'x, 'p, 'h, 'm, 'o, 'q, 'w, 'a) command_node =
  "('v, 'n, 'k, 'r, 'x, 'p) ESPNowCommandTransport \<times> ('h, 'm, 'o, 'q, 'w) ESPNowTransport \<times> 'a"


section \<open>The closures given to the endpoint\<close>

fun ToPeerAddress :: "MacAddress \<Rightarrow> ESPNowCommandPeerAddress" where
  "ToPeerAddress (MacAddress a b c d e f) = PeerAddress a b c d e f"

definition ToMacAddress :: "ESPNowCommandPeerAddress \<Rightarrow> MacAddress" where
  "ToMacAddress address = MacAddress_new (Some (peer_bytes address))"

definition send_command ::
  "('q, 'w) native_api \<Rightarrow> ('v, 'n, 'k, 'r, 'x, 'p) ESPNowCommandTransport \<Rightarrow> ESPNowCommandPeerAddress \<Rightarrow> byte list
     \<Rightarrow> ('h, 'm, 'o, 'q, 'w) ESPNowTransport \<times> 'a \<Rightarrow> bool \<times> ('h, 'm, 'o, 'q, 'w) ESPNowTransport \<times> 'a" where
  "send_command api c peer data = (\<lambda>(t, a).
     if \<not> cx_transport c then (False, t, a)
     else let (sent, t) = Send api (ToMacAddress peer) (cg_Protocol (cx_config c)) (Some data) (length data) t in (sent, t, a))"

definition queue_inbound_request ::
  "('v, 'n, 'k, 'a) command_library \<Rightarrow> ('v, 'n, 'k, 'r, 'x, 'p) ESPNowCommandTransport \<Rightarrow> ('v, 'n) ESPNowCommandInvocationContext
     \<Rightarrow> 'a \<Rightarrow> bool \<times> 'a" where
  "queue_inbound_request lib c context a =
     (case cl_Assign lib (peer_bytes (md_RemotePeer (ic_Metadata context))) of
        None \<Rightarrow> (False, a)
      | Some address \<Rightarrow>
          (case cl_SetRaw lib (ci_raw (ic_Invocation context)) of
             None \<Rightarrow> (False, a)
           | Some raw \<Rightarrow>
               (True, cl_Queue lib
                  \<lparr>qe_RequestId = md_RequestID (ic_Metadata context), qe_TransportRoute = cx_responseRouteId c, qe_Address = address,
                   qe_ResponseExpectation = ExpectCompletion, qe_ResponseMode = SingleResponse,
                   qe_ResponseTimeoutMilliseconds = ucast (cc_RequestTimeoutMilliseconds (cg_Endpoint (cx_config c))), qe_Raw = raw\<rparr> a)))"

definition command_env ::
  "('q, 'w) native_api \<Rightarrow> ('v, 'n, 'k, 'a) command_library \<Rightarrow> ('v, 'n, 'k, 'r, 'x, 'p) ESPNowCommandTransport
     \<Rightarrow> ('v, 'n, 'k, ('h, 'm, 'o, 'q, 'w) ESPNowTransport \<times> 'a) endpoint_env" where
  "command_env api lib c =
     \<lparr>ev_values = cl_values lib, ev_Error = cl_Error lib, ev_send = send_command api c,
      ev_complete = \<lambda>k result (t, a). (t, cl_complete lib k result a),
      ev_policy = \<lambda>context (t, a). (let (result, a) = cl_policy lib context a in (result, t, a)),
      ev_observe = \<lambda>context result (t, a). (t, cl_observe lib context result a),
      ev_inbound = \<lambda>context (t, a). (let (accepted, a) = queue_inbound_request lib c context a in (accepted, t, a)),
      ev_Invoke = \<lambda>invocation (t, a). (let (result, a) = cl_Invoke lib invocation a in (result, t, a))\<rparr>"

text \<open>An operation of the endpoint under the endpoint lock.\<close>

definition on_endpoint ::
  "(('v, 'n, 'k) ESPNowCommandEndpoint \<times> 'u \<Rightarrow> ('v, 'n, 'k) ESPNowCommandEndpoint \<times> 'u)
     \<Rightarrow> ('v, 'n, 'k, 'r, 'x, 'p) ESPNowCommandTransport \<times> 'u \<Rightarrow> ('v, 'n, 'k, 'r, 'x, 'p) ESPNowCommandTransport \<times> 'u" where
  "on_endpoint f = (\<lambda>(c, u). let (e, u) = f (cx_endpoint c, u) in (c\<lparr>cx_endpoint := e\<rparr>, u))"


section \<open>Receiving and maintenance\<close>

text \<open>The closures registered with the transport and the asynchronous handler: hand off, process, maintain.\<close>

definition submit_command_frame ::
  "('x, 'p, 'a) executor_api \<Rightarrow> ESPNowReceivedFrame \<Rightarrow> ('v, 'n, 'k, 'r, 'x, 'p) ESPNowCommandTransport
     \<Rightarrow> ('v, 'n, 'k, 'r, 'x, 'p) ESPNowCommandTransport" where
  "submit_command_frame ex frame c = c\<lparr>cx_asyncHandler := snd (Submit ex frame (cx_asyncHandler c))\<rparr>"

definition receive_command_frame ::
  "('q, 'w) native_api \<Rightarrow> ('v, 'n, 'k, 'a) command_library \<Rightarrow> ESPNowReceivedFrame
     \<Rightarrow> ('v, 'n, 'k, 'r, 'x, 'p, 'h, 'm, 'o, 'q, 'w, 'a) command_node \<Rightarrow> ('v, 'n, 'k, 'r, 'x, 'p, 'h, 'm, 'o, 'q, 'w, 'a) command_node" where
  "receive_command_frame api lib frame = (\<lambda>(c, t, a).
     if \<not> cx_transport c then (c, t, a)
     else
       let (now, t) = GetMonotonicTimestampNanoseconds api t in
       on_endpoint (\<lambda>s. snd (Receive (command_env api lib c) (ToPeerAddress (rf_Source frame)) (Some (rf_Payload frame))
              (unat (rf_PayloadLength frame)) (now div 1000000) s)) (c, t, a))"

definition maintain_commands ::
  "('q, 'w) native_api \<Rightarrow> ('v, 'n, 'k, 'a) command_library \<Rightarrow> u64
     \<Rightarrow> ('v, 'n, 'k, 'r, 'x, 'p, 'h, 'm, 'o, 'q, 'w, 'a) command_node \<Rightarrow> ('v, 'n, 'k, 'r, 'x, 'p, 'h, 'm, 'o, 'q, 'w, 'a) command_node" where
  "maintain_commands api lib now = (\<lambda>(c, u). on_endpoint (Endpoint_Update (command_env api lib c) now) (c, u))"


section \<open>Lifecycle\<close>

text \<open>\<open>self\<close> is the owner of the maintenance handler.\<close>

definition CommandTransport_Shutdown ::
  "('q, 'w) native_api \<Rightarrow> ('x, 'p, 'a) executor_api \<Rightarrow> ('v, 'n, 'k, 'a) command_library \<Rightarrow> 'o
     \<Rightarrow> ('v, 'n, 'k, 'r, 'x, 'p, 'h, 'm, 'o, 'q, 'w, 'a) command_node \<Rightarrow> ('v, 'n, 'k, 'r, 'x, 'p, 'h, 'm, 'o, 'q, 'w, 'a) command_node" where
  "CommandTransport_Shutdown api ex lib self = (\<lambda>(c, t, a).
     let t = (if cx_transport c \<and> cx_initialized c
              then UnregisterProtocolHandler (cg_Protocol (cx_config c)) (UnregisterMaintenanceHandler (Some self) t) else t);
         (h, a) = Async_Shutdown ex (cx_asyncHandler c, a); c = c\<lparr>cx_asyncHandler := h\<rparr>;
         (c, a) = (if cx_responseRouteId c \<noteq> 0
                   then (c\<lparr>cx_responseRouteId := 0\<rparr>, cl_UnregisterRoute lib (cx_responseRouteId c) a) else (c, a));
         c = c\<lparr>cx_responseRoute := False\<rparr>;
         (c, t, a) = on_endpoint (Endpoint_Shutdown (command_env api lib c)) (c, t, a) in
     (c\<lparr>cx_transport := False, cx_initialized := False\<rparr>, t, a))"

text \<open>
  The stages of \<^verbatim>\<open>Initialize\<close>: the endpoint, the response route, the asynchronous handler, and the handlers of the
  transport. \<open>asyncClosure\<close>, \<open>handler\<close> and \<open>maintenance\<close> are the closures. \<open>None\<close> is an exception out of a registration.
\<close>

definition initialize_endpoint ::
  "('q, 'w) native_api \<Rightarrow> ('v, 'n, 'k, 'a) command_library
     \<Rightarrow> ('v, 'n, 'k, 'r, 'x, 'p, 'h, 'm, 'o, 'q, 'w, 'a) command_node \<Rightarrow> bool \<times> ('v, 'n, 'k, 'r, 'x, 'p, 'h, 'm, 'o, 'q, 'w, 'a) command_node" where
  "initialize_endpoint api lib = (\<lambda>(c, u).
     let (ready, e, u) = Endpoint_Initialize (command_env api lib c) (cg_Endpoint (cx_config c)) True (cx_endpoint c, u);
         c = c\<lparr>cx_endpoint := e\<rparr> in
     (ready, if ready then c else c\<lparr>cx_transport := False\<rparr>, u))"

definition register_route ::
  "('q, 'w) native_api \<Rightarrow> ('v, 'n, 'k, 'a) command_library
     \<Rightarrow> ('v, 'n, 'k, 'r, 'x, 'p, 'h, 'm, 'o, 'q, 'w, 'a) command_node \<Rightarrow> bool \<times> ('v, 'n, 'k, 'r, 'x, 'p, 'h, 'm, 'o, 'q, 'w, 'a) command_node" where
  "register_route api lib = (\<lambda>(c, t, a).
     let (made, a) = cl_MakeRoute lib a in
     if \<not> made
     then let (c, t, a) = on_endpoint (Endpoint_Shutdown (command_env api lib c)) (c, t, a) in (False, c\<lparr>cx_transport := False\<rparr>, t, a)
     else
       let (routeId, a) = cl_RegisterRoute lib a; c = c\<lparr>cx_responseRoute := True, cx_responseRouteId := routeId\<rparr> in
       if routeId = 0
       then let (c, t, a) = on_endpoint (Endpoint_Shutdown (command_env api lib c)) (c, t, a) in
            (False, c\<lparr>cx_responseRoute := False, cx_transport := False\<rparr>, t, a)
       else (True, c\<lparr>cx_endpoint := SetInboundRequestHandler True (cx_endpoint c)\<rparr>, t, a))"

definition register_with_transport ::
  "('q, 'w) native_api \<Rightarrow> ('x, 'p, 'a) executor_api \<Rightarrow> ('v, 'n, 'k, 'a) command_library \<Rightarrow> 'o \<Rightarrow> 'h \<Rightarrow> 'm
     \<Rightarrow> ('v, 'n, 'k, 'r, 'x, 'p, 'h, 'm, 'o, 'q, 'w, 'a) command_node
     \<Rightarrow> bool option \<times> ('v, 'n, 'k, 'r, 'x, 'p, 'h, 'm, 'o, 'q, 'w, 'a) command_node" where
  "register_with_transport api ex lib self handler maintenance = (\<lambda>(c, t, a).
     let (registered, t) = RegisterProtocolHandler api (cg_Protocol (cx_config c)) (Some handler) t in
     if registered = None then (None, c, t, a)
     else if registered = Some False then (Some False, CommandTransport_Shutdown api ex lib self (c, t, a))
     else
       let (registered, t) = RegisterMaintenanceHandler api (Some self) (Some maintenance) t in
       if registered = None then (None, c, t, a)
       else if registered = Some False
       then (Some False, CommandTransport_Shutdown api ex lib self (c, UnregisterProtocolHandler (cg_Protocol (cx_config c)) t, a))
       else (Some True, c\<lparr>cx_initialized := True\<rparr>, t, a))"

definition CommandTransport_Initialize ::
  "('q, 'w) native_api \<Rightarrow> ('x, 'p, 'a) executor_api \<Rightarrow> ('v, 'n, 'k, 'a) command_library \<Rightarrow> 'o \<Rightarrow> 'r \<Rightarrow> 'h \<Rightarrow> 'm
     \<Rightarrow> 'p ESPNowCommandTransportConfig \<Rightarrow> ('v, 'n, 'k, 'r, 'x, 'p, 'h, 'm, 'o, 'q, 'w, 'a) command_node
     \<Rightarrow> bool option \<times> ('v, 'n, 'k, 'r, 'x, 'p, 'h, 'm, 'o, 'q, 'w, 'a) command_node" where
  "CommandTransport_Initialize api ex lib self asyncClosure handler maintenance config s =
     (let (c, t, a) = CommandTransport_Shutdown api ex lib self s in
      if \<not> t_initialized t then (Some False, c, t, a)
      else
        let config = (if cc_MaximumProtocolPayloadBytes (cg_Endpoint config) > 242
                      then config\<lparr>cg_Endpoint := (cg_Endpoint config)\<lparr>cc_MaximumProtocolPayloadBytes := 242\<rparr>\<rparr> else config);
            c = c\<lparr>cx_transport := True, cx_config := config\<rparr>;
            (ready, c, t, a) = initialize_endpoint api lib (c, t, a) in
        if \<not> ready then (Some False, c, t, a)
        else
          let (routed, c, t, a) = register_route api lib (c, t, a) in
          if \<not> routed then (Some False, c, t, a)
          else
            let (started, h, a) = Async_Initialize ex (Some asyncClosure) (cg_AsyncHandler config) (cx_asyncHandler c, a);
                c = c\<lparr>cx_asyncHandler := h\<rparr> in
            if \<not> started then (Some False, CommandTransport_Shutdown api ex lib self (c, t, a))
            else register_with_transport api ex lib self handler maintenance (c, t, a))"


section \<open>Requests, responses and settings\<close>

definition CommandTransport_Invoke ::
  "('q, 'w) native_api \<Rightarrow> ('v, 'n, 'k, 'a) command_library \<Rightarrow> MacAddress \<Rightarrow> ('v, 'n) CommandInvocation \<Rightarrow> 'k option
     \<Rightarrow> ('v, 'n, 'k, 'r, 'x, 'p, 'h, 'm, 'o, 'q, 'w, 'a) command_node
     \<Rightarrow> u64 option \<times> ('v, 'n, 'k, 'r, 'x, 'p, 'h, 'm, 'o, 'q, 'w, 'a) command_node" where
  "CommandTransport_Invoke api lib peer invocation completion = (\<lambda>(c, t, a).
     if \<not> cx_initialized c \<or> \<not> cx_transport c then (None, c, t, a)
     else
       let (now, t) = GetMonotonicTimestampNanoseconds api t;
           (requestID, e, t, a) = Invoke (command_env api lib c) (ToPeerAddress peer) invocation completion (now div 1000000)
              (cx_endpoint c, t, a) in
       (requestID, c\<lparr>cx_endpoint := e\<rparr>, t, a))"

definition CommandTransport_Update ::
  "('q, 'w) native_api \<Rightarrow> ('v, 'n, 'k, 'a) command_library
     \<Rightarrow> ('v, 'n, 'k, 'r, 'x, 'p, 'h, 'm, 'o, 'q, 'w, 'a) command_node \<Rightarrow> ('v, 'n, 'k, 'r, 'x, 'p, 'h, 'm, 'o, 'q, 'w, 'a) command_node" where
  "CommandTransport_Update api lib = (\<lambda>(c, t, a).
     if \<not> cx_initialized c \<or> \<not> cx_transport c then (c, t, a)
     else let (now, t) = GetMonotonicTimestampNanoseconds api t in maintain_commands api lib (now div 1000000) (c, t, a))"

definition CommandTransport_SetPolicy ::
  "bool \<Rightarrow> ('v, 'n, 'k, 'r, 'x, 'p) ESPNowCommandTransport \<Rightarrow> ('v, 'n, 'k, 'r, 'x, 'p) ESPNowCommandTransport" where
  "CommandTransport_SetPolicy policy c = c\<lparr>cx_endpoint := SetPolicy policy (cx_endpoint c)\<rparr>"

definition CommandTransport_SetResultObserver ::
  "bool \<Rightarrow> ('v, 'n, 'k, 'r, 'x, 'p) ESPNowCommandTransport \<Rightarrow> ('v, 'n, 'k, 'r, 'x, 'p) ESPNowCommandTransport" where
  "CommandTransport_SetResultObserver observer c = c\<lparr>cx_endpoint := SetResultObserver observer (cx_endpoint c)\<rparr>"

definition CommandTransport_CompleteInbound ::
  "('q, 'w) native_api \<Rightarrow> ('v, 'n, 'k, 'a) command_library \<Rightarrow> ESPNowCommandPeerAddress \<Rightarrow> CommandResponseEnvelope
     \<Rightarrow> ('v, 'n, 'k, 'r, 'x, 'p, 'h, 'm, 'o, 'q, 'w, 'a) command_node
     \<Rightarrow> bool \<times> ('v, 'n, 'k, 'r, 'x, 'p, 'h, 'm, 'o, 'q, 'w, 'a) command_node" where
  "CommandTransport_CompleteInbound api lib peer response = (\<lambda>(c, t, a).
     if \<not> cx_initialized c \<or> \<not> cx_transport c then (False, c, t, a)
     else
       let (now, t) = GetMonotonicTimestampNanoseconds api t;
           (sent, e, t, a) = CompleteInbound (command_env api lib c) peer response (now div 1000000) (cx_endpoint c, t, a) in
       (sent, c\<lparr>cx_endpoint := e\<rparr>, t, a))"

text \<open>The response route; \<open>cx_responseRoute\<close> is whether it still has its owner.\<close>

definition SendCommandResponse ::
  "('q, 'w) native_api \<Rightarrow> ('v, 'n, 'k, 'a) command_library \<Rightarrow> CommandOriginAddress \<Rightarrow> CommandResponseEnvelope
     \<Rightarrow> ('v, 'n, 'k, 'r, 'x, 'p, 'h, 'm, 'o, 'q, 'w, 'a) command_node
     \<Rightarrow> bool \<times> ('v, 'n, 'k, 'r, 'x, 'p, 'h, 'm, 'o, 'q, 'w, 'a) command_node" where
  "SendCommandResponse api lib destination response s =
     (if \<not> cx_responseRoute (fst s) \<or> oa_Length destination \<noteq> 6 then (False, s)
      else
        case take 6 (oa_Bytes destination) of
          [a, b, c, d, e, f] \<Rightarrow> CommandTransport_CompleteInbound api lib (PeerAddress a b c d e f) response s
        | _ \<Rightarrow> (False, s))"

end
