(* ===== verification/Command_Transport_Props.thy ===== *)
theory Command_Transport_Props
  imports Command_Transport Command_Exchange Async_Props Transport_Theorems
begin

text \<open>
  The Command transport as the composition of endpoint, asynchronous handler and transport: initialization is all or
  nothing, and what an inbound request becomes when it is handed to the application.
\<close>

section \<open>The transport under the endpoint's operations\<close>

lemma complete_with_transport: "fst (complete_with (command_env api lib c) k r (t, a)) = t"
  by (simp add: complete_with_def command_env_def split: option.split)

lemma fail_all_transport: "fst (fail_all (command_env api lib c) ps w) = fst w"
proof (induction ps arbitrary: w)
  case (Cons p ps)
  then show ?case by (cases w) (simp add: complete_with_transport)
qed simp

lemma Endpoint_Shutdown_fields:
  "\<not> ce_initialized (fst (Endpoint_Shutdown env s))" "\<not> ce_inboundHandler (fst (Endpoint_Shutdown env s))"
  by (simp_all add: Endpoint_Shutdown_def split_beta)

lemma Endpoint_Shutdown_transport: "fst (snd (Endpoint_Shutdown (command_env api lib c) (e, t, a))) = t"
  by (simp add: Endpoint_Shutdown_def fail_all_transport)

text \<open>What the shutdown leaves; the transport loses exactly the two registrations of a running object.\<close>

definition unregistered ::
  "('v, 'n, 'k, 'r, 'x, 'p) ESPNowCommandTransport \<Rightarrow> 'o \<Rightarrow> ('h, 'm, 'o, 'q, 'w) ESPNowTransport \<Rightarrow> ('h, 'm, 'o, 'q, 'w) ESPNowTransport" where
  "unregistered c self t =
     (if cx_transport c \<and> cx_initialized c
      then UnregisterProtocolHandler (cg_Protocol (cx_config c)) (UnregisterMaintenanceHandler (Some self) t) else t)"

definition closed_down :: "('v, 'n, 'k, 'r, 'x, 'p) ESPNowCommandTransport \<Rightarrow> bool" where
  "closed_down c \<longleftrightarrow> \<not> cx_transport c \<and> \<not> cx_initialized c \<and> \<not> cx_responseRoute c \<and> cx_responseRouteId c = 0
     \<and> \<not> ce_initialized (cx_endpoint c) \<and> ah_executor (cx_asyncHandler c) = None"

lemma Async_Shutdown_executor: "ah_executor (fst (Async_Shutdown ex s)) = None"
proof -
  have "ah_executor (fold ReleaseFrame ds a) = ah_executor a" for ds and a :: "('a, 'b, 'c) ESPNowAsyncProtocolHandler"
    by (induction ds arbitrary: a) (simp_all add: ReleaseFrame_def)
  then show ?thesis by (simp add: Async_Shutdown_def clear_pool_def Let_def split_beta split: option.split)
qed

lemma CommandTransport_Shutdown_spec:
  "closed_down (fst (CommandTransport_Shutdown api ex lib self (c, t, a)))"
  "fst (snd (CommandTransport_Shutdown api ex lib self (c, t, a))) = unregistered c self t"
  by (simp_all add: CommandTransport_Shutdown_def closed_down_def unregistered_def on_endpoint_def Let_def split_beta
      Endpoint_Shutdown_fields Endpoint_Shutdown_transport Async_Shutdown_executor)

lemma unregistered_idle: "\<not> cx_initialized c \<Longrightarrow> unregistered c self t = t"
  by (simp add: unregistered_def)


section \<open>Registrations\<close>

lemma unregistered_ok: "transport_ok t \<Longrightarrow> transport_ok (unregistered c self t)"
  by (simp add: unregistered_def UnregisterProtocolHandler_ok UnregisterMaintenanceHandler_ok)

lemma RegisterProtocolHandler_maps:
  assumes ok: "transport_ok t" "t_initialized t" and run: "RegisterProtocolHandler api p (Some h) t = (r, t')"
  shows "transport_ok t'" "t_initialized t'" "maintenance_map (t_maintenanceHandlers t') = maintenance_map (t_maintenanceHandlers t)"
    "handler_map (t_handlers t') = (if r = Some True then (handler_map (t_handlers t))(p \<mapsto> h) else handler_map (t_handlers t))"
proof -
  have "storage_ready t" "handlers_ok (t_handlers t)" using ok by (simp_all add: transport_inv_defs)
  then show "maintenance_map (t_maintenanceHandlers t') = maintenance_map (t_maintenanceHandlers t)" "t_initialized t'"
    "handler_map (t_handlers t') = (if r = Some True then (handler_map (t_handlers t))(p \<mapsto> h) else handler_map (t_handlers t))"
    using run ok(2) store_handler_spec [of "t_handlers t" p h]
    by (auto simp: RegisterProtocolHandler_def EnsureRuntimeStorage_id native_eq Let_def split_beta split: option.splits if_splits)
  show "transport_ok t'" using RegisterProtocolHandler_ok [OF ok(1), of api p "Some h"] run by simp
qed

definition maintenance_full :: "'o \<Rightarrow> ('h, 'm, 'o, 'q, 'w) ESPNowTransport \<Rightarrow> bool" where
  "maintenance_full ow t \<longleftrightarrow> ow \<notin> dom (maintenance_map (t_maintenanceHandlers t))
     \<and> card (dom (maintenance_map (t_maintenanceHandlers t))) = ESPRESSIO_ESPNOW_MAX_MAINTENANCE_HANDLERS"

lemma RegisterMaintenanceHandler_maps:
  assumes ok: "transport_ok t" "t_initialized t" and run: "RegisterMaintenanceHandler api (Some ow) (Some m) t = (r, t')"
  shows "transport_ok t'" "handler_map (t_handlers t') = handler_map (t_handlers t)"
    "maintenance_map (t_maintenanceHandlers t') =
      (if r = Some True then (maintenance_map (t_maintenanceHandlers t))(ow \<mapsto> m) else maintenance_map (t_maintenanceHandlers t))"
    "r = Some False \<Longrightarrow> maintenance_full ow t"
proof -
  have mo: "storage_ready t" "maintenance_ok (t_maintenanceHandlers t)" using ok by (simp_all add: transport_inv_defs)
  then show "handler_map (t_handlers t') = handler_map (t_handlers t)"
    "maintenance_map (t_maintenanceHandlers t') =
      (if r = Some True then (maintenance_map (t_maintenanceHandlers t))(ow \<mapsto> m) else maintenance_map (t_maintenanceHandlers t))"
    using run store_maintenance_spec [of "t_maintenanceHandlers t" ow m]
    by (auto simp: RegisterMaintenanceHandler_def EnsureRuntimeStorage_id native_eq Let_def split_beta split: option.splits if_splits)
  show "transport_ok t'" using RegisterMaintenanceHandler_ok [OF ok(1), of api "Some ow" "Some m"] run by simp
  have "store_maintenance ow m (t_maintenanceHandlers t) = None" if "r = Some False"
    using run that mo(1)
    by (auto simp: RegisterMaintenanceHandler_def EnsureRuntimeStorage_id native_eq Let_def split_beta split: option.splits if_splits)
  then show "r = Some False \<Longrightarrow> maintenance_full ow t"
    using maintenance_slots.put_None [OF mo(2)] mo(1) by (simp add: store_maintenance_table maintenance_full_def storage_ready_def)
qed

lemma UnregisterProtocolHandler_map:
  "transport_ok t \<Longrightarrow> handler_map (t_handlers (UnregisterProtocolHandler p t)) = (handler_map (t_handlers t))(p := None)"
  "t_maintenanceHandlers (UnregisterProtocolHandler p t) = t_maintenanceHandlers t"
  using remove_handler_spec [OF transport_ok_tables(1), of t p] by (simp_all add: UnregisterProtocolHandler_def)



section \<open>Routes and executors\<close>

text \<open>
  The route registry and the executors live in the application's state: \<open>routes\<close> reads the registered identifiers
  and \<open>tasks\<close> the number of executors. The documented behaviour: a registration enters a new identifier or returns zero,
  unregistering removes it, initializing an executor creates one and stopping it ends it, and the other calls change neither.
\<close>

definition keeps :: "('a \<Rightarrow> u32 set) \<Rightarrow> ('a \<Rightarrow> int) \<Rightarrow> 'a \<Rightarrow> 'a \<Rightarrow> bool" where
  "keeps routes tasks a a' \<longleftrightarrow> routes a' = routes a \<and> tasks a' = tasks a"

definition resource_contract ::
  "('x, 'p, 'a) executor_api \<Rightarrow> ('v, 'n, 'k, 'a) command_library \<Rightarrow> ('a \<Rightarrow> u32 set) \<Rightarrow> ('a \<Rightarrow> int) \<Rightarrow> bool" where
  "resource_contract ex lib routes tasks \<longleftrightarrow>
     (\<forall>a. tasks (snd (cl_RegisterRoute lib a)) = tasks a \<and>
        (if fst (cl_RegisterRoute lib a) = 0 then routes (snd (cl_RegisterRoute lib a)) = routes a
         else fst (cl_RegisterRoute lib a) \<notin> routes a
           \<and> routes (snd (cl_RegisterRoute lib a)) = insert (fst (cl_RegisterRoute lib a)) (routes a)))
     \<and> (\<forall>i a. routes (cl_UnregisterRoute lib i a) = routes a - {i} \<and> tasks (cl_UnregisterRoute lib i a) = tasks a)
     \<and> (\<forall>a. keeps routes tasks a (snd (cl_MakeRoute lib a)))
     \<and> (\<forall>k result a. keeps routes tasks a (cl_complete lib k result a))
     \<and> (\<forall>a. keeps routes tasks a (snd (ex_Alloc ex a)))
     \<and> (\<forall>c a. routes (snd (ex_Initialize ex c a)) = routes a
        \<and> tasks (snd (ex_Initialize ex c a)) = (if fst (ex_Initialize ex c a) = None then tasks a else tasks a + 1))
     \<and> (\<forall>x a. keeps routes tasks a (snd (snd (ex_Start ex x a))))
     \<and> (\<forall>x a. routes (snd (ex_Stop ex x a)) = routes a \<and> tasks (snd (ex_Stop ex x a)) = tasks a - 1)"

text \<open>What the shutdown of an object gives back.\<close>

definition left_routes :: "('v, 'n, 'k, 'r, 'x, 'p) ESPNowCommandTransport \<Rightarrow> u32 set \<Rightarrow> u32 set" where
  "left_routes c R = (if cx_responseRouteId c = 0 then R else R - {cx_responseRouteId c})"

definition left_tasks :: "('r, 'x, 'p) ESPNowAsyncProtocolHandler \<Rightarrow> int \<Rightarrow> int" where
  "left_tasks h n = (if ah_executor h = None then n else n - 1)"

lemma fail_all_resources:
  assumes "resource_contract ex lib routes tasks"
  shows "routes (snd (fail_all (command_env api lib c) ps w)) = routes (snd w)"
    "tasks (snd (fail_all (command_env api lib c) ps w)) = tasks (snd w)"
proof -
  have one: "routes (snd (complete_with (command_env api lib c) k r w)) = routes (snd w)"
    "tasks (snd (complete_with (command_env api lib c) k r w)) = tasks (snd w)" for k r w
    using assms by (cases w; auto simp: resource_contract_def keeps_def complete_with_def command_env_def split: option.split)+
  show "routes (snd (fail_all (command_env api lib c) ps w)) = routes (snd w)"
    "tasks (snd (fail_all (command_env api lib c) ps w)) = tasks (snd w)"
    by (induction ps arbitrary: w) (simp_all add: one)
qed

lemma Endpoint_Shutdown_resources:
  assumes "resource_contract ex lib routes tasks"
  shows "routes (snd (snd (Endpoint_Shutdown (command_env api lib c) (e, t, a)))) = routes a"
    "tasks (snd (snd (Endpoint_Shutdown (command_env api lib c) (e, t, a)))) = tasks a"
  by (simp_all add: Endpoint_Shutdown_def fail_all_resources [OF assms])

lemma Async_Shutdown_resources:
  assumes "resource_contract ex lib routes tasks"
  shows "routes (snd (Async_Shutdown ex (h, a))) = routes a" "tasks (snd (Async_Shutdown ex (h, a))) = left_tasks h (tasks a)"
  using assms by (auto simp: Async_Shutdown_def resource_contract_def left_tasks_def Let_def split_beta split: option.split)

lemma CommandTransport_Shutdown_resources:
  assumes con: "resource_contract ex lib routes tasks"
  shows "routes (snd (snd (CommandTransport_Shutdown api ex lib self (c, t, a)))) = left_routes c (routes a)"
    "tasks (snd (snd (CommandTransport_Shutdown api ex lib self (c, t, a)))) = left_tasks (cx_asyncHandler c) (tasks a)"
proof -
  have un: "routes (cl_UnregisterRoute lib i x) = routes x - {i}" "tasks (cl_UnregisterRoute lib i x) = tasks x" for i x
    using con by (simp_all add: resource_contract_def)
  show "routes (snd (snd (CommandTransport_Shutdown api ex lib self (c, t, a)))) = left_routes c (routes a)"
    "tasks (snd (snd (CommandTransport_Shutdown api ex lib self (c, t, a)))) = left_tasks (cx_asyncHandler c) (tasks a)"
    using Async_Shutdown_resources [OF con, of "cx_asyncHandler c" a]
    by (simp_all add: CommandTransport_Shutdown_def on_endpoint_def Let_def split_beta left_routes_def Endpoint_Shutdown_resources [OF con] un)
qed

lemma initialize_endpoint_keeps:
  assumes con: "resource_contract ex lib routes tasks"
  shows "keeps routes tasks a (snd (snd (snd (initialize_endpoint api lib (c, t, a)))))"
  by (simp add: initialize_endpoint_def Endpoint_Initialize_def Let_def split_beta keeps_def Endpoint_Shutdown_resources [OF con])

lemma register_route_resources:
  assumes con: "resource_contract ex lib routes tasks" and run: "register_route api lib (c, t, a) = (routed, c', t', a')"
  shows "tasks a' = tasks a" "routed \<Longrightarrow> cx_responseRouteId c' \<notin> routes a \<and> routes a' = insert (cx_responseRouteId c') (routes a)"
    "\<not> routed \<Longrightarrow> routes a' = routes a"
proof -
  have mk: "routes (snd (cl_MakeRoute lib x)) = routes x" "tasks (snd (cl_MakeRoute lib x)) = tasks x" for x
    using con by (simp_all add: resource_contract_def keeps_def)
  have rg: "tasks (snd (cl_RegisterRoute lib x)) = tasks x"
    "routes (snd (cl_RegisterRoute lib x)) =
       (if fst (cl_RegisterRoute lib x) = 0 then routes x else insert (fst (cl_RegisterRoute lib x)) (routes x))"
    "fst (cl_RegisterRoute lib x) \<noteq> 0 \<Longrightarrow> fst (cl_RegisterRoute lib x) \<notin> routes x" for x
    using con by (simp_all add: resource_contract_def)
  have p: "routed = fst (register_route api lib (c, t, a))" "c' = fst (snd (register_route api lib (c, t, a)))"
    "a' = snd (snd (snd (register_route api lib (c, t, a))))" using run by simp_all
  note simps = register_route_def on_endpoint_def Let_def split_beta Endpoint_Shutdown_resources [OF con] mk rg(1,2)
  show "tasks a' = tasks a" unfolding p by (simp add: simps)
  show "\<not> routed \<Longrightarrow> routes a' = routes a" unfolding p by (auto simp: simps split: if_splits)
  show "routed \<Longrightarrow> cx_responseRouteId c' \<notin> routes a \<and> routes a' = insert (cx_responseRouteId c') (routes a)"
    using rg(3) [of "snd (cl_MakeRoute lib a)"] unfolding p by (simp add: simps split: if_splits)
qed

lemma Async_Initialize_resources:
  assumes con: "resource_contract ex lib routes tasks" and idle: "ah_executor h = None"
    and run: "Async_Initialize ex (Some closure) configuration (h, a) = (started, h', a')"
  shows "routes a' = routes a" "tasks a' = (if started then tasks a + 1 else tasks a)"
proof -
  have p: "started = fst (Async_Initialize ex (Some closure) configuration (h, a))"
    "a' = snd (snd (Async_Initialize ex (Some closure) configuration (h, a)))" using run by simp_all
  have al: "routes (snd (ex_Alloc ex x)) = routes x" "tasks (snd (ex_Alloc ex x)) = tasks x" for x
    using con by (simp_all add: resource_contract_def keeps_def)
  have nw: "routes (snd (ex_Initialize ex g x)) = routes x"
    "tasks (snd (ex_Initialize ex g x)) = (if fst (ex_Initialize ex g x) = None then tasks x else tasks x + 1)" for g x
    using con by (simp_all add: resource_contract_def)
  have st: "routes (snd (snd (ex_Start ex y x))) = routes x" "tasks (snd (snd (ex_Start ex y x))) = tasks x"
    "routes (snd (ex_Stop ex y x)) = routes x" "tasks (snd (ex_Stop ex y x)) = tasks x - 1" for y x
    using con by (simp_all add: resource_contract_def keeps_def)
  note simps = Async_Initialize_def Let_def split_beta al nw st Async_Shutdown_resources [OF con] left_tasks_def idle
  show "routes a' = routes a" unfolding p by (simp add: simps split: option.split)
  show "tasks a' = (if started then tasks a + 1 else tasks a)" unfolding p by (simp add: simps split: option.split)
qed


section \<open>The stages of initialization\<close>

lemma initialize_endpoint_spec:
  assumes run: "initialize_endpoint api lib (c, t, a) = (ready, c', t', a')"
  shows "t' = t" "cx_config c' = cx_config c" "cx_asyncHandler c' = cx_asyncHandler c" "cx_responseRoute c' = cx_responseRoute c"
    "cx_responseRouteId c' = cx_responseRouteId c" "cx_initialized c' = cx_initialized c" "cx_transport c' = (ready \<and> cx_transport c)"
    "ce_initialized (cx_endpoint c') = ready" "ready \<Longrightarrow> ce_config (cx_endpoint c') = cg_Endpoint (cx_config c)"
proof -
  obtain e1 t1 a1 where sh: "Endpoint_Shutdown (command_env api lib c) (cx_endpoint c, t, a) = (e1, t1, a1)" by (rule prod_cases3)
  have e1: "t1 = t" "\<not> ce_initialized e1"
    using Endpoint_Shutdown_transport [of api lib c "cx_endpoint c" t a] Endpoint_Shutdown_fields(1) [of "command_env api lib c" "(cx_endpoint c, t, a)"] sh by simp_all
  show "t' = t" "cx_config c' = cx_config c" "cx_asyncHandler c' = cx_asyncHandler c" "cx_responseRoute c' = cx_responseRoute c"
    "cx_responseRouteId c' = cx_responseRouteId c" "cx_initialized c' = cx_initialized c" "cx_transport c' = (ready \<and> cx_transport c)"
    "ce_initialized (cx_endpoint c') = ready" "ready \<Longrightarrow> ce_config (cx_endpoint c') = cg_Endpoint (cx_config c)"
    using run sh e1 by (auto simp: initialize_endpoint_def Endpoint_Initialize_def Let_def split: if_splits)
qed

lemma register_route_spec:
  assumes run: "register_route api lib (c, t, a) = (routed, c', t', a')" and fresh: "\<not> cx_responseRoute c" "cx_responseRouteId c = 0"
  shows "t' = t" "cx_initialized c' = cx_initialized c" "cx_asyncHandler c' = cx_asyncHandler c"
    "routed \<Longrightarrow> cx_responseRoute c' \<and> cx_responseRouteId c' \<noteq> 0 \<and> cx_transport c' = cx_transport c \<and> cx_config c' = cx_config c
      \<and> cx_endpoint c' = SetInboundRequestHandler True (cx_endpoint c)"
    "\<not> routed \<Longrightarrow> \<not> cx_transport c' \<and> \<not> cx_responseRoute c' \<and> cx_responseRouteId c' = 0 \<and> \<not> ce_initialized (cx_endpoint c')"
  using run fresh Endpoint_Shutdown_fields(1)
  by (auto simp: register_route_def on_endpoint_def Let_def split_beta Endpoint_Shutdown_transport Endpoint_Shutdown_fields split: if_splits)

lemma Async_Initialize_executor:
  assumes "Async_Initialize ex handler configuration s = (ok, h, a)"
  shows "(ah_executor h \<noteq> None) = ok"
proof -
  have rel: "ah_executor (fold ReleaseFrame ds a) = ah_executor a" for ds and a :: "('a, 'b, 'c) ESPNowAsyncProtocolHandler"
    by (induction ds arbitrary: a) (simp_all add: ReleaseFrame_def)
  have "ah_executor (fst (Async_Shutdown ex s)) = None" by (rule Async_Shutdown_executor)
  then show ?thesis using assms
    by (auto simp: Async_Initialize_def Let_def split_beta clear_pool_def rel split: if_splits option.splits)
qed

text \<open>A running object: every integration is in place.\<close>

definition running :: "('v, 'n, 'k, 'r, 'x, 'p) ESPNowCommandTransport \<Rightarrow> bool" where
  "running c \<longleftrightarrow> cx_transport c \<and> cx_initialized c \<and> cx_responseRoute c \<and> cx_responseRouteId c \<noteq> 0
     \<and> ce_initialized (cx_endpoint c) \<and> ce_inboundHandler (cx_endpoint c)
     \<and> cc_MaximumProtocolPayloadBytes (ce_config (cx_endpoint c)) \<le> 242 \<and> ah_executor (cx_asyncHandler c) \<noteq> None"

text \<open>
  An object that an exception has left between the two: its parts run, but it does not count as initialized.
\<close>

definition half_open :: "('v, 'n, 'k, 'r, 'x, 'p) ESPNowCommandTransport \<Rightarrow> bool" where
  "half_open c \<longleftrightarrow> running (c\<lparr>cx_initialized := True\<rparr>) \<and> \<not> cx_initialized c"

lemma register_with_transport_spec:
  assumes ok: "transport_ok t" "t_initialized t" and ready: "half_open c" and con: "resource_contract ex lib routes tasks"
    and run: "register_with_transport api ex lib self handler maintenance (c, t, a) = (result, c', t', a')"
  shows "case result of
      Some True \<Rightarrow> running c' \<and> handler_map (t_handlers t') = (handler_map (t_handlers t))(cg_Protocol (cx_config c) \<mapsto> handler)
        \<and> maintenance_map (t_maintenanceHandlers t') = (maintenance_map (t_maintenanceHandlers t))(self \<mapsto> maintenance)
        \<and> cx_responseRouteId c' = cx_responseRouteId c \<and> keeps routes tasks a a'
    | Some False \<Rightarrow> closed_down c' \<and> maintenance_map (t_maintenanceHandlers t') = maintenance_map (t_maintenanceHandlers t)
        \<and> (handler_map (t_handlers t') = handler_map (t_handlers t)
           \<or> handler_map (t_handlers t') = (handler_map (t_handlers t))(cg_Protocol (cx_config c) := None) \<and> maintenance_full self t)
        \<and> routes a' = left_routes c (routes a) \<and> tasks a' = left_tasks (cx_asyncHandler c) (tasks a)
    | None \<Rightarrow> half_open c' \<and> maintenance_map (t_maintenanceHandlers t') = maintenance_map (t_maintenanceHandlers t)
        \<and> (handler_map (t_handlers t') = handler_map (t_handlers t)
           \<or> handler_map (t_handlers t') = (handler_map (t_handlers t))(cg_Protocol (cx_config c) \<mapsto> handler))
        \<and> cx_responseRouteId c' = cx_responseRouteId c \<and> keeps routes tasks a a'"
proof -
  let ?p = "cg_Protocol (cx_config c)"
  obtain r1 t1 where one: "RegisterProtocolHandler api ?p (Some handler) t = (r1, t1)" by fastforce
  obtain r2 t2 where two: "RegisterMaintenanceHandler api (Some self) (Some maintenance) t1 = (r2, t2)" by fastforce
  note m1 = RegisterProtocolHandler_maps [OF ok one]
  note m2 = RegisterMaintenanceHandler_maps [OF m1(1,2) two]
  have idle: "\<not> cx_initialized c" using ready by (simp add: half_open_def)
  have shut: "closed_down c1 \<and> x1 = x \<and> routes a1 = left_routes c (routes a) \<and> tasks a1 = left_tasks (cx_asyncHandler c) (tasks a)"
    if "CommandTransport_Shutdown api ex lib self (c, x, a) = (c1, x1, a1)" for x c1 x1 a1
    using that CommandTransport_Shutdown_spec [of api ex lib self c x a] unregistered_idle [OF idle, of self x]
      CommandTransport_Shutdown_resources [OF con, of api self c x a] by simp
  consider "r1 = None" | "r1 = Some False" | "r1 = Some True" "r2 = None" | "r1 = Some True" "r2 = Some False" | "r1 = Some True" "r2 = Some True"
    by (cases r1; cases r2) auto
  then show ?thesis
  proof cases
    case 1
    then have "result = None" "c' = c" "t' = t1" "a' = a" using run one by (simp_all add: register_with_transport_def)
    then show ?thesis using m1 1 ready by (simp add: keeps_def)
  next
    case 2
    then have "result = Some False" "CommandTransport_Shutdown api ex lib self (c, t1, a) = (c', t', a')"
      using run one by (simp_all add: register_with_transport_def)
    then show ?thesis using shut [of t1 c' t' a'] m1 2 by simp
  next
    case 3
    then have "result = None" "c' = c" "t' = t2" "a' = a" using run one two by (simp_all add: register_with_transport_def)
    then show ?thesis using m1 m2 3 ready by (simp add: keeps_def)
  next
    case 4
    let ?u = "UnregisterProtocolHandler ?p t2"
    have "result = Some False" "CommandTransport_Shutdown api ex lib self (c, ?u, a) = (c', t', a')"
      using run one two 4 by (simp_all add: register_with_transport_def)
    moreover have "maintenance_full self t" using m2(4) 4 m1(3) by (simp add: maintenance_full_def)
    ultimately show ?thesis using shut [of ?u c' t' a'] m1 m2 4 by (simp add: UnregisterProtocolHandler_map)
  next
    case 5
    then have "result = Some True" "c' = c\<lparr>cx_initialized := True\<rparr>" "t' = t2" "a' = a" using run one two by (auto simp: register_with_transport_def)
    then show ?thesis using m1 m2 5 ready by (simp add: keeps_def half_open_def)
  qed
qed




section \<open>What reaches the application\<close>

lemma HandleRequest_handed_off:
  assumes new: "FindDuplicate peer requestID (ce_duplicates e) = None" "FindInbound peer requestID (ce_inbound e) = None"
    and dec: "DecodeRequest (ev_values env) requestID (Some payload) size' = Some request"
    and handoff: "\<not> ce_policy e" "ce_inboundHandler e" "length (ce_inbound e) < cc_MaximumInboundRequests (ce_config e)"
    and accepted: "ev_inbound env (request_context peer requestID (rq_Invocation request)) w = (True, w1)"
  shows "HandleRequest env peer requestID payload size' now (e, w) =
    (True, e\<lparr>ce_inbound := ce_inbound e @ [\<lparr>ir_Peer = peer, ir_RequestID = requestID, ir_AcceptedMilliseconds = now,
       ir_Context = request_context peer requestID (rq_Invocation request)\<rparr>]\<rparr>, w1)"
  using assms by (simp add: HandleRequest_def execute_request_def Let_def)

text \<open>
  C38. What an inbound request becomes on a node that runs the Command transport. Its fragments, in any order and repeated, cause
  nothing until the last missing one; then exactly one event is queued for the application and the request waits for its response. The event
  carries the request identifier, the peer, the response route and the raw text of the caller. The command path, the positional and the named
  arguments travel in the frames and are decoded, but they are in no part of the event: an invocation built from path and
  arguments with an empty raw text, as the integration guide shows, reaches the application as an empty command.
\<close>

theorem inbound_request_reduced_to_raw:
  fixes t :: "('h, 'm, 'o, 'q, 'w) ESPNowTransport"
  assumes enc: "EncodeRequest (cl_values lib) invocation = (True, payload)" and contract: "command_values_contract (cl_values lib)"
    and counts: "length (ci_path invocation) \<le> 65535" "length (ci_positional invocation) \<le> 65535"
      "length (cv_items (cl_values lib) (ci_named invocation)) \<le> 65535"
    and node: "running c" "\<not> ce_policy (cx_endpoint c)" "length payload \<le> cc_MaximumMessageBytes (ce_config (cx_endpoint c))"
    and room: "length (ce_reassemblies (cx_endpoint c)) < cc_MaximumReassemblies (ce_config (cx_endpoint c))"
      "length (ce_inbound (cx_endpoint c)) < cc_MaximumInboundRequests (ce_config (cx_endpoint c))"
    and new: "FindReassembly peer requestID (message_type_id Request) (ce_reassemblies (cx_endpoint c)) = None"
      "FindDuplicate peer requestID (ce_duplicates (cx_endpoint c)) = None" "FindInbound peer requestID (ce_inbound (cx_endpoint c)) = None"
    and lib: "cl_Assign lib (peer_bytes peer) = Some address" "cl_SetRaw lib (ci_raw invocation) = Some raw"
    and frames: "frames = BuildFragments Request requestID payload (cc_MaximumProtocolPayloadBytes (ce_config (cx_endpoint c)))"
    and js: "fst ` set js \<subset> {..<length frames}" "insert i (fst ` set js) = {..<length frames}"
  shows "\<exists>items invocation'. receive_frames (command_env api lib c) peer (map (\<lambda>(j, at). (frames ! j, at)) js) (cx_endpoint c, t, a)
      = (replicate (length js) True, (cx_endpoint c)\<lparr>ce_reassemblies := items\<rparr>, t, a)
    \<and> Receive (command_env api lib c) peer (Some (frames ! i)) (length (frames ! i)) now ((cx_endpoint c)\<lparr>ce_reassemblies := items\<rparr>, t, a)
      = (True, (cx_endpoint c)\<lparr>ce_inbound := ce_inbound (cx_endpoint c) @ [\<lparr>ir_Peer = peer, ir_RequestID = requestID, ir_AcceptedMilliseconds = now,
            ir_Context = request_context peer requestID invocation'\<rparr>]\<rparr>,
         t, cl_Queue lib \<lparr>qe_RequestId = requestID, qe_TransportRoute = cx_responseRouteId c, qe_Address = address,
              qe_ResponseExpectation = ExpectCompletion, qe_ResponseMode = SingleResponse,
              qe_ResponseTimeoutMilliseconds = ucast (cc_RequestTimeoutMilliseconds (cg_Endpoint (cx_config c))), qe_Raw = raw\<rparr> a)
    \<and> invocation_text (cl_values lib) invocation' = invocation_text (cl_values lib) invocation"
proof -
  let ?env = "command_env api lib c :: (_, _, _, ('h, 'm, 'o, 'q, 'w) ESPNowTransport \<times> _) endpoint_env" and ?e = "cx_endpoint c"
  have vals: "ev_values ?env = cl_values lib" by (simp add: command_env_def)
  obtain request where dec: "DecodeRequest (ev_values ?env) requestID (Some payload) (length payload) = Some request"
    and text_eq: "invocation_text (cl_values lib) (rq_Invocation request) = invocation_text (cl_values lib) invocation"
    using DecodeRequest_EncodeRequest [OF contract enc counts, of requestID] vals by auto
  let ?inv = "rq_Invocation request"
  have raw: "ci_raw ?inv = ci_raw invocation" using text_eq by (simp add: invocation_text_def)
  have "ev_inbound ?env (request_context peer requestID ?inv) (t, a) = (True, t, cl_Queue lib \<lparr>qe_RequestId = requestID,
      qe_TransportRoute = cx_responseRouteId c, qe_Address = address, qe_ResponseExpectation = ExpectCompletion, qe_ResponseMode = SingleResponse,
      qe_ResponseTimeoutMilliseconds = ucast (cc_RequestTimeoutMilliseconds (cg_Endpoint (cx_config c))), qe_Raw = raw\<rparr> a)"
    using lib raw by (simp add: command_env_def queue_inbound_request_def)
  note handled = HandleRequest_handed_off [OF new(2,3) dec node(2) _ room(2) this, of now]
  have "ce_initialized ?e" "ce_inboundHandler ?e" "cc_MaximumProtocolPayloadBytes (ce_config ?e) \<le> 65561" using node(1) by (simp_all add: running_def)
  then show ?thesis
    using fragments_dispatch [OF _ _ node(3) frames room(1) new(1) js, of ?env "(t, a)" now] handled text_eq
    by (auto simp: DispatchCompletePayload_def)
qed



section \<open>A concrete node\<close>

text \<open>The application's state: the queued events, a route registry with room for one route, and the number of executors.\<close>

type_synonym demo_application = "CommandRequestEnvelope list \<times> u32 set \<times> int"

definition demo_library ::
  "(CommandString option, (CommandString \<times> CommandString option) list, nat, demo_application) command_library" where
  "demo_library =
     \<lparr>cl_values = demo_values, cl_Error = \<lambda>m code. \<lparr>cr_success = False, cr_code = code, cr_message = []\<rparr>,
      cl_complete = \<lambda>k r a. a, cl_policy = \<lambda>x a. (\<lparr>cr_success = True, cr_code = 0, cr_message = []\<rparr>, a), cl_observe = \<lambda>x r a. a,
      cl_Invoke = \<lambda>i a. (\<lparr>cr_success = True, cr_code = 0, cr_message = []\<rparr>, a),
      cl_Assign = \<lambda>bytes. Some \<lparr>oa_Bytes = bytes, oa_Length = length bytes\<rparr>, cl_SetRaw = Some, cl_Queue = \<lambda>e (es, a). (es @ [e], a),
      cl_MakeRoute = \<lambda>a. (True, a), cl_RegisterRoute = \<lambda>(es, ids, n). (if 1 \<in> ids then (0, es, ids, n) else (1, es, insert 1 ids, n)),
      cl_UnregisterRoute = \<lambda>i (es, ids, n). (es, ids - {i}, n)\<rparr>"

definition demo_command_executor :: "(nat list, unit, demo_application) executor_api" where
  "demo_command_executor =
     \<lparr>ex_Alloc = (\<lambda>w. (True, w)), ex_Initialize = (\<lambda>c (es, ids, n). (Some [], es, ids, n + 1)), ex_Start = (\<lambda>x w. (True, x, w)),
      ex_Stop = (\<lambda>x (es, ids, n). ([], es, ids, n - 1)),
      ex_Submit = (\<lambda>i x. if length x < 8 then (True, [], x @ [i]) else (False, [], x)),
      ex_Take = (\<lambda>x. case x of [] \<Rightarrow> None | i # rest \<Rightarrow> Some (i, take 7 rest))\<rparr>"

lemma demo_resources: "resource_contract demo_command_executor demo_library (\<lambda>a. fst (snd a)) (\<lambda>a. snd (snd a))"
  by (auto simp: resource_contract_def keeps_def demo_library_def demo_command_executor_def)

definition demo_commands where
  "demo_commands = CommandTransport_Initialize (sim_api 2) demo_command_executor demo_library 9 (0 :: nat) 5 6 (CommandTransportConfig_default ())
     (CommandTransport_new (), demo_transport, ([], {}, 0))"

abbreviation "demo_node \<equiv> fst (snd demo_commands)"

text \<open>The stages, evaluated one by one.\<close>

lemma demo_async_started:
  "\<exists>h. Async_Initialize demo_command_executor (Some (0 :: nat)) ((AsyncConfiguration_default ())\<lparr>ac_Name := ''espnowCommand''\<rparr>)
     (clear_pool ((AsyncProtocolHandler_new ())\<lparr>ah_initialized := False, ah_executor := None\<rparr>), ([], {1}, 0)) = (True, h, ([], {1}, 1))
     \<and> ah_executor h = Some []"
  by (simp add: Async_Initialize_def Async_Shutdown_def AsyncProtocolHandler_new_def demo_command_executor_def clear_pool_def
      AsyncConfiguration_default_def ESPRESSIO_ESPNOW_ASYNC_PROTOCOL_STACK_SIZE_def ESPRESSIO_ESPNOW_ASYNC_PROTOCOL_QUEUE_DEPTH_def
      size_max_def Let_def)

lemma demo_registrations:
  "fst (RegisterProtocolHandler (sim_api 2) 3 (Some 5) demo_transport) = Some True"
  "fst (RegisterMaintenanceHandler (sim_api 2) (Some 9) (Some 6) (snd (RegisterProtocolHandler (sim_api 2) 3 (Some 5) demo_transport))) = Some True"
  by code_simp+

lemma demo_commands_eq:
  "\<exists>h t. demo_commands = (Some True, \<lparr>cx_transport = True, cx_config = CommandTransportConfig_default (),
      cx_endpoint = CommandEndpoint_new\<lparr>ce_registry := True, ce_sender := True, ce_inboundHandler := True, ce_initialized := True\<rparr>,
      cx_asyncHandler = h, cx_responseRoute = True, cx_responseRouteId = 1, cx_initialized = True\<rparr>, t, ([], {1}, 1)) \<and> ah_executor h = Some []"
proof -
  obtain h where h: "Async_Initialize demo_command_executor (Some (0 :: nat)) ((AsyncConfiguration_default ())\<lparr>ac_Name := ''espnowCommand''\<rparr>)
     (clear_pool ((AsyncProtocolHandler_new ())\<lparr>ah_initialized := False, ah_executor := None\<rparr>), ([], {1}, 0)) = (True, h, ([], {1}, 1))" "ah_executor h = Some []"
    using demo_async_started by blast
  have route: "cl_MakeRoute demo_library a = (True, a)" "cl_RegisterRoute demo_library ([], {}, 0) = (1, [], {1}, 0)" for a
    by (simp_all add: demo_library_def)
  have idle: "ah_executor (AsyncProtocolHandler_new ()) = None" by (simp add: AsyncProtocolHandler_new_def)
  have down: "CommandTransport_Shutdown (sim_api 2) demo_command_executor demo_library 9 (CommandTransport_new (), demo_transport, ([], {}, 0)) =
      ((CommandTransport_new ())\<lparr>cx_asyncHandler := clear_pool ((AsyncProtocolHandler_new ())\<lparr>ah_initialized := False, ah_executor := None\<rparr>)\<rparr>, demo_transport, ([], {}, 0))"
    by (simp add: CommandTransport_Shutdown_def on_endpoint_def CommandTransport_new_def Async_Shutdown_def idle Endpoint_Shutdown_def
        CommandEndpoint_new_def)
  have limit: "\<not> 242 < cc_MaximumProtocolPayloadBytes CommandEndpointConfig_default" "config_accepted CommandEndpointConfig_default"
    by (simp_all add: CommandEndpointConfig_default_def config_accepted_def FragmentHeaderSize_def)
  obtain t1 where r1: "RegisterProtocolHandler (sim_api 2) 3 (Some 5) demo_transport = (Some True, t1)"
    using demo_registrations(1) by (cases "RegisterProtocolHandler (sim_api 2) 3 (Some 5) demo_transport") auto
  obtain t2 where r2: "RegisterMaintenanceHandler (sim_api 2) (Some 9) (Some 6) t1 = (Some True, t2)"
    using demo_registrations(2) r1 by (cases "RegisterMaintenanceHandler (sim_api 2) (Some 9) (Some 6) t1") auto
  show ?thesis
    unfolding demo_commands_def CommandTransport_Initialize_def down Let_def prod.case
    using h route limit demo_started(1)
    by (simp add: initialize_endpoint_def register_route_def register_with_transport_def Endpoint_Initialize_def Endpoint_Shutdown_def
        CommandTransportConfig_default_def CommandTransport_new_def CommandEndpoint_new_def SetInboundRequestHandler_def r1 r2 Let_def)
qed


lemma demo_node_endpoint:
  "\<not> ce_policy (cx_endpoint demo_node)" "ce_reassemblies (cx_endpoint demo_node) = []" "ce_inbound (cx_endpoint demo_node) = []"
  "ce_duplicates (cx_endpoint demo_node) = []" "ce_config (cx_endpoint demo_node) = CommandEndpointConfig_default"
  "cx_responseRouteId demo_node = 1" "cc_RequestTimeoutMilliseconds (cg_Endpoint (cx_config demo_node)) = 100" "running demo_node"
proof -
  obtain h t where eq: "demo_commands = (Some True, \<lparr>cx_transport = True, cx_config = CommandTransportConfig_default (),
      cx_endpoint = CommandEndpoint_new\<lparr>ce_registry := True, ce_sender := True, ce_inboundHandler := True, ce_initialized := True\<rparr>,
      cx_asyncHandler = h, cx_responseRoute = True, cx_responseRouteId = 1, cx_initialized = True\<rparr>, t, ([], {1}, 1))" "ah_executor h = Some []"
    using demo_commands_eq by blast
  show "\<not> ce_policy (cx_endpoint demo_node)" "ce_reassemblies (cx_endpoint demo_node) = []" "ce_inbound (cx_endpoint demo_node) = []"
    "ce_duplicates (cx_endpoint demo_node) = []" "ce_config (cx_endpoint demo_node) = CommandEndpointConfig_default"
    "cx_responseRouteId demo_node = 1" "cc_RequestTimeoutMilliseconds (cg_Endpoint (cx_config demo_node)) = 100" "running demo_node"
    by (simp_all add: eq running_def CommandEndpoint_new_def CommandTransportConfig_default_def CommandEndpointConfig_default_def)
qed

theorem inbound_request_reduced_to_raw_witness:
  "\<exists>frames items invocation'. ci_path invocation' = [[100, 111]] \<and>
     Receive (command_env (sim_api 2) demo_library demo_node) (PeerAddress 2 0 0 0 0 9) (Some (frames ! 0)) (length (frames ! 0)) 7
       ((cx_endpoint demo_node)\<lparr>ce_reassemblies := items\<rparr>, demo_transport, ([], {1}, 1))
     = (True, (cx_endpoint demo_node)\<lparr>ce_inbound := [\<lparr>ir_Peer = PeerAddress 2 0 0 0 0 9, ir_RequestID = 1, ir_AcceptedMilliseconds = 7,
           ir_Context = request_context (PeerAddress 2 0 0 0 0 9) 1 invocation'\<rparr>]\<rparr>, demo_transport,
        ([\<lparr>qe_RequestId = 1, qe_TransportRoute = 1, qe_Address = \<lparr>oa_Bytes = [2, 0, 0, 0, 0, 9], oa_Length = 6\<rparr>,
          qe_ResponseExpectation = ExpectCompletion, qe_ResponseMode = SingleResponse, qe_ResponseTimeoutMilliseconds = 100, qe_Raw = []\<rparr>], {1}, 1))"
proof -
  let ?bytes = "[1, 0, 2, 0, 100, 111, 1, 0, 1, 0, 49, 1, 0, 1, 0, 107, 1, 0, 118, 0, 0] :: byte list" and ?p = "PeerAddress 2 0 0 0 0 9"
  let ?frames = "BuildFragments Request 1 ?bytes (cc_MaximumProtocolPayloadBytes (ce_config (cx_endpoint demo_node)))"
  have vals: "cl_values demo_library = demo_values" by (simp add: demo_library_def)
  have enc: "EncodeRequest (cl_values demo_library) demo_invocation = (True, ?bytes)" unfolding vals
    by (simp add: EncodeRequest_eq invocation_ok_def invocation_text_def demo_invocation_def demo_values_def
        short_def put_strings_def put_pairs_def put_pair_def put_string_def put_u16_def le_bytes_2)
  have counts: "length (ci_path demo_invocation) \<le> 65535" "length (ci_positional demo_invocation) \<le> 65535"
    "length (cv_items (cl_values demo_library) (ci_named demo_invocation)) \<le> 65535"
    unfolding vals by (simp_all add: demo_invocation_def demo_values_def)
  have limits: "length ?bytes \<le> cc_MaximumMessageBytes (ce_config (cx_endpoint demo_node))"
    "length (ce_reassemblies (cx_endpoint demo_node)) < cc_MaximumReassemblies (ce_config (cx_endpoint demo_node))"
    "length (ce_inbound (cx_endpoint demo_node)) < cc_MaximumInboundRequests (ce_config (cx_endpoint demo_node))"
    by (simp_all add: demo_node_endpoint CommandEndpointConfig_default_def)
  have new: "FindReassembly ?p 1 (message_type_id Request) (ce_reassemblies (cx_endpoint demo_node)) = None"
    "FindDuplicate ?p 1 (ce_duplicates (cx_endpoint demo_node)) = None" "FindInbound ?p 1 (ce_inbound (cx_endpoint demo_node)) = None"
    by (simp_all add: demo_node_endpoint FindReassembly_def FindDuplicate_def FindInbound_def)
  have lib: "cl_Assign demo_library (peer_bytes ?p) = Some \<lparr>oa_Bytes = [2, 0, 0, 0, 0, 9], oa_Length = 6\<rparr>"
    "cl_SetRaw demo_library (ci_raw demo_invocation) = Some []" by (simp_all add: demo_library_def demo_invocation_def)
  have "GetFragmentCount (length ?bytes) 242 = 1" by (simp add: GetFragmentCount_def FragmentHeaderSize_def)
  then have one: "length ?frames = 1" by (simp add: BuildFragments_eq demo_node_endpoint CommandEndpointConfig_default_def)
  have js: "fst ` set ([] :: (nat \<times> u64) list) \<subset> {..<length ?frames}" "insert 0 (fst ` set ([] :: (nat \<times> u64) list)) = {..<length ?frames}"
    unfolding one by auto
  have contract: "command_values_contract (cl_values demo_library)" unfolding vals by (rule demo_values_contract)
  note * = inbound_request_reduced_to_raw [where api = "sim_api 2" and t = demo_transport and a = "([], {1}, 1)" and now = 7, OF enc contract counts
      demo_node_endpoint(8) demo_node_endpoint(1) limits new lib refl js]
  have queue: "cl_Queue demo_library e ([], a) = ([e], a)" for e a by (simp add: demo_library_def)
  from * obtain items invocation' where r: "Receive (command_env (sim_api 2) demo_library demo_node) ?p (Some (?frames ! 0)) (length (?frames ! 0)) 7
       ((cx_endpoint demo_node)\<lparr>ce_reassemblies := items\<rparr>, demo_transport, ([], {1}, 1))
     = (True, (cx_endpoint demo_node)\<lparr>ce_inbound := ce_inbound (cx_endpoint demo_node) @ [\<lparr>ir_Peer = ?p, ir_RequestID = 1, ir_AcceptedMilliseconds = 7,
           ir_Context = request_context ?p 1 invocation'\<rparr>]\<rparr>, demo_transport,
        cl_Queue demo_library \<lparr>qe_RequestId = 1, qe_TransportRoute = cx_responseRouteId demo_node, qe_Address = \<lparr>oa_Bytes = [2, 0, 0, 0, 0, 9], oa_Length = 6\<rparr>,
          qe_ResponseExpectation = ExpectCompletion, qe_ResponseMode = SingleResponse,
          qe_ResponseTimeoutMilliseconds = ucast (cc_RequestTimeoutMilliseconds (cg_Endpoint (cx_config demo_node))), qe_Raw = []\<rparr> ([], {1}, 1))"
    and text_eq: "invocation_text (cl_values demo_library) invocation' = invocation_text (cl_values demo_library) demo_invocation" by blast
  have "ci_path invocation' = [[100, 111]]" using text_eq by (simp add: invocation_text_def demo_invocation_def)
  moreover have "(ucast (100 :: u64) :: u32) = 100" by simp
  ultimately show ?thesis using r unfolding queue demo_node_endpoint append_Nil by metis
qed

end
