(* ===== verification/Command_Handler.thy ===== *)
theory Command_Handler
  imports Transport_Theorems
begin

text \<open>
  \<^verbatim>\<open>src/src/ESPressio_ESPNowCommandHandler.hpp\<close>: the \<^verbatim>\<open>espnow\<close> console commands. The Command library registers the
  tree and calls a handler with parsed parameters that satisfy the declared ranges; \<open>handler_api\<close> holds its registration,
  ESP-IDF's channel query and the application's channel authority. The authority may change the transport, as a WiFi
  transition does. The result of a handler is the text given to \<^verbatim>\<open>CommandResult::Ok\<close> or \<^verbatim>\<open>CommandResult::Error\<close>.
\<close>

section \<open>Interfaces\<close>

datatype handler_result = Ok string | Error string

datatype parameter = NoParameter | UnsignedParameter string nat nat | EnumerationParameter string "string list" | BoolParameter string

record command_description =
  cd_Path :: "string list"
  cd_Description :: string
  cd_Parameter :: parameter

text \<open>
  \<open>hn_get_channel\<close> gives the error code and the channel when the call writes it; \<open>hn_code\<close> is the number of an error code.
\<close>

record ('h, 'm, 'o, 'q, 'w, 'u) handler_api =
  hn_RegisterCommand :: "string \<Rightarrow> 'u \<Rightarrow> bool \<times> 'u"
  hn_Describe :: "command_description \<Rightarrow> 'u \<Rightarrow> 'u"
  hn_Reset :: "'u \<Rightarrow> 'u"
  hn_get_channel :: "'w \<Rightarrow> esp_err \<times> byte option"
  hn_SetRadioChannel :: "byte \<Rightarrow> ('h, 'm, 'o, 'q, 'w) ESPNowTransport \<Rightarrow> bool \<times> ('h, 'm, 'o, 'q, 'w) ESPNowTransport"
  hn_code :: "esp_err \<Rightarrow> int"

text \<open>The object; \<open>hc_transport\<close> is whether the pointer is set, \<open>hc_SetRadioChannel\<close> whether the option is.\<close>

record ESPNowCommandHandler =
  hc_transport :: bool
  hc_initializationConfig :: ESPNowTransportConfig
  hc_SetRadioChannel :: bool
  hc_registration :: bool

definition CommandHandler_new :: ESPNowCommandHandler where
  "CommandHandler_new = \<lparr>hc_transport = False, hc_initializationConfig = TransportConfig_default, hc_SetRadioChannel = False,
     hc_registration = False\<rparr>"


section \<open>Texts\<close>

fun decimal :: "nat \<Rightarrow> string" where
  "decimal n = (if n < 10 then [char_of (48 + n)] else decimal (n div 10) @ [char_of (48 + n mod 10)])"

declare decimal.simps [simp del]

definition signed_decimal :: "int \<Rightarrow> string" where
  "signed_decimal i = (if i < 0 then CHR ''-'' # decimal (nat (- i)) else decimal (nat i))"

definition boolean_text :: "bool \<Rightarrow> string" where
  "boolean_text b = (if b then ''true'' else ''false'')"

fun InterfaceName :: "ESPNowWiFiInterface \<Rightarrow> string" where
  "InterfaceName Station = ''sta''"
| "InterfaceName AccessPoint = ''ap''"
| "InterfaceName Auto = ''auto''"

fun NativeModeName :: "wifi_mode \<Rightarrow> string" where
  "NativeModeName WIFI_MODE_STA = ''sta''"
| "NativeModeName WIFI_MODE_AP = ''ap''"
| "NativeModeName WIFI_MODE_APSTA = ''apsta''"
| "NativeModeName WIFI_MODE_NULL = ''off''"
| "NativeModeName WIFI_MODE_OTHER = ''off''"

fun failure_number :: "ESPNowSendFailure \<Rightarrow> nat" where
  "failure_number NoFailure = 0"
| "failure_number NotInitialized = 1"
| "failure_number InvalidArgument = 2"
| "failure_number NoMemory = 3"
| "failure_number PeerNotFound = 4"
| "failure_number InterfaceMismatch = 5"
| "failure_number ChannelMismatch = 6"
| "failure_number RadioUnavailable = 7"
| "failure_number Internal = 8"
| "failure_number Unknown = 9"

definition BindingText :: "ESPNowRadioBinding \<Rightarrow> string" where
  "BindingText binding =
     ''interface='' @ InterfaceName (rb_PreferredInterface binding) @ '' channel='' @ decimal (unat (rb_Channel binding))
     @ '' available='' @ boolean_text (rb_Available binding)"


section \<open>Handlers\<close>

definition Handler_ApplyBinding ::
  "('q, 'w) native_api \<Rightarrow> ESPNowCommandHandler \<Rightarrow> ESPNowRadioBinding \<Rightarrow> bool \<Rightarrow> ('h, 'm, 'o, 'q, 'w) ESPNowTransport
     \<Rightarrow> handler_result \<times> ('h, 'm, 'o, 'q, 'w) ESPNowTransport" where
  "Handler_ApplyBinding api hc binding forceNativeReinitialization t =
     (if \<not> hc_transport hc \<or> \<not> t_initialized t then (Error ''ESP-NOW transport is not initialized'', t)
      else
        let (ok, t) = ApplyRadioBinding api binding forceNativeReinitialization t in
        if \<not> ok then (Error ''ESP-NOW radio binding/reconciliation failed'', t)
        else (Ok (BindingText (t_radioBinding t)), t))"

definition Handler_SetChannel ::
  "('q, 'w) native_api \<Rightarrow> ('h, 'm, 'o, 'q, 'w, 'u) handler_api \<Rightarrow> ESPNowCommandHandler \<Rightarrow> byte \<Rightarrow> ('h, 'm, 'o, 'q, 'w) ESPNowTransport
     \<Rightarrow> handler_result \<times> ('h, 'm, 'o, 'q, 'w) ESPNowTransport" where
  "Handler_SetChannel api hn hc channel t =
     (if \<not> hc_SetRadioChannel hc
      then (Error (''No radio-channel authority configured; use the owning WiFi controller or supply '' @ ''ESPNowCommandHandler::Options::SetRadioChannel''), t)
      else
        let (ok, t) = hn_SetRadioChannel hn channel t in
        if \<not> ok then (Error ''Radio channel change failed'', t)
        else
          let actualChannel = (case snd (hn_get_channel hn (t_native t)) of None \<Rightarrow> channel | Some actual \<Rightarrow> actual) in
          Handler_ApplyBinding api hc ((t_radioBinding t)\<lparr>rb_Channel := actualChannel, rb_Available := True\<rparr>) False t)"

definition BindingStatus :: "ESPNowCommandHandler \<Rightarrow> ('h, 'm, 'o, 'q, 'w) ESPNowTransport \<Rightarrow> handler_result" where
  "BindingStatus hc t =
     (if \<not> hc_transport hc then Error ''ESP-NOW command handler is not initialized'' else Ok (BindingText (t_radioBinding t)))"

definition Handler_Status ::
  "('q, 'w) native_api \<Rightarrow> ('h, 'm, 'o, 'q, 'w, 'u) handler_api \<Rightarrow> ESPNowCommandHandler \<Rightarrow> ('h, 'm, 'o, 'q, 'w) ESPNowTransport \<Rightarrow> handler_result" where
  "Handler_Status api hn hc t =
     (if \<not> hc_transport hc then Error ''ESP-NOW command handler is not initialized''
      else
        let (modeResult, mode) = na_wifi_get_mode api (t_native t); (channelResult, written) = hn_get_channel hn (t_native t);
            primary = (case written of None \<Rightarrow> 0 | Some actual \<Rightarrow> actual); binding = t_radioBinding t; sent = GetLastSendResult t in
        Ok (''initialized='' @ boolean_text (t_initialized t)
          @ '' binding.interface='' @ InterfaceName (rb_PreferredInterface binding)
          @ '' binding.channel='' @ decimal (unat (rb_Channel binding))
          @ '' binding.available='' @ boolean_text (rb_Available binding)
          @ '' native.mode='' @ (if modeResult = ESP_OK then NativeModeName mode else ''unknown'')
          @ '' native.channel='' @ (if channelResult = ESP_OK then decimal (unat primary) else ''unknown'')
          @ '' worker.interval-ms='' @ decimal (unat (tc_WorkerIterationIntervalMilliseconds (t_config t)))
          @ '' worker.minimum-free-stack='' @ decimal (unat (GetReceiveTaskMinimumFreeStackBytes t))
          @ '' last-send.success='' @ boolean_text (sr_Success sent)
          @ '' last-send.failure='' @ decimal (failure_number (sr_Failure sent))
          @ '' last-send.native-error='' @ signed_decimal (hn_code hn (sr_NativeError sent))))"

definition Configuration :: "ESPNowCommandHandler \<Rightarrow> ('h, 'm, 'o, 'q, 'w) ESPNowTransport \<Rightarrow> handler_result" where
  "Configuration hc t =
     (let config = hc_initializationConfig hc in
      Ok (''initialize-wifi='' @ boolean_text (tc_InitializeWiFi config)
        @ '' initial-channel='' @ decimal (unat (tc_Channel config))
        @ '' receive-stack='' @ decimal (unat (tc_ReceiveTaskStackSize config))
        @ '' receive-priority='' @ decimal (unat (tc_ReceiveTaskPriority config))
        @ '' receive-core='' @ signed_decimal (tc_ReceiveTaskCore config)
        @ '' receive-queue='' @ decimal (tc_ReceiveQueueLength config)
        @ '' worker.interval-ms='' @ decimal (unat (tc_WorkerIterationIntervalMilliseconds config))
        @ [CHR 0x0A] @ BindingText (if hc_transport hc then t_radioBinding t else RadioBinding_default)
        @ [CHR 0x0A] @ ''initialization-only=initialize-wifi,receive-stack,receive-priority,receive-core,receive-queue,worker.interval-ms''))"


section \<open>The command tree\<close>

datatype console_command =
  StatusCommand | ConfigCommand | ChannelCommand nat | BindingStatusCommand | BindingInterfaceCommand string
  | BindingChannelCommand nat | BindingAvailableCommand bool | ReconcileCommand

text \<open>\<^verbatim>\<open>static_cast<uint8_t>\<close> of the parsed number is the residue; the ranges keep it below 15.\<close>

fun execute_command ::
  "('q, 'w) native_api \<Rightarrow> ('h, 'm, 'o, 'q, 'w, 'u) handler_api \<Rightarrow> ESPNowCommandHandler \<Rightarrow> console_command
     \<Rightarrow> ('h, 'm, 'o, 'q, 'w) ESPNowTransport \<Rightarrow> handler_result \<times> ('h, 'm, 'o, 'q, 'w) ESPNowTransport" where
  "execute_command api hn hc StatusCommand t = (Handler_Status api hn hc t, t)"
| "execute_command api hn hc ConfigCommand t = (Configuration hc t, t)"
| "execute_command api hn hc (ChannelCommand n) t = Handler_SetChannel api hn hc (of_nat n) t"
| "execute_command api hn hc BindingStatusCommand t = (BindingStatus hc t, t)"
| "execute_command api hn hc (BindingInterfaceCommand value) t =
     Handler_ApplyBinding api hc ((t_radioBinding t)\<lparr>rb_PreferredInterface :=
        (if value = ''sta'' then Station else if value = ''ap'' then AccessPoint else Auto)\<rparr>) False t"
| "execute_command api hn hc (BindingChannelCommand n) t =
     Handler_ApplyBinding api hc ((t_radioBinding t)\<lparr>rb_Channel := of_nat n\<rparr>) False t"
| "execute_command api hn hc (BindingAvailableCommand available) t =
     Handler_ApplyBinding api hc ((t_radioBinding t)\<lparr>rb_Available := available\<rparr>) False t"
| "execute_command api hn hc ReconcileCommand t = Handler_ApplyBinding api hc (t_radioBinding t) True t"

definition espnow_commands :: "command_description list" where
  "espnow_commands =
     [\<lparr>cd_Path = [], cd_Description = ''ESPressio ESP-NOW runtime diagnostics and controlled configuration'', cd_Parameter = NoParameter\<rparr>,
      \<lparr>cd_Path = [''status''], cd_Description = ''Show ESP-NOW transport, binding, native-radio and worker status'', cd_Parameter = NoParameter\<rparr>,
      \<lparr>cd_Path = [''config''], cd_Description = ''Show initialization-only and current runtime settings'', cd_Parameter = NoParameter\<rparr>,
      \<lparr>cd_Path = [''channel''], cd_Description = ''Set the physical shared-radio channel and ESP-NOW binding channel'',
       cd_Parameter = UnsignedParameter ''channel'' 1 14\<rparr>,
      \<lparr>cd_Path = [''binding''], cd_Description = ''Inspect or modify ESP-NOW's logical shared-radio binding'', cd_Parameter = NoParameter\<rparr>,
      \<lparr>cd_Path = [''binding'', ''status''], cd_Description = [], cd_Parameter = NoParameter\<rparr>,
      \<lparr>cd_Path = [''binding'', ''interface''], cd_Description = ''Set preferred ESP-NOW interface without directly changing WiFi mode'',
       cd_Parameter = EnumerationParameter ''interface'' [''auto'', ''sta'', ''ap'']\<rparr>,
      \<lparr>cd_Path = [''binding'', ''channel''], cd_Description = ''Set ESP-NOW peer binding channel; 0 follows the active radio channel'',
       cd_Parameter = UnsignedParameter ''channel'' 0 14\<rparr>,
      \<lparr>cd_Path = [''binding'', ''available''], cd_Description = ''Temporarily enable/disable ESP-NOW transport access to the shared radio'',
       cd_Parameter = BoolParameter ''available''\<rparr>,
      \<lparr>cd_Path = [''reconcile''], cd_Description = ''Force native ESP-NOW reinitialization and managed-peer reconciliation'', cd_Parameter = NoParameter\<rparr>]"

definition Handler_Initialize ::
  "('h, 'm, 'o, 'q, 'w, 'u) handler_api \<Rightarrow> ESPNowTransportConfig \<Rightarrow> bool \<Rightarrow> ESPNowCommandHandler \<times> 'u \<Rightarrow> bool \<times> ESPNowCommandHandler \<times> 'u" where
  "Handler_Initialize hn initializationConfig setRadioChannel = (\<lambda>(hc, u).
     if hc_registration hc then (True, hc, u)
     else
       let hc = hc\<lparr>hc_transport := True, hc_initializationConfig := initializationConfig, hc_SetRadioChannel := setRadioChannel\<rparr>;
           (active, u) = hn_RegisterCommand hn ''espnow'' u; hc = hc\<lparr>hc_registration := active\<rparr> in
       if \<not> active then (False, hc\<lparr>hc_transport := False\<rparr>, u)
       else (True, hc, fold (hn_Describe hn) espnow_commands u))"

definition Handler_Shutdown ::
  "('h, 'm, 'o, 'q, 'w, 'u) handler_api \<Rightarrow> ESPNowCommandHandler \<times> 'u \<Rightarrow> ESPNowCommandHandler \<times> 'u" where
  "Handler_Shutdown hn = (\<lambda>(hc, u).
     (\<lparr>hc_transport = False, hc_initializationConfig = TransportConfig_default, hc_SetRadioChannel = False, hc_registration = False\<rparr>,
      hn_Reset hn u))"



section \<open>The channel command\<close>

text \<open>
  C40. \<^verbatim>\<open>espnow channel\<close> on every branch, for a registered handler. Without an authority nothing happens; a refusal of the authority
  leaves the transport as the authority left it, and so does an authority that leaves it stopped, which is reported. Otherwise
  the binding follows the channel the radio is really on, not the requested one: when it is applied
  the transport is available on it, keeps its preferred interface, prints this binding, and every managed peer is programmed, on its own
  interface, else on the one the binding prefers, else (the binding of a newly initialized transport) on the default of the WiFi
  mode; when it cannot be applied an error is reported and the transport refuses to send.
\<close>

theorem channel_command_outcome:
  fixes t :: "('h, 'm, 'o, 'q, 'w) ESPNowTransport"
  assumes contract: "peer_table_contract api tbl" "peers_leave_wifi_mode api" and up: "hc_transport hc"
    and authority: "hn_SetRadioChannel hn (of_nat n) t = (changed, t1)" and ok: "transport_ok t1"
    and run: "execute_command api hn hc (ChannelCommand n) t = (result, t')"
    and binding: "binding = (t_radioBinding t1)\<lparr>rb_Channel := (case snd (hn_get_channel hn (t_native t1)) of None \<Rightarrow> of_nat n | Some actual \<Rightarrow> actual),
                          rb_Available := True\<rparr>"
  shows "if \<not> hc_SetRadioChannel hc then t' = t \<and> result = Error (''No radio-channel authority configured; use the owning WiFi controller or supply ''
           @ ''ESPNowCommandHandler::Options::SetRadioChannel'')
    else if \<not> changed then result = Error ''Radio channel change failed'' \<and> t' = t1
    else if \<not> t_initialized t1 then result = Error ''ESP-NOW transport is not initialized'' \<and> t' = t1
    else if fst (ApplyRadioBinding api binding False t1)
    then result = Ok (BindingText binding) \<and> t_radioBinding t' = binding \<and> \<not> t_nativeSuspended t' \<and> t_managedPeers t' = t_managedPeers t1
      \<and> (\<forall>a ch i enc key. managed_map (t_managedPeers t1) a = Some (ch, i, enc, key) \<longrightarrow>
            programmed (ch, i, enc, key)
              (if i \<noteq> Auto then ExplicitInterface i
               else if rb_PreferredInterface binding \<noteq> Auto then ExplicitInterface (rb_PreferredInterface binding)
               else CurrentDefaultInterface api (t_native t')) (tbl (t_native t') a))
    else result = Error ''ESP-NOW radio binding/reconciliation failed'' \<and> t_radioBinding t' = binding\<lparr>rb_Available := False\<rparr>"
proof -
  show ?thesis
  proof (cases "hc_SetRadioChannel hc \<and> changed \<and> t_initialized t1")
    case False
    then show ?thesis using run authority by (auto simp: Handler_SetChannel_def Handler_ApplyBinding_def Let_def)
  next
    case True
    obtain done' t2 where applied: "ApplyRadioBinding api binding False t1 = (done', t2)" by fastforce
    have res: "(result, t') = (if \<not> done' then (Error ''ESP-NOW radio binding/reconciliation failed'', t2) else (Ok (BindingText (t_radioBinding t2)), t2))"
      using run authority True up applied unfolding binding by (simp add: Handler_SetChannel_def Handler_ApplyBinding_def)
    show ?thesis
    proof (cases done')
      case False
      then have "result = Error ''ESP-NOW radio binding/reconciliation failed''" "t' = t2" using res by simp_all
      moreover have "t_radioBinding t2 = binding\<lparr>rb_Available := False\<rparr>"
        using applied False True by (auto simp: ApplyRadioBinding_def Let_def split_beta)
      ultimately show ?thesis using True False applied by simp
    next
      case good: True
      note p = ApplyRadioBinding_binds [OF contract(1) ok disjI2 [OF contract(2)] applied [unfolded good [THEN eqTrueI]], unfolded bound_interface_def]
      have ends: "result = Ok (BindingText binding)" "t' = t2" using res good p(1) by simp_all
      have applies: "fst (ApplyRadioBinding api binding False t1)" using applied good by simp
      have peers: "\<forall>a ch i enc key. managed_map (t_managedPeers t1) a = Some (ch, i, enc, key) \<longrightarrow>
            programmed (ch, i, enc, key)
              (if i \<noteq> Auto then ExplicitInterface i
               else if rb_PreferredInterface binding \<noteq> Auto then ExplicitInterface (rb_PreferredInterface binding)
               else CurrentDefaultInterface api (t_native t2)) (tbl (t_native t2) a)"
        using p(4) by blast
      have up: "\<not> \<not> hc_SetRadioChannel hc" "\<not> \<not> changed" "\<not> \<not> t_initialized t1" using True by simp_all
      show ?thesis unfolding up [THEN if_not_P] if_P [OF applies] ends
        by (intro conjI refl p(1) p(2) p(3) peers)
    qed
  qed
qed

text \<open>An authority that tunes the radio of the simulated platform to channel 11 whatever was asked for.\<close>

definition demo_handler_api :: "(nat, nat, nat, CallbackFrame list, sim, unit) handler_api" where
  "demo_handler_api =
     \<lparr>hn_RegisterCommand = \<lambda>name u. (True, u), hn_Describe = \<lambda>d u. u, hn_Reset = \<lambda>u. u, hn_get_channel = \<lambda>w. (ESP_OK, Some 11),
      hn_SetRadioChannel = \<lambda>c t. (True, t), hn_code = \<lambda>e. 0\<rparr>"

definition demo_handler :: ESPNowCommandHandler where
  "demo_handler = fst (snd (Handler_Initialize demo_handler_api TransportConfig_default True (CommandHandler_new, ())))"

lemma sim_leaves_wifi_mode: "peers_leave_wifi_mode (sim_api n)"
  by (simp add: peers_leave_wifi_mode_def sim_api_def)

text \<open>The transport has the binding it got from its initialization, which names no interface.\<close>

theorem channel_command_outcome_witness:
  "fst (execute_command (sim_api 2) demo_handler_api demo_handler (ChannelCommand 3) demo_with_peer)
     = Ok (BindingText \<lparr>rb_PreferredInterface = Auto, rb_Channel = 11, rb_Available = True\<rparr>)
   \<and> programmed (6, Auto, False, replicate 16 0) WIFI_IF_STA
       (map_of (sim_peers (t_native (snd (execute_command (sim_api 2) demo_handler_api demo_handler (ChannelCommand 3) demo_with_peer)))) demo_mac)"
proof -
  let ?b = "\<lparr>rb_PreferredInterface = Auto, rb_Channel = 11, rb_Available = True\<rparr>"
  have up: "hc_transport demo_handler" "hc_SetRadioChannel demo_handler"
    by (simp_all add: demo_handler_def Handler_Initialize_def demo_handler_api_def CommandHandler_new_def)
  have state: "t_initialized demo_with_peer" "rb_PreferredInterface (t_radioBinding demo_with_peer) = Auto"
    "fst (ApplyRadioBinding (sim_api 2) ?b False demo_with_peer)" by code_simp+
  have authority: "hn_SetRadioChannel demo_handler_api (of_nat 3) demo_with_peer = (True, demo_with_peer)" by (simp add: demo_handler_api_def)
  have binding: "?b = (t_radioBinding demo_with_peer)\<lparr>rb_Channel := (case snd (hn_get_channel demo_handler_api (t_native demo_with_peer)) of
      None \<Rightarrow> of_nat 3 | Some actual \<Rightarrow> actual), rb_Available := True\<rparr>"
    using state(2) by (simp add: demo_handler_api_def)
  obtain r t' where run: "execute_command (sim_api 2) demo_handler_api demo_handler (ChannelCommand 3) demo_with_peer = (r, t')" by fastforce
  note c = channel_command_outcome [OF sim_peer_table_contract sim_leaves_wifi_mode up(1) authority demo_with_peer_ok run binding]
  have sta: "CurrentDefaultInterface (sim_api 2) w = WIFI_IF_STA" for w by (simp add: CurrentDefaultInterface_def sim_api_def)
  have "\<not> \<not> hc_SetRadioChannel demo_handler" "\<not> \<not> True" "\<not> \<not> t_initialized demo_with_peer" using up(2) state(1) by simp_all
  note c = c [unfolded this [THEN if_not_P] if_P [OF state(3)]]
  have "programmed (6, Auto, False, replicate 16 0) WIFI_IF_STA (map_of (sim_peers (t_native t')) demo_mac)"
    using c [THEN conjunct2, THEN conjunct2, THEN conjunct2, THEN conjunct2, rule_format, OF demo_with_peer_managed] by (simp add: sta)
  with c [THEN conjunct1] show ?thesis unfolding run fst_conv snd_conv by (rule conjI)
qed

end
