(* ===== verification/Event_Bridge.thy ===== *)
theory Event_Bridge
  imports Transport
begin

text \<open>
  \<^verbatim>\<open>src/src/ESPressio_IESPNowTransportObserver.hpp\<close>, \<^verbatim>\<open>src/src/ESPressio_ESPNowEvents.hpp\<close> and
  \<^verbatim>\<open>src/src/ESPressio_ESPNowTransportEventBridge.hpp\<close>: the observer interface with its default callbacks, the
  events, and the observer that queues one event for each notification. Queueing an event is the Event library's
  and is a parameter of the bridge.
\<close>

section \<open>Observers\<close>

text \<open>
  An observer is its virtual functions. The detailed send failure is the only one whose default does something:
  it calls the function for a failure without details, overridden or not; \<open>None\<close> is that default.
\<close>

record 'w transport_observer =
  ob_Initialized :: "'w \<Rightarrow> 'w"
  ob_InitializationFailed :: "'w \<Rightarrow> 'w"
  ob_Shutdown :: "'w \<Rightarrow> 'w"
  ob_PeerAdded :: "MacAddress \<Rightarrow> 'w \<Rightarrow> 'w"
  ob_PeerRemoved :: "MacAddress \<Rightarrow> 'w \<Rightarrow> 'w"
  ob_FrameReceived :: "MacAddress \<Rightarrow> byte \<Rightarrow> nat \<Rightarrow> u64 \<Rightarrow> 'w \<Rightarrow> 'w"
  ob_SendAccepted :: "MacAddress \<Rightarrow> byte \<Rightarrow> nat \<Rightarrow> 'w \<Rightarrow> 'w"
  ob_SendFailed :: "MacAddress \<Rightarrow> byte \<Rightarrow> nat \<Rightarrow> 'w \<Rightarrow> 'w"
  ob_SendFailedDetailed :: "(MacAddress \<Rightarrow> byte \<Rightarrow> nat \<Rightarrow> ESPNowSendFailure \<Rightarrow> esp_err \<Rightarrow> 'w \<Rightarrow> 'w) option"

definition TransportObserver_default :: "'w transport_observer" where
  "TransportObserver_default =
     \<lparr>ob_Initialized = \<lambda>w. w, ob_InitializationFailed = \<lambda>w. w, ob_Shutdown = \<lambda>w. w, ob_PeerAdded = \<lambda>a w. w, ob_PeerRemoved = \<lambda>a w. w,
      ob_FrameReceived = \<lambda>a p n at w. w, ob_SendAccepted = \<lambda>a p n w. w, ob_SendFailed = \<lambda>a p n w. w, ob_SendFailedDetailed = None\<rparr>"

fun deliver :: "'w transport_observer \<Rightarrow> notification \<Rightarrow> 'w \<Rightarrow> 'w" where
  "deliver ob OnInitialized = ob_Initialized ob"
| "deliver ob OnInitializationFailed = ob_InitializationFailed ob"
| "deliver ob OnShutdown = ob_Shutdown ob"
| "deliver ob (OnPeerAdded a) = ob_PeerAdded ob a"
| "deliver ob (OnPeerRemoved a) = ob_PeerRemoved ob a"
| "deliver ob (OnFrameReceived a p n at) = ob_FrameReceived ob a p n at"
| "deliver ob (OnSendAccepted a p n) = ob_SendAccepted ob a p n"
| "deliver ob (OnSendFailedDetailed a p n failure e) =
     (case ob_SendFailedDetailed ob of None \<Rightarrow> ob_SendFailed ob a p n | Some f \<Rightarrow> f a p n failure e)"


section \<open>Events\<close>

datatype transport_event =
  ESPNowTransportInitializedEvent | ESPNowTransportInitializationFailedEvent | ESPNowTransportShutdownEvent
  | ESPNowPeerAddedEvent MacAddress | ESPNowPeerRemovedEvent MacAddress
  | ESPNowSendAcceptedEvent MacAddress byte nat
  | ESPNowSendFailedEvent MacAddress byte nat ESPNowSendFailure esp_err


section \<open>The bridge\<close>

definition bridge_observer :: "(transport_event \<Rightarrow> 'w \<Rightarrow> 'w) \<Rightarrow> 'w transport_observer" where
  "bridge_observer queue =
     TransportObserver_default
       \<lparr>ob_Initialized := queue ESPNowTransportInitializedEvent,
        ob_InitializationFailed := queue ESPNowTransportInitializationFailedEvent,
        ob_Shutdown := queue ESPNowTransportShutdownEvent,
        ob_PeerAdded := \<lambda>a. queue (ESPNowPeerAddedEvent a),
        ob_PeerRemoved := \<lambda>a. queue (ESPNowPeerRemovedEvent a),
        ob_SendAccepted := \<lambda>a p n. queue (ESPNowSendAcceptedEvent a p n),
        ob_SendFailed := \<lambda>a p n. queue (ESPNowSendFailedEvent a p n Unknown ESP_OK),
        ob_SendFailedDetailed := Some (\<lambda>a p n failure e. queue (ESPNowSendFailedEvent a p n failure e))\<rparr>"

record ESPNowTransportEventBridge =
  eb_observerHandle :: bool
  eb_initialized :: bool

text \<open>\<open>self\<close> is the bridge's address. Releasing the handle unregisters it, an effect of the observer list's library.\<close>

definition Bridge_Initialize ::
  "('q, 'w) native_api \<Rightarrow> nat \<Rightarrow> ESPNowTransportEventBridge \<times> ('h, 'm, 'o, 'q, 'w) ESPNowTransport
     \<Rightarrow> bool \<times> ESPNowTransportEventBridge \<times> ('h, 'm, 'o, 'q, 'w) ESPNowTransport" where
  "Bridge_Initialize api self = (\<lambda>(b, t).
     if eb_initialized b then (True, b, t)
     else
       let (handle, t) = RegisterObserver api (Some self) t in
       (handle, b\<lparr>eb_observerHandle := handle, eb_initialized := handle\<rparr>, t))"

definition Bridge_Shutdown ::
  "('q, 'w) native_api \<Rightarrow> nat \<Rightarrow> ESPNowTransportEventBridge \<times> ('h, 'm, 'o, 'q, 'w) ESPNowTransport
     \<Rightarrow> ESPNowTransportEventBridge \<times> ('h, 'm, 'o, 'q, 'w) ESPNowTransport" where
  "Bridge_Shutdown api self = (\<lambda>(b, t).
     (b\<lparr>eb_observerHandle := False, eb_initialized := False\<rparr>,
      if eb_observerHandle b then t\<lparr>t_native := na_unregister_observer api self (t_native t)\<rparr> else t))"


section \<open>Every send is one event\<close>

text \<open>
  With a transport whose notifications go to the bridge, a send queues exactly one event. It is of the kind that the
  result says and carries the result's failure and native error.
\<close>

definition send_event :: "MacAddress \<Rightarrow> byte \<Rightarrow> nat \<Rightarrow> ESPNowSendResult \<Rightarrow> transport_event" where
  "send_event d p n result =
     (if sr_Success result then ESPNowSendAcceptedEvent d p n
      else ESPNowSendFailedEvent d p n (sr_Failure result) (sr_NativeError result))"

lemma finish_send_queues_event:
  assumes "\<And>n w. na_notify api n w = deliver (bridge_observer queue) n w" "t_observable t"
  shows "t_native (snd (finish_send api d p n (result, t))) = queue (send_event d p n result) (t_native t)"
  using assms by (simp add: finish_send_def notify_def bridge_observer_def send_event_def Let_def)

lemma send_queues_one_event:
  assumes "\<And>n w. na_notify api n w = deliver (bridge_observer queue) n w" "t_observable t"
    and "SendDetailed api d p pl n t = (result, t')"
  shows "\<exists>w. t_native t' = queue (send_event d p n result) w \<and> (w = t_native t \<or> (\<exists>frame. w = snd (na_send api d frame (t_native t))))"
proof -
  obtain r t1 where c: "(if \<not> t_initialized t then
          (SendResult_default\<lparr>sr_Failure := NotInitialized, sr_NativeError := ESP_ERR_ESPNOW_NOT_INIT\<rparr>, t)
        else if IsZero d \<or> n > MaximumFrameSize - sizeof_WireHeader then
          (SendResult_default\<lparr>sr_Failure := InvalidArgument, sr_NativeError := ESP_ERR_ESPNOW_ARG\<rparr>, t)
        else if t_nativeSuspended t \<or> \<not> rb_Available (t_radioBinding t) then
          (SendResult_default\<lparr>sr_Failure := RadioUnavailable, sr_NativeError := ESP_ERR_INVALID_STATE\<rparr>, t)
        else
          let (e, t) = native (na_send api d (build_frame p pl n)) t in
          (\<lparr>sr_Success = (e = ESP_OK), sr_Failure = ClassifySendFailure e, sr_NativeError = e\<rparr>, t)) = (r, t1)" by (rule prod.exhaust)
  have t1: "t_observable t1" "t_native t1 = t_native t \<or> (\<exists>frame. t_native t1 = snd (na_send api d frame (t_native t)))"
    using c assms(2) by (auto simp: native_def Let_def split: if_splits prod.splits) (metis snd_conv)
  have fin: "finish_send api d p n (r, t1) = (result, t')" using assms(3) unfolding SendDetailed_def c .
  then have "r = result" by (simp add: finish_send_def Let_def)
  then show ?thesis using finish_send_queues_event [OF assms(1) t1(1), of d p n r] fin t1(2) by auto
qed

end
