(* ===== verification/Spec2Isabelle.thy ===== *)
theory Spec2Isabelle
  imports Peer_Liveness Transport_Theorems Command_Codec Command_Exchange Secure_Props Async_Props Event_Props Clock_Props WiFi_Props State_Theorems Command_Transport_Props Command_Handler Event_Bridge
begin

text \<open>
  Verification of the ESPressio ESP-NOW library, \<^verbatim>\<open>src/src/*.hpp\<close>.

  \<^bold>\<open>The program.\<close> \<^verbatim>\<open>ESPNowTransport\<close> owns the ESP-NOW driver: it frames payloads behind an eight-byte header,
  sends them, and queues what the driver's callback receives for one worker that dispatches frames by protocol number
  to registered handlers. Five protocols of the library are such handlers: clock synchronization (1), Events (2),
  Commands (3), protected envelopes (4) and replicated states (5). Events, Commands and envelopes are larger than a
  frame and travel as fragments; Events and Commands leave the worker through \<^verbatim>\<open>ESPNowAsyncProtocolHandler\<close>. Around
  the transport are the peer liveness tracker, the coordinator that follows the WiFi manager's radio, the console
  commands, and the bridge from observer notifications to events.

  \<^bold>\<open>Theories and what they model.\<close>

  \<^item> \<open>ESPNow_Prelude\<close>: integer types, little-endian codec, slot-table loops, bitmaps and buffers shared by all. A C++
    fixed-width integer is a word of its width; \<^verbatim>\<open>size_t\<close>, where only compared or bounded before use, is a natural number.
  \<^item> \<open>ESPNow_Types\<close>: \<^verbatim>\<open>ESPressio_ESPNowTypes.hpp\<close>. \<open>Native_API\<close>: what the transport calls of ESP-IDF, Arduino, the
    queue, the thread and the observers, as the parameter \<open>native_api\<close>; \<open>Simulated_Platform\<close> is one concrete instance.
  \<^item> \<open>Peer_Liveness\<close>: \<^verbatim>\<open>ESPressio_ESPNowPeerLiveness.hpp\<close>.
  \<^item> \<open>Transport_Wire\<close>, \<open>Transport\<close>: \<^verbatim>\<open>ESPressio_ESPNowTransport.hpp\<close>, one record field per data member and one
    definition per method, lambda or loop. Properties in \<open>Transport_Props\<close> and \<open>Transport_Theorems\<close>.
  \<^item> \<open>Security_Protocol\<close>, \<open>Secure_Transport\<close>: fragments of envelopes, protected sending and receiving; \<open>Security_Props\<close>,
    \<open>Secure_Props\<close>.
  \<^item> \<open>Command_Protocol\<close>, \<open>Command_Endpoint\<close>, \<open>Command_Transport\<close>: payload codec and fragments, request correlation with
    reassembly, duplicate cache and timeouts, and the composition of endpoint, asynchronous handler and transport.
    Properties in \<open>Command_Codec\<close>, \<open>Command_Fragments\<close>, \<open>Endpoint_Props\<close>, \<open>Endpoint_Reassembly\<close>, \<open>Endpoint_Theorems\<close>,
    \<open>Command_Exchange\<close>, \<open>Command_Transport_Props\<close>.
  \<^item> \<open>Async_Handler\<close>, \<open>Event_Transport\<close>: the frame pool and the Event transport; \<open>Async_Props\<close>, \<open>Event_Props\<close>.
  \<^item> \<open>Clock_Synchronizer\<close>: the four-timestamp exchange; \<open>Clock_Props\<close>.
  \<^item> \<open>State_Transport\<close>: tables of peers, waiting updates and subscription intents, frames and maintenance;
    \<open>State_Props\<close>, \<open>State_Theorems\<close>.
  \<^item> \<open>WiFi_Coordinator\<close>, \<open>WiFi_Props\<close>: scans and radio transitions. \<open>Command_Handler\<close>: the console commands.
    \<open>Event_Bridge\<close>: observer interface, events and bridge.

  \<^bold>\<open>How the code is represented.\<close> An object is a record; a method takes and returns it, together with the transport and
  with the state of the libraries it calls. A method holds its lock throughout or only threads its tables through, and
  is one step; where the code runs concurrently (driver callback and worker, submission and task, fragments and updates)
  the properties quantify over every interleaving of these steps, as lists of operations or as the inductive relations
  \<open>transport_step\<close>, \<open>endpoint_reachable\<close>, \<open>async_run\<close>, \<open>clock_run\<close> and \<open>state_run\<close>. A null pointer or empty function is
  \<^const>\<open>None\<close> or a Boolean of the object; an early return is a branch. A failed allocation is a result of the parameter;
  \<open>None\<close> of a registration is an exception that leaves the method. Closures are values of unspecified types whose effect
  is a definition of the component, or a parameter where the application supplies it.
  The libraries this repository only calls (Command, Event, State, Security, Task, Timing, WiFi) are parameters:
  \<open>command_values\<close>, \<open>endpoint_env\<close>, \<open>command_library\<close>, \<open>executor_api\<close>, \<open>state_api\<close>, \<open>security_api\<close>, \<open>clock_target\<close>,
  \<open>wifi_api\<close>, \<open>handler_api\<close>. Documented behaviour that a property needs is a named hypothesis over them
  (\<open>bounded_fifo\<close>, \<open>peer_table_contract\<close>, \<open>executor_contract\<close>, \<open>command_values_contract\<close>), each with an instance.

  \<^bold>\<open>Interfaces.\<close> \<open>bounded_table\<close> and its special case \<open>slot_vector\<close> (\<open>Table_Spec\<close>) are the contract of a fixed-capacity
  keyed table, interpreted by the liveness tracker, the four tables of the transport and the three of the State
  transport. \<open>wire_codec\<close> (\<open>Wire_Spec\<close>) is the contract of a header followed by data, interpreted by the transport frame,
  the security, Command and Event fragments and the clock messages. \<open>fragment_reassembly\<close> (\<open>Reassembly_Spec\<close>) says what
  a receiver does with the fragments of one message in any order and with repetitions, interpreted by the security
  reassembly, the secure transport's slots, the Command endpoint and the Event transport.

  \<^bold>\<open>What is shown.\<close>

  \<^item> Transport: a payload sent arrives as one queued frame with the same bytes; an invariant holds over all calls,
    callbacks and worker steps; the worker drains its queue in order; every branch of sending, registration, adding peers
    and initialization; binding to a radio programs every managed peer.
  \<^item> Peer liveness refines a bounded map; its thresholds and its snapshot.
  \<^item> Envelopes, Command messages and Events are delivered whole and once, at the last missing fragment, in any order;
    the codecs are exact inverses; tables, buffers and counters stay within their bounds.
  \<^item> Commands: requests reach the registry and responses their handler, every completion runs exactly once, a repeated
    request is answered from a cache that is a bounded queue with expiry, overdue entries are expired. On the Command
    transport initialization is all or nothing and an inbound request becomes one event with its raw text only.
  \<^item> The asynchronous handoff refines a queue. The clock exchange yields the four timestamps taken, once per request.
  \<^item> States: the tables stay well formed; exactly which frames complete an update, and what maintenance does to it.
  \<^item> Radio: nothing is sent between the beginning and the completion of a transition; the console's channel command
    follows the real channel.

  Theorems that record a defect or a divergence from the documentation: \<open>oversized_path_lost\<close>,
  \<open>unsendable_result_executes_again\<close>, \<open>add_peer_outcome\<close>, \<open>retry_dropped_while_unavailable\<close>,
  \<open>inbound_request_reduced_to_raw\<close>.

  \<^bold>\<open>Bounds and fuel.\<close> No definition uses fuel. Loops are structural recursion, \<open>fold\<close> over a list fixed before the loop, or
  recursion with a proved measure. The worker's drain loop is a partial function whose value \<^const>\<open>None\<close> is not
  returning; \<open>worker_drains_in_order\<close> shows that it returns whenever the queue is finite and its receive function takes
  what was sent.
  The demonstrations run on a platform with a queue of two frames and an executor with a queue of eight items.

  \<^bold>\<open>Not modelled.\<close> \<^verbatim>\<open>ESPressio_ESPNow.hpp\<close> only includes headers and defines version macros; the examples are
  applications. Threads and memory ordering below the granularity of a method; exceptions out of calls that the code does
  not guard, apart from the registrations above; callbacks of an application that call back into the object that is
  calling them; statistics queries that only forward to another library; logging. The steps of \<^verbatim>\<open>Event_Transport\<close>'s
  outbound start that a failure undoes are one definition, \<open>start_outbound\<close>, which includes the stop.
\<close>

end
